(* ===== verification/Prelude.thy ===== *)
theory Prelude
  imports Main "HOL-Library.Char_ord" "HOL-Library.List_Lexorder" "HOL-Library.Product_Lexorder"
begin

text \<open>
  Shared vocabulary of the development: Go's error values and the way \<open>errors.Is\<close> walks them,
  JSON documents, instants, the identity helpers of \<open>src/internal/identity\<close>, and the list
  operations (\<open>sort.Strings\<close>, \<open>slices.Compact\<close>) that several packages use.

  A Go \<open>string\<close> is a byte sequence and is modelled by \<^typ>\<open>string\<close>, whose characters are bytes;
  \<open>HOL-Library.List_Lexorder\<close> over \<open>HOL-Library.Char_ord\<close> is then exactly Go's bytewise string order.
  An instant or a duration (\<open>time.Time\<close>, \<open>time.Duration\<close>) is an \<^typ>\<open>int\<close> number of nanoseconds.
\<close>

section \<open>Collections of facts\<close>

named_theorems go_defs \<open>definitions that a component proof unfolds\<close>
named_theorems frame_simps \<open>what an operation leaves unchanged\<close>

section \<open>Instants and durations\<close>

type_synonym instant = int
type_synonym duration = int

definition time_Microsecond :: duration where
  "time_Microsecond = 1000"

definition time_Second :: duration where
  "time_Second = 1000000000"

definition time_Hour :: duration where
  "time_Hour = 3600 * time_Second"

lemmas time_defs = time_Microsecond_def time_Second_def time_Hour_def

section \<open>Errors\<close>

text \<open>
  The package-level error variables that callers compare with \<open>errors.Is\<close>. Two of them are never
  equal, whatever their text, since Go compares the pointers.
\<close>

datatype sentinel =
    ErrNoRows
  | ErrLeaseLost
  | ErrAmbiguousEffect
  | ErrEffectDenied
  | ErrEffectInvalid
  | ErrEffectTerminal
  | ErrInvocationCancellationRetentionRequired
  | ErrEffectClaimRequired
  | ErrEffectClaimMismatch
  | ErrOutboxClaimInvalid
  | ErrNoGateway
  | ErrPlacementMissing
  | ErrExecutionMissing
  | ErrStateConflict
  | ErrProviderFailure
  | ErrProviderObservation
  | ErrProviderSettingsObservation
  | ErrProviderSettingsMutation
  | ErrProviderSettingsVerification
  | ErrPolicyWorkspaceUnavailable
  | ErrPolicyInvalid
  | ErrExecutionPlanMissing
  | ErrExecutionPlanConflict
  | ErrExecutionPlanRevisionMissing
  | ErrPersistence
  | ErrSourceMissing
  | ErrSourceConflict
  | ErrSourceObjectMissing
  | ErrSourceInvalid
  | ErrExecutionPlanRevisionMismatch
  | ErrProviderProfileInvalid
  | ErrProviderProfileUnavailable
  | ErrProviderCredentialUseDenied
  | ErrWorkspaceSourceProvisioningUnavailable
  | ErrEnforcementBundleMissing
  | ErrEnforcementBundleMismatch
  | ErrEnforcementBundleConflict
  | ErrEnforcementBundleRevisionMissing
  | ErrEnforcementBundleUnavailable
  | ErrEnforcementObjectMissing
  | ErrEnforcementObjectConflict
  | ErrAuthenticationRateLimitInvalid
  | ErrAuthenticationRateLimitConflict
  | ErrDPoPNonceRequestInvalid
  | ErrDPoPReplayReservationInvalid
  | ErrDPoPProofReplayed
  | ErrQuestionInvalid
  | ErrUsageInvalid

text \<open>
  An error value: a package-level variable, an error built on the spot (\<open>errors.New\<close>,
  \<open>fmt.Errorf\<close> with the errors wrapped by \<open>%w\<close>, \<open>errors.Join\<close>), or a \<open>persistence.DomainError\<close>
  with its code, message and retryable flag, or the error of a failed provider command with its class and
  hint, which unwraps to \<open>ErrProviderFailure\<close>.
\<close>

datatype go_error =
    Sentinel sentinel
  | Errorf string "go_error list"
  | DomainError string string bool
  | NativeCommandError string string

type_synonym 'a result = "go_error + 'a"

definition errors_New :: "string \<Rightarrow> go_error" where
  "errors_New msg = Errorf msg []"

definition errors_Join :: "go_error \<Rightarrow> go_error \<Rightarrow> go_error" where
  "errors_Join a b = Errorf [] [a, b]"

fun errors_Is :: "go_error \<Rightarrow> sentinel \<Rightarrow> bool" where
  "errors_Is (Sentinel s) target = (s = target)"
| "errors_Is (Errorf msg causes) target = list_ex (\<lambda>e. errors_Is e target) causes"
| "errors_Is (DomainError code msg retryable) target = False"
| "errors_Is (NativeCommandError failure hint) target = (target = ErrProviderFailure)"

lemma errors_Is_New [simp]: "\<not> errors_Is (errors_New msg) target"
  by (simp add: errors_New_def)

lemma errors_Is_Join [simp]:
  "errors_Is (errors_Join a b) target \<longleftrightarrow> errors_Is a target \<or> errors_Is b target"
  by (simp add: errors_Join_def)

section \<open>JSON documents\<close>

datatype json =
    JNull
  | JBool bool
  | JNum int
  | JStr string
  | JArr "json list"
  | JObj "(string \<times> json) list"

text \<open>\<open>map[string]any\<close>: the absent object is Go's nil map.\<close>

type_synonym json_object = "(string \<times> json) list"

text \<open>\<open>domain.APIError\<close> of \<open>src/internal/domain/models.go\<close>, without the field errors, which none of
  the modelled producers fills.\<close>

record api_error =
  Code :: string
  Message :: string
  ErrCorrelationID :: string
  Retryable :: bool

section \<open>Identifiers\<close>

text \<open>
  \<open>src/internal/identity/ids.go\<close>. The hash is an argument: a statement about \<open>Derived\<close> holds for
  every hash function, and names what it needs of it (that it does not collide on given inputs).
\<close>

definition hex_digit :: "nat \<Rightarrow> char" where
  "hex_digit n = (if n < 10 then char_of (48 + n) else char_of (87 + n))"

definition hex_EncodeToString :: "string \<Rightarrow> string" where
  "hex_EncodeToString bs =
     concat (map (\<lambda>c. [hex_digit (of_char c div 16), hex_digit (of_char c mod 16)]) bs)"

definition Derived :: "(string \<Rightarrow> string) \<Rightarrow> string \<Rightarrow> string \<Rightarrow> string" where
  "Derived sha256 prefix seed = prefix @ ''_'' @ hex_EncodeToString (take 10 (sha256 seed))"

section \<open>Maps\<close>

lemma map_le_Some: "m \<subseteq>\<^sub>m m' \<Longrightarrow> m k = Some v \<Longrightarrow> m' k = Some v"
  unfolding map_le_def by (metis domI)

section \<open>Lists\<close>

text \<open>A slice of strings where the code can tell nil from an empty slice: \<open>None\<close> is nil.\<close>

type_synonym go_slice = "string list option"

definition elements :: "go_slice \<Rightarrow> string list" where
  "elements s = (case s of None \<Rightarrow> [] | Some xs \<Rightarrow> xs)"

lemma elements_simps [simp]: "elements None = []" "elements (Some xs) = xs"
  by (simp_all add: elements_def)

text \<open>\<open>slices.Compact\<close>: consecutive equal elements become one.\<close>

fun Compact :: "'a list \<Rightarrow> 'a list" where
  "Compact [] = []"
| "Compact [x] = [x]"
| "Compact (x # y # zs) = (if x = y then Compact (y # zs) else x # Compact (y # zs))"

lemma set_Compact [simp]: "set (Compact xs) = set xs"
  by (induction xs rule: Compact.induct) auto

lemma Compact_eq_Nil [simp]: "Compact xs = [] \<longleftrightarrow> xs = []"
  by (induction xs rule: Compact.induct) auto

lemma hd_Compact [simp]: "xs \<noteq> [] \<Longrightarrow> hd (Compact xs) = hd xs"
  by (induction xs rule: Compact.induct) auto

lemma length_Compact: "length (Compact xs) \<le> length xs"
  by (induction xs rule: Compact.induct) auto

lemma sorted_Compact: "sorted xs \<Longrightarrow> sorted (Compact xs)"
  by (induction xs rule: Compact.induct) auto

lemma distinct_Compact: "sorted (xs :: 'a::linorder list) \<Longrightarrow> distinct (Compact xs)"
proof (induction xs rule: Compact.induct)
  case (3 x y zs)
  then show ?case by (auto dest: order.antisym)
qed auto

lemma Compact_distinct: "distinct xs \<Longrightarrow> Compact xs = xs"
  by (induction xs rule: Compact.induct) auto

text \<open>\<open>sort.Strings\<close> followed by \<open>slices.Compact\<close>: the strictly increasing list of the elements.\<close>

definition sort_compact :: "'a::linorder list \<Rightarrow> 'a list" where
  "sort_compact xs = Compact (sort xs)"

lemma set_sort_compact [simp]: "set (sort_compact xs) = set xs"
  by (simp add: sort_compact_def)

lemma sorted_sort_compact [simp]: "sorted (sort_compact xs)"
  by (simp add: sort_compact_def sorted_Compact)

lemma distinct_sort_compact [simp]: "distinct (sort_compact xs)"
  by (simp add: sort_compact_def distinct_Compact)

lemma sort_compact_eq_iff: "sort_compact xs = sort_compact ys \<longleftrightarrow> set xs = set ys"
proof
  assume "sort_compact xs = sort_compact ys"
  then have "set (sort_compact xs) = set (sort_compact ys)" by simp
  then show "set xs = set ys" by simp
next
  assume "set xs = set ys"
  then show "sort_compact xs = sort_compact ys"
    by (intro sorted_distinct_set_unique) simp_all
qed

lemma sort_compact_fixed: "sorted xs \<Longrightarrow> distinct xs \<Longrightarrow> sort_compact xs = xs"
  by (simp add: sort_compact_def Compact_distinct sorted_sort_id)

lemma sort_compact_idem [simp]: "sort_compact (sort_compact xs) = sort_compact xs"
  by (simp add: sort_compact_fixed)

lemma length_sort_compact: "length (sort_compact xs) \<le> length xs"
  using length_Compact [of "sort xs"] by (simp add: sort_compact_def)

end
