(* ===== verification/Go_Text.thy ===== *)
theory Go_Text
  imports Prelude
begin

text \<open>
  The part of Go's \<open>strings\<close>, \<open>unicode\<close>, \<open>unicode/utf8\<close> and \<open>regexp\<close> packages that the modelled
  code calls, over byte strings. A regular expression of the source becomes the boolean function it
  denotes; all of them are anchored and range over ASCII classes, so matching bytes is matching runes.
\<close>

section \<open>UTF-8\<close>

definition byte :: "char \<Rightarrow> nat" where
  "byte c = of_char c"

definition cont_byte :: "nat \<Rightarrow> bool" where
  "cont_byte b \<longleftrightarrow> 128 \<le> b \<and> b \<le> 191"

text \<open>
  \<open>utf8.DecodeRuneInString\<close>: the rune at the head of a string and its width. The first component is
  \<open>None\<close> for \<open>RuneError\<close> of width 1 (an invalid encoding); the ranges of the second byte are the ones of
  the decoder's \<open>acceptRanges\<close> table (no overlong forms, no surrogates, nothing above U+10FFFF).
\<close>

definition second_byte_ok :: "nat \<Rightarrow> nat \<Rightarrow> bool" where
  "second_byte_ok b0 b1 \<longleftrightarrow>
     (if b0 = 224 then 160 else if b0 = 240 then 144 else 128) \<le> b1 \<and>
     b1 \<le> (if b0 = 237 then 159 else if b0 = 244 then 143 else 191)"

fun decode_rune :: "string \<Rightarrow> nat option \<times> nat" where
  "decode_rune [] = (None, 0)"
| "decode_rune (c0 # cs) =
     (let b0 = byte c0 in
      if b0 < 128 then (Some b0, 1)
      else if 194 \<le> b0 \<and> b0 \<le> 223 then
        (case cs of
           c1 # _ \<Rightarrow> if cont_byte (byte c1) then (Some ((b0 - 192) * 64 + (byte c1 - 128)), 2) else (None, 1)
         | _ \<Rightarrow> (None, 1))
      else if 224 \<le> b0 \<and> b0 \<le> 239 then
        (case cs of
           c1 # c2 # _ \<Rightarrow>
             if second_byte_ok b0 (byte c1) \<and> cont_byte (byte c2)
             then (Some ((b0 - 224) * 4096 + (byte c1 - 128) * 64 + (byte c2 - 128)), 3) else (None, 1)
         | _ \<Rightarrow> (None, 1))
      else if 240 \<le> b0 \<and> b0 \<le> 244 then
        (case cs of
           c1 # c2 # c3 # _ \<Rightarrow>
             if second_byte_ok b0 (byte c1) \<and> cont_byte (byte c2) \<and> cont_byte (byte c3)
             then (Some ((b0 - 240) * 262144 + (byte c1 - 128) * 4096 + (byte c2 - 128) * 64 + (byte c3 - 128)), 4)
             else (None, 1)
         | _ \<Rightarrow> (None, 1))
      else (None, 1))"

lemma decode_rune_width: "s \<noteq> [] \<Longrightarrow> 1 \<le> snd (decode_rune s) \<and> snd (decode_rune s) \<le> length s"
  by (cases s) (auto simp: Let_def split: list.splits if_splits)

text \<open>The segments of a string: each rune (or invalid byte) with the bytes that encode it.\<close>

function segments :: "string \<Rightarrow> (nat option \<times> string) list" where
  "segments [] = []"
| "segments (c # cs) =
     (let (r, n) = decode_rune (c # cs) in (r, take n (c # cs)) # segments (drop n (c # cs)))"
  by pat_completeness auto
termination
proof (relation "measure length")
  fix c :: char and cs :: string and p :: "nat option \<times> nat" and r :: "nat option" and n :: nat
  assume "p = decode_rune (c # cs)" and "(r, n) = p"
  then have "n = snd (decode_rune (c # cs))" by (metis snd_conv)
  with decode_rune_width [of "c # cs"] show "(drop n (c # cs), c # cs) \<in> measure length" by auto
qed simp

lemma concat_segments: "concat (map snd (segments s)) = s"
proof (induction s rule: segments.induct)
  case (2 c cs)
  obtain r n where rn: "decode_rune (c # cs) = (r, n)" by (cases "decode_rune (c # cs)")
  from 2 [OF rn [symmetric] refl] rn show ?case by (simp del: decode_rune.simps)
qed simp

text \<open>\<open>utf8.ValidString\<close> and \<open>utf8.RuneCountInString\<close>.\<close>

definition utf8_ValidString :: "string \<Rightarrow> bool" where
  "utf8_ValidString s \<longleftrightarrow> list_all (\<lambda>(r, _). r \<noteq> None) (segments s)"

definition utf8_RuneCountInString :: "string \<Rightarrow> nat" where
  "utf8_RuneCountInString s = length (segments s)"

text \<open>Ranging over a string yields \<open>RuneError\<close> (U+FFFD) for an invalid byte.\<close>

definition runes :: "string \<Rightarrow> nat list" where
  "runes s = map (\<lambda>(r, _). case r of Some x \<Rightarrow> x | None \<Rightarrow> 65533) (segments s)"

section \<open>Character classes\<close>

definition IsControl :: "nat \<Rightarrow> bool" where
  "IsControl r \<longleftrightarrow> r \<le> 31 \<or> (127 \<le> r \<and> r \<le> 159)"

definition IsSpace :: "nat \<Rightarrow> bool" where
  "IsSpace r \<longleftrightarrow> (9 \<le> r \<and> r \<le> 13) \<or> r \<in> {32, 133, 160, 5760, 8232, 8233, 8239, 8287, 12288} \<or>
     (8192 \<le> r \<and> r \<le> 8202)"

definition in_range :: "nat \<Rightarrow> nat \<Rightarrow> char \<Rightarrow> bool" where
  "in_range lo hi c \<longleftrightarrow> lo \<le> byte c \<and> byte c \<le> hi"

definition is_digit :: "char \<Rightarrow> bool" where
  "is_digit c \<longleftrightarrow> in_range 48 57 c"

definition is_lower :: "char \<Rightarrow> bool" where
  "is_lower c \<longleftrightarrow> in_range 97 122 c"

definition is_upper :: "char \<Rightarrow> bool" where
  "is_upper c \<longleftrightarrow> in_range 65 90 c"

lemmas class_defs = in_range_def is_digit_def is_lower_def is_upper_def byte_def

section \<open>The strings package\<close>

definition HasPrefix :: "string \<Rightarrow> string \<Rightarrow> bool" where
  "HasPrefix s p \<longleftrightarrow> take (length p) s = p"

definition TrimPrefix :: "string \<Rightarrow> string \<Rightarrow> string" where
  "TrimPrefix s p = (if HasPrefix s p then drop (length p) s else s)"

fun Contains :: "string \<Rightarrow> string \<Rightarrow> bool" where
  "Contains [] sub = (sub = [])"
| "Contains (c # cs) sub = (HasPrefix (c # cs) sub \<or> Contains cs sub)"

lemma HasPrefix_iff: "HasPrefix s p \<longleftrightarrow> (\<exists>t. s = p @ t)"
  unfolding HasPrefix_def by (metis append_eq_conv_conj append_take_drop_id)

lemma Contains_iff: "Contains s sub \<longleftrightarrow> (\<exists>u v. s = u @ sub @ v)"
proof (induction s)
  case Nil
  then show ?case by simp
next
  case (Cons c cs)
  have "(\<exists>u v. c # cs = u @ sub @ v) \<longleftrightarrow> HasPrefix (c # cs) sub \<or> (\<exists>u v. cs = u @ sub @ v)"
    unfolding HasPrefix_iff
  proof
    assume "\<exists>u v. c # cs = u @ sub @ v"
    then obtain u v where "c # cs = u @ sub @ v" by blast
    then show "(\<exists>t. c # cs = sub @ t) \<or> (\<exists>u v. cs = u @ sub @ v)" by (cases u) auto
  next
    assume "(\<exists>t. c # cs = sub @ t) \<or> (\<exists>u v. cs = u @ sub @ v)"
    then show "\<exists>u v. c # cs = u @ sub @ v" by (metis append_Cons append_Nil)
  qed
  with Cons.IH show ?case by simp
qed

text \<open>
  \<open>strings.TrimSpace\<close>: leading and trailing white space runes go. Every byte that starts an encoding
  starts a segment, so decoding from the right finds the same segments.
\<close>

definition is_space_segment :: "nat option \<times> string \<Rightarrow> bool" where
  "is_space_segment seg = (case fst seg of Some r \<Rightarrow> IsSpace r | None \<Rightarrow> False)"

definition TrimSpace :: "string \<Rightarrow> string" where
  "TrimSpace s =
     concat (map snd (rev (dropWhile is_space_segment (rev (dropWhile is_space_segment (segments s))))))"

definition Count :: "string \<Rightarrow> char \<Rightarrow> nat" where
  "Count s c = length (filter ((=) c) s)"

section \<open>Regular expressions\<close>

text \<open>\<open>^prefix[class]{lo,hi}$\<close>\<close>

definition match_prefixed :: "string \<Rightarrow> (char \<Rightarrow> bool) \<Rightarrow> nat \<Rightarrow> nat \<Rightarrow> string \<Rightarrow> bool" where
  "match_prefixed p cls lo hi s \<longleftrightarrow>
     HasPrefix s p \<and>
     (let body = drop (length p) s in lo \<le> length body \<and> length body \<le> hi \<and> list_all cls body)"

definition id_char :: "char \<Rightarrow> bool" where
  "id_char c \<longleftrightarrow> is_digit c \<or> is_lower c"

definition hex_char :: "char \<Rightarrow> bool" where
  "hex_char c \<longleftrightarrow> is_digit c \<or> in_range 97 102 c"

text \<open>\<open>^xxx_[0-9a-z]{20,32}$\<close>, the shape of every resource identifier.\<close>

definition resource_id_pattern :: "string \<Rightarrow> string \<Rightarrow> bool" where
  "resource_id_pattern kind = match_prefixed (kind @ ''_'') id_char 20 32"

text \<open>\<open>^sha256:[0-9a-f]{64}$\<close>\<close>

definition digest_pattern :: "string \<Rightarrow> bool" where
  "digest_pattern = match_prefixed ''sha256:'' hex_char 64 64"

text \<open>\<open>^[A-Za-z0-9][A-Za-z0-9._-]{0,127}$\<close>\<close>

definition opaque_identifier_pattern :: "string \<Rightarrow> bool" where
  "opaque_identifier_pattern s =
     (case s of
        [] \<Rightarrow> False
      | c # cs \<Rightarrow>
          (is_upper c \<or> is_lower c \<or> is_digit c) \<and> length cs \<le> 127 \<and>
          list_all (\<lambda>d. is_upper d \<or> is_lower d \<or> is_digit d \<or> d \<in> set ''._-'') cs)"

lemma match_prefixed_length: "match_prefixed p cls lo hi s \<Longrightarrow> length p + lo \<le> length s \<and> length s \<le> length p + hi"
  by (auto simp: match_prefixed_def HasPrefix_iff Let_def)

lemma match_prefixed_nonempty: "match_prefixed p cls lo hi s \<Longrightarrow> 0 < length p + lo \<Longrightarrow> s \<noteq> []"
  by (auto dest: match_prefixed_length)

end
