(* ===== verification/Go_Time.thy ===== *)
theory Go_Time
  imports Prelude
begin

text \<open>
  Formatting of numbers and instants: \<open>fmt.Sprint\<close> of an unsigned integer and
  \<open>time.Time.Format(time.RFC3339Nano)\<close> for an instant in UTC, counted in nanoseconds from the Unix epoch in
  the proleptic Gregorian calendar.
\<close>

function Sprint :: "int \<Rightarrow> string" where
  "Sprint n = (if n < 10 then [char_of (48 + n)] else Sprint (n div 10) @ [char_of (48 + n mod 10)])"
  by pat_completeness auto
termination by (relation "measure nat") auto

declare Sprint.simps [simp del]

text \<open>A number with leading zeros up to a width.\<close>

definition zero_padded :: "nat \<Rightarrow> int \<Rightarrow> string" where
  "zero_padded width n = (let s = Sprint n in replicate (width - length s) (CHR ''0'') @ s)"

text \<open>The date of a day counted from 1970-01-01, by eras of 400 years starting on the first of March.\<close>

definition civil :: "int \<Rightarrow> int \<times> int \<times> int" where
  "civil days =
     (let z = days + 719468; era = z div 146097; doe = z mod 146097;
          yoe = (doe - doe div 1460 + doe div 36524 - doe div 146096) div 365;
          doy = doe - (365 * yoe + yoe div 4 - yoe div 100);
          mp = (5 * doy + 2) div 153;
          day = doy - (153 * mp + 2) div 5 + 1;
          month = (if mp < 10 then mp + 3 else mp - 9)
      in (yoe + era * 400 + (if month \<le> 2 then 1 else 0), month, day))"

definition year_text :: "int \<Rightarrow> string" where
  "year_text y = (if y < 0 then ''-'' else []) @ zero_padded 4 \<bar>y\<bar>"

definition drop_trailing_zeros :: "string \<Rightarrow> string" where
  "drop_trailing_zeros s = rev (dropWhile (\<lambda>c. c = CHR ''0'') (rev s))"

definition Format_RFC3339Nano :: "instant \<Rightarrow> string" where
  "Format_RFC3339Nano t =
     (let ns = t mod 1000000000; secs = t div 1000000000;
          tod = secs mod 86400; (y, m, d) = civil (secs div 86400)
      in year_text y @ ''-'' @ zero_padded 2 m @ ''-'' @ zero_padded 2 d @ ''T'' @
         zero_padded 2 (tod div 3600) @ '':'' @ zero_padded 2 (tod mod 3600 div 60) @ '':'' @
         zero_padded 2 (tod mod 60) @
         (if ns = 0 then [] else CHR ''.'' # drop_trailing_zeros (zero_padded 9 ns)) @ ''Z'')"

text \<open>Three dates: the epoch, a leap day with a fraction, and an instant before the epoch.\<close>

lemma Format_examples:
  "Format_RFC3339Nano 0 = ''1970-01-01T00:00:00Z''"
  "Format_RFC3339Nano 1709210096120000000 = ''2024-02-29T12:34:56.12Z''"
  "Format_RFC3339Nano (- 1) = ''1969-12-31T23:59:59.999999999Z''"
  by code_simp+

section \<open>Decimal digits\<close>

definition decimal_value :: "string \<Rightarrow> int" where
  "decimal_value s = foldl (\<lambda>n c. 10 * n + (of_char c - 48)) 0 s"

lemma decimal_value_Sprint: "0 \<le> n \<Longrightarrow> decimal_value (Sprint n) = n"
proof (induction n rule: Sprint.induct)
  case (1 n)
  show ?case
  proof (cases "n < 10")
    case True
    with 1 show ?thesis by (simp add: Sprint.simps [of n] decimal_value_def)
  next
    case False
    with 1 have "decimal_value (Sprint (n div 10)) = n div 10" by simp
    moreover have "(48 + n mod 10) mod 256 = 48 + n mod 10"
      using pos_mod_bound [of 10 n] by (simp add: mod_pos_pos_trivial)
    ultimately show ?thesis using False
      by (simp add: Sprint.simps [of n] decimal_value_def)
  qed
qed

lemma Sprint_inject: "0 \<le> m \<Longrightarrow> 0 \<le> n \<Longrightarrow> Sprint m = Sprint n \<longleftrightarrow> m = n"
  by (metis decimal_value_Sprint)

end
