(* ===== verification/Sql.thy ===== *)
theory Sql
  imports Prelude
begin

text \<open>
  PostgreSQL tables as the statements of \<open>src/internal/persistence\<close> use them. A table is the list of its
  rows; \<open>UPDATE ... WHERE\<close> rewrites the rows that satisfy the condition, \<open>INSERT ... ON CONFLICT DO
  NOTHING\<close> appends a row unless one conflicts with it, \<open>ORDER BY ... LIMIT 1\<close> takes a row with a least
  key, and \<open>DISTINCT ON\<close> keeps the first row of every group. A comparison with NULL is not true, so a
  nullable column is an \<open>option\<close> that is compared with the operators below. Each statement, and each
  transaction built of statements, is one atomic step on the tables.
\<close>

section \<open>Nullable columns\<close>

definition sql_eq :: "'a option \<Rightarrow> 'a \<Rightarrow> bool" where
  "sql_eq c v \<longleftrightarrow> c = Some v"

definition sql_gt :: "instant option \<Rightarrow> instant \<Rightarrow> bool" where
  "sql_gt c v = (case c of None \<Rightarrow> False | Some x \<Rightarrow> v < x)"

definition null_or_le :: "instant option \<Rightarrow> instant \<Rightarrow> bool" where
  "null_or_le c v = (case c of None \<Rightarrow> True | Some x \<Rightarrow> x \<le> v)"

definition coalesce :: "'a option \<Rightarrow> 'a option \<Rightarrow> 'a option" where
  "coalesce a b = (case a of None \<Rightarrow> b | Some x \<Rightarrow> Some x)"

definition coalesce_value :: "'a option \<Rightarrow> 'a \<Rightarrow> 'a" where
  "coalesce_value a b = (case a of None \<Rightarrow> b | Some x \<Rightarrow> x)"

lemma null_or_le_iff [simp]: "null_or_le c v \<longleftrightarrow> \<not> sql_gt c v"
  by (cases c) (auto simp: null_or_le_def sql_gt_def)

lemma sql_gt_Some [simp]: "sql_gt (Some x) v \<longleftrightarrow> v < x"
  by (simp add: sql_gt_def)

lemma sql_gt_None [simp]: "\<not> sql_gt None v"
  by (simp add: sql_gt_def)

lemma sql_gt_mono: "sql_gt c v \<Longrightarrow> w \<le> v \<Longrightarrow> sql_gt c w"
  by (cases c) auto

lemma coalesce_simps [simp]: "coalesce (Some x) b = Some x" "coalesce None b = b"
  by (simp_all add: coalesce_def)

lemma coalesce_value_simps [simp]: "coalesce_value (Some x) v = x" "coalesce_value None v = v"
  by (simp_all add: coalesce_value_def)

section \<open>Statements\<close>

definition sql_update :: "('r \<Rightarrow> bool) \<Rightarrow> ('r \<Rightarrow> 'r) \<Rightarrow> 'r list \<Rightarrow> 'r list" where
  "sql_update p f rows = map (\<lambda>r. if p r then f r else r) rows"

definition rows_affected :: "('r \<Rightarrow> bool) \<Rightarrow> 'r list \<Rightarrow> nat" where
  "rows_affected p rows = length (filter p rows)"

definition sql_select :: "('r \<Rightarrow> bool) \<Rightarrow> 'r list \<Rightarrow> 'r option" where
  "sql_select p rows = List.find p rows"

definition insert_on_conflict_nothing :: "('r \<Rightarrow> 'r \<Rightarrow> bool) \<Rightarrow> 'r \<Rightarrow> 'r list \<Rightarrow> 'r list \<times> nat" where
  "insert_on_conflict_nothing conflict new rows =
     (if \<exists>r \<in> set rows. conflict new r then (rows, 0) else (rows @ [new], 1))"

definition first_by :: "('r \<Rightarrow> 'k::linorder) \<Rightarrow> 'r list \<Rightarrow> 'r option" where
  "first_by key rows = (case sort_key key rows of [] \<Rightarrow> None | r # _ \<Rightarrow> Some r)"

fun distinct_on :: "('r \<Rightarrow> 'g) \<Rightarrow> 'r list \<Rightarrow> 'r list" where
  "distinct_on g [] = []"
| "distinct_on g (r # rs) = r # filter (\<lambda>x. g x \<noteq> g r) (distinct_on g rs)"

definition unique_by :: "('r \<Rightarrow> 'k) \<Rightarrow> 'r list \<Rightarrow> bool" where
  "unique_by key rows \<longleftrightarrow> distinct (map key rows)"

section \<open>Updates\<close>

lemma sql_update_none: "\<forall>r \<in> set rows. \<not> p r \<Longrightarrow> sql_update p f rows = rows"
  by (auto simp: sql_update_def intro: map_idI)

lemma sql_update_cong:
  "(\<And>r. r \<in> set rows \<Longrightarrow> p r \<longleftrightarrow> q r) \<Longrightarrow> sql_update p f rows = sql_update q f rows"
  by (simp add: sql_update_def)

lemma rows_affected_0: "rows_affected p rows = 0 \<longleftrightarrow> (\<forall>r \<in> set rows. \<not> p r)"
  by (auto simp: rows_affected_def filter_empty_conv)

lemma sql_update_keys:
  "(\<And>r. r \<in> set rows \<Longrightarrow> p r \<Longrightarrow> key (f r) = key r) \<Longrightarrow> map key (sql_update p f rows) = map key rows"
  by (auto simp: sql_update_def)

lemma unique_by_update:
  "unique_by key rows \<Longrightarrow> (\<And>r. r \<in> set rows \<Longrightarrow> p r \<Longrightarrow> key (f r) = key r) \<Longrightarrow>
   unique_by key (sql_update p f rows)"
  unfolding unique_by_def by (subst sql_update_keys) auto

lemma in_sql_updateE:
  assumes "r' \<in> set (sql_update p f rows)"
  obtains (updated) r where "r \<in> set rows" "p r" "r' = f r"
    | (kept) "r' \<in> set rows" "\<not> p r'"
  using assms by (auto simp: sql_update_def split: if_splits)

lemma unique_by_eq:
  "unique_by key rows \<Longrightarrow> r \<in> set rows \<Longrightarrow> s \<in> set rows \<Longrightarrow> key r = key s \<Longrightarrow> r = s"
  by (auto simp: unique_by_def distinct_map inj_on_def)

lemma rows_affected_unique:
  assumes "unique_by key rows" and "\<And>r. p r \<Longrightarrow> key r = k"
  shows "rows_affected p rows \<le> 1"
  using assms
proof (induction rows)
  case (Cons r rows)
  then have IH: "rows_affected p rows \<le> 1" by (simp add: unique_by_def)
  show ?case
  proof (cases "p r")
    case True
    with Cons.prems have "\<forall>s \<in> set rows. \<not> p s" by (auto simp: unique_by_def image_iff)
    then have "rows_affected p rows = 0" by (simp add: rows_affected_0)
    with True show ?thesis by (simp add: rows_affected_def)
  next
    case False
    with IH show ?thesis by (simp add: rows_affected_def)
  qed
qed (simp add: rows_affected_def)

lemma rows_affected_1E:
  assumes "rows_affected p rows = 1"
  obtains r where "r \<in> set rows" "p r"
proof -
  from assms have "rows_affected p rows \<noteq> 0" by simp
  then show ?thesis using that by (auto simp: rows_affected_0)
qed

lemma rows_affected_eq_1:
  assumes "unique_by key rows" and "\<And>r. p r \<Longrightarrow> key r = k" and "r \<in> set rows" and "p r"
  shows "rows_affected p rows = 1"
proof -
  from assms(3,4) have "rows_affected p rows \<noteq> 0" by (auto simp: rows_affected_0)
  moreover have "rows_affected p rows \<le> 1" using assms(1,2) by (rule rows_affected_unique)
  ultimately show ?thesis by simp
qed

section \<open>Selections\<close>

lemma sql_select_Some: "sql_select p rows = Some r \<Longrightarrow> r \<in> set rows \<and> p r"
  by (auto simp: sql_select_def find_Some_iff in_set_conv_nth)

lemma sql_select_None: "sql_select p rows = None \<longleftrightarrow> (\<forall>r \<in> set rows. \<not> p r)"
  by (auto simp: sql_select_def find_None_iff)

lemma sql_select_unique:
  assumes "unique_by key rows" and "\<And>r. p r \<Longrightarrow> key r = k" and "r \<in> set rows" and "p r"
  shows "sql_select p rows = Some r"
proof (cases "sql_select p rows")
  case None
  with assms(3,4) show ?thesis by (auto simp: sql_select_None)
next
  case (Some s)
  then have "s \<in> set rows" "p s" by (auto dest: sql_select_Some)
  moreover have "key s = key r" using assms(2) [OF \<open>p s\<close>] assms(2) [OF assms(4)] by simp
  ultimately have "s = r" using assms(1,3) by (blast intro: unique_by_eq)
  with Some show ?thesis by simp
qed

lemma sql_select_append:
  "sql_select p (xs @ ys) = (case sql_select p xs of None \<Rightarrow> sql_select p ys | Some r \<Rightarrow> Some r)"
  unfolding sql_select_def by (induction xs) auto

lemma first_by_None [simp]: "first_by key rows = None \<longleftrightarrow> rows = []"
proof -
  have "length (sort_key key rows) = 0 \<longleftrightarrow> length rows = 0" by simp
  then have "sort_key key rows = [] \<longleftrightarrow> rows = []" by (simp only: length_0_conv)
  then show ?thesis by (auto simp: first_by_def split: list.splits)
qed

lemma first_by_Some:
  assumes "first_by key rows = Some r"
  shows "r \<in> set rows \<and> (\<forall>s \<in> set rows. key r \<le> key s)"
proof -
  from assms obtain rs where rs: "sort_key key rows = r # rs"
    by (auto simp: first_by_def split: list.splits)
  have "sorted (map key (r # rs))" using sorted_sort_key [of key rows] rs by simp
  moreover have "set rows = set (r # rs)" using rs by (metis set_sort)
  ultimately show ?thesis by auto
qed

lemma first_by_unique:
  assumes "unique_by key rows" and "r \<in> set rows" and "\<forall>s \<in> set rows. key r \<le> key s"
  shows "first_by key rows = Some r"
proof (cases "first_by key rows")
  case None
  with assms(2) show ?thesis by simp
next
  case (Some s)
  then have s: "s \<in> set rows" and least: "\<forall>r \<in> set rows. key s \<le> key r"
    by (blast dest: first_by_Some)+
  with assms(2,3) have "key s = key r" by (blast intro: order.antisym)
  with assms(1,2) s have "s = r" by (blast intro: unique_by_eq)
  with Some show ?thesis by simp
qed

lemma distinct_on_subset: "set (distinct_on g rows) \<subseteq> set rows"
  by (induction rows) auto

lemma unique_by_distinct_on: "unique_by key rows \<Longrightarrow> unique_by key (distinct_on g rows)"
proof (induction rows)
  case (Cons r rows)
  have "key ` set (filter (\<lambda>x. g x \<noteq> g r) (distinct_on g rows)) \<subseteq> key ` set rows"
    using distinct_on_subset by fastforce
  with Cons show ?case by (auto simp: unique_by_def distinct_map_filter)
qed (simp add: unique_by_def)

lemma distinct_on_least:
  assumes "sorted (map key rows)" and "unique_by key rows" and "r \<in> set rows"
    and "\<forall>s \<in> set rows. g s = g r \<longrightarrow> key r \<le> key s"
  shows "r \<in> set (distinct_on g rows)"
  using assms
proof (induction rows)
  case (Cons x rows)
  show ?case
  proof (cases "x = r")
    case False
    with Cons.prems have r: "r \<in> set rows" by simp
    with Cons.prems have "key x \<le> key r" and "key x \<noteq> key r"
      by (auto simp: unique_by_def)
    with Cons.prems(4) have "g x \<noteq> g r" by auto
    moreover have "r \<in> set (distinct_on g rows)"
      using Cons r by (auto simp: unique_by_def)
    ultimately show ?thesis by auto
  qed simp
qed simp

lemma unique_by_sort: "unique_by key (sort_key k rows) = unique_by key rows"
  unfolding unique_by_def distinct_map by (simp add: distinct_sort)

text \<open>
  Selecting the first row of every group and then the first of those is selecting the first row of all,
  when the two orders agree inside a group.
\<close>

lemma first_by_distinct_on:
  assumes u1: "unique_by k1 rows" and u2: "unique_by k2 rows"
    and agree: "\<And>r s. g r = g s \<Longrightarrow> k1 r \<le> k1 s \<longleftrightarrow> k2 r \<le> k2 s"
  shows "first_by k2 (distinct_on g (sort_key k1 rows)) = first_by k2 rows"
proof (cases "first_by k2 rows")
  case None
  then show ?thesis by simp
next
  case (Some r)
  then have r: "r \<in> set rows" and least: "\<forall>s \<in> set rows. k2 r \<le> k2 s"
    by (blast dest: first_by_Some)+
  have "\<forall>s \<in> set (sort_key k1 rows). g s = g r \<longrightarrow> k1 r \<le> k1 s"
    using least agree [of r] by simp
  then have "r \<in> set (distinct_on g (sort_key k1 rows))"
    using u1 r by (intro distinct_on_least [where key = k1]) (simp_all add: unique_by_sort)
  moreover have "\<forall>s \<in> set (distinct_on g (sort_key k1 rows)). k2 r \<le> k2 s"
    using least distinct_on_subset [of g "sort_key k1 rows"] by auto
  moreover have "unique_by k2 (distinct_on g (sort_key k1 rows))"
    by (intro unique_by_distinct_on) (simp add: unique_by_sort u2)
  ultimately have "first_by k2 (distinct_on g (sort_key k1 rows)) = Some r"
    by (intro first_by_unique)
  with Some show ?thesis by simp
qed

section \<open>Insertions\<close>

lemma insert_on_conflict_nothing_cases:
  "insert_on_conflict_nothing conflict new rows = (rows', n) \<Longrightarrow>
   (n = 0 \<and> rows' = rows \<and> (\<exists>r \<in> set rows. conflict new r)) \<or>
   (n = 1 \<and> rows' = rows @ [new] \<and> (\<forall>r \<in> set rows. \<not> conflict new r))"
  by (cases "\<exists>r \<in> set rows. conflict new r") (auto simp: insert_on_conflict_nothing_def)

end
