(* ===== verification/Tables.thy ===== *)
theory Tables
  imports Sql
begin

text \<open>
  The control-plane tables (\<open>src/internal/persistence/migrations/00001_control_plane.sql\<close> and the
  migrations that extend it) as far as the modelled code reads and writes them. A row record has the
  table's columns; the Go struct scanned from a row (\<open>domain.ServiceRevision\<close>, \<open>domain.ServiceAlias\<close>,
  \<open>domain.Invocation\<close>, \<open>persistence.EffectRecord\<close>) has the same fields, so one record
  serves for both. The random primary key of an audit record is left out: nothing reads it.
\<close>

record service_row =
  svc_domain :: string
  svc_id :: string
  svc_name :: string
  svc_description :: string
  svc_workspace_id :: "string option"
  svc_generation :: int
  svc_version :: int
  svc_created_at :: instant
  svc_updated_at :: instant
  svc_created_by :: string

record revision_row =
  rev_domain :: string
  rev_id :: string
  rev_service_id :: string
  rev_number :: int
  rev_state :: string
  rev_runtime_profile :: string
  rev_required_capabilities :: "string list"
  rev_input_schema :: "json_object option"
  rev_output_schema :: "json_object option"
  rev_published_at :: "instant option"
  rev_generation :: int
  rev_version :: int
  rev_created_at :: instant
  rev_updated_at :: instant
  rev_created_by :: string

record alias_row =
  als_domain :: string
  als_id :: string
  als_service_id :: string
  als_name :: string
  als_revision_id :: string
  als_generation :: int
  als_version :: int
  als_created_at :: instant
  als_updated_at :: instant
  als_created_by :: string
  als_withdrawn_at :: "instant option"

record invocation_row =
  inv_domain :: string
  inv_id :: string
  inv_service_id :: string
  inv_revision_id :: string
  inv_alias :: string
  inv_state :: string
  inv_input :: "json_object option"
  inv_result :: "json_object option"
  inv_error :: "api_error option"
  inv_correlation_id :: string
  inv_operation_id :: string
  inv_completed_at :: "instant option"
  inv_generation :: int
  inv_version :: int
  inv_created_at :: instant
  inv_updated_at :: instant
  inv_created_by :: string

text \<open>
  \<open>service_publication_operations\<close> and \<open>invocation_execution_operations\<close> have the same columns but for the
  resource they act on (\<open>revision_id\<close>, \<open>invocation_id\<close>), here \<open>op_resource_id\<close>.
\<close>

record op_row =
  op_domain :: string
  op_id :: string
  op_resource_id :: string
  op_command :: string
  op_desired_state :: string
  op_observed_state :: string
  op_version :: int
  op_generation :: int
  op_attempt :: int
  op_lease_owner :: "string option"
  op_lease_token :: int
  op_lease_expires_at :: "instant option"
  op_due_at :: instant
  op_deadline_at :: instant
  op_error_classification :: "string option"
  op_error :: "api_error option"
  op_terminal_result :: "json_object option"
  op_correlation_id :: string
  op_actor_id :: string
  op_effect_correlation_id :: "string option"
  op_effect_actor_id :: "string option"
  op_last_transition_at :: instant
  op_created_at :: instant
  op_updated_at :: instant

record effect_row =
  eff_domain :: string
  eff_id :: string
  eff_operation_kind :: string
  eff_operation_id :: string
  eff_phase :: string
  eff_request_digest :: string
  eff_status :: string
  eff_attempt :: int
  eff_observation :: "json_object option"
  eff_last_error_code :: "string option"

record outbox_row =
  out_id :: string
  out_domain :: string
  out_aggregate_type :: string
  out_aggregate_id :: string
  out_event_type :: string
  out_payload :: json_object
  out_correlation_id :: string
  out_status :: string
  out_attempt :: int
  out_available_at :: instant
  out_lease_owner :: "string option"
  out_lease_token :: int
  out_lease_expires_at :: "instant option"
  out_created_at :: instant
  out_delivered_at :: "instant option"

record audit_row =
  aud_domain :: string
  aud_actor_id :: string
  aud_action :: string
  aud_resource_type :: string
  aud_resource_id :: string
  aud_outcome :: string
  aud_correlation_id :: string
  aud_operation_id :: "string option"
  aud_occurred_at :: instant

record event_row =
  evt_domain :: string
  evt_invocation_id :: string
  evt_id :: string
  evt_sequence :: nat
  evt_type :: string
  evt_occurred_at :: instant
  evt_correlation_id :: string
  evt_actor_id :: string
  evt_service_id :: string
  evt_revision_id :: string
  evt_payload :: json_object

record inbox_row =
  inb_domain :: string
  inb_source_kind :: string
  inb_deduplication_id :: string
  inb_payload_digest :: string
  inb_actor_id :: "string option"
  inb_result :: "json_object option"

text \<open>\<open>domain.Operation\<close> and \<open>domain.OperationLease\<close>, what a reader of an operation row sees.\<close>

record operation_lease =
  ol_Owner :: string
  ol_FencingToken :: int
  ol_ExpiresAt :: instant

record operation =
  opn_Kind :: string
  opn_IsolationDomainID :: string
  opn_ID :: string
  opn_Generation :: int
  opn_Version :: int
  opn_CreatedAt :: instant
  opn_UpdatedAt :: instant
  opn_CreatedBy :: string
  opn_ResourceID :: string
  opn_Command :: string
  opn_DesiredState :: string
  opn_ObservedState :: string
  opn_StateMachineVersion :: int
  opn_Attempt :: int
  opn_Lease :: "operation_lease option"
  opn_DueAt :: instant
  opn_DeadlineAt :: instant
  opn_ErrorClassification :: string
  opn_Error :: "api_error option"
  opn_TerminalResult :: "json_object option"
  opn_CorrelationID :: string

text \<open>The value a command answers with; the JSON encoding of it is the stored response body.\<close>

datatype resource =
    RService service_row
  | RRevision revision_row
  | RAlias alias_row
  | RInvocation invocation_row
  | ROperation operation

record idempotency_row =
  idm_domain :: string
  idm_method :: string
  idm_path :: string
  idm_key :: string
  idm_request_digest :: string
  idm_response_status :: "nat option"
  idm_response_body :: "resource option"

record db =
  workspaces :: "(string \<times> string) list"
  services :: "service_row list"
  revisions :: "revision_row list"
  aliases :: "alias_row list"
  invocations :: "invocation_row list"
  publications :: "op_row list"
  executions :: "op_row list"
  effects :: "effect_row list"
  outbox :: "outbox_row list"
  audit :: "audit_row list"
  events :: "event_row list"
  inbox :: "inbox_row list"
  idempotency :: "idempotency_row list"

definition empty_db :: db where
  "empty_db = \<lparr>workspaces = [], services = [], revisions = [], aliases = [], invocations = [],
     publications = [], executions = [], effects = [], outbox = [], audit = [], events = [],
     inbox = [], idempotency = []\<rparr>"

section \<open>Primary keys\<close>

definition svc_key :: "service_row \<Rightarrow> string \<times> string" where
  "svc_key r = (svc_domain r, svc_id r)"

definition rev_number_key :: "revision_row \<Rightarrow> string \<times> string \<times> int" where
  "rev_number_key r = (rev_domain r, rev_service_id r, rev_number r)"

definition als_id_key :: "alias_row \<Rightarrow> string \<times> string" where
  "als_id_key r = (als_domain r, als_id r)"

definition rev_key :: "revision_row \<Rightarrow> string \<times> string" where
  "rev_key r = (rev_domain r, rev_id r)"

definition als_key :: "alias_row \<Rightarrow> string \<times> string \<times> string" where
  "als_key r = (als_domain r, als_service_id r, als_name r)"

definition inv_key :: "invocation_row \<Rightarrow> string \<times> string" where
  "inv_key r = (inv_domain r, inv_id r)"

definition op_key :: "op_row \<Rightarrow> string \<times> string" where
  "op_key r = (op_domain r, op_id r)"

definition op_resource_key :: "op_row \<Rightarrow> string \<times> string" where
  "op_resource_key r = (op_domain r, op_resource_id r)"

definition eff_key :: "effect_row \<Rightarrow> string \<times> string" where
  "eff_key r = (eff_domain r, eff_id r)"

definition evt_key :: "event_row \<Rightarrow> string \<times> string \<times> nat" where
  "evt_key r = (evt_domain r, evt_invocation_id r, evt_sequence r)"

definition inb_key :: "inbox_row \<Rightarrow> string \<times> string \<times> string" where
  "inb_key r = (inb_domain r, inb_source_kind r, inb_deduplication_id r)"

definition idm_key_of :: "idempotency_row \<Rightarrow> string \<times> string \<times> string \<times> string" where
  "idm_key_of r = (idm_domain r, idm_method r, idm_path r, idm_key r)"

lemmas key_defs = svc_key_def rev_number_key_def als_id_key_def rev_key_def als_key_def inv_key_def op_key_def op_resource_key_def eff_key_def
  evt_key_def inb_key_def idm_key_of_def

text \<open>The primary-key and unique constraints of the tables.\<close>

definition keys_ok :: "db \<Rightarrow> bool" where
  "keys_ok d \<longleftrightarrow>
     unique_by svc_key (services d) \<and> unique_by rev_key (revisions d) \<and>
     unique_by rev_number_key (revisions d) \<and> unique_by als_key (aliases d) \<and>
     unique_by als_id_key (aliases d) \<and> unique_by inv_key (invocations d) \<and> unique_by inv_operation_id (invocations d) \<and>
     unique_by op_key (publications d) \<and> unique_by op_resource_key (publications d) \<and>
     unique_by op_key (executions d) \<and> unique_by op_resource_key (executions d) \<and>
     unique_by eff_key (effects d) \<and> unique_by out_id (outbox d) \<and>
     unique_by evt_key (events d) \<and> unique_by evt_id (events d) \<and>
     unique_by inb_key (inbox d) \<and> unique_by idm_key_of (idempotency d)"

lemma keys_ok_empty: "keys_ok empty_db"
  by (simp add: keys_ok_def empty_db_def unique_by_def)

end
