(* ===== verification/Lifecycle.thy ===== *)
theory Lifecycle
  imports Prelude
begin

text \<open>
  The two operation state machines, \<open>src/internal/lifecycle/invocation/state.go\<close> and
  \<open>src/internal/lifecycle/publication/state.go\<close>. States, commands and effect phases are Go strings and
  stay strings here, since the durable rows and the reconciler pass arbitrary strings to these functions.
  The locale \<open>lifecycle\<close> is the contract both machines give to their clients.
\<close>

section \<open>Invocations\<close>

definition invocation_StateMachineVersion :: int where
  "invocation_StateMachineVersion = 2"

definition invocation_IsTerminal :: "string \<Rightarrow> bool" where
  "invocation_IsTerminal state \<longleftrightarrow> state = ''succeeded'' \<or> state = ''failed'' \<or> state = ''cancelled''"

definition invocation_allowed :: "(string \<times> string list) list" where
  "invocation_allowed =
     [(''queued'', [''starting'', ''cancelling'', ''failed'']),
      (''starting'', [''running'', ''observing'', ''failed'', ''cancelling'']),
      (''running'', [''waiting'', ''observing'', ''succeeded'', ''failed'', ''cancelling'']),
      (''waiting'', [''running'', ''failed'', ''cancelling'']),
      (''cancelling'', [''observing'', ''cancelled'', ''failed'']),
      (''observing'', [''running'', ''succeeded'', ''failed'', ''cancelled'', ''cancelling'']),
      (''failed'', [''queued''])]"

definition invocation_CanTransition :: "string \<Rightarrow> string \<Rightarrow> bool" where
  "invocation_CanTransition from to =
     (if from = to \<and> \<not> invocation_IsTerminal from then True
      else (case map_of invocation_allowed from of None \<Rightarrow> False | Some targets \<Rightarrow> to \<in> set targets))"

definition invocation_ValidateTransition :: "string \<Rightarrow> string \<Rightarrow> go_error option" where
  "invocation_ValidateTransition from to =
     (if \<not> invocation_CanTransition from to then Some (errors_New ''invocation transition is not allowed'')
      else None)"

definition invocation_AllowsEffect :: "string \<Rightarrow> string \<Rightarrow> string \<Rightarrow> bool" where
  "invocation_AllowsEffect command state phase =
     (if invocation_IsTerminal state then False
      else if command = ''cancel'' \<or> state = ''cancelling'' then phase = ''cancel-invocation''
      else if command \<noteq> ''invoke'' \<and> command \<noteq> ''repair'' then False
      else state = ''starting'' \<and> phase = ''start-invocation'' \<or>
           state = ''running'' \<and> phase = ''run-invocation'')"

section \<open>Publications\<close>

definition publication_StateMachineVersion :: int where
  "publication_StateMachineVersion = 1"

definition publication_QueuedDevelopmentVersion :: int where
  "publication_QueuedDevelopmentVersion = 3"

definition publication_IsAuthorizedDevelopmentVersion :: "int \<Rightarrow> bool" where
  "publication_IsAuthorizedDevelopmentVersion version \<longleftrightarrow> version = 4 \<or> version = 5 \<or> version = 6"

definition publication_IsTerminal :: "string \<Rightarrow> bool" where
  "publication_IsTerminal state \<longleftrightarrow> state = ''published'' \<or> state = ''failed'' \<or> state = ''cancelled''"

definition publication_allowed :: "(string \<times> string list) list" where
  "publication_allowed =
     [(''queued'', [''validating'', ''failed'', ''cancelled'']),
      (''validating'', [''applying'', ''failed'', ''cancelled'']),
      (''applying'', [''observing'', ''failed'', ''cancelled'']),
      (''observing'', [''applying'', ''published'', ''failed'', ''cancelled'']),
      (''failed'', [''queued''])]"

definition publication_CanTransition :: "string \<Rightarrow> string \<Rightarrow> bool" where
  "publication_CanTransition from to =
     (if from = to \<and> \<not> publication_IsTerminal from then True
      else (case map_of publication_allowed from of None \<Rightarrow> False | Some targets \<Rightarrow> to \<in> set targets))"

definition publication_ValidateTransition :: "string \<Rightarrow> string \<Rightarrow> go_error option" where
  "publication_ValidateTransition from to =
     (if \<not> publication_CanTransition from to then Some (errors_New ''publication transition is not allowed'')
      else None)"

definition publication_AllowsEffect :: "string \<Rightarrow> string \<Rightarrow> string \<Rightarrow> bool" where
  "publication_AllowsEffect command state phase =
     (if publication_IsTerminal state then False
      else if command = ''cancel'' then phase = ''cancel-publication''
      else (command = ''publish'' \<or> command = ''repair'') \<and> state = ''applying'' \<and> phase = ''publish-revision'')"

lemmas invocation_defs = invocation_IsTerminal_def invocation_allowed_def invocation_CanTransition_def
  invocation_ValidateTransition_def invocation_AllowsEffect_def

lemmas publication_defs = publication_IsTerminal_def publication_allowed_def publication_CanTransition_def
  publication_ValidateTransition_def publication_AllowsEffect_def

section \<open>The contract of a lifecycle\<close>

locale lifecycle =
  fixes can_transition :: "string \<Rightarrow> string \<Rightarrow> bool"
    and is_terminal :: "string \<Rightarrow> bool"
    and allows_effect :: "string \<Rightarrow> string \<Rightarrow> string \<Rightarrow> bool"
    and success cancel_phase :: string
  assumes terminal_success: "is_terminal success"
    and terminal_failed: "is_terminal ''failed''"
    and terminal_cancelled: "is_terminal ''cancelled''"
    and success_not_failed: "success \<noteq> ''failed''"
    and queued_live: "\<not> is_terminal ''queued''"
    and stutter: "\<not> is_terminal s \<Longrightarrow> can_transition s s"
    and leave_terminal: "is_terminal s \<Longrightarrow> can_transition s t \<Longrightarrow> s = ''failed'' \<and> t = ''queued''"
    and repairable: "can_transition ''failed'' ''queued''"
    and no_terminal_effect: "is_terminal s \<Longrightarrow> \<not> allows_effect c s p"
    and cancel_effect: "allows_effect ''cancel'' s p \<Longrightarrow> p = cancel_phase"
begin

text \<open>
  A history of observed states is a list in which every two neighbours are an allowed transition
  (\<open>successively can_transition\<close>).
\<close>

lemma success_is_final: "successively can_transition (xs @ success # ys) \<Longrightarrow> ys = []"
  using leave_terminal [OF terminal_success] success_not_failed
  by (cases ys) (auto simp: successively_append_iff)

lemma cancelled_is_final: "successively can_transition (xs @ ''cancelled'' # ys) \<Longrightarrow> ys = []"
  using leave_terminal [OF terminal_cancelled] by (cases ys) (auto simp: successively_append_iff)

lemma terminal_then_repair:
  "successively can_transition (xs @ s # t # ys) \<Longrightarrow> is_terminal s \<Longrightarrow> s = ''failed'' \<and> t = ''queued''"
  using leave_terminal by (auto simp: successively_append_iff)

text \<open>Unless the operation is repaired, at most the last state of a history is terminal.\<close>

lemma terminal_only_last:
  "successively can_transition (s # xs) \<Longrightarrow> ''queued'' \<notin> set xs \<Longrightarrow>
   \<forall>x \<in> set (butlast (s # xs)). \<not> is_terminal x"
proof (induction xs arbitrary: s)
  case (Cons t xs)
  then have "\<not> is_terminal s" using leave_terminal by auto
  with Cons show ?case by auto
qed simp

end

interpretation inv: lifecycle invocation_CanTransition invocation_IsTerminal invocation_AllowsEffect
  "''succeeded''" "''cancel-invocation''"
  by unfold_locales (auto simp: invocation_defs split: if_splits)

interpretation pub: lifecycle publication_CanTransition publication_IsTerminal publication_AllowsEffect
  "''published''" "''cancel-publication''"
  by unfold_locales (auto simp: publication_defs split: if_splits)

section \<open>Facts the clients use\<close>

lemma invocation_AllowsEffect_cases:
  "invocation_AllowsEffect c s p \<Longrightarrow>
   (c = ''cancel'' \<or> s = ''cancelling'') \<and> p = ''cancel-invocation'' \<or>
   (c = ''invoke'' \<or> c = ''repair'') \<and>
     (s = ''starting'' \<and> p = ''start-invocation'' \<or> s = ''running'' \<and> p = ''run-invocation'')"
  by (auto simp: invocation_AllowsEffect_def split: if_splits)

lemma publication_AllowsEffect_cases:
  "publication_AllowsEffect c s p \<Longrightarrow>
   c = ''cancel'' \<and> p = ''cancel-publication'' \<or>
   (c = ''publish'' \<or> c = ''repair'') \<and> s = ''applying'' \<and> p = ''publish-revision''"
  by (auto simp: publication_AllowsEffect_def split: if_splits)

lemma invocation_cancellable:
  "invocation_CanTransition s ''cancelling'' \<longleftrightarrow>
   s \<in> {''queued'', ''starting'', ''running'', ''waiting'', ''cancelling'', ''observing''}"
  by (auto simp: invocation_defs split: if_splits)

end
