(* ===== verification/Contracts.thy ===== *)
theory Contracts
  imports Prelude
begin

text \<open>
  Revision contracts, \<open>src/internal/domain/invocation_input.go\<close>. The JSON schema compiler and validator
  are a third-party package and an argument of the definitions: which schemas compile and which values a
  compiled schema accepts. Values of type \<^typ>\<open>json\<close> always have an encoding, so the marshalling
  failures of the source cannot occur on them.
\<close>

record schema_lib =
  sl_compiles :: "json_object \<Rightarrow> bool"
  sl_accepts :: "json_object \<Rightarrow> json \<Rightarrow> bool"

text \<open>\<open>json.Marshal\<close> followed by \<open>json.Unmarshal\<close> of a \<open>map[string]any\<close>: the nil map becomes null.\<close>

definition normalized :: "json_object option \<Rightarrow> json" where
  "normalized value = (case value of None \<Rightarrow> JNull | Some obj \<Rightarrow> JObj obj)"

definition APIError :: "string \<Rightarrow> string \<Rightarrow> api_error" where
  "APIError code msg = \<lparr>Code = code, Message = msg, ErrCorrelationID = [], Retryable = False\<rparr>"

definition validateInvocationContract ::
    "schema_lib \<Rightarrow> json_object option \<Rightarrow> json_object option \<Rightarrow> string \<Rightarrow> string \<Rightarrow> string \<Rightarrow> string \<Rightarrow> api_error option" where
  "validateInvocationContract lib schema value schemaCode schemaMessage valueCode valueMessage =
     (case schema of
        None \<Rightarrow> None
      | Some sc \<Rightarrow>
          if \<not> sl_compiles lib sc then Some (APIError schemaCode schemaMessage)
          else if \<not> sl_accepts lib sc (normalized value) then Some (APIError valueCode valueMessage)
          else None)"

definition ValidateInvocationInput :: "schema_lib \<Rightarrow> json_object option \<Rightarrow> json_object option \<Rightarrow> api_error option" where
  "ValidateInvocationInput lib schema input =
     validateInvocationContract lib schema input
       ''REVISION_INPUT_SCHEMA_INVALID'' ''The service revision input contract cannot be validated.''
       ''INVOCATION_INPUT_INVALID'' ''Invocation input does not satisfy the service revision input contract.''"

definition ValidateInvocationOutput :: "schema_lib \<Rightarrow> json_object option \<Rightarrow> json_object option \<Rightarrow> api_error option" where
  "ValidateInvocationOutput lib schema output =
     validateInvocationContract lib schema output
       ''REVISION_OUTPUT_SCHEMA_INVALID'' ''The service revision output contract cannot be validated.''
       ''INVOCATION_OUTPUT_INVALID'' ''Invocation output does not satisfy the service revision output contract.''"

text \<open>The loop over the two contracts, input first; an absent schema is skipped.\<close>

fun validate_schemas :: "schema_lib \<Rightarrow> (json_object option \<times> string \<times> string) list \<Rightarrow> api_error option" where
  "validate_schemas lib [] = None"
| "validate_schemas lib ((schema, code, msg) # rest) =
     (case schema of
        None \<Rightarrow> validate_schemas lib rest
      | Some sc \<Rightarrow> if sl_compiles lib sc then validate_schemas lib rest else Some (APIError code msg))"

definition ValidateRevisionSchemas :: "schema_lib \<Rightarrow> json_object option \<Rightarrow> json_object option \<Rightarrow> api_error option" where
  "ValidateRevisionSchemas lib input output =
     validate_schemas lib
       [(input, ''REVISION_INPUT_SCHEMA_INVALID'', ''The service revision input contract cannot be validated.''),
        (output, ''REVISION_OUTPUT_SCHEMA_INVALID'', ''The service revision output contract cannot be validated.'')]"

lemma ValidateRevisionSchemas_None:
  "ValidateRevisionSchemas lib i out = None \<longleftrightarrow>
   (\<forall>s. i = Some s \<longrightarrow> sl_compiles lib s) \<and> (\<forall>s. out = Some s \<longrightarrow> sl_compiles lib s)"
  by (auto simp: ValidateRevisionSchemas_def split: option.splits)

lemma ValidateInvocationOutput_None:
  "ValidateInvocationOutput lib schema v = None \<longleftrightarrow>
   (\<forall>s. schema = Some s \<longrightarrow> sl_compiles lib s \<and> sl_accepts lib s (normalized v))"
  by (auto simp: ValidateInvocationOutput_def validateInvocationContract_def split: option.splits)

lemma ValidateInvocationInput_None:
  "ValidateInvocationInput lib schema v = None \<longleftrightarrow>
   (\<forall>s. schema = Some s \<longrightarrow> sl_compiles lib s \<and> sl_accepts lib s (normalized v))"
  by (auto simp: ValidateInvocationInput_def validateInvocationContract_def split: option.splits)

end
