(* ===== verification/Leases.thy ===== *)
theory Leases
  imports Sql
begin

text \<open>
  Fenced leases. A leased row carries an owner, a fencing token and an expiry; a claim on it is the pair of
  an owner and a token. The locale states what the operation tables and the outbox promise of every change
  of a row: a change either keeps the token and at most drops the owner, or it is a new acquisition, which
  increments the token and is possible only when no unexpired lease is on the row. Its lemmas are what a
  worker relies on: a claim that was lost is lost for good, and a lease excludes every other worker until
  it expires.

  A table evolves when every row it had is still there, at its place, changed by the steps of the row.
\<close>

section \<open>Evolution of a table\<close>

definition evolves :: "('r \<Rightarrow> 'r \<Rightarrow> bool) \<Rightarrow> 'r list \<Rightarrow> 'r list \<Rightarrow> bool" where
  "evolves R rows rows' \<longleftrightarrow>
     length rows \<le> length rows' \<and> (\<forall>n < length rows. rows ! n = rows' ! n \<or> R (rows ! n) (rows' ! n))"

lemma evolves_refl [simp]: "evolves R rows rows"
  by (simp add: evolves_def)

lemma evolves_append [simp]: "evolves R rows (rows @ new)"
  by (simp add: evolves_def nth_append)

lemma evolves_update: "(\<And>r. r \<in> set rows \<Longrightarrow> p r \<Longrightarrow> R r (f r)) \<Longrightarrow> evolves R rows (sql_update p f rows)"
  by (auto simp: evolves_def sql_update_def)

lemma evolves_mono: "evolves R rows rows' \<Longrightarrow> (\<And>r s. R r s \<Longrightarrow> S r s) \<Longrightarrow> evolves S rows rows'"
  by (auto simp: evolves_def)

lemma evolves_trans:
  assumes "evolves R\<^sup>*\<^sup>* rows rows'" and "evolves R rows' rows''"
  shows "evolves R\<^sup>*\<^sup>* rows rows''"
  unfolding evolves_def
proof (intro conjI allI impI)
  show "length rows \<le> length rows''" using assms by (simp add: evolves_def)
next
  fix n assume "n < length rows"
  then have "rows ! n = rows' ! n \<or> R\<^sup>*\<^sup>* (rows ! n) (rows' ! n)" "rows' ! n = rows'' ! n \<or> R (rows' ! n) (rows'' ! n)"
    using assms by (auto simp: evolves_def)
  then show "rows ! n = rows'' ! n \<or> R\<^sup>*\<^sup>* (rows ! n) (rows'' ! n)"
    by (auto intro: rtranclp.rtrancl_into_rtrancl)
qed

lemma evolves_row:
  assumes "evolves R rows rows'" and "r \<in> set rows"
  obtains r' where "r' \<in> set rows'" "r = r' \<or> R r r'"
proof -
  from assms(2) obtain n where n: "n < length rows" "r = rows ! n" by (auto simp: in_set_conv_nth)
  with assms(1) have "rows' ! n \<in> set rows'" "r = rows' ! n \<or> R r (rows' ! n)"
    by (auto simp: evolves_def)
  then show ?thesis using that by blast
qed

section \<open>The contract of a leased row\<close>

locale fenced_lease =
  fixes owner :: "'r \<Rightarrow> string option"
    and token :: "'r \<Rightarrow> int"
    and expires :: "'r \<Rightarrow> instant option"
    and step :: "instant \<Rightarrow> 'r \<Rightarrow> 'r \<Rightarrow> bool"
  assumes step_cases: "step now r r' \<Longrightarrow>
      token r' = token r \<and> (owner r' = owner r \<or> owner r' = None) \<or>
      token r' = token r + 1 \<and> \<not> sql_gt (expires r) now"
begin

definition holds_claim :: "string \<Rightarrow> int \<Rightarrow> 'r \<Rightarrow> bool" where
  "holds_claim w t r \<longleftrightarrow> owner r = Some w \<and> token r = t"

definition any_step :: "'r \<Rightarrow> 'r \<Rightarrow> bool" where
  "any_step r r' \<longleftrightarrow> (\<exists>now. step now r r')"

lemma any_step_cases:
  "any_step r r' \<Longrightarrow> token r' = token r \<and> (owner r' = owner r \<or> owner r' = None) \<or> token r' = token r + 1"
  by (auto simp: any_step_def dest!: step_cases)

lemma token_mono: "any_step\<^sup>*\<^sup>* r r' \<Longrightarrow> token r \<le> token r'"
  by (induction rule: rtranclp_induct) (auto dest: any_step_cases)

text \<open>A claim that does not hold, and whose token was given out, never holds again.\<close>

lemma fenced:
  assumes "any_step\<^sup>*\<^sup>* r r'" and "t \<le> token r" and "\<not> holds_claim w t r"
  shows "\<not> holds_claim w t r'"
  using assms
proof (induction rule: rtranclp_induct)
  case (step s s')
  from step.hyps(1) step.prems have "t \<le> token s" using token_mono by force
  moreover from step have "\<not> holds_claim w t s" by blast
  ultimately show ?case using any_step_cases [OF step.hyps(2)] by (auto simp: holds_claim_def)
qed

text \<open>A new acquisition takes a token that no earlier claim has.\<close>

lemma acquisition_fresh:
  "any_step\<^sup>*\<^sup>* r r' \<Longrightarrow> step now r' r'' \<Longrightarrow> token r'' = token r' + 1 \<Longrightarrow> token r < token r''"
  using token_mono by force

text \<open>Before its expiry nobody else acquires the row.\<close>

lemma exclusive:
  assumes "step now r r'" and "expires r = Some e" and "now < e"
  shows "token r' = token r \<and> (owner r' = owner r \<or> owner r' = None)"
  using step_cases [OF assms(1)] assms(2,3) by auto

end

end
