(* ===== verification/Outbox.thy ===== *)
theory Outbox
  imports Tables Leases Go_Text
begin

text \<open>
  The transactional outbox and the inbox: \<open>src/internal/persistence/outbox.go\<close>, \<open>inbox.go\<close> and the
  dispatcher \<open>src/internal/outbox/dispatcher.go\<close>. Lease times are the database's, so the statements take its
  clock, read once per statement. The dispatcher runs over any store and any publisher, both functions on
  a state of their own.
\<close>

record OutboxClaim =
  oc_ID :: string
  oc_IsolationDomainID :: string
  oc_AggregateType :: string
  oc_AggregateID :: string
  oc_EventType :: string
  oc_Payload :: json_object
  oc_CorrelationID :: string
  oc_Attempt :: int
  oc_LeaseOwner :: string
  oc_FencingToken :: int

definition outbox_eligible :: "string \<Rightarrow> instant \<Rightarrow> outbox_row \<Rightarrow> bool" where
  "outbox_eligible scope clock r \<longleftrightarrow>
     out_status r = ''pending'' \<and> out_available_at r \<le> clock \<and> (scope = [] \<or> out_domain r = scope) \<and>
     null_or_le (out_lease_expires_at r) clock"

definition outbox_domain_order :: "outbox_row \<Rightarrow> string \<times> instant \<times> instant \<times> string" where
  "outbox_domain_order r = (out_domain r, out_available_at r, out_created_at r, out_id r)"

definition outbox_order :: "outbox_row \<Rightarrow> instant \<times> instant \<times> string \<times> string" where
  "outbox_order r = (out_available_at r, out_created_at r, out_domain r, out_id r)"

definition outbox_claim_set :: "instant \<Rightarrow> string \<Rightarrow> duration \<Rightarrow> outbox_row \<Rightarrow> outbox_row" where
  "outbox_claim_set clock workerID leaseDuration r =
     r\<lparr>out_lease_owner := Some workerID, out_lease_token := out_lease_token r + 1,
       out_lease_expires_at := Some (clock + leaseDuration div time_Microsecond * time_Microsecond),
       out_attempt := out_attempt r + 1\<rparr>"

definition outbox_claim_of :: "string \<Rightarrow> outbox_row \<Rightarrow> OutboxClaim" where
  "outbox_claim_of workerID r =
     \<lparr>oc_ID = out_id r, oc_IsolationDomainID = out_domain r, oc_AggregateType = out_aggregate_type r,
      oc_AggregateID = out_aggregate_id r, oc_EventType = out_event_type r, oc_Payload = out_payload r,
      oc_CorrelationID = out_correlation_id r, oc_Attempt = out_attempt r, oc_LeaseOwner = workerID,
      oc_FencingToken = out_lease_token r\<rparr>"

definition outbox_request_ok :: "string \<Rightarrow> duration \<Rightarrow> bool" where
  "outbox_request_ok workerID leaseDuration \<longleftrightarrow>
     workerID \<noteq> [] \<and> length workerID \<le> 128 \<and> TrimSpace workerID = workerID \<and>
     \<not> list_ex (\<lambda>c. byte c \<in> {0, 13, 10}) workerID \<and>
     time_Microsecond \<le> leaseDuration \<and> leaseDuration \<le> time_Hour"

definition claimOutbox ::
    "instant \<Rightarrow> string \<Rightarrow> string \<Rightarrow> duration \<Rightarrow> db \<Rightarrow> OutboxClaim option result \<times> db" where
  "claimOutbox clock scope workerID leaseDuration d =
     (if \<not> outbox_request_ok workerID leaseDuration then (Inl (Sentinel ErrOutboxClaimInvalid), d)
      else case first_by outbox_order
                  (distinct_on out_domain (sort_key outbox_domain_order (filter (outbox_eligible scope clock) (outbox d)))) of
        None \<Rightarrow> (Inr None, d)
      | Some c \<Rightarrow>
          (let p = (\<lambda>r. out_domain r = out_domain c \<and> out_id r = out_id c \<and> out_status r = ''pending'' \<and>
                      out_available_at r \<le> clock \<and> null_or_le (out_lease_expires_at r) clock);
               f = outbox_claim_set clock workerID leaseDuration
           in case sql_select p (outbox d) of
                None \<Rightarrow> (Inr None, d)
              | Some r \<Rightarrow> (Inr (Some (outbox_claim_of workerID (f r))), d\<lparr>outbox := sql_update p f (outbox d)\<rparr>)))"

definition ClaimOutbox :: "instant \<Rightarrow> string \<Rightarrow> duration \<Rightarrow> db \<Rightarrow> OutboxClaim option result \<times> db" where
  "ClaimOutbox clock = claimOutbox clock []"

definition ClaimOutboxForIsolationDomain ::
    "instant \<Rightarrow> string \<Rightarrow> string \<Rightarrow> duration \<Rightarrow> db \<Rightarrow> OutboxClaim option result \<times> db" where
  "ClaimOutboxForIsolationDomain clock isolationDomainID workerID leaseDuration d =
     (if \<not> resource_id_pattern ''iso'' isolationDomainID then (Inl (Sentinel ErrOutboxClaimInvalid), d)
      else claimOutbox clock isolationDomainID workerID leaseDuration d)"

definition outbox_held :: "OutboxClaim \<Rightarrow> instant \<Rightarrow> outbox_row \<Rightarrow> bool" where
  "outbox_held claim clock r \<longleftrightarrow>
     out_id r = oc_ID claim \<and> out_domain r = oc_IsolationDomainID claim \<and> out_status r = ''pending'' \<and>
     sql_eq (out_lease_owner r) (oc_LeaseOwner claim) \<and> out_lease_token r = oc_FencingToken claim \<and>
     sql_gt (out_lease_expires_at r) clock"

definition complete_set :: "instant \<Rightarrow> outbox_row \<Rightarrow> outbox_row" where
  "complete_set clock r =
     r\<lparr>out_status := ''delivered'', out_delivered_at := Some clock, out_lease_owner := None, out_lease_expires_at := None\<rparr>"

definition CompleteOutbox :: "instant \<Rightarrow> OutboxClaim \<Rightarrow> db \<Rightarrow> go_error option \<times> db" where
  "CompleteOutbox clock claim d =
     (if rows_affected (outbox_held claim clock) (outbox d) \<noteq> 1 then (Some (Sentinel ErrLeaseLost), d)
      else (None, d\<lparr>outbox := sql_update (outbox_held claim clock) (complete_set clock) (outbox d)\<rparr>))"

definition outbox_retry_set :: "instant \<Rightarrow> outbox_row \<Rightarrow> outbox_row" where
  "outbox_retry_set dueAt r =
     r\<lparr>out_status := (if out_attempt r \<ge> 20 then ''dead_letter'' else ''pending''), out_available_at := dueAt,
       out_lease_owner := None, out_lease_expires_at := None\<rparr>"

definition RetryOutbox :: "instant \<Rightarrow> OutboxClaim \<Rightarrow> instant \<Rightarrow> db \<Rightarrow> go_error option \<times> db" where
  "RetryOutbox clock claim dueAt d =
     (if rows_affected (outbox_held claim clock) (outbox d) \<noteq> 1 then (Some (Sentinel ErrLeaseLost), d)
      else (None, d\<lparr>outbox := sql_update (outbox_held claim clock) (outbox_retry_set dueAt) (outbox d)\<rparr>))"

section \<open>Inbox\<close>

definition RecordInbox ::
    "string \<Rightarrow> string \<Rightarrow> string \<Rightarrow> string \<Rightarrow> json_object option \<Rightarrow> db \<Rightarrow> bool result \<times> db" where
  "RecordInbox isolationDomainID sourceKind deduplicationID payloadDigest resultValue d =
     (if sourceKind \<notin> {''command'', ''callback'', ''provider-observation''}
      then (Inl (errors_New ''unsupported inbox source''), d)
      else
        (let new = \<lparr>inb_domain = isolationDomainID, inb_source_kind = sourceKind, inb_deduplication_id = deduplicationID,
               inb_payload_digest = payloadDigest, inb_actor_id = None, inb_result = resultValue\<rparr>
         in case insert_on_conflict_nothing (\<lambda>new r. inb_key r = inb_key new) new (inbox d) of
              (rows, affected) \<Rightarrow>
                if affected = 1 then (Inr False, d\<lparr>inbox := rows\<rparr>)
                else case sql_select (\<lambda>r. inb_key r = inb_key new) (inbox d) of
                       None \<Rightarrow> (Inl (Errorf ''read inbox replay'' [Sentinel ErrNoRows]), d)
                     | Some existing \<Rightarrow>
                         if inb_payload_digest existing \<noteq> payloadDigest
                         then (Inl (DomainError ''INBOX_ID_REUSED''
                                     ''Inbox deduplication ID was reused with different content.'' False), d)
                         else (Inr True, d)))"

section \<open>The dispatcher\<close>

record 'w outbox_store =
  os_Claim :: "string \<Rightarrow> duration \<Rightarrow> 'w \<Rightarrow> OutboxClaim option result \<times> 'w"
  os_Complete :: "OutboxClaim \<Rightarrow> 'w \<Rightarrow> go_error option \<times> 'w"
  os_Retry :: "OutboxClaim \<Rightarrow> instant \<Rightarrow> 'w \<Rightarrow> go_error option \<times> 'w"

definition dispatch_delay :: "int \<Rightarrow> duration" where
  "dispatch_delay attempt = 2 ^ nat (min attempt 6) * time_Second"

definition outbox_RunOne ::
    "'w outbox_store \<Rightarrow> (OutboxClaim \<Rightarrow> 'w \<Rightarrow> go_error option \<times> 'w) \<Rightarrow> string \<Rightarrow> instant \<Rightarrow> 'w \<Rightarrow>
     (bool \<times> go_error option) \<times> 'w" where
  "outbox_RunOne store publish workerID now w =
     (case os_Claim store workerID (30 * time_Second) w of
        (Inl e, w1) \<Rightarrow> ((False, Some e), w1)
      | (Inr None, w1) \<Rightarrow> ((False, None), w1)
      | (Inr (Some claim), w1) \<Rightarrow>
          (case publish claim w1 of
             (Some _, w2) \<Rightarrow>
               (case os_Retry store claim (now + dispatch_delay (oc_Attempt claim)) w2 of (e, w3) \<Rightarrow> ((True, e), w3))
           | (None, w2) \<Rightarrow> (case os_Complete store claim w2 of (e, w3) \<Rightarrow> ((True, e), w3))))"

text \<open>The repository as the dispatcher's store; the database reads its clock at the claim and at the later write.\<close>

definition repository_outbox :: "instant \<Rightarrow> instant \<Rightarrow> db outbox_store" where
  "repository_outbox claim_clock write_clock =
     \<lparr>os_Claim = ClaimOutbox claim_clock, os_Complete = CompleteOutbox write_clock, os_Retry = RetryOutbox write_clock\<rparr>"

section \<open>Steps of an outbox row\<close>

inductive out_step :: "instant \<Rightarrow> outbox_row \<Rightarrow> outbox_row \<Rightarrow> bool" where
  out_claim: "out_status r = ''pending'' \<Longrightarrow> \<not> sql_gt (out_lease_expires_at r) clock \<Longrightarrow>
    out_step clock r (outbox_claim_set clock w dur r)"
| out_complete: "out_status r = ''pending'' \<Longrightarrow> out_lease_owner r = Some w \<Longrightarrow> sql_gt (out_lease_expires_at r) clock \<Longrightarrow>
    out_step clock r (complete_set clock r)"
| out_retry: "out_status r = ''pending'' \<Longrightarrow> out_lease_owner r = Some w \<Longrightarrow> sql_gt (out_lease_expires_at r) clock \<Longrightarrow>
    out_step clock r (outbox_retry_set due r)"

lemmas out_set_defs = outbox_claim_set_def complete_set_def outbox_retry_set_def

interpretation out_lease: fenced_lease out_lease_owner out_lease_token out_lease_expires_at out_step
  by unfold_locales (auto elim!: out_step.cases simp: out_set_defs)

lemma out_step_id: "out_step clock r r' \<Longrightarrow> out_id r' = out_id r \<and> out_domain r' = out_domain r \<and> out_payload r' = out_payload r"
  by (auto elim!: out_step.cases simp: out_set_defs)

text \<open>Delivered and dead events never change; the attempt counts the claims.\<close>

lemma out_step_pending: "out_step clock r r' \<Longrightarrow> out_status r = ''pending''"
  by (auto elim: out_step.cases)

lemma out_step_attempt: "out_step clock r r' \<Longrightarrow> out_attempt r' - out_lease_token r' = out_attempt r - out_lease_token r"
  by (auto elim!: out_step.cases simp: out_set_defs)

lemma outbox_held_id: "outbox_held claim clock r \<Longrightarrow> out_id r = oc_ID claim"
  by (simp add: outbox_held_def)

lemma outbox_candidate_first:
  assumes "unique_by out_id rows"
  shows "first_by outbox_order (distinct_on out_domain (sort_key outbox_domain_order (filter P rows))) =
    first_by outbox_order (filter P rows)"
proof -
  have u: "unique_by out_id (filter P rows)"
    using assms by (auto simp: unique_by_def distinct_map_filter)
  have "unique_by outbox_domain_order (filter P rows)" "unique_by outbox_order (filter P rows)"
    using u by (auto simp: unique_by_def distinct_map inj_on_def outbox_domain_order_def outbox_order_def)
  then show ?thesis
    by (rule first_by_distinct_on) (auto simp: outbox_domain_order_def outbox_order_def)
qed

lemma claimOutbox_eq:
  assumes u: "unique_by out_id (outbox d)" and ok: "outbox_request_ok w dur"
  shows "claimOutbox clock scope w dur d =
    (case first_by outbox_order (filter (outbox_eligible scope clock) (outbox d)) of
       None \<Rightarrow> (Inr None, d)
     | Some r \<Rightarrow> (Inr (Some (outbox_claim_of w (outbox_claim_set clock w dur r))),
         d\<lparr>outbox := sql_update (\<lambda>s. out_id s = out_id r) (outbox_claim_set clock w dur) (outbox d)\<rparr>))"
    (is "_ = (case first_by outbox_order ?el of None \<Rightarrow> _ | Some r \<Rightarrow> _)")
proof (cases "first_by outbox_order ?el")
  case None
  then show ?thesis using ok by (simp add: claimOutbox_def outbox_candidate_first [OF u] del: first_by_None)
next
  case (Some r)
  let ?p = "\<lambda>s. out_domain s = out_domain r \<and> out_id s = out_id r \<and> out_status s = ''pending'' \<and>
              out_available_at s \<le> clock \<and> null_or_le (out_lease_expires_at s) clock"
  from Some have r: "r \<in> set (outbox d)" "?p r"
    by (auto dest!: first_by_Some simp: outbox_eligible_def)
  have sel: "sql_select ?p (outbox d) = Some r"
    by (rule sql_select_unique [OF u, where k = "out_id r"]) (use r in auto)
  have "sql_update ?p f (outbox d) = sql_update (\<lambda>s. out_id s = out_id r) f (outbox d)" for f
    by (rule sql_update_cong) (use r unique_by_eq [OF u] in blast)
  with sel Some ok show ?thesis
    by (simp add: claimOutbox_def outbox_candidate_first [OF u] Let_def)
qed

lemma claimOutbox_evolves:
  assumes "unique_by out_id (outbox d)"
  shows "evolves (out_step clock) (outbox d) (outbox (snd (claimOutbox clock scope w dur d)))"
proof (cases "outbox_request_ok w dur")
  case ok: True
  show ?thesis
  proof (cases "first_by outbox_order (filter (outbox_eligible scope clock) (outbox d))")
    case (Some r)
    then have r: "r \<in> set (outbox d)" "outbox_eligible scope clock r" by (auto dest!: first_by_Some)
    have "evolves (out_step clock) (outbox d)
        (sql_update (\<lambda>s. out_id s = out_id r) (outbox_claim_set clock w dur) (outbox d))"
    proof (rule evolves_update)
      fix s assume "s \<in> set (outbox d)" "out_id s = out_id r"
      with r assms have "s = r" by (blast intro: unique_by_eq)
      with r show "out_step clock s (outbox_claim_set clock w dur s)"
        by (auto simp: outbox_eligible_def intro: out_claim)
    qed
    with Some ok assms show ?thesis by (simp add: claimOutbox_eq)
  qed (use ok assms in \<open>simp add: claimOutbox_eq del: first_by_None\<close>)
qed (simp add: claimOutbox_def)

lemma CompleteOutbox_evolves: "evolves (out_step clock) (outbox d) (outbox (snd (CompleteOutbox clock claim d)))"
  by (auto simp: CompleteOutbox_def outbox_held_def sql_eq_def intro!: evolves_update out_complete)

lemma RetryOutbox_evolves: "evolves (out_step clock) (outbox d) (outbox (snd (RetryOutbox clock claim due d)))"
  by (auto simp: RetryOutbox_def outbox_held_def sql_eq_def intro!: evolves_update out_retry)

end
