(* ===== verification/Operations.thy ===== *)
theory Operations
  imports Tables Lifecycle Contracts Go_Time
begin

text \<open>
  The durable operation store, \<open>src/internal/persistence/lifecycle.go\<close>, with the transaction helpers of
  \<open>repository.go\<close> it calls. Every function takes the tables and gives back its result with the new
  tables; a transaction that fails gives back the tables it started from. \<open>now\<close> is the worker's clock
  (\<open>repository.now()\<close>), \<open>clock\<close> the database's (\<open>clock_timestamp()\<close>). A failed connection and the
  columns' integer widths are not modelled.
\<close>

abbreviation OperationKindPublication :: string where
  "OperationKindPublication \<equiv> ''service-publication''"

abbreviation OperationKindInvocation :: string where
  "OperationKindInvocation \<equiv> ''invocation-execution''"

record operation_claim =
  cl_Kind :: string
  cl_IsolationDomainID :: string
  cl_ID :: string
  cl_ResourceID :: string
  cl_Command :: string
  cl_ObservedState :: string
  cl_StateMachineVersion :: int
  cl_Attempt :: int
  cl_LeaseOwner :: string
  cl_FencingToken :: int
  cl_DeadlineAt :: instant
  cl_LeaseExpiresAt :: instant
  cl_CorrelationID :: string
  cl_ActorID :: string

section \<open>Tables and transitions\<close>

definition operationTable :: "string \<Rightarrow> string list result" where
  "operationTable kind =
     (if kind = OperationKindPublication then Inr [''published'', ''failed'', ''cancelled'']
      else if kind = OperationKindInvocation then Inr [''succeeded'', ''failed'', ''cancelled'', ''waiting'']
      else Inl (errors_New ''unsupported operation kind''))"

definition table_of :: "string \<Rightarrow> db \<Rightarrow> op_row list" where
  "table_of kind d = (if kind = OperationKindPublication then publications d else executions d)"

definition put_table :: "string \<Rightarrow> op_row list \<Rightarrow> db \<Rightarrow> db" where
  "put_table kind rows d =
     (if kind = OperationKindPublication then d\<lparr>publications := rows\<rparr> else d\<lparr>executions := rows\<rparr>)"

definition validateTransition :: "string \<Rightarrow> string \<Rightarrow> string \<Rightarrow> go_error option" where
  "validateTransition kind from to =
     (if kind = OperationKindPublication then publication_ValidateTransition from to
      else if kind = OperationKindInvocation then invocation_ValidateTransition from to
      else Some (errors_New ''unsupported operation kind''))"

definition transitionOutcome :: "string \<Rightarrow> string" where
  "transitionOutcome state =
     (if state = ''published'' \<or> state = ''succeeded'' then ''succeeded''
      else if state = ''failed'' then ''failed''
      else if state = ''cancelled'' then ''cancelled''
      else ''accepted'')"

definition invocationResourceState :: "string \<Rightarrow> string" where
  "invocationResourceState operationState =
     (if operationState \<in> {''starting'', ''running'', ''observing''} then ''running''
      else if operationState = ''waiting'' then ''waiting''
      else if operationState = ''cancelling'' then ''cancelling''
      else if operationState \<in> {''succeeded'', ''failed'', ''cancelled''} then operationState
      else '''')"

datatype failure_reason = OperationFailureDeadline | OperationFailureEffectDenied
  | OperationFailureEffectInvalid | OperationFailureRuntime | OperationFailureOther string

definition operationFailure :: "failure_reason \<Rightarrow> string \<Rightarrow> api_error result" where
  "operationFailure reason correlationID =
     (let failure = (\<lambda>code msg. Inr \<lparr>Code = code, Message = msg, ErrCorrelationID = correlationID, Retryable = False\<rparr>)
      in case reason of
           OperationFailureDeadline \<Rightarrow>
             failure ''OPERATION_DEADLINE_EXCEEDED'' ''The durable operation deadline was exceeded.''
         | OperationFailureEffectDenied \<Rightarrow>
             failure ''OPERATION_EFFECT_DENIED'' ''The operation was denied before its external effect could be applied.''
         | OperationFailureEffectInvalid \<Rightarrow>
             failure ''OPERATION_EFFECT_INVALID'' ''The operation could not safely apply its external effect.''
         | OperationFailureRuntime \<Rightarrow>
             failure ''OPERATION_RUNTIME_FAILED'' ''The runtime completed with a terminal failure.''
         | OperationFailureOther s \<Rightarrow> Inl (errors_New ''operation failure reason is invalid''))"

section \<open>Outbox, audit and event records\<close>

definition outbox_payload :: "string \<Rightarrow> string \<Rightarrow> string \<Rightarrow> json_object" where
  "outbox_payload resourceType resourceID outcome =
     [(''outcome'', JStr outcome), (''resourceId'', JStr resourceID), (''resourceType'', JStr resourceType)]"

definition writeOutboxAndAudit ::
    "(string \<Rightarrow> string) \<Rightarrow> string \<Rightarrow> string \<Rightarrow> string \<Rightarrow> string \<Rightarrow> string \<Rightarrow> string \<Rightarrow> string \<Rightarrow> string \<Rightarrow> instant \<Rightarrow> db \<Rightarrow> db" where
  "writeOutboxAndAudit sha256 isolationDomainID resourceType resourceID eventType actorID correlationID outcome operationID now d =
     d\<lparr>outbox := fst (insert_on_conflict_nothing (\<lambda>new r. out_id r = out_id new)
          \<lparr>out_id = Derived sha256 ''out''
             (isolationDomainID @ '':'' @ eventType @ '':'' @ resourceID @ '':'' @ correlationID),
           out_domain = isolationDomainID, out_aggregate_type = resourceType, out_aggregate_id = resourceID,
           out_event_type = eventType, out_payload = outbox_payload resourceType resourceID outcome,
           out_correlation_id = correlationID, out_status = ''pending'', out_attempt = 0,
           out_available_at = now, out_lease_owner = None, out_lease_token = 0,
           out_lease_expires_at = None, out_created_at = now, out_delivered_at = None\<rparr> (outbox d)),
       audit := audit d @
         [\<lparr>aud_domain = isolationDomainID, aud_actor_id = actorID, aud_action = eventType,
           aud_resource_type = resourceType, aud_resource_id = resourceID, aud_outcome = outcome,
           aud_correlation_id = correlationID,
           aud_operation_id = (if operationID = [] then None else Some operationID),
           aud_occurred_at = now\<rparr>]\<rparr>"

definition next_sequence :: "string \<Rightarrow> string \<Rightarrow> event_row list \<Rightarrow> nat" where
  "next_sequence isolationDomainID invocationID rows =
     Suc (fold max (map evt_sequence
       (filter (\<lambda>r. evt_domain r = isolationDomainID \<and> evt_invocation_id r = invocationID) rows)) 0)"

definition writeInvocationEvent ::
    "(string \<Rightarrow> string) \<Rightarrow> invocation_row \<Rightarrow> string \<Rightarrow> string \<Rightarrow> json_object \<Rightarrow> instant \<Rightarrow> db \<Rightarrow> db result" where
  "writeInvocationEvent sha256 ivc eventType actorID payload now d =
     (let n = next_sequence (inv_domain ivc) (inv_id ivc) (events d);
          new = \<lparr>evt_domain = inv_domain ivc, evt_invocation_id = inv_id ivc,
             evt_id = Derived sha256 ''evt'' (inv_id ivc @ '':'' @ Sprint (int n)), evt_sequence = n,
             evt_type = eventType, evt_occurred_at = now, evt_correlation_id = inv_correlation_id ivc,
             evt_actor_id = actorID, evt_service_id = inv_service_id ivc,
             evt_revision_id = inv_revision_id ivc, evt_payload = payload\<rparr>
      in if \<exists>r \<in> set (events d). evt_id r = evt_id new \<or> evt_key r = evt_key new
         then Inl (errors_New ''persist invocation event'')
         else Inr (d\<lparr>events := events d @ [new]\<rparr>))"

section \<open>Reads inside a transaction\<close>

definition getRevisionForUpdate :: "string \<Rightarrow> string \<Rightarrow> db \<Rightarrow> revision_row result" where
  "getRevisionForUpdate isolationDomainID revisionID d =
     (case sql_select (\<lambda>r. rev_domain r = isolationDomainID \<and> rev_id r = revisionID) (revisions d) of
        None \<Rightarrow> Inl (DomainError ''RESOURCE_NOT_FOUND'' ''Service revision was not found.'' False)
      | Some r \<Rightarrow> Inr r)"

definition getInvocationForUpdate :: "string \<Rightarrow> string \<Rightarrow> db \<Rightarrow> invocation_row result" where
  "getInvocationForUpdate isolationDomainID invocationID d =
     (case sql_select (\<lambda>r. inv_domain r = isolationDomainID \<and> inv_id r = invocationID) (invocations d) of
        None \<Rightarrow> Inl (DomainError ''RESOURCE_NOT_FOUND'' ''Invocation was not found.'' False)
      | Some r \<Rightarrow> Inr r)"

text \<open>The contract of an execution operation's own revision, joined through its invocation.\<close>

definition invocation_contract :: "operation_claim \<Rightarrow> db \<Rightarrow> (json_object option \<times> string) option" where
  "invocation_contract claim d =
     (case sql_select (\<lambda>o1. op_domain o1 = cl_IsolationDomainID claim \<and> op_id o1 = cl_ID claim \<and>
             op_resource_id o1 = cl_ResourceID claim) (executions d) of
        None \<Rightarrow> None
      | Some o1 \<Rightarrow>
          (case sql_select (\<lambda>i. inv_domain i = op_domain o1 \<and> inv_id i = op_resource_id o1) (invocations d) of
             None \<Rightarrow> None
           | Some i \<Rightarrow>
               map_option (\<lambda>r. (rev_output_schema r, rev_runtime_profile r))
                 (sql_select (\<lambda>r. rev_domain r = inv_domain i \<and> rev_id r = inv_revision_id i \<and>
                    rev_service_id r = inv_service_id i) (revisions d))))"

section \<open>Claiming\<close>

text \<open>The inner joins of the claim query, with the scope conditions on the joined rows.\<close>

definition resource_in_scope :: "string \<Rightarrow> string \<Rightarrow> string \<Rightarrow> string \<Rightarrow> db \<Rightarrow> op_row \<Rightarrow> bool" where
  "resource_in_scope kind serviceID revisionID runtimeProfile d op =
     (if kind = OperationKindPublication then
        (\<exists>r \<in> set (revisions d). rev_domain r = op_domain op \<and> rev_id r = op_resource_id op \<and>
           (serviceID = [] \<or> rev_service_id r = serviceID \<and> rev_id r = revisionID) \<and>
           (runtimeProfile = [] \<or> rev_runtime_profile r = runtimeProfile))
      else
        (\<exists>i \<in> set (invocations d). inv_domain i = op_domain op \<and> inv_id i = op_resource_id op \<and>
           (\<exists>r \<in> set (revisions d). rev_domain r = inv_domain i \<and> rev_service_id r = inv_service_id i \<and>
              rev_id r = inv_revision_id i \<and>
              (serviceID = [] \<or> inv_service_id i = serviceID \<and> inv_revision_id i = revisionID) \<and>
              (runtimeProfile = [] \<or> rev_runtime_profile r = runtimeProfile))))"

definition claimable ::
    "string \<Rightarrow> string list \<Rightarrow> string \<Rightarrow> string \<Rightarrow> string \<Rightarrow> string \<Rightarrow> string \<Rightarrow> int \<Rightarrow> instant \<Rightarrow> db \<Rightarrow> op_row \<Rightarrow> bool" where
  "claimable kind terminalStates isolationDomainID serviceID revisionID runtimeProfile operationID version now d op \<longleftrightarrow>
     op_observed_state op \<notin> set terminalStates \<and>
     (isolationDomainID = [] \<or> op_domain op = isolationDomainID) \<and>
     (operationID = [] \<or> op_id op = operationID) \<and>
     (version = 0 \<or> op_version op = version) \<and>
     resource_in_scope kind serviceID revisionID runtimeProfile d op \<and>
     (op_command op \<noteq> ''repair'' \<or> op_effect_actor_id op \<noteq> None \<and> op_effect_correlation_id op \<noteq> None) \<and>
     op_due_at op \<le> now \<and> null_or_le (op_lease_expires_at op) now"

definition claim_order :: "op_row \<Rightarrow> instant \<times> instant \<times> string \<times> string" where
  "claim_order op = (op_due_at op, op_updated_at op, op_domain op, op_id op)"

definition domain_order :: "op_row \<Rightarrow> string \<times> instant \<times> instant \<times> string" where
  "domain_order op = (op_domain op, op_due_at op, op_updated_at op, op_id op)"

definition claim_candidate :: "op_row list \<Rightarrow> op_row option" where
  "claim_candidate eligible = first_by claim_order (distinct_on op_domain (sort_key domain_order eligible))"

definition claim_set :: "instant \<Rightarrow> string \<Rightarrow> instant \<Rightarrow> op_row \<Rightarrow> op_row" where
  "claim_set now workerID expiresAt op =
     op\<lparr>op_lease_owner := Some workerID, op_lease_token := op_lease_token op + 1,
        op_lease_expires_at := Some (if now < op_deadline_at op then min expiresAt (op_deadline_at op) else expiresAt),
        op_attempt := op_attempt op + 1, op_updated_at := now\<rparr>"

definition claim_of :: "string \<Rightarrow> string \<Rightarrow> op_row \<Rightarrow> operation_claim" where
  "claim_of kind workerID op =
     \<lparr>cl_Kind = kind, cl_IsolationDomainID = op_domain op, cl_ID = op_id op, cl_ResourceID = op_resource_id op,
      cl_Command = op_command op, cl_ObservedState = op_observed_state op, cl_StateMachineVersion = op_version op,
      cl_Attempt = op_attempt op, cl_LeaseOwner = workerID, cl_FencingToken = op_lease_token op,
      cl_DeadlineAt = op_deadline_at op, cl_LeaseExpiresAt = the (op_lease_expires_at op),
      cl_CorrelationID = coalesce_value (op_effect_correlation_id op) (op_correlation_id op),
      cl_ActorID = coalesce_value (op_effect_actor_id op) (op_actor_id op)\<rparr>"

definition claimNext ::
    "instant \<Rightarrow> instant \<Rightarrow> string \<Rightarrow> string \<Rightarrow> string \<Rightarrow> string \<Rightarrow> string \<Rightarrow> string \<Rightarrow> duration \<Rightarrow> string \<Rightarrow> int \<Rightarrow> db \<Rightarrow>
     operation_claim option result \<times> db" where
  "claimNext worker_now clock kind isolationDomainID serviceID revisionID runtimeProfile workerID leaseDuration operationID version d =
     (case operationTable kind of
        Inl e \<Rightarrow> (Inl e, d)
      | Inr terminalStates \<Rightarrow>
          (let now = (if operationID \<noteq> [] then clock else worker_now);
               rows = table_of kind d;
               eligible = filter (claimable kind terminalStates isolationDomainID serviceID revisionID
                                    runtimeProfile operationID version now d) rows
           in case claim_candidate eligible of
                None \<Rightarrow> (Inr None, d)
              | Some c \<Rightarrow>
                  (let p = (\<lambda>op. op_key op = op_key c \<and> null_or_le (op_lease_expires_at op) now);
                       f = claim_set now workerID (now + leaseDuration)
                   in case sql_select p rows of
                        None \<Rightarrow> (Inr None, d)
                      | Some op \<Rightarrow> (Inr (Some (claim_of kind workerID (f op))), put_table kind (sql_update p f rows) d))))"

definition ClaimNext ::
    "instant \<Rightarrow> instant \<Rightarrow> string \<Rightarrow> string \<Rightarrow> duration \<Rightarrow> db \<Rightarrow> operation_claim option result \<times> db" where
  "ClaimNext now clock kind workerID leaseDuration =
     claimNext now clock kind [] [] [] [] workerID leaseDuration [] 0"

definition ClaimNextInIsolationDomain ::
    "instant \<Rightarrow> instant \<Rightarrow> string \<Rightarrow> string \<Rightarrow> string \<Rightarrow> duration \<Rightarrow> db \<Rightarrow> operation_claim option result \<times> db" where
  "ClaimNextInIsolationDomain now clock kind isolationDomainID workerID leaseDuration d =
     (if isolationDomainID = [] then (Inl (errors_New ''isolation-scoped claim requires a domain''), d)
      else claimNext now clock kind isolationDomainID [] [] [] workerID leaseDuration [] 0 d)"

definition ClaimNextForServiceRevision ::
    "instant \<Rightarrow> instant \<Rightarrow> string \<Rightarrow> string \<Rightarrow> string \<Rightarrow> string \<Rightarrow> string \<Rightarrow> duration \<Rightarrow> db \<Rightarrow> operation_claim option result \<times> db" where
  "ClaimNextForServiceRevision now clock kind isolationDomainID serviceID revisionID workerID leaseDuration d =
     (if isolationDomainID = [] \<or> serviceID = [] \<or> revisionID = []
      then (Inl (errors_New ''service-revision-scoped claim requires complete scope''), d)
      else claimNext now clock kind isolationDomainID serviceID revisionID [] workerID leaseDuration [] 0 d)"

definition ClaimNextForRuntimeProfile ::
    "instant \<Rightarrow> instant \<Rightarrow> string \<Rightarrow> string \<Rightarrow> string \<Rightarrow> duration \<Rightarrow> db \<Rightarrow> operation_claim option result \<times> db" where
  "ClaimNextForRuntimeProfile now clock kind runtimeProfile workerID leaseDuration d =
     (if runtimeProfile = [] then (Inl (errors_New ''runtime-profile-scoped claim requires a profile''), d)
      else claimNext now clock kind [] [] [] runtimeProfile workerID leaseDuration [] 0 d)"

section \<open>Holding and renewing a lease\<close>

text \<open>The condition every fenced statement shares: the row of the claim, in the claimed state, under the
  claim's owner and token, and not expired.\<close>

definition lease_held :: "operation_claim \<Rightarrow> instant \<Rightarrow> op_row \<Rightarrow> bool" where
  "lease_held claim now op \<longleftrightarrow>
     op_domain op = cl_IsolationDomainID claim \<and> op_id op = cl_ID claim \<and>
     op_observed_state op = cl_ObservedState claim \<and>
     sql_eq (op_lease_owner op) (cl_LeaseOwner claim) \<and> op_lease_token op = cl_FencingToken claim \<and>
     sql_gt (op_lease_expires_at op) now"

definition renew_set :: "instant \<Rightarrow> instant \<Rightarrow> op_row \<Rightarrow> op_row" where
  "renew_set now expiresAt op =
     op\<lparr>op_lease_expires_at :=
          Some (min (op_deadline_at op)
            (case op_lease_expires_at op of None \<Rightarrow> expiresAt | Some e \<Rightarrow> max e expiresAt)),
        op_updated_at := now\<rparr>"

definition RenewLease :: "instant \<Rightarrow> operation_claim \<Rightarrow> duration \<Rightarrow> db \<Rightarrow> operation_claim result \<times> db" where
  "RenewLease now claim leaseDuration d =
     (if cl_IsolationDomainID claim = [] \<or> cl_ID claim = [] \<or> cl_Command claim = [] \<or>
         cl_ObservedState claim = [] \<or> cl_LeaseOwner claim = [] \<or> cl_FencingToken claim \<le> 0 \<or> leaseDuration \<le> 0
      then (Inl (errors_New ''complete operation claim and positive lease duration are required''), d)
      else case operationTable (cl_Kind claim) of
        Inl e \<Rightarrow> (Inl e, d)
      | Inr _ \<Rightarrow>
          if \<not> now < cl_DeadlineAt claim then (Inl (Sentinel ErrLeaseLost), d)
          else
            (let expiresAt = min (now + leaseDuration) (cl_DeadlineAt claim);
                 rows = table_of (cl_Kind claim) d;
                 p = (\<lambda>op. lease_held claim now op \<and> op_command op = cl_Command claim \<and> now < op_deadline_at op);
                 f = renew_set now expiresAt
             in case sql_select p rows of
                  None \<Rightarrow> (Inl (Sentinel ErrLeaseLost), d)
                | Some op \<Rightarrow>
                    (Inr (claim\<lparr>cl_LeaseExpiresAt := the (op_lease_expires_at (f op))\<rparr>),
                     put_table (cl_Kind claim) (sql_update p f rows) d)))"

section \<open>Advancing\<close>

text \<open>The two revalidations before the transition: they may turn it into a failure.\<close>

definition revalidate ::
    "schema_lib \<Rightarrow> operation_claim \<Rightarrow> string \<Rightarrow> json_object option \<Rightarrow> api_error option \<Rightarrow> db \<Rightarrow>
     (string \<times> json_object option \<times> api_error option) result" where
  "revalidate lib claim nextState terminalResult failure d =
     (let failing = (\<lambda>problem.
            case validateTransition (cl_Kind claim) (cl_ObservedState claim) ''failed'' of
              Some e \<Rightarrow> Inl e
            | None \<Rightarrow> Inr (''failed'', None, Some (problem\<lparr>ErrCorrelationID := cl_CorrelationID claim\<rparr>)))
      in if cl_Kind claim = OperationKindPublication \<and> nextState \<noteq> ''failed'' \<and> nextState \<noteq> ''cancelled'' then
           (case getRevisionForUpdate (cl_IsolationDomainID claim) (cl_ResourceID claim) d of
              Inl e \<Rightarrow> Inl e
            | Inr revision \<Rightarrow>
                (case ValidateRevisionSchemas lib (rev_input_schema revision) (rev_output_schema revision) of
                   Some problem \<Rightarrow> failing problem
                 | None \<Rightarrow> Inr (nextState, terminalResult, failure)))
         else if cl_Kind claim = OperationKindInvocation \<and> nextState = ''succeeded'' then
           (case invocation_contract claim d of
              None \<Rightarrow> Inl (Errorf ''read invocation output contract'' [Sentinel ErrNoRows])
            | Some (schema, runtimeProfile) \<Rightarrow>
                if runtimeProfile = ''reference/v1'' then
                  (case ValidateInvocationOutput lib schema terminalResult of
                     Some problem \<Rightarrow> failing problem
                   | None \<Rightarrow> Inr (nextState, terminalResult, failure))
                else Inr (nextState, terminalResult, failure))
         else Inr (nextState, terminalResult, failure))"

definition development_guard :: "string \<Rightarrow> string \<Rightarrow> instant \<Rightarrow> op_row \<Rightarrow> bool" where
  "development_guard kind nextState clock op \<longleftrightarrow>
     (kind \<noteq> OperationKindPublication \<or> op_version op \<notin> {3, 4, 5} \<or>
      nextState \<in> {''validating'', ''failed'', ''cancelled''}) \<and>
     (kind \<noteq> OperationKindPublication \<or> op_version op \<notin> {3, 4, 5} \<or>
      sql_gt (op_lease_expires_at op) clock \<and>
      (nextState \<in> {''failed'', ''cancelled''} \<or> clock < op_deadline_at op))"

definition advance_where :: "operation_claim \<Rightarrow> string \<Rightarrow> instant \<Rightarrow> instant \<Rightarrow> op_row \<Rightarrow> bool" where
  "advance_where claim nextState now clock op \<longleftrightarrow>
     lease_held claim now op \<and> development_guard (cl_Kind claim) nextState clock op"

definition advance_set :: "string \<Rightarrow> json_object option \<Rightarrow> api_error option \<Rightarrow> instant \<Rightarrow> op_row \<Rightarrow> op_row" where
  "advance_set nextState terminalResult failure now op =
     op\<lparr>op_observed_state := nextState, op_generation := op_generation op + 1,
        op_terminal_result := coalesce terminalResult (op_terminal_result op),
        op_error_classification :=
          (if nextState = ''failed'' then Some ''terminal''
           else if nextState = ''cancelled'' then Some ''cancelled'' else op_error_classification op),
        op_error := coalesce failure (op_error op), op_due_at := now,
        op_lease_owner := None, op_lease_expires_at := None,
        op_last_transition_at := now, op_updated_at := now\<rparr>"

definition publish_set :: "instant \<Rightarrow> revision_row \<Rightarrow> revision_row" where
  "publish_set now r =
     r\<lparr>rev_state := ''published'', rev_published_at := Some now, rev_generation := rev_generation r + 1,
       rev_version := rev_version r + 1, rev_updated_at := now\<rparr>"

definition resource_set ::
    "string \<Rightarrow> json_object option \<Rightarrow> api_error option \<Rightarrow> instant \<Rightarrow> invocation_row \<Rightarrow> invocation_row" where
  "resource_set resourceState terminalResult failure now i =
     i\<lparr>inv_state := resourceState, inv_result := coalesce terminalResult (inv_result i),
       inv_error := coalesce failure (inv_error i),
       inv_completed_at := (if resourceState \<in> {''succeeded'', ''failed'', ''cancelled''}
                            then Some now else inv_completed_at i),
       inv_generation := inv_generation i + 1, inv_version := inv_version i + 1, inv_updated_at := now\<rparr>"

definition updateResourceForTransition ::
    "(string \<Rightarrow> string) \<Rightarrow> operation_claim \<Rightarrow> string \<Rightarrow> json_object option \<Rightarrow> api_error option \<Rightarrow> instant \<Rightarrow> db \<Rightarrow> db result" where
  "updateResourceForTransition sha256 claim nextState terminalResult failure now d =
     (if cl_Kind claim = OperationKindPublication then
        if nextState \<noteq> ''published'' then Inr d
        else Inr (d\<lparr>revisions := sql_update
               (\<lambda>r. rev_domain r = cl_IsolationDomainID claim \<and> rev_id r = cl_ResourceID claim \<and> rev_state r = ''draft'')
               (publish_set now)
               (revisions d)\<rparr>)
      else if cl_Kind claim = OperationKindInvocation then
        (let resourceState = invocationResourceState nextState
         in if resourceState = '''' then Inr d
            else
              (let d1 = d\<lparr>invocations := sql_update
                     (\<lambda>i. inv_domain i = cl_IsolationDomainID claim \<and> inv_id i = cl_ResourceID claim)
                     (resource_set resourceState terminalResult failure now)
                     (invocations d)\<rparr>
               in case getInvocationForUpdate (cl_IsolationDomainID claim) (cl_ResourceID claim) d1 of
                    Inl e \<Rightarrow> Inl e
                  | Inr ivc \<Rightarrow>
                      writeInvocationEvent sha256 ivc (''lifecycle.'' @ resourceState) (cl_ActorID claim)
                        [(''state'', JStr resourceState)] now d1))
      else Inr d)"

definition advance ::
    "schema_lib \<Rightarrow> (string \<Rightarrow> string) \<Rightarrow> instant \<Rightarrow> instant \<Rightarrow> operation_claim \<Rightarrow> string \<Rightarrow> json_object option \<Rightarrow>
     api_error option \<Rightarrow> db \<Rightarrow> go_error option \<times> db" where
  "advance lib sha256 now clock claim nextState0 terminalResult0 failure0 d =
     (case validateTransition (cl_Kind claim) (cl_ObservedState claim) nextState0 of
        Some e \<Rightarrow> (Some e, d)
      | None \<Rightarrow>
        if (nextState0 = ''failed'') \<noteq> (failure0 \<noteq> None)
        then (Some (errors_New ''failed transitions require exactly one bounded failure reason''), d)
        else case operationTable (cl_Kind claim) of
          Inl e \<Rightarrow> (Some e, d)
        | Inr _ \<Rightarrow>
          (case revalidate lib claim nextState0 terminalResult0 failure0 d of
             Inl e \<Rightarrow> (Some e, d)
           | Inr (nextState, terminalResult, failure) \<Rightarrow>
               (let rows = table_of (cl_Kind claim) d; p = advance_where claim nextState now clock
                in if rows_affected p rows \<noteq> 1 then (Some (Sentinel ErrLeaseLost), d)
                   else case updateResourceForTransition sha256 claim nextState terminalResult failure now
                               (put_table (cl_Kind claim)
                                  (sql_update p (advance_set nextState terminalResult failure now) rows) d) of
                     Inl e \<Rightarrow> (Some e, d)
                   | Inr d2 \<Rightarrow>
                       (None, writeOutboxAndAudit sha256 (cl_IsolationDomainID claim) (cl_Kind claim) (cl_ID claim)
                          (cl_Kind claim @ ''.'' @ nextState) (cl_ActorID claim) (cl_CorrelationID claim)
                          (transitionOutcome nextState) (cl_ID claim) now d2))))"

definition Fail ::
    "schema_lib \<Rightarrow> (string \<Rightarrow> string) \<Rightarrow> instant \<Rightarrow> instant \<Rightarrow> operation_claim \<Rightarrow> failure_reason \<Rightarrow> db \<Rightarrow> go_error option \<times> db" where
  "Fail lib sha256 now clock claim reason d =
     (case operationFailure reason (cl_CorrelationID claim) of
        Inl e \<Rightarrow> (Some e, d)
      | Inr failure \<Rightarrow> advance lib sha256 now clock claim ''failed'' None (Some failure) d)"

definition Advance ::
    "schema_lib \<Rightarrow> (string \<Rightarrow> string) \<Rightarrow> instant \<Rightarrow> instant \<Rightarrow> operation_claim \<Rightarrow> string \<Rightarrow> json_object option \<Rightarrow> db \<Rightarrow>
     go_error option \<times> db" where
  "Advance lib sha256 now clock claim nextState terminalResult d =
     (if nextState = ''failed'' then Fail lib sha256 now clock claim OperationFailureDeadline d
      else advance lib sha256 now clock claim nextState terminalResult None d)"

definition retry_set :: "instant \<Rightarrow> operation_claim \<Rightarrow> string \<Rightarrow> string \<Rightarrow> instant \<Rightarrow> op_row \<Rightarrow> op_row" where
  "retry_set now claim classification errorCode dueAt op =
     op\<lparr>op_error_classification := Some classification,
        op_error := Some \<lparr>Code = errorCode, Message = ''The operation will be reconciled again.'',
                         ErrCorrelationID = cl_CorrelationID claim, Retryable = True\<rparr>,
        op_due_at := dueAt, op_lease_owner := None, op_lease_expires_at := None, op_updated_at := now\<rparr>"

definition ScheduleRetry ::
    "(string \<Rightarrow> string) \<Rightarrow> instant \<Rightarrow> operation_claim \<Rightarrow> string \<Rightarrow> string \<Rightarrow> instant \<Rightarrow> db \<Rightarrow> go_error option \<times> db" where
  "ScheduleRetry sha256 now claim classification errorCode dueAt d =
     (case operationTable (cl_Kind claim) of
        Inl e \<Rightarrow> (Some e, d)
      | Inr _ \<Rightarrow>
          if classification \<noteq> ''retryable'' \<and> classification \<noteq> ''unknown''
          then (Some (errors_New ''classification cannot schedule a retry''), d)
          else
            (let rows = table_of (cl_Kind claim) d; p = lease_held claim now;
                 f = retry_set now claim classification errorCode dueAt
             in if rows_affected p rows \<noteq> 1 then (Some (Sentinel ErrLeaseLost), d)
                else (None, writeOutboxAndAudit sha256 (cl_IsolationDomainID claim) (cl_Kind claim) (cl_ID claim)
                        (cl_Kind claim @ ''.retry-scheduled'') (cl_ActorID claim) (cl_CorrelationID claim)
                        ''accepted'' (cl_ID claim) now (put_table (cl_Kind claim) (sql_update p f rows) d))))"

section \<open>External effects\<close>

definition effect_id :: "(string \<Rightarrow> string) \<Rightarrow> operation_claim \<Rightarrow> string \<Rightarrow> string" where
  "effect_id sha256 claim phase =
     Derived sha256 ''eff'' (cl_IsolationDomainID claim @ '':'' @ cl_Kind claim @ '':'' @ cl_ID claim @ '':'' @ phase)"

definition new_effect :: "(string \<Rightarrow> string) \<Rightarrow> operation_claim \<Rightarrow> string \<Rightarrow> string \<Rightarrow> effect_row" where
  "new_effect sha256 claim phase requestDigest =
     \<lparr>eff_domain = cl_IsolationDomainID claim, eff_id = effect_id sha256 claim phase, eff_operation_kind = cl_Kind claim,
      eff_operation_id = cl_ID claim, eff_phase = phase, eff_request_digest = requestDigest,
      eff_status = ''prepared'', eff_attempt = 0, eff_observation = None, eff_last_error_code = None\<rparr>"

definition getEffect :: "string \<Rightarrow> string \<Rightarrow> db \<Rightarrow> effect_row result" where
  "getEffect isolationDomainID effectID d =
     (case sql_select (\<lambda>e. eff_domain e = isolationDomainID \<and> eff_id e = effectID) (effects d) of
        None \<Rightarrow> Inl (Sentinel ErrNoRows)
      | Some e \<Rightarrow> Inr e)"

definition PrepareEffect ::
    "(string \<Rightarrow> string) \<Rightarrow> instant \<Rightarrow> operation_claim \<Rightarrow> string \<Rightarrow> string \<Rightarrow> db \<Rightarrow> effect_row result \<times> db" where
  "PrepareEffect sha256 now claim phase requestDigest d =
     (case operationTable (cl_Kind claim) of
        Inl e \<Rightarrow> (Inl e, d)
      | Inr _ \<Rightarrow>
          (case sql_select (\<lambda>op. lease_held claim now op \<and> op_command op = cl_Command claim) (table_of (cl_Kind claim) d) of
             None \<Rightarrow> (Inl (Sentinel ErrLeaseLost), d)
           | Some _ \<Rightarrow>
               (let effectID = effect_id sha256 claim phase;
                    d1 = d\<lparr>effects := fst (insert_on_conflict_nothing (\<lambda>new r. eff_key r = eff_key new)
                      (new_effect sha256 claim phase requestDigest)
                      (effects d))\<rparr>
                in case getEffect (cl_IsolationDomainID claim) effectID d1 of
                     Inl e \<Rightarrow> (Inl e, d)
                   | Inr effect \<Rightarrow>
                       if eff_request_digest effect \<noteq> requestDigest
                       then (Inl (DomainError ''EXTERNAL_EFFECT_CONFLICT''
                                   ''External effect identifier was reused with a different request.'' False), d)
                       else (Inr effect, d1))))"

definition RecordEffect ::
    "effect_row \<Rightarrow> string \<Rightarrow> json_object option \<Rightarrow> string \<Rightarrow> db \<Rightarrow> go_error option \<times> db" where
  "RecordEffect effect status observation errorCode d =
     (if status \<noteq> ''unknown'' \<and> status \<noteq> ''succeeded'' \<and> status \<noteq> ''failed''
      then (Some (errors_New ''invalid effect status''), d)
      else
        (let p = (\<lambda>e. eff_domain e = eff_domain effect \<and> eff_id e = eff_id effect);
             f = (\<lambda>e. e\<lparr>eff_status := status, eff_observation := observation,
                       eff_last_error_code := (if errorCode = [] then None else Some errorCode),
                       eff_attempt := eff_attempt e + 1\<rparr>)
         in if rows_affected p (effects d) \<noteq> 1 then (Some (Sentinel ErrNoRows), d)
            else (None, d\<lparr>effects := sql_update p f (effects d)\<rparr>)))"

section \<open>Repair\<close>

text \<open>The state of the revision a failed operation acts on, with the state it must have.\<close>

definition repair_revision_state :: "string \<Rightarrow> string \<Rightarrow> string \<Rightarrow> db \<Rightarrow> string option" where
  "repair_revision_state kind domainID operationID d =
     (case sql_select (\<lambda>o1. op_domain o1 = domainID \<and> op_id o1 = operationID \<and> op_observed_state o1 = ''failed'')
             (table_of kind d) of
        None \<Rightarrow> None
      | Some o1 \<Rightarrow>
          if kind = OperationKindPublication then
            map_option rev_state
              (sql_select (\<lambda>r. rev_domain r = op_domain o1 \<and> rev_id r = op_resource_id o1) (revisions d))
          else
            (case sql_select (\<lambda>i. inv_domain i = op_domain o1 \<and> inv_id i = op_resource_id o1) (invocations d) of
               None \<Rightarrow> None
             | Some i \<Rightarrow>
                 map_option rev_state
                   (sql_select (\<lambda>r. rev_domain r = inv_domain i \<and> rev_id r = inv_revision_id i) (revisions d))))"

definition lockRepairRevision :: "string \<Rightarrow> string \<Rightarrow> string \<Rightarrow> db \<Rightarrow> go_error option" where
  "lockRepairRevision kind domainID operationID d =
     (if kind \<noteq> OperationKindInvocation \<and> kind \<noteq> OperationKindPublication
      then Some (errors_New ''unsupported revision repair kind'')
      else
        (let expected = (if kind = OperationKindInvocation then ''published'' else ''draft'')
         in if repair_revision_state kind domainID operationID d \<noteq> Some expected
            then Some (DomainError ''OPERATION_NOT_REPAIRABLE''
                         ''The revision no longer permits this operation to be repaired.'' False)
            else None))"

definition repair_digest :: "(string \<Rightarrow> string) \<Rightarrow> string \<Rightarrow> string \<Rightarrow> string \<Rightarrow> instant \<Rightarrow> string" where
  "repair_digest sha256 kind operationID reason newDeadline =
     sha256 (kind @ '':'' @ operationID @ '':'' @ reason @ '':'' @ Format_RFC3339Nano newDeadline)"

definition repair_set :: "instant \<Rightarrow> instant \<Rightarrow> string \<Rightarrow> string \<Rightarrow> op_row \<Rightarrow> op_row" where
  "repair_set now newDeadline actorID deduplicationID op =
     op\<lparr>op_command := ''repair'', op_observed_state := ''queued'', op_generation := op_generation op + 1,
        op_due_at := now, op_deadline_at := newDeadline, op_effect_actor_id := Some actorID,
        op_effect_correlation_id := Some deduplicationID, op_error_classification := None, op_error := None,
        op_terminal_result := None, op_lease_owner := None, op_lease_expires_at := None,
        op_last_transition_at := now, op_updated_at := now\<rparr>"

definition RepairOperation ::
    "(string \<Rightarrow> string) \<Rightarrow> instant \<Rightarrow> string \<Rightarrow> string \<Rightarrow> string \<Rightarrow> string \<Rightarrow> string \<Rightarrow> string \<Rightarrow> instant \<Rightarrow> db \<Rightarrow>
     go_error option \<times> db" where
  "RepairOperation sha256 now kind isolationDomainID operationID actorID reason deduplicationID newDeadline d =
     (if actorID = [] \<or> reason = [] \<or> deduplicationID = [] \<or> \<not> now < newDeadline
      then (Some (errors_New ''repair requires actor, reason, deduplication ID, and a future deadline''), d)
      else case operationTable kind of
        Inl e \<Rightarrow> (Some e, d)
      | Inr _ \<Rightarrow>
          (let digest = repair_digest sha256 kind operationID reason newDeadline;
               new = \<lparr>inb_domain = isolationDomainID, inb_source_kind = ''command'', inb_deduplication_id = deduplicationID,
                      inb_payload_digest = digest, inb_actor_id = Some actorID, inb_result = None\<rparr>
           in case insert_on_conflict_nothing (\<lambda>new r. inb_key r = inb_key new) new (inbox d) of
                (inbox1, affected) \<Rightarrow>
                  if affected = 0 then
                    (case sql_select (\<lambda>r. inb_domain r = isolationDomainID \<and> inb_source_kind r = ''command'' \<and>
                            inb_deduplication_id r = deduplicationID) (inbox d) of
                       None \<Rightarrow> (Some (Errorf ''read repair replay'' [Sentinel ErrNoRows]), d)
                     | Some existing \<Rightarrow>
                         if inb_payload_digest existing \<noteq> digest \<or> inb_actor_id existing \<noteq> Some actorID
                         then (Some (DomainError ''IDEMPOTENCY_KEY_REUSED''
                                      ''Repair deduplication ID was reused with different content.'' False), d)
                         else (None, d))
                  else
                    (case lockRepairRevision kind isolationDomainID operationID d of
                       Some e \<Rightarrow> (Some e, d)
                     | None \<Rightarrow>
                         (let rows = table_of kind d;
                              p = (\<lambda>op. op_domain op = isolationDomainID \<and> op_id op = operationID \<and>
                                       op_observed_state op = ''failed'')
                          in if rows_affected p rows \<noteq> 1
                             then (Some (DomainError ''OPERATION_NOT_REPAIRABLE''
                                          ''Only a failed operation can be repaired.'' False), d)
                             else (None,
                               writeOutboxAndAudit sha256 isolationDomainID kind operationID (kind @ ''.repair-accepted'')
                                 actorID deduplicationID ''accepted'' operationID now
                                 (put_table kind (sql_update p (repair_set now newDeadline actorID deduplicationID) rows)
                                    (d\<lparr>inbox := inbox1\<rparr>)))))))"

section \<open>Frames\<close>

lemma operationTable_cases:
  "operationTable kind = Inr ts \<longleftrightarrow>
   kind = OperationKindPublication \<and> ts = [''published'', ''failed'', ''cancelled''] \<or>
   kind = OperationKindInvocation \<and> ts = [''succeeded'', ''failed'', ''cancelled'', ''waiting'']"
  by (auto simp: operationTable_def)

lemma table_of_put_table [simp]: "table_of kind (put_table kind rows d) = rows"
  by (simp add: table_of_def put_table_def)

lemma put_table_publications:
  "publications (put_table kind rows d) = (if kind = OperationKindPublication then rows else publications d)"
  by (simp add: put_table_def)

lemma put_table_executions:
  "executions (put_table kind rows d) = (if kind = OperationKindPublication then executions d else rows)"
  by (simp add: put_table_def)

lemma put_table_frame [simp, frame_simps]:
  "workspaces (put_table kind rows d) = workspaces d" "services (put_table kind rows d) = services d"
  "revisions (put_table kind rows d) = revisions d" "aliases (put_table kind rows d) = aliases d"
  "invocations (put_table kind rows d) = invocations d" "effects (put_table kind rows d) = effects d"
  "outbox (put_table kind rows d) = outbox d" "audit (put_table kind rows d) = audit d"
  "events (put_table kind rows d) = events d" "inbox (put_table kind rows d) = inbox d"
  "idempotency (put_table kind rows d) = idempotency d"
  by (simp_all add: put_table_def)

lemma writeOutboxAndAudit_frame [simp, frame_simps]:
  "workspaces (writeOutboxAndAudit h i rt ri et ac co ou op now d) = workspaces d"
  "services (writeOutboxAndAudit h i rt ri et ac co ou op now d) = services d"
  "revisions (writeOutboxAndAudit h i rt ri et ac co ou op now d) = revisions d"
  "aliases (writeOutboxAndAudit h i rt ri et ac co ou op now d) = aliases d"
  "invocations (writeOutboxAndAudit h i rt ri et ac co ou op now d) = invocations d"
  "publications (writeOutboxAndAudit h i rt ri et ac co ou op now d) = publications d"
  "executions (writeOutboxAndAudit h i rt ri et ac co ou op now d) = executions d"
  "effects (writeOutboxAndAudit h i rt ri et ac co ou op now d) = effects d"
  "events (writeOutboxAndAudit h i rt ri et ac co ou op now d) = events d"
  "inbox (writeOutboxAndAudit h i rt ri et ac co ou op now d) = inbox d"
  "idempotency (writeOutboxAndAudit h i rt ri et ac co ou op now d) = idempotency d"
  by (simp_all add: writeOutboxAndAudit_def)

lemma table_of_writeOutboxAndAudit [simp, frame_simps]:
  "table_of kind (writeOutboxAndAudit h i rt ri et ac co ou op now d) = table_of kind d"
  by (simp add: table_of_def)

lemma audit_writeOutboxAndAudit:
  "audit (writeOutboxAndAudit h i rt ri et ac co ou op now d) = audit d @
     [\<lparr>aud_domain = i, aud_actor_id = ac, aud_action = et, aud_resource_type = rt, aud_resource_id = ri,
       aud_outcome = ou, aud_correlation_id = co, aud_operation_id = (if op = [] then None else Some op),
       aud_occurred_at = now\<rparr>]"
  by (simp add: writeOutboxAndAudit_def)

lemma writeInvocationEvent_Inr:
  assumes "writeInvocationEvent h ivc ty ac pl now d = Inr d'"
  obtains e where "d' = d\<lparr>events := events d @ [e]\<rparr>" "evt_domain e = inv_domain ivc" "evt_invocation_id e = inv_id ivc"
    "evt_sequence e = next_sequence (inv_domain ivc) (inv_id ivc) (events d)" "evt_type e = ty"
    "\<forall>r \<in> set (events d). evt_id r \<noteq> evt_id e \<and> evt_key r \<noteq> evt_key e"
  using assms by (auto simp: writeInvocationEvent_def Let_def split: if_splits)

section \<open>What the column updates keep\<close>

lemmas op_set_defs = claim_set_def renew_set_def advance_set_def retry_set_def repair_set_def

lemma op_set_keys [simp]:
  "op_key (claim_set now w e op) = op_key op" "op_key (renew_set now e op) = op_key op"
  "op_key (advance_set ns tr f now op) = op_key op" "op_key (retry_set now c cl ec due op) = op_key op"
  "op_key (repair_set now dl ac dd op) = op_key op"
  "op_resource_key (claim_set now w e op) = op_resource_key op" "op_resource_key (renew_set now e op) = op_resource_key op"
  "op_resource_key (advance_set ns tr f now op) = op_resource_key op"
  "op_resource_key (retry_set now c cl ec due op) = op_resource_key op"
  "op_resource_key (repair_set now dl ac dd op) = op_resource_key op"
  by (simp_all add: op_set_defs key_defs)

lemma op_set_states [simp]:
  "op_observed_state (claim_set now w e op) = op_observed_state op" "op_observed_state (renew_set now e op) = op_observed_state op"
  "op_observed_state (advance_set ns tr f now op) = ns" "op_observed_state (retry_set now c cl ec due op) = op_observed_state op"
  "op_observed_state (repair_set now dl ac dd op) = ''queued''"
  by (simp_all add: op_set_defs)

lemma lease_held_key: "lease_held claim now op \<Longrightarrow> op_key op = (cl_IsolationDomainID claim, cl_ID claim)"
  by (simp add: lease_held_def op_key_def)

section \<open>Successful calls\<close>

lemma claim_candidate_first:
  assumes "unique_by op_key rows"
  shows "claim_candidate (filter P rows) = first_by claim_order (filter P rows)"
proof -
  have u: "unique_by op_key (filter P rows)"
    using assms by (auto simp: unique_by_def distinct_map_filter)
  have "unique_by domain_order (filter P rows)" "unique_by claim_order (filter P rows)"
    using u by (auto simp: unique_by_def distinct_map inj_on_def key_defs domain_order_def claim_order_def)
  then show ?thesis unfolding claim_candidate_def
    by (rule first_by_distinct_on) (auto simp: domain_order_def claim_order_def)
qed

text \<open>The claim query takes the least eligible row in the order of due time, update time, domain and id.\<close>

lemma claimNext_eq:
  assumes u: "unique_by op_key (table_of kind d)" and ts: "operationTable kind = Inr ts"
    and now: "now = (if oid \<noteq> [] then clock else wn)"
  shows "claimNext wn clock kind i s r rp w dur oid v d =
    (case first_by claim_order (filter (claimable kind ts i s r rp oid v now d) (table_of kind d)) of
       None \<Rightarrow> (Inr None, d)
     | Some op \<Rightarrow> (Inr (Some (claim_of kind w (claim_set now w (now + dur) op))),
         put_table kind (sql_update (\<lambda>r. op_key r = op_key op) (claim_set now w (now + dur)) (table_of kind d)) d))"
    (is "_ = (case first_by claim_order ?el of None \<Rightarrow> _ | Some op \<Rightarrow> ?res op)")
proof (cases "first_by claim_order ?el")
  case None
  then show ?thesis
    by (simp add: claimNext_def ts now [symmetric] Let_def claim_candidate_first [OF u] del: first_by_None)
next
  case (Some op)
  let ?p = "\<lambda>r. op_key r = op_key op \<and> null_or_le (op_lease_expires_at r) now"
  from Some have op: "op \<in> set (table_of kind d)" "null_or_le (op_lease_expires_at op) now"
    by (auto dest!: first_by_Some simp: claimable_def)
  have sel: "sql_select ?p (table_of kind d) = Some op"
    by (rule sql_select_unique [OF u, where k = "op_key op"]) (use op in auto)
  have "sql_update ?p f (table_of kind d) = sql_update (\<lambda>r. op_key r = op_key op) f (table_of kind d)" for f
    by (rule sql_update_cong) (use op unique_by_eq [OF u] in blast)
  with sel Some show ?thesis
    by (simp add: claimNext_def ts now [symmetric] Let_def claim_candidate_first [OF u])
qed

lemma claimNext_SomeE:
  assumes "claimNext wn clock kind i s r rp w dur oid v d = (Inr (Some c), d')" and "unique_by op_key (table_of kind d)"
  obtains ts op now where "operationTable kind = Inr ts" "op \<in> set (table_of kind d)"
    "claimable kind ts i s r rp oid v now d op" "c = claim_of kind w (claim_set now w (now + dur) op)"
    "d' = put_table kind (sql_update (\<lambda>r. op_key r = op_key op) (claim_set now w (now + dur)) (table_of kind d)) d"
proof -
  from assms(1) obtain ts where ts: "operationTable kind = Inr ts"
    by (auto simp: claimNext_def split: sum.splits)
  show ?thesis
    using assms(1) that [OF ts] unfolding claimNext_eq [OF assms(2) ts refl]
    by (auto split: option.splits dest!: first_by_Some)
qed

lemma claimNext_not_Some:
  "claimNext wn clock kind i s r rp w dur oid v d = (res, d') \<Longrightarrow> (\<forall>c. res \<noteq> Inr (Some c)) \<Longrightarrow> d' = d"
  by (auto simp: claimNext_def Let_def split: sum.splits option.splits)

lemma RenewLease_InrE:
  assumes "RenewLease now c dur d = (Inr c', d')"
  obtains op ts where "operationTable (cl_Kind c) = Inr ts" "op \<in> set (table_of (cl_Kind c) d)" "lease_held c now op"
    "now < op_deadline_at op" "c' = c\<lparr>cl_LeaseExpiresAt := the (op_lease_expires_at (renew_set now (min (now + dur) (cl_DeadlineAt c)) op))\<rparr>"
    "d' = put_table (cl_Kind c) (sql_update (\<lambda>op. lease_held c now op \<and> op_command op = cl_Command c \<and> now < op_deadline_at op)
            (renew_set now (min (now + dur) (cl_DeadlineAt c))) (table_of (cl_Kind c) d)) d"
  using assms by (auto simp: RenewLease_def Let_def split: if_splits sum.splits option.splits dest!: sql_select_Some)

lemma advance_NoneE:
  assumes "advance lib h now clock c ns0 tr0 f0 d = (None, d')"
  obtains ns tr f d2 ts where "operationTable (cl_Kind c) = Inr ts"
    "validateTransition (cl_Kind c) (cl_ObservedState c) ns0 = None" "(ns0 = ''failed'') = (f0 \<noteq> None)"
    "revalidate lib c ns0 tr0 f0 d = Inr (ns, tr, f)"
    "rows_affected (advance_where c ns now clock) (table_of (cl_Kind c) d) = 1"
    "updateResourceForTransition h c ns tr f now
       (put_table (cl_Kind c) (sql_update (advance_where c ns now clock) (advance_set ns tr f now) (table_of (cl_Kind c) d)) d) = Inr d2"
    "d' = writeOutboxAndAudit h (cl_IsolationDomainID c) (cl_Kind c) (cl_ID c) (cl_Kind c @ ''.'' @ ns) (cl_ActorID c)
            (cl_CorrelationID c) (transitionOutcome ns) (cl_ID c) now d2"
  using assms by (auto simp: advance_def Let_def split: option.splits if_splits sum.splits)

lemma advance_Some: "advance lib h now clock c ns tr f d = (Some e, d') \<Longrightarrow> d' = d"
  by (auto simp: advance_def Let_def split: option.splits if_splits sum.splits)

lemma revalidate_transition:
  assumes "revalidate lib c ns0 tr0 f0 d = Inr (ns, tr, f)"
    and "validateTransition (cl_Kind c) (cl_ObservedState c) ns0 = None"
  shows "validateTransition (cl_Kind c) (cl_ObservedState c) ns = None \<and> (ns = ns0 \<or> ns = ''failed'')"
  using assms by (auto simp: revalidate_def Let_def split: if_splits option.splits sum.splits)

lemma ScheduleRetry_NoneE:
  assumes "ScheduleRetry h now c cl ec due d = (None, d')"
  obtains ts where "operationTable (cl_Kind c) = Inr ts"
    "rows_affected (lease_held c now) (table_of (cl_Kind c) d) = 1"
    "d' = writeOutboxAndAudit h (cl_IsolationDomainID c) (cl_Kind c) (cl_ID c) (cl_Kind c @ ''.retry-scheduled'') (cl_ActorID c)
       (cl_CorrelationID c) ''accepted'' (cl_ID c) now
       (put_table (cl_Kind c) (sql_update (lease_held c now) (retry_set now c cl ec due) (table_of (cl_Kind c) d)) d)"
  using assms by (auto simp: ScheduleRetry_def Let_def split: if_splits sum.splits)

lemma getEffect_Inr: "getEffect i eid d = Inr e \<Longrightarrow> e \<in> set (effects d) \<and> eff_key e = (i, eid)"
  by (auto simp: getEffect_def key_defs split: option.splits dest!: sql_select_Some)

lemma PrepareEffect_InrE:
  assumes "PrepareEffect h now c phase dg d = (Inr e, d')"
  obtains ts op new where "operationTable (cl_Kind c) = Inr ts" "op \<in> set (table_of (cl_Kind c) d)" "lease_held c now op"
    "d' = d\<lparr>effects := effects d @ new\<rparr>" "e \<in> set (effects d')" "eff_key e = (cl_IsolationDomainID c, effect_id h c phase)"
    "eff_request_digest e = dg"
    "new = [] \<or> new = [new_effect h c phase dg] \<and> (\<forall>r \<in> set (effects d). eff_key r \<noteq> eff_key (new_effect h c phase dg))"
proof -
  from assms obtain ts op where ts: "operationTable (cl_Kind c) = Inr ts"
      and op: "sql_select (\<lambda>op. lease_held c now op \<and> op_command op = cl_Command c) (table_of (cl_Kind c) d) = Some op"
    by (auto simp: PrepareEffect_def split: sum.splits option.splits)
  define new where "new = (if \<exists>r \<in> set (effects d). eff_key r = eff_key (new_effect h c phase dg) then [] else [new_effect h c phase dg])"
  have ins: "fst (insert_on_conflict_nothing (\<lambda>new r. eff_key r = eff_key new) (new_effect h c phase dg) (effects d)) = effects d @ new"
    by (simp add: insert_on_conflict_nothing_def new_def)
  note eq = assms [unfolded PrepareEffect_def Let_def ts op ins, simplified]
  from eq have "getEffect (cl_IsolationDomainID c) (effect_id h c phase) (d\<lparr>effects := effects d @ new\<rparr>) = Inr e"
      and d': "d' = d\<lparr>effects := effects d @ new\<rparr>" and "eff_request_digest e = dg"
    by (auto split: sum.splits if_splits)
  moreover have "new = [] \<or> new = [new_effect h c phase dg] \<and> (\<forall>r \<in> set (effects d). eff_key r \<noteq> eff_key (new_effect h c phase dg))"
    by (auto simp: new_def)
  ultimately show ?thesis
    using ts sql_select_Some [OF op] by (intro that [of ts op new]) (auto dest!: getEffect_Inr)
qed

lemma PrepareEffect_Inl: "PrepareEffect h now c phase dg d = (Inl e, d') \<Longrightarrow> d' = d"
  by (auto simp: PrepareEffect_def Let_def split: sum.splits option.splits if_splits)

lemma RecordEffect_NoneE:
  assumes "RecordEffect e st ob ec d = (None, d')"
  obtains f where "d' = d\<lparr>effects := sql_update (\<lambda>r. eff_domain r = eff_domain e \<and> eff_id r = eff_id e) f (effects d)\<rparr>"
    "\<And>r. eff_key (f r) = eff_key r"
  using assms
  by (auto simp: RecordEffect_def Let_def key_defs split: if_splits)

lemma lockRepairRevision_None:
  "lockRepairRevision kind i oid d = None \<longleftrightarrow>
   (kind = OperationKindInvocation \<and> repair_revision_state kind i oid d = Some ''published'' \<or>
    kind = OperationKindPublication \<and> repair_revision_state kind i oid d = Some ''draft'')"
  by (auto simp: lockRepairRevision_def Let_def)

lemma RepairOperation_Some: "RepairOperation h now kind i oid ac rs dd dl d = (Some e, d') \<Longrightarrow> d' = d"
  by (auto simp: RepairOperation_def Let_def split: if_splits sum.splits option.splits prod.splits)

lemma RepairOperation_NoneE:
  assumes "RepairOperation h now kind i oid ac rs dd dl d = (None, d')"
  obtains (replay) "d' = d"
    | (fresh) ts row where "operationTable kind = Inr ts" "now < dl" "lockRepairRevision kind i oid d = None"
        "\<forall>r \<in> set (inbox d). inb_key r \<noteq> inb_key row"
        "rows_affected (\<lambda>op. op_domain op = i \<and> op_id op = oid \<and> op_observed_state op = ''failed'') (table_of kind d) = 1"
        "d' = writeOutboxAndAudit h i kind oid (kind @ ''.repair-accepted'') ac dd ''accepted'' oid now
           (put_table kind (sql_update (\<lambda>op. op_domain op = i \<and> op_id op = oid \<and> op_observed_state op = ''failed'')
              (repair_set now dl ac dd) (table_of kind d)) (d\<lparr>inbox := inbox d @ [row]\<rparr>))"
        "inb_domain row = i"
proof -
  define row where "row = \<lparr>inb_domain = i, inb_source_kind = ''command'', inb_deduplication_id = dd,
    inb_payload_digest = repair_digest h kind oid rs dl, inb_actor_id = Some ac, inb_result = None\<rparr>"
  from assms obtain ts where ts: "operationTable kind = Inr ts" and dl: "now < dl"
    by (auto simp: RepairOperation_def split: if_splits sum.splits)
  note eq = assms [unfolded RepairOperation_def Let_def, folded row_def, unfolded insert_on_conflict_nothing_def ts, simplified]
  show ?thesis
  proof (cases "\<exists>r \<in> set (inbox d). inb_key r = inb_key row")
    case True
    with eq have "d' = d" by (auto split: if_splits option.splits)
    then show ?thesis by (rule replay)
  next
    case False
    moreover have "inb_domain row = i" by (simp add: row_def)
    ultimately show ?thesis using eq by (intro fresh [OF ts dl]) (auto split: if_splits option.splits)
  qed
qed

end
