(* ===== verification/Commands.thy ===== *)
theory Commands
  imports Operations Go_Text
begin

text \<open>
  The commands of the control plane, \<open>src/internal/persistence/repository.go\<close>, \<open>revision_retirement.go\<close>
  and \<open>alias_withdrawal.go\<close>. A command runs inside \<open>execute\<close>, which reserves the caller's idempotency key,
  runs the action and stores its answer in one transaction. An insertion that violates a primary key or a
  unique constraint fails, and with it the transaction; \<open>Configured\<close> is true throughout.
\<close>

record Idempotency =
  ik_IsolationDomainID :: string
  ik_Method :: string
  ik_Path :: string
  ik_Key :: string
  ik_RequestDigest :: string

record CommandResult =
  cr_Status :: nat
  cr_Body :: resource
  cr_Replayed :: bool

type_synonym action = "db \<Rightarrow> (nat \<times> resource \<times> db) result"

definition idm_of :: "Idempotency \<Rightarrow> idempotency_row" where
  "idm_of ik = \<lparr>idm_domain = ik_IsolationDomainID ik, idm_method = ik_Method ik, idm_path = ik_Path ik,
     idm_key = ik_Key ik, idm_request_digest = ik_RequestDigest ik, idm_response_status = None, idm_response_body = None\<rparr>"

definition idm_matches :: "Idempotency \<Rightarrow> idempotency_row \<Rightarrow> bool" where
  "idm_matches ik r \<longleftrightarrow> idm_domain r = ik_IsolationDomainID ik \<and> idm_method r = ik_Method ik \<and>
     idm_path r = ik_Path ik \<and> idm_key r = ik_Key ik"

definition execute :: "Idempotency \<Rightarrow> action \<Rightarrow> db \<Rightarrow> CommandResult result \<times> db" where
  "execute ik action d =
     (case insert_on_conflict_nothing (\<lambda>new r. idm_key_of r = idm_key_of new) (idm_of ik) (idempotency d) of
        (rows, affected) \<Rightarrow>
          if affected = 0 then
            (case sql_select (idm_matches ik) (idempotency d) of
               None \<Rightarrow> (Inl (Errorf ''read idempotency result'' [Sentinel ErrNoRows]), d)
             | Some r \<Rightarrow>
                 if idm_request_digest r \<noteq> ik_RequestDigest ik
                 then (Inl (DomainError ''IDEMPOTENCY_KEY_REUSED''
                              ''Idempotency key was reused with a different request.'' False), d)
                 else (case (idm_response_status r, idm_response_body r) of
                         (Some status, Some body) \<Rightarrow>
                           (Inr \<lparr>cr_Status = status, cr_Body = body, cr_Replayed = True\<rparr>, d)
                       | _ \<Rightarrow> (Inl (DomainError ''COMMAND_IN_PROGRESS''
                                     ''The original command is still being committed.'' True), d)))
          else
            (case action (d\<lparr>idempotency := rows\<rparr>) of
               Inl e \<Rightarrow> (Inl e, d)
             | Inr (status, body, d1) \<Rightarrow>
                 (Inr \<lparr>cr_Status = status, cr_Body = body, cr_Replayed = False\<rparr>,
                  d1\<lparr>idempotency := sql_update (idm_matches ik)
                        (\<lambda>r. r\<lparr>idm_response_status := Some status, idm_response_body := Some body\<rparr>)
                        (idempotency d1)\<rparr>)))"

section \<open>Services and revisions\<close>

record CreateServiceInput =
  cs_WorkspaceID :: string
  cs_ID :: string
  cs_Name :: string
  cs_Description :: string
  cs_ActorID :: string
  cs_CorrelationID :: string

definition new_service :: "instant \<Rightarrow> string \<Rightarrow> CreateServiceInput \<Rightarrow> service_row" where
  "new_service now isolationDomainID input =
     \<lparr>svc_domain = isolationDomainID, svc_id = cs_ID input, svc_name = cs_Name input,
      svc_description = cs_Description input,
      svc_workspace_id = (if cs_WorkspaceID input = [] then None else Some (cs_WorkspaceID input)),
      svc_generation = 1, svc_version = 1, svc_created_at = now, svc_updated_at = now,
      svc_created_by = cs_ActorID input\<rparr>"

definition create_service_action ::
    "(string \<Rightarrow> string) \<Rightarrow> instant \<Rightarrow> string \<Rightarrow> CreateServiceInput \<Rightarrow> action" where
  "create_service_action sha256 now isolationDomainID input d =
     (if cs_WorkspaceID input \<noteq> [] \<and> (isolationDomainID, cs_WorkspaceID input) \<notin> set (workspaces d)
      then Inl (DomainError ''RESOURCE_NOT_FOUND'' ''Workspace was not found.'' False)
      else
        (let service = new_service now isolationDomainID input
         in if \<exists>r \<in> set (services d). svc_key r = svc_key service
            then Inl (errors_New ''insert agent service'')
            else Inr (201, RService service,
              writeOutboxAndAudit sha256 isolationDomainID ''agent-service'' (cs_ID input) ''agent-service.created''
                (cs_ActorID input) (cs_CorrelationID input) ''accepted'' [] now
                (d\<lparr>services := services d @ [service]\<rparr>))))"

definition CreateService ::
    "(string \<Rightarrow> string) \<Rightarrow> instant \<Rightarrow> Idempotency \<Rightarrow> CreateServiceInput \<Rightarrow> db \<Rightarrow> CommandResult result \<times> db" where
  "CreateService sha256 now ik input d =
     (if cs_WorkspaceID input \<noteq> [] \<and> \<not> resource_id_pattern ''wsp'' (cs_WorkspaceID input)
      then (Inl (errors_New ''service workspace is invalid''), d)
      else execute ik (create_service_action sha256 now (ik_IsolationDomainID ik) input) d)"

record CreateRevisionInput =
  cv_ID :: string
  cv_ServiceID :: string
  cv_RuntimeProfile :: string
  cv_RequiredCapabilities :: "string list"
  cv_InputSchema :: "json_object option"
  cv_OutputSchema :: "json_object option"
  cv_ActorID :: string
  cv_CorrelationID :: string

definition next_revision_number :: "string \<Rightarrow> string \<Rightarrow> revision_row list \<Rightarrow> int" where
  "next_revision_number isolationDomainID serviceID rows =
     fold max (map rev_number (filter (\<lambda>r. rev_domain r = isolationDomainID \<and> rev_service_id r = serviceID) rows)) 0 + 1"

definition new_revision :: "instant \<Rightarrow> string \<Rightarrow> CreateRevisionInput \<Rightarrow> revision_row list \<Rightarrow> revision_row" where
  "new_revision now isolationDomainID input rows =
     \<lparr>rev_domain = isolationDomainID, rev_id = cv_ID input, rev_service_id = cv_ServiceID input,
      rev_number = next_revision_number isolationDomainID (cv_ServiceID input) rows,
      rev_state = ''draft'', rev_runtime_profile = cv_RuntimeProfile input,
      rev_required_capabilities = cv_RequiredCapabilities input, rev_input_schema = cv_InputSchema input,
      rev_output_schema = cv_OutputSchema input, rev_published_at = None, rev_generation = 1,
      rev_version = 1, rev_created_at = now, rev_updated_at = now, rev_created_by = cv_ActorID input\<rparr>"

definition create_revision_action ::
    "(string \<Rightarrow> string) \<Rightarrow> instant \<Rightarrow> string \<Rightarrow> CreateRevisionInput \<Rightarrow> action" where
  "create_revision_action sha256 now isolationDomainID input d =
     (case sql_select (\<lambda>s. svc_domain s = isolationDomainID \<and> svc_id s = cv_ServiceID input) (services d) of
        None \<Rightarrow> Inl (DomainError ''RESOURCE_NOT_FOUND'' ''Agent service was not found.'' False)
      | Some _ \<Rightarrow>
          (let revision = new_revision now isolationDomainID input (revisions d)
           in if \<exists>r \<in> set (revisions d). rev_key r = rev_key revision \<or> rev_number_key r = rev_number_key revision
              then Inl (errors_New ''insert service revision'')
              else Inr (201, RRevision revision,
                writeOutboxAndAudit sha256 isolationDomainID ''service-revision'' (cv_ID input) ''service-revision.created''
                  (cv_ActorID input) (cv_CorrelationID input) ''accepted'' [] now
                  (d\<lparr>revisions := revisions d @ [revision]\<rparr>))))"

definition CreateRevision ::
    "(string \<Rightarrow> string) \<Rightarrow> instant \<Rightarrow> Idempotency \<Rightarrow> CreateRevisionInput \<Rightarrow> db \<Rightarrow> CommandResult result \<times> db" where
  "CreateRevision sha256 now ik input = execute ik (create_revision_action sha256 now (ik_IsolationDomainID ik) input)"

section \<open>Publication\<close>

definition scanOperation :: "string \<Rightarrow> op_row \<Rightarrow> operation" where
  "scanOperation kind op =
     \<lparr>opn_Kind = kind, opn_IsolationDomainID = op_domain op, opn_ID = op_id op, opn_Generation = op_generation op,
      opn_Version = op_generation op, opn_CreatedAt = op_created_at op, opn_UpdatedAt = op_updated_at op,
      opn_CreatedBy = op_actor_id op, opn_ResourceID = op_resource_id op, opn_Command = op_command op,
      opn_DesiredState = op_desired_state op, opn_ObservedState = op_observed_state op,
      opn_StateMachineVersion = op_version op, opn_Attempt = op_attempt op,
      opn_Lease = (case (op_lease_owner op, op_lease_expires_at op) of
                     (Some w, Some e) \<Rightarrow> Some \<lparr>ol_Owner = w, ol_FencingToken = op_lease_token op, ol_ExpiresAt = e\<rparr>
                   | _ \<Rightarrow> None),
      opn_DueAt = op_due_at op, opn_DeadlineAt = op_deadline_at op,
      opn_ErrorClassification = coalesce_value (op_error_classification op) [],
      opn_Error = op_error op, opn_TerminalResult = op_terminal_result op, opn_CorrelationID = op_correlation_id op\<rparr>"

definition getPublicationOperation :: "string \<Rightarrow> string \<Rightarrow> db \<Rightarrow> operation result" where
  "getPublicationOperation isolationDomainID operationID d =
     (case sql_select (\<lambda>op. op_domain op = isolationDomainID \<and> op_id op = operationID) (publications d) of
        None \<Rightarrow> Inl (Sentinel ErrNoRows)
      | Some op \<Rightarrow> Inr (scanOperation OperationKindPublication op))"

definition getInvocationOperation :: "string \<Rightarrow> string \<Rightarrow> db \<Rightarrow> operation result" where
  "getInvocationOperation isolationDomainID operationID d =
     (case sql_select (\<lambda>op. op_domain op = isolationDomainID \<and> op_id op = operationID) (executions d) of
        None \<Rightarrow> Inl (Sentinel ErrNoRows)
      | Some op \<Rightarrow> Inr (scanOperation OperationKindInvocation op))"

definition GetOperation :: "string \<Rightarrow> string \<Rightarrow> db \<Rightarrow> operation result" where
  "GetOperation isolationDomainID operationID d =
     (case getPublicationOperation isolationDomainID operationID d of
        Inr operation \<Rightarrow> Inr operation
      | Inl e \<Rightarrow> if \<not> errors_Is e ErrNoRows then Inl e else getInvocationOperation isolationDomainID operationID d)"

definition queued_operation ::
    "string \<Rightarrow> string \<Rightarrow> string \<Rightarrow> string \<Rightarrow> string \<Rightarrow> int \<Rightarrow> instant \<Rightarrow> instant \<Rightarrow> string \<Rightarrow> string \<Rightarrow> op_row" where
  "queued_operation isolationDomainID operationID resourceID command desiredState version now deadline correlationID actorID =
     \<lparr>op_domain = isolationDomainID, op_id = operationID, op_resource_id = resourceID, op_command = command,
      op_desired_state = desiredState, op_observed_state = ''queued'', op_version = version, op_generation = 1,
      op_attempt = 0, op_lease_owner = None, op_lease_token = 0, op_lease_expires_at = None, op_due_at = now,
      op_deadline_at = deadline, op_error_classification = None, op_error = None, op_terminal_result = None,
      op_correlation_id = correlationID, op_actor_id = actorID, op_effect_correlation_id = None,
      op_effect_actor_id = None, op_last_transition_at = now, op_created_at = now, op_updated_at = now\<rparr>"

record AcceptPublicationInput =
  ap_RevisionID :: string
  ap_ExpectedVersion :: int
  ap_ActorID :: string
  ap_CorrelationID :: string
  ap_Deadline :: instant

definition publication_operation_id :: "(string \<Rightarrow> string) \<Rightarrow> string \<Rightarrow> string \<Rightarrow> string" where
  "publication_operation_id sha256 isolationDomainID revisionID =
     Derived sha256 ''op'' (isolationDomainID @ '':'' @ revisionID @ '':publication:v1'')"

definition accept_publication_action ::
    "schema_lib \<Rightarrow> (string \<Rightarrow> string) \<Rightarrow> instant \<Rightarrow> string \<Rightarrow> AcceptPublicationInput \<Rightarrow> (string \<rightharpoonup> string) \<Rightarrow> action" where
  "accept_publication_action lib sha256 now isolationDomainID input supportedCapabilities d =
     (case getRevisionForUpdate isolationDomainID (ap_RevisionID input) d of
        Inl e \<Rightarrow> Inl e
      | Inr revision \<Rightarrow>
          if rev_version revision \<noteq> ap_ExpectedVersion input
          then Inl (DomainError ''VERSION_CONFLICT'' ''Revision version did not match.'' False)
          else if rev_state revision \<noteq> ''draft''
          then Inl (DomainError ''REVISION_IMMUTABLE'' ''Only a draft revision can be published.'' False)
          else if rev_runtime_profile revision \<noteq> ''reference/v1''
          then Inl (DomainError ''RUNTIME_PROFILE_UNAVAILABLE'' ''Runtime profile is unavailable.'' False)
          else if \<not> list_all (\<lambda>c. supportedCapabilities c = Some ''supported'') (rev_required_capabilities revision)
          then Inl (DomainError ''REQUIRED_CAPABILITY_UNAVAILABLE'' ''A required runtime capability is unavailable.'' False)
          else case ValidateRevisionSchemas lib (rev_input_schema revision) (rev_output_schema revision) of
            Some problem \<Rightarrow> Inl (DomainError (Code problem) (Message problem) False)
          | None \<Rightarrow>
              (let operationID = publication_operation_id sha256 isolationDomainID (ap_RevisionID input);
                   new = queued_operation isolationDomainID operationID (ap_RevisionID input) ''publish'' ''published''
                           publication_StateMachineVersion now (ap_Deadline input) (ap_CorrelationID input) (ap_ActorID input)
               in case insert_on_conflict_nothing (\<lambda>new r. op_resource_key r = op_resource_key new) new (publications d) of
                    (rows, affected) \<Rightarrow>
                      if affected \<noteq> 0 \<and> (\<exists>r \<in> set (publications d). op_key r = op_key new)
                      then Inl (errors_New ''accept service publication'')
                      else
                        (let d1 = d\<lparr>publications := rows\<rparr>
                         in case getPublicationOperation isolationDomainID operationID d1 of
                              Inl e \<Rightarrow> Inl e
                            | Inr operation \<Rightarrow>
                                Inr (202, ROperation operation,
                                  if affected > 0 then
                                    writeOutboxAndAudit sha256 isolationDomainID ''service-publication'' operationID
                                      ''service-publication.accepted'' (ap_ActorID input) (ap_CorrelationID input)
                                      ''accepted'' operationID now d1
                                  else d1))))"

definition AcceptPublication ::
    "schema_lib \<Rightarrow> (string \<Rightarrow> string) \<Rightarrow> instant \<Rightarrow> Idempotency \<Rightarrow> AcceptPublicationInput \<Rightarrow> (string \<rightharpoonup> string) \<Rightarrow> db \<Rightarrow>
     CommandResult result \<times> db" where
  "AcceptPublication lib sha256 now ik input supportedCapabilities =
     execute ik (accept_publication_action lib sha256 now (ik_IsolationDomainID ik) input supportedCapabilities)"

section \<open>Aliases\<close>

record AssignAliasInput =
  aa_ID :: string
  aa_ServiceID :: string
  aa_Name :: string
  aa_RevisionID :: string
  aa_ExpectedVersion :: "int option"
  aa_ActorID :: string
  aa_CorrelationID :: string

definition alias_named :: "string \<Rightarrow> string \<Rightarrow> string \<Rightarrow> alias_row \<Rightarrow> bool" where
  "alias_named isolationDomainID serviceID name a \<longleftrightarrow>
     als_domain a = isolationDomainID \<and> als_service_id a = serviceID \<and> als_name a = name"

definition new_alias :: "instant \<Rightarrow> string \<Rightarrow> AssignAliasInput \<Rightarrow> alias_row" where
  "new_alias now isolationDomainID input =
     \<lparr>als_domain = isolationDomainID, als_id = aa_ID input, als_service_id = aa_ServiceID input,
      als_name = aa_Name input, als_revision_id = aa_RevisionID input, als_generation = 1,
      als_version = 1, als_created_at = now, als_updated_at = now,
      als_created_by = aa_ActorID input, als_withdrawn_at = None\<rparr>"

definition assign_set :: "instant \<Rightarrow> string \<Rightarrow> alias_row \<Rightarrow> alias_row" where
  "assign_set now revisionID a =
     a\<lparr>als_revision_id := revisionID, als_withdrawn_at := None, als_generation := als_generation a + 1,
       als_version := als_version a + 1, als_updated_at := now\<rparr>"

definition assign_alias_action ::
    "(string \<Rightarrow> string) \<Rightarrow> instant \<Rightarrow> string \<Rightarrow> AssignAliasInput \<Rightarrow> action" where
  "assign_alias_action sha256 now isolationDomainID input d =
     (case sql_select (\<lambda>r. rev_domain r = isolationDomainID \<and> rev_id r = aa_RevisionID input) (revisions d) of
        None \<Rightarrow> Inl (DomainError ''RESOURCE_NOT_FOUND'' ''Published service revision was not found.'' False)
      | Some revision \<Rightarrow>
          if rev_service_id revision \<noteq> aa_ServiceID input \<or> rev_state revision \<noteq> ''published''
          then Inl (DomainError ''REVISION_NOT_PUBLISHED''
                      ''Alias target must be a published revision of this service.'' False)
          else
            (let named = alias_named isolationDomainID (aa_ServiceID input) (aa_Name input);
                 answer = (\<lambda>als d1. Inr (200, RAlias als,
                   writeOutboxAndAudit sha256 isolationDomainID ''service-alias'' (als_id als) ''service-alias.assigned''
                     (aa_ActorID input) (aa_CorrelationID input) ''accepted'' [] now d1))
             in case sql_select named (aliases d) of
                  Some als \<Rightarrow>
                    (let requiredVersion = (if als_withdrawn_at als \<noteq> None then 0 else als_version als);
                         f = assign_set now (aa_RevisionID input)
                     in if (aa_ExpectedVersion input = None \<and> requiredVersion \<noteq> 0) \<or>
                           (aa_ExpectedVersion input \<noteq> None \<and> aa_ExpectedVersion input \<noteq> Some requiredVersion)
                        then Inl (DomainError ''VERSION_CONFLICT'' ''Alias version did not match.'' False)
                        else answer (f als) (d\<lparr>aliases := sql_update named f (aliases d)\<rparr>))
                | None \<Rightarrow>
                    if aa_ExpectedVersion input \<noteq> None \<and> aa_ExpectedVersion input \<noteq> Some 0
                    then Inl (DomainError ''VERSION_CONFLICT'' ''A new alias expects version zero.'' False)
                    else
                      (let als = new_alias now isolationDomainID input
                       in if \<exists>r \<in> set (aliases d). als_id_key r = als_id_key als
                          then Inl (errors_New ''write service alias'')
                          else answer als (d\<lparr>aliases := aliases d @ [als]\<rparr>))))"

definition AssignAlias ::
    "(string \<Rightarrow> string) \<Rightarrow> instant \<Rightarrow> Idempotency \<Rightarrow> AssignAliasInput \<Rightarrow> db \<Rightarrow> CommandResult result \<times> db" where
  "AssignAlias sha256 now ik input = execute ik (assign_alias_action sha256 now (ik_IsolationDomainID ik) input)"

definition GetServiceAlias :: "string \<Rightarrow> string \<Rightarrow> string \<Rightarrow> db \<Rightarrow> alias_row result" where
  "GetServiceAlias isolationDomainID serviceID name d =
     (if isolationDomainID = [] \<or> serviceID = [] \<or> name = []
      then Inl (errors_New ''service alias read request is invalid'')
      else case sql_select (\<lambda>s. svc_domain s = isolationDomainID \<and> svc_id s = serviceID) (services d) of
        None \<Rightarrow> Inl (DomainError ''RESOURCE_NOT_FOUND'' ''Agent service was not found.'' False)
      | Some _ \<Rightarrow>
          (case sql_select (\<lambda>a. alias_named isolationDomainID serviceID name a \<and> als_withdrawn_at a = None) (aliases d) of
             None \<Rightarrow> Inl (DomainError ''SERVICE_ALIAS_NOT_FOUND'' ''Service alias was not found.'' False)
           | Some a \<Rightarrow> Inr a))"

record WithdrawAliasInput =
  wa_ServiceID :: string
  wa_Name :: string
  wa_ActorID :: string
  wa_CorrelationID :: string
  wa_ExpectedVersion :: int

definition withdraw_set :: "instant \<Rightarrow> alias_row \<Rightarrow> alias_row" where
  "withdraw_set now a =
     a\<lparr>als_withdrawn_at := Some now, als_updated_at := now, als_version := als_version a + 1,
       als_generation := als_generation a + 1\<rparr>"

definition withdraw_alias_action ::
    "(string \<Rightarrow> string) \<Rightarrow> instant \<Rightarrow> string \<Rightarrow> WithdrawAliasInput \<Rightarrow> action" where
  "withdraw_alias_action sha256 now isolationDomainID input d =
     (let named = alias_named isolationDomainID (wa_ServiceID input) (wa_Name input);
          f = withdraw_set now
      in case sql_select (\<lambda>a. named a \<and> als_withdrawn_at a = None) (aliases d) of
           None \<Rightarrow> Inl (DomainError ''RESOURCE_NOT_FOUND'' ''Service alias was not found.'' False)
         | Some als \<Rightarrow>
             if als_version als \<noteq> wa_ExpectedVersion input
             then Inl (DomainError ''VERSION_CONFLICT'' ''Alias version did not match.'' False)
             else Inr (200, RAlias (f als),
               writeOutboxAndAudit sha256 isolationDomainID ''service-alias'' (als_id als) ''service-alias.withdrawn''
                 (wa_ActorID input) (wa_CorrelationID input) ''accepted'' [] now
                 (d\<lparr>aliases := sql_update named f (aliases d)\<rparr>)))"

definition WithdrawAlias ::
    "(string \<Rightarrow> string) \<Rightarrow> instant \<Rightarrow> Idempotency \<Rightarrow> WithdrawAliasInput \<Rightarrow> db \<Rightarrow> CommandResult result \<times> db" where
  "WithdrawAlias sha256 now ik input d =
     (if wa_ExpectedVersion input < 1
      then (Inl (DomainError ''INVALID_REQUEST'' ''A positive expected alias version is required.'' False), d)
      else execute ik (withdraw_alias_action sha256 now (ik_IsolationDomainID ik) input) d)"

section \<open>Retirement\<close>

record RetireRevisionInput =
  rr_RevisionID :: string
  rr_ExpectedVersion :: int
  rr_ActorID :: string
  rr_CorrelationID :: string

definition revision_routed :: "string \<Rightarrow> string \<Rightarrow> db \<Rightarrow> bool" where
  "revision_routed isolationDomainID revisionID d \<longleftrightarrow>
     (\<exists>a \<in> set (aliases d). als_domain a = isolationDomainID \<and> als_revision_id a = revisionID \<and> als_withdrawn_at a = None)"

definition revision_active :: "string \<Rightarrow> string \<Rightarrow> db \<Rightarrow> bool" where
  "revision_active isolationDomainID revisionID d \<longleftrightarrow>
     (\<exists>i \<in> set (invocations d). inv_domain i = isolationDomainID \<and> inv_revision_id i = revisionID \<and>
        (inv_state i \<notin> {''succeeded'', ''failed'', ''cancelled''} \<or>
         (\<exists>op \<in> set (executions d). op_domain op = inv_domain i \<and> op_resource_id op = inv_id i \<and>
            op_observed_state op \<notin> {''succeeded'', ''failed'', ''cancelled''}))) \<or>
     (\<exists>op \<in> set (publications d). op_domain op = isolationDomainID \<and> op_resource_id op = revisionID \<and>
        op_observed_state op \<notin> {''published'', ''failed'', ''cancelled''})"

definition retire_set :: "instant \<Rightarrow> revision_row \<Rightarrow> revision_row" where
  "retire_set now r =
     r\<lparr>rev_state := ''retired'', rev_generation := rev_generation r + 1, rev_version := rev_version r + 1,
       rev_updated_at := now\<rparr>"

definition retire_revision_action ::
    "(string \<Rightarrow> string) \<Rightarrow> instant \<Rightarrow> string \<Rightarrow> RetireRevisionInput \<Rightarrow> action" where
  "retire_revision_action sha256 now isolationDomainID input d =
     (case getRevisionForUpdate isolationDomainID (rr_RevisionID input) d of
        Inl e \<Rightarrow> Inl e
      | Inr revision \<Rightarrow>
          if rev_version revision \<noteq> rr_ExpectedVersion input
          then Inl (DomainError ''VERSION_CONFLICT'' ''Revision version did not match.'' False)
          else if rev_state revision \<noteq> ''published''
          then Inl (DomainError ''REVISION_NOT_PUBLISHED'' ''Only a published revision can be retired.'' False)
          else if revision_routed isolationDomainID (rr_RevisionID input) d
          then Inl (DomainError ''REVISION_STILL_ROUTED''
                      ''Move or withdraw all aliases from this revision before retiring it.'' False)
          else if revision_active isolationDomainID (rr_RevisionID input) d
          then Inl (DomainError ''REVISION_STILL_ACTIVE''
                      ''Wait for all invocation and publication activity to finish before retiring this revision.'' False)
          else
            (let f = retire_set now
             in Inr (200, RRevision (f revision),
                  writeOutboxAndAudit sha256 isolationDomainID ''service-revision'' (rr_RevisionID input)
                    ''service-revision.retired'' (rr_ActorID input) (rr_CorrelationID input) ''succeeded'' [] now
                    (d\<lparr>revisions := sql_update
                        (\<lambda>r. rev_domain r = isolationDomainID \<and> rev_id r = rr_RevisionID input) f (revisions d)\<rparr>))))"

definition RetireRevision ::
    "(string \<Rightarrow> string) \<Rightarrow> instant \<Rightarrow> Idempotency \<Rightarrow> RetireRevisionInput \<Rightarrow> db \<Rightarrow> CommandResult result \<times> db" where
  "RetireRevision sha256 now ik input d =
     (if rr_ExpectedVersion input < 1 \<or> rr_ActorID input = [] \<or> rr_CorrelationID input = []
      then (Inl (errors_New ''retirement requires version and attribution''), d)
      else execute ik (retire_revision_action sha256 now (ik_IsolationDomainID ik) input) d)"

section \<open>Invocations\<close>

record InvocationDispatchTarget =
  dt_IsolationDomainID :: string
  dt_ServiceID :: string
  dt_RevisionID :: string
  dt_RuntimeProfile :: string

definition dispatch_target_Valid :: "InvocationDispatchTarget \<Rightarrow> bool" where
  "dispatch_target_Valid target \<longleftrightarrow>
     resource_id_pattern ''iso'' (dt_IsolationDomainID target) \<and> resource_id_pattern ''svc'' (dt_ServiceID target) \<and>
     resource_id_pattern ''rev'' (dt_RevisionID target) \<and> dt_RuntimeProfile target = ''codex.app-server/v1''"

definition invocationDispatchMismatch :: go_error where
  "invocationDispatchMismatch =
     DomainError ''INVOCATION_DISPATCH_TARGET_MISMATCH''
       ''Invocation target is outside the configured governed dispatch scope.'' False"

definition RequireInvocationDispatchTarget :: "InvocationDispatchTarget \<Rightarrow> db \<Rightarrow> go_error option" where
  "RequireInvocationDispatchTarget target d =
     (if \<not> dispatch_target_Valid target then Some (errors_New ''invocation dispatch target is invalid'')
      else case sql_select (\<lambda>r. rev_domain r = dt_IsolationDomainID target \<and> rev_service_id r = dt_ServiceID target \<and>
                 rev_id r = dt_RevisionID target \<and> rev_runtime_profile r = dt_RuntimeProfile target \<and>
                 rev_state r = ''published'') (revisions d) of
        None \<Rightarrow> Some invocationDispatchMismatch
      | Some _ \<Rightarrow> None)"

record AcceptInvocationInput =
  ai_ID :: string
  ai_ServiceID :: string
  ai_Alias :: string
  ai_Input :: "json_object option"
  ai_ActorID :: string
  ai_CorrelationID :: string
  ai_Deadline :: instant
  ai_DispatchTarget :: "InvocationDispatchTarget option"

definition resolve_alias :: "string \<Rightarrow> string \<Rightarrow> string \<Rightarrow> db \<Rightarrow> revision_row option" where
  "resolve_alias isolationDomainID serviceID name d =
     (case sql_select (\<lambda>a. alias_named isolationDomainID serviceID name a \<and> als_withdrawn_at a = None) (aliases d) of
        None \<Rightarrow> None
      | Some a \<Rightarrow> sql_select (\<lambda>r. rev_domain r = als_domain a \<and> rev_id r = als_revision_id a \<and>
                    rev_service_id r = als_service_id a \<and> rev_state r = ''published'') (revisions d))"

definition invocation_operation_id :: "(string \<Rightarrow> string) \<Rightarrow> string \<Rightarrow> string \<Rightarrow> string" where
  "invocation_operation_id sha256 isolationDomainID invocationID =
     Derived sha256 ''op'' (isolationDomainID @ '':'' @ invocationID @ '':invocation:v1'')"

definition accepted_invocation :: "instant \<Rightarrow> string \<Rightarrow> AcceptInvocationInput \<Rightarrow> string \<Rightarrow> string \<Rightarrow> invocation_row" where
  "accepted_invocation now isolationDomainID input revisionID operationID =
     \<lparr>inv_domain = isolationDomainID, inv_id = ai_ID input, inv_service_id = ai_ServiceID input,
      inv_revision_id = revisionID, inv_alias = ai_Alias input, inv_state = ''accepted'',
      inv_input = ai_Input input, inv_result = None, inv_error = None,
      inv_correlation_id = ai_CorrelationID input, inv_operation_id = operationID,
      inv_completed_at = None, inv_generation = 1, inv_version = 1, inv_created_at = now,
      inv_updated_at = now, inv_created_by = ai_ActorID input\<rparr>"

definition outside_dispatch_scope :: "string \<Rightarrow> AcceptInvocationInput \<Rightarrow> bool" where
  "outside_dispatch_scope isolationDomainID input =
     (case ai_DispatchTarget input of None \<Rightarrow> False
      | Some target \<Rightarrow> isolationDomainID \<noteq> dt_IsolationDomainID target \<or> ai_ServiceID input \<noteq> dt_ServiceID target)"

definition outside_dispatch_revision :: "revision_row \<Rightarrow> AcceptInvocationInput \<Rightarrow> bool" where
  "outside_dispatch_revision revision input =
     (case ai_DispatchTarget input of None \<Rightarrow> False
      | Some target \<Rightarrow> rev_id revision \<noteq> dt_RevisionID target \<or> rev_runtime_profile revision \<noteq> dt_RuntimeProfile target)"

text \<open>The inserts of an admitted invocation: the invocation, its operation, outbox, audit and event records.\<close>

definition insert_invocation ::
    "(string \<Rightarrow> string) \<Rightarrow> instant \<Rightarrow> string \<Rightarrow> AcceptInvocationInput \<Rightarrow> string \<Rightarrow> action" where
  "insert_invocation sha256 now isolationDomainID input revisionID d =
     (let operationID = invocation_operation_id sha256 isolationDomainID (ai_ID input);
         accepted = accepted_invocation now isolationDomainID input revisionID operationID;
         new = queued_operation isolationDomainID operationID (ai_ID input) ''invoke'' ''succeeded''
           invocation_StateMachineVersion now (ai_Deadline input) (ai_CorrelationID input) (ai_ActorID input)
     in if \<exists>r \<in> set (invocations d). inv_key r = inv_key accepted \<or> inv_operation_id r = operationID
        then Inl (errors_New ''insert invocation'')
        else if \<exists>r \<in> set (executions d). op_key r = op_key new \<or> op_resource_key r = op_resource_key new
        then Inl (errors_New ''accept invocation execution'')
        else case writeInvocationEvent sha256 accepted ''lifecycle.accepted'' (ai_ActorID input)
                    [(''state'', JStr ''accepted'')] now
                    (writeOutboxAndAudit sha256 isolationDomainID ''invocation'' (ai_ID input)
                       ''invocation.accepted'' (ai_ActorID input) (ai_CorrelationID input) ''accepted'' operationID now
                       (d\<lparr>invocations := invocations d @ [accepted], executions := executions d @ [new]\<rparr>)) of
          Inl e \<Rightarrow> Inl e
        | Inr d1 \<Rightarrow> Inr (202, RInvocation accepted, d1))"

definition accept_invocation_action ::
    "schema_lib \<Rightarrow> (string \<Rightarrow> string) \<Rightarrow> instant \<Rightarrow> string \<Rightarrow> AcceptInvocationInput \<Rightarrow> action" where
  "accept_invocation_action lib sha256 now isolationDomainID input d =
     (if outside_dispatch_scope isolationDomainID input
      then Inl invocationDispatchMismatch
      else case resolve_alias isolationDomainID (ai_ServiceID input) (ai_Alias input) d of
        None \<Rightarrow> Inl (DomainError ''RESOURCE_NOT_FOUND'' ''Published service alias was not found.'' False)
      | Some revision \<Rightarrow>
          if outside_dispatch_revision revision input
          then Inl invocationDispatchMismatch
          else case ValidateInvocationInput lib (rev_input_schema revision) (ai_Input input) of
            Some problem \<Rightarrow> Inl (DomainError (Code problem) (Message problem) False)
          | None \<Rightarrow>
              insert_invocation sha256 now isolationDomainID input (rev_id revision) d)"

definition AcceptInvocation ::
    "schema_lib \<Rightarrow> (string \<Rightarrow> string) \<Rightarrow> instant \<Rightarrow> Idempotency \<Rightarrow> AcceptInvocationInput \<Rightarrow> db \<Rightarrow> CommandResult result \<times> db" where
  "AcceptInvocation lib sha256 now ik input d =
     (if case ai_DispatchTarget input of None \<Rightarrow> False | Some target \<Rightarrow> \<not> dispatch_target_Valid target
      then (Inl (errors_New ''invocation dispatch target is invalid''), d)
      else execute ik (accept_invocation_action lib sha256 now (ik_IsolationDomainID ik) input) d)"

record AcceptCancellationInput =
  ac_InvocationID :: string
  ac_ActorID :: string
  ac_CorrelationID :: string

definition cancel_set :: "instant \<Rightarrow> AcceptCancellationInput \<Rightarrow> op_row \<Rightarrow> op_row" where
  "cancel_set now input op =
     op\<lparr>op_command := ''cancel'', op_desired_state := ''cancelled'', op_observed_state := ''cancelling'',
        op_generation := op_generation op + 1, op_due_at := now, op_effect_actor_id := Some (ac_ActorID input),
        op_effect_correlation_id := Some (ac_CorrelationID input), op_lease_owner := None,
        op_lease_expires_at := None, op_last_transition_at := now, op_updated_at := now\<rparr>"

definition cancelling_set :: "instant \<Rightarrow> invocation_row \<Rightarrow> invocation_row" where
  "cancelling_set now i =
     i\<lparr>inv_state := ''cancelling'', inv_generation := inv_generation i + 1, inv_version := inv_version i + 1,
       inv_updated_at := now\<rparr>"

definition accept_cancellation_action ::
    "(string \<Rightarrow> string) \<Rightarrow> instant \<Rightarrow> string \<Rightarrow> AcceptCancellationInput \<Rightarrow> action" where
  "accept_cancellation_action sha256 now isolationDomainID input d =
     (case getInvocationForUpdate isolationDomainID (ac_InvocationID input) d of
        Inl e \<Rightarrow> Inl e
      | Inr ivc \<Rightarrow>
          if inv_state ivc = ''cancelled'' then Inr (200, RInvocation ivc, d)
          else if inv_state ivc = ''cancelling'' then Inr (202, RInvocation ivc, d)
          else if inv_state ivc = ''succeeded'' \<or> inv_state ivc = ''failed''
          then Inl (DomainError ''INVOCATION_TERMINAL'' ''A completed invocation cannot be cancelled.'' False)
          else
            (let f = cancelling_set now;
                 d1 = d\<lparr>invocations := sql_update
                          (\<lambda>i. inv_domain i = isolationDomainID \<and> inv_id i = ac_InvocationID input) f (invocations d),
                        executions := sql_update
                          (\<lambda>op. op_domain op = isolationDomainID \<and> op_resource_id op = ac_InvocationID input)
                          (cancel_set now input) (executions d)\<rparr>
             in case writeInvocationEvent sha256 (f ivc) ''lifecycle.cancellation.requested'' (ac_ActorID input)
                       [(''state'', JStr ''cancelling'')] now
                       (writeOutboxAndAudit sha256 isolationDomainID ''invocation'' (ac_InvocationID input)
                          ''invocation.cancellation-accepted'' (ac_ActorID input) (ac_CorrelationID input)
                          ''accepted'' (inv_operation_id ivc) now d1) of
                  Inl e \<Rightarrow> Inl e
                | Inr d2 \<Rightarrow> Inr (202, RInvocation (f ivc), d2)))"

definition AcceptCancellation ::
    "(string \<Rightarrow> string) \<Rightarrow> instant \<Rightarrow> Idempotency \<Rightarrow> AcceptCancellationInput \<Rightarrow> db \<Rightarrow> CommandResult result \<times> db" where
  "AcceptCancellation sha256 now ik input d =
     (if ac_ActorID input = [] \<or> ac_CorrelationID input = []
      then (Inl (errors_New ''cancellation actor and correlation are required''), d)
      else execute ik (accept_cancellation_action sha256 now (ik_IsolationDomainID ik) input) d)"

section \<open>Event replay\<close>

definition listEvents :: "string \<Rightarrow> string \<Rightarrow> nat \<Rightarrow> nat \<Rightarrow> db \<Rightarrow> event_row list result" where
  "listEvents isolationDomainID invocationID after limit d =
     (let found = sort_key evt_sequence
            (filter (\<lambda>e. evt_domain e = isolationDomainID \<and> evt_invocation_id e = invocationID \<and> after < evt_sequence e)
               (events d));
          page = (if limit = 0 then found else take limit found)
      in if page = [] \<and> \<not> (\<exists>i \<in> set (invocations d). inv_domain i = isolationDomainID \<and> inv_id i = invocationID)
         then Inl (Sentinel ErrNoRows) else Inr page)"

definition ListEvents :: "string \<Rightarrow> string \<Rightarrow> nat \<Rightarrow> db \<Rightarrow> event_row list result" where
  "ListEvents isolationDomainID invocationID after = listEvents isolationDomainID invocationID after 0"

definition ListEventsBounded :: "string \<Rightarrow> string \<Rightarrow> nat \<Rightarrow> int \<Rightarrow> db \<Rightarrow> event_row list result" where
  "ListEventsBounded isolationDomainID invocationID after limit d =
     (if limit < 1 \<or> limit > 501 then Inl (errors_New ''event replay record limit is invalid'')
      else listEvents isolationDomainID invocationID after (nat limit) d)"

section \<open>Successful commands\<close>

lemma idm_matches_iff: "idm_matches ik r \<longleftrightarrow> idm_key_of r = idm_key_of (idm_of ik)"
  by (auto simp: idm_matches_def idm_of_def key_defs)

lemma execute_present:
  assumes "sql_select (idm_matches ik) (idempotency d) = Some r"
  shows "execute ik a d =
    (if idm_request_digest r \<noteq> ik_RequestDigest ik
     then (Inl (DomainError ''IDEMPOTENCY_KEY_REUSED'' ''Idempotency key was reused with a different request.'' False), d)
     else (case (idm_response_status r, idm_response_body r) of
             (Some status, Some body) \<Rightarrow> (Inr \<lparr>cr_Status = status, cr_Body = body, cr_Replayed = True\<rparr>, d)
           | _ \<Rightarrow> (Inl (DomainError ''COMMAND_IN_PROGRESS'' ''The original command is still being committed.'' True), d)))"
proof -
  have "\<exists>r \<in> set (idempotency d). idm_key_of r = idm_key_of (idm_of ik)"
    using sql_select_Some [OF assms] by (auto simp: idm_matches_iff)
  then show ?thesis using assms by (simp add: execute_def insert_on_conflict_nothing_def)
qed

lemma execute_fresh:
  assumes "sql_select (idm_matches ik) (idempotency d) = None"
  shows "execute ik a d =
    (case a (d\<lparr>idempotency := idempotency d @ [idm_of ik]\<rparr>) of
       Inl e \<Rightarrow> (Inl e, d)
     | Inr (status, body, d1) \<Rightarrow>
         (Inr \<lparr>cr_Status = status, cr_Body = body, cr_Replayed = False\<rparr>,
          d1\<lparr>idempotency := sql_update (idm_matches ik)
                (\<lambda>r. r\<lparr>idm_response_status := Some status, idm_response_body := Some body\<rparr>) (idempotency d1)\<rparr>))"
proof -
  have "\<not> (\<exists>r \<in> set (idempotency d). idm_key_of r = idm_key_of (idm_of ik))"
    using assms by (auto simp: sql_select_None idm_matches_iff)
  then show ?thesis by (simp add: execute_def insert_on_conflict_nothing_def)
qed

lemma execute_cases:
  assumes "execute ik a d = (res, d')"
  obtains (failed) e where "res = Inl e" "d' = d"
    | (replayed) r status body where "sql_select (idm_matches ik) (idempotency d) = Some r"
        "idm_request_digest r = ik_RequestDigest ik" "idm_response_status r = Some status" "idm_response_body r = Some body"
        "res = Inr \<lparr>cr_Status = status, cr_Body = body, cr_Replayed = True\<rparr>" "d' = d"
    | (fresh) status body d1 where "sql_select (idm_matches ik) (idempotency d) = None"
        "a (d\<lparr>idempotency := idempotency d @ [idm_of ik]\<rparr>) = Inr (status, body, d1)"
        "res = Inr \<lparr>cr_Status = status, cr_Body = body, cr_Replayed = False\<rparr>"
        "d' = d1\<lparr>idempotency := sql_update (idm_matches ik)
                  (\<lambda>r. r\<lparr>idm_response_status := Some status, idm_response_body := Some body\<rparr>) (idempotency d1)\<rparr>"
proof (cases "sql_select (idm_matches ik) (idempotency d)")
  case (Some r)
  show ?thesis
  proof (cases "idm_request_digest r = ik_RequestDigest ik \<and> idm_response_status r \<noteq> None \<and> idm_response_body r \<noteq> None")
    case True
    then obtain status body where sb: "idm_response_status r = Some status" "idm_response_body r = Some body" by blast
    with True assms Some have "res = Inr \<lparr>cr_Status = status, cr_Body = body, cr_Replayed = True\<rparr>" "d' = d"
      by (auto simp: execute_present)
    with True show ?thesis by (intro replayed [OF Some _ sb]) simp_all
  next
    case False
    with assms Some have "\<exists>e. res = Inl e \<and> d' = d"
      by (auto simp: execute_present split: if_splits option.splits)
    then show ?thesis using failed by blast
  qed
next
  case None
  show ?thesis
  proof (cases "a (d\<lparr>idempotency := idempotency d @ [idm_of ik]\<rparr>)")
    case (Inl e)
    with assms None have "res = Inl e" "d' = d" by (auto simp: execute_fresh)
    then show ?thesis by (rule failed)
  next
    case (Inr p)
    obtain status body d1 where "p = (status, body, d1)" by (cases p)
    with Inr have a: "a (d\<lparr>idempotency := idempotency d @ [idm_of ik]\<rparr>) = Inr (status, body, d1)" by simp
    with assms None show ?thesis by (intro fresh [OF None a]) (simp_all add: execute_fresh)
  qed
qed

lemma create_service_InrE:
  assumes "create_service_action h now i input d = Inr (st, body, d')"
  obtains "\<forall>r \<in> set (services d). svc_key r \<noteq> svc_key (new_service now i input)" "body = RService (new_service now i input)"
    "d' = writeOutboxAndAudit h i ''agent-service'' (cs_ID input) ''agent-service.created'' (cs_ActorID input)
       (cs_CorrelationID input) ''accepted'' [] now (d\<lparr>services := services d @ [new_service now i input]\<rparr>)"
  using assms by (auto simp: create_service_action_def Let_def split: if_splits)

lemma create_revision_InrE:
  assumes "create_revision_action h now i input d = Inr (st, body, d')"
  obtains r where "r = new_revision now i input (revisions d)"
    "\<forall>q \<in> set (revisions d). rev_key q \<noteq> rev_key r \<and> rev_number_key q \<noteq> rev_number_key r"
    "\<exists>s \<in> set (services d). svc_domain s = i \<and> svc_id s = cv_ServiceID input"
    "body = RRevision r"
    "d' = writeOutboxAndAudit h i ''service-revision'' (cv_ID input) ''service-revision.created'' (cv_ActorID input)
       (cv_CorrelationID input) ''accepted'' [] now (d\<lparr>revisions := revisions d @ [r]\<rparr>)"
proof -
  from assms have "\<forall>q \<in> set (revisions d). rev_key q \<noteq> rev_key (new_revision now i input (revisions d)) \<and>
      rev_number_key q \<noteq> rev_number_key (new_revision now i input (revisions d))"
    "\<exists>s \<in> set (services d). svc_domain s = i \<and> svc_id s = cv_ServiceID input"
    "body = RRevision (new_revision now i input (revisions d))"
    "d' = writeOutboxAndAudit h i ''service-revision'' (cv_ID input) ''service-revision.created'' (cv_ActorID input)
       (cv_CorrelationID input) ''accepted'' [] now (d\<lparr>revisions := revisions d @ [new_revision now i input (revisions d)]\<rparr>)"
    by (auto simp: create_revision_action_def Let_def split: if_splits option.splits dest!: sql_select_Some)
  then show ?thesis using that by blast
qed

lemma getRevisionForUpdate_Inr:
  "getRevisionForUpdate i rid d = Inr r \<Longrightarrow> r \<in> set (revisions d) \<and> rev_domain r = i \<and> rev_id r = rid"
  by (auto simp: getRevisionForUpdate_def split: option.splits dest!: sql_select_Some)

lemma getInvocationForUpdate_Inr:
  "getInvocationForUpdate i iid d = Inr v \<Longrightarrow> v \<in> set (invocations d) \<and> inv_domain v = i \<and> inv_id v = iid"
  by (auto simp: getInvocationForUpdate_def split: option.splits dest!: sql_select_Some)

lemma accept_publication_InrE:
  assumes "accept_publication_action lib h now i input caps d = Inr (st, body, d')"
  obtains (present) "d' = d"
    | (new) r op where "r \<in> set (revisions d)" "rev_domain r = i" "rev_id r = ap_RevisionID input" "rev_state r = ''draft''"
        "rev_version r = ap_ExpectedVersion input"
        "op = queued_operation i (publication_operation_id h i (ap_RevisionID input)) (ap_RevisionID input) ''publish'' ''published''
           publication_StateMachineVersion now (ap_Deadline input) (ap_CorrelationID input) (ap_ActorID input)"
        "\<forall>q \<in> set (publications d). op_key q \<noteq> op_key op \<and> op_resource_key q \<noteq> op_resource_key op"
        "d' = writeOutboxAndAudit h i ''service-publication'' (op_id op) ''service-publication.accepted'' (ap_ActorID input)
           (ap_CorrelationID input) ''accepted'' (op_id op) now (d\<lparr>publications := publications d @ [op]\<rparr>)"
proof -
  let ?oid = "publication_operation_id h i (ap_RevisionID input)"
  let ?op = "queued_operation i ?oid (ap_RevisionID input) ''publish'' ''published''
    publication_StateMachineVersion now (ap_Deadline input) (ap_CorrelationID input) (ap_ActorID input)"
  from assms obtain r where r: "getRevisionForUpdate i (ap_RevisionID input) d = Inr r" "rev_state r = ''draft''"
      "rev_version r = ap_ExpectedVersion input"
    by (auto simp: accept_publication_action_def split: sum.splits if_splits)
  show ?thesis
  proof (cases "\<exists>q \<in> set (publications d). op_resource_key q = op_resource_key ?op")
    case True
    with assms have "d' = d"
      by (auto simp: accept_publication_action_def Let_def insert_on_conflict_nothing_def split: sum.splits if_splits option.splits)
    then show ?thesis by (rule present)
  next
    case False
    with assms have "\<forall>q \<in> set (publications d). op_key q \<noteq> op_key ?op \<and> op_resource_key q \<noteq> op_resource_key ?op"
      "d' = writeOutboxAndAudit h i ''service-publication'' ?oid ''service-publication.accepted'' (ap_ActorID input)
         (ap_CorrelationID input) ''accepted'' ?oid now (d\<lparr>publications := publications d @ [?op]\<rparr>)"
      by (auto simp: accept_publication_action_def Let_def insert_on_conflict_nothing_def split: sum.splits if_splits option.splits)
    with r show ?thesis using new [of r ?op] getRevisionForUpdate_Inr [OF r(1)] by (simp add: queued_operation_def)
  qed
qed

lemma assign_alias_InrE:
  assumes "assign_alias_action h now i input d = Inr (st, body, d')"
  obtains r rows and als :: alias_row where "r \<in> set (revisions d)" "rev_domain r = i" "rev_id r = aa_RevisionID input"
    "rev_service_id r = aa_ServiceID input" "rev_state r = ''published''"
    "rows = sql_update (alias_named i (aa_ServiceID input) (aa_Name input)) (assign_set now (aa_RevisionID input)) (aliases d) \<or>
     rows = aliases d @ [new_alias now i input] \<and>
       (\<forall>a \<in> set (aliases d). \<not> alias_named i (aa_ServiceID input) (aa_Name input) a \<and>
          als_id_key a \<noteq> als_id_key (new_alias now i input))"
    "d' = writeOutboxAndAudit h i ''service-alias'' (als_id als) ''service-alias.assigned'' (aa_ActorID input)
       (aa_CorrelationID input) ''accepted'' [] now (d\<lparr>aliases := rows\<rparr>)"
proof -
  let ?named = "alias_named i (aa_ServiceID input) (aa_Name input)"
  from assms obtain r where r: "sql_select (\<lambda>r. rev_domain r = i \<and> rev_id r = aa_RevisionID input) (revisions d) = Some r"
      "rev_service_id r = aa_ServiceID input" "rev_state r = ''published''"
    by (auto simp: assign_alias_action_def split: option.splits if_splits)
  note r' = sql_select_Some [OF r(1)]
  show ?thesis
  proof (cases "sql_select ?named (aliases d)")
    case (Some als)
    with assms r have "d' = writeOutboxAndAudit h i ''service-alias'' (als_id (assign_set now (aa_RevisionID input) als))
        ''service-alias.assigned'' (aa_ActorID input) (aa_CorrelationID input) ''accepted'' [] now
        (d\<lparr>aliases := sql_update ?named (assign_set now (aa_RevisionID input)) (aliases d)\<rparr>)"
      by (auto simp: assign_alias_action_def Let_def split: if_splits)
    then show ?thesis using r'
      by (intro that [OF _ _ _ r(2,3) disjI1 [OF refl], of "assign_set now (aa_RevisionID input) als"]) simp_all
  next
    case None
    with assms r have "d' = writeOutboxAndAudit h i ''service-alias'' (als_id (new_alias now i input))
        ''service-alias.assigned'' (aa_ActorID input) (aa_CorrelationID input) ''accepted'' [] now
        (d\<lparr>aliases := aliases d @ [new_alias now i input]\<rparr>)"
      and "\<forall>a \<in> set (aliases d). als_id_key a \<noteq> als_id_key (new_alias now i input)"
      by (auto simp: assign_alias_action_def Let_def split: if_splits)
    then show ?thesis using r' None
      by (intro that [OF _ _ _ r(2,3) disjI2, of "aliases d @ [new_alias now i input]" "new_alias now i input"])
        (simp_all add: sql_select_None)
  qed
qed

lemma withdraw_alias_InrE:
  assumes "withdraw_alias_action h now i input d = Inr (st, body, d')"
  obtains als where "d' = writeOutboxAndAudit h i ''service-alias'' (als_id als) ''service-alias.withdrawn'' (wa_ActorID input)
       (wa_CorrelationID input) ''accepted'' [] now
       (d\<lparr>aliases := sql_update (alias_named i (wa_ServiceID input) (wa_Name input)) (withdraw_set now) (aliases d)\<rparr>)"
    "als \<in> set (aliases d)" "als_version als = wa_ExpectedVersion input" "als_withdrawn_at als = None"
  using assms
  by (auto simp: withdraw_alias_action_def Let_def split: option.splits if_splits dest!: sql_select_Some)

lemma retire_revision_InrE:
  assumes "retire_revision_action h now i input d = Inr (st, body, d')"
  obtains r where "r \<in> set (revisions d)" "rev_domain r = i" "rev_id r = rr_RevisionID input" "rev_state r = ''published''"
    "rev_version r = rr_ExpectedVersion input"
    "\<not> revision_routed i (rr_RevisionID input) d" "\<not> revision_active i (rr_RevisionID input) d"
    "d' = writeOutboxAndAudit h i ''service-revision'' (rr_RevisionID input) ''service-revision.retired'' (rr_ActorID input)
       (rr_CorrelationID input) ''succeeded'' [] now
       (d\<lparr>revisions := sql_update (\<lambda>r. rev_domain r = i \<and> rev_id r = rr_RevisionID input) (retire_set now) (revisions d)\<rparr>)"
  using assms
  by (auto simp: retire_revision_action_def Let_def split: sum.splits if_splits dest!: getRevisionForUpdate_Inr)

lemma resolve_alias_Some:
  assumes "resolve_alias i sid name d = Some r"
  obtains a where "a \<in> set (aliases d)" "alias_named i sid name a" "als_withdrawn_at a = None" "r \<in> set (revisions d)"
    "rev_domain r = i" "rev_id r = als_revision_id a" "rev_service_id r = sid" "rev_state r = ''published''"
  using assms by (auto simp: resolve_alias_def alias_named_def split: option.splits dest!: sql_select_Some)

lemma insert_invocation_InrE:
  assumes "insert_invocation h now i input rid d = Inr (st, body, d')"
  obtains v op where "v = accepted_invocation now i input rid (invocation_operation_id h i (ai_ID input))"
    "op = queued_operation i (invocation_operation_id h i (ai_ID input)) (ai_ID input) ''invoke'' ''succeeded''
       invocation_StateMachineVersion now (ai_Deadline input) (ai_CorrelationID input) (ai_ActorID input)"
    "\<forall>w \<in> set (invocations d). inv_key w \<noteq> inv_key v \<and> inv_operation_id w \<noteq> inv_operation_id v"
    "\<forall>q \<in> set (executions d). op_key q \<noteq> op_key op \<and> op_resource_key q \<noteq> op_resource_key op"
    "writeInvocationEvent h v ''lifecycle.accepted'' (ai_ActorID input) [(''state'', JStr ''accepted'')] now
       (writeOutboxAndAudit h i ''invocation'' (ai_ID input) ''invocation.accepted'' (ai_ActorID input) (ai_CorrelationID input)
          ''accepted'' (inv_operation_id v) now (d\<lparr>invocations := invocations d @ [v], executions := executions d @ [op]\<rparr>)) = Inr d'"
    "body = RInvocation v"
proof -
  define v where "v = accepted_invocation now i input rid (invocation_operation_id h i (ai_ID input))"
  define op where "op = queued_operation i (invocation_operation_id h i (ai_ID input)) (ai_ID input) ''invoke'' ''succeeded''
    invocation_StateMachineVersion now (ai_Deadline input) (ai_CorrelationID input) (ai_ActorID input)"
  have oid: "invocation_operation_id h i (ai_ID input) = inv_operation_id v" by (simp add: v_def accepted_invocation_def)
  note eq = assms [unfolded insert_invocation_def Let_def, folded v_def op_def, unfolded oid]
  show ?thesis by (rule that [OF v_def op_def]) (use eq in \<open>auto split: if_splits sum.splits\<close>)
qed

lemma accept_invocation_InrE:
  assumes "accept_invocation_action lib h now i input d = Inr (st, body, d')"
  obtains r v op where "resolve_alias i (ai_ServiceID input) (ai_Alias input) d = Some r"
    "ValidateInvocationInput lib (rev_input_schema r) (ai_Input input) = None"
    "v = accepted_invocation now i input (rev_id r) (invocation_operation_id h i (ai_ID input))"
    "op = queued_operation i (invocation_operation_id h i (ai_ID input)) (ai_ID input) ''invoke'' ''succeeded''
       invocation_StateMachineVersion now (ai_Deadline input) (ai_CorrelationID input) (ai_ActorID input)"
    "\<forall>w \<in> set (invocations d). inv_key w \<noteq> inv_key v \<and> inv_operation_id w \<noteq> inv_operation_id v"
    "\<forall>q \<in> set (executions d). op_key q \<noteq> op_key op \<and> op_resource_key q \<noteq> op_resource_key op"
    "writeInvocationEvent h v ''lifecycle.accepted'' (ai_ActorID input) [(''state'', JStr ''accepted'')] now
       (writeOutboxAndAudit h i ''invocation'' (ai_ID input) ''invocation.accepted'' (ai_ActorID input) (ai_CorrelationID input)
          ''accepted'' (inv_operation_id v) now (d\<lparr>invocations := invocations d @ [v], executions := executions d @ [op]\<rparr>)) = Inr d'"
    "body = RInvocation v"
    "\<not> outside_dispatch_scope i input" "\<not> outside_dispatch_revision r input"
proof -
  from assms obtain r where r: "resolve_alias i (ai_ServiceID input) (ai_Alias input) d = Some r"
      "ValidateInvocationInput lib (rev_input_schema r) (ai_Input input) = None"
      "\<not> outside_dispatch_scope i input" "\<not> outside_dispatch_revision r input"
      and ins: "insert_invocation h now i input (rev_id r) d = Inr (st, body, d')"
    by (auto simp: accept_invocation_action_def split: if_splits option.splits)
  show ?thesis by (rule insert_invocation_InrE [OF ins]) (rule that [OF r(1,2) _ _ _ _ _ _ r(3,4)])
qed

lemma accept_cancellation_InrE:
  assumes "accept_cancellation_action h now i input d = Inr (st, body, d')"
  obtains (already) v where "v \<in> set (invocations d)" "inv_domain v = i" "inv_id v = ac_InvocationID input"
        "inv_state v = ''cancelled'' \<or> inv_state v = ''cancelling''" "d' = d"
    | (new) v where "v \<in> set (invocations d)" "inv_domain v = i" "inv_id v = ac_InvocationID input"
        "inv_state v \<notin> {''cancelled'', ''cancelling'', ''succeeded'', ''failed''}"
        "writeInvocationEvent h (cancelling_set now v) ''lifecycle.cancellation.requested'' (ac_ActorID input)
           [(''state'', JStr ''cancelling'')] now
           (writeOutboxAndAudit h i ''invocation'' (ac_InvocationID input) ''invocation.cancellation-accepted'' (ac_ActorID input)
              (ac_CorrelationID input) ''accepted'' (inv_operation_id v) now
              (d\<lparr>invocations := sql_update (\<lambda>w. inv_domain w = i \<and> inv_id w = ac_InvocationID input) (cancelling_set now) (invocations d),
                 executions := sql_update (\<lambda>op. op_domain op = i \<and> op_resource_id op = ac_InvocationID input)
                   (cancel_set now input) (executions d)\<rparr>)) = Inr d'"
proof -
  from assms obtain v where v: "getInvocationForUpdate i (ac_InvocationID input) d = Inr v"
    by (auto simp: accept_cancellation_action_def split: sum.splits)
  note v' = getInvocationForUpdate_Inr [OF v]
  show ?thesis
  proof (cases "inv_state v = ''cancelled'' \<or> inv_state v = ''cancelling''")
    case True
    with assms v have "d' = d" by (auto simp: accept_cancellation_action_def split: if_splits)
    with True v' show ?thesis using already by blast
  next
    case False
    with assms v have "inv_state v \<notin> {''cancelled'', ''cancelling'', ''succeeded'', ''failed''}"
      by (auto simp: accept_cancellation_action_def split: if_splits)
    with assms v v' show ?thesis
      by (intro new [of v]) (auto simp: accept_cancellation_action_def Let_def split: if_splits sum.splits)
  qed
qed

end
