(* ===== verification/Routing.thy ===== *)
theory Routing
  imports Store
begin

text \<open>
  Routing and activity: which revisions the live aliases, the invocations and the operations point to. The
  invariant is stated on a view of the tables that keeps only keys, states and references: a live alias
  routes to a published revision of its service, an invocation's revision was published, an operation that
  is still active works on a published revision and agrees with the state of its invocation, and a
  publication operation that has not succeeded has a draft revision.
\<close>

section \<open>The view\<close>

definition op_view :: "op_row \<Rightarrow> (string \<times> string) \<times> string" where
  "op_view r = (op_resource_key r, op_observed_state r)"

definition inv_view :: "invocation_row \<Rightarrow> (string \<times> string) \<times> string \<times> string \<times> string" where
  "inv_view i = (inv_key i, inv_service_id i, inv_revision_id i, inv_state i)"

definition rev_view :: "revision_row \<Rightarrow> (string \<times> string) \<times> string \<times> string" where
  "rev_view r = (rev_key r, rev_service_id r, rev_state r)"

definition pubs :: "db \<Rightarrow> ((string \<times> string) \<times> string) set" where
  "pubs d = op_view ` set (publications d)"

definition execs :: "db \<Rightarrow> ((string \<times> string) \<times> string) set" where
  "execs d = op_view ` set (executions d)"

definition invs :: "db \<Rightarrow> ((string \<times> string) \<times> string \<times> string \<times> string) set" where
  "invs d = inv_view ` set (invocations d)"

definition revs :: "db \<Rightarrow> ((string \<times> string) \<times> string \<times> string) set" where
  "revs d = rev_view ` set (revisions d)"

definition lives :: "db \<Rightarrow> (string \<times> string \<times> string) set" where
  "lives d = (\<lambda>a. (als_domain a, als_service_id a, als_revision_id a)) ` {a \<in> set (aliases d). als_withdrawn_at a = None}"

lemmas view_defs = pubs_def execs_def invs_def revs_def lives_def

text \<open>The states of an invocation that go with a state of its operation.\<close>

definition op_agrees :: "string \<Rightarrow> string \<Rightarrow> bool" where
  "op_agrees is os \<longleftrightarrow>
     os = ''queued'' \<and> (is = ''accepted'' \<or> is = ''failed'') \<or>
     invocationResourceState os \<noteq> [] \<and> is = invocationResourceState os"

definition active :: "string \<Rightarrow> bool" where
  "active os \<longleftrightarrow> os \<noteq> ''succeeded'' \<and> os \<noteq> ''failed'' \<and> os \<noteq> ''cancelled''"

definition aliases_ok :: "db \<Rightarrow> bool" where
  "aliases_ok d \<longleftrightarrow> (\<forall>i s r. (i, s, r) \<in> lives d \<longrightarrow> ((i, r), s, ''published'') \<in> revs d)"

definition invocations_ok :: "db \<Rightarrow> bool" where
  "invocations_ok d \<longleftrightarrow>
     (\<forall>i n s r st. ((i, n), s, r, st) \<in> invs d \<longrightarrow>
        ((i, r), s, ''published'') \<in> revs d \<or> ((i, r), s, ''retired'') \<in> revs d)"

definition executions_ok :: "db \<Rightarrow> bool" where
  "executions_ok d \<longleftrightarrow>
     (\<forall>i n os. ((i, n), os) \<in> execs d \<longrightarrow>
        (\<exists>s r is. ((i, n), s, r, is) \<in> invs d \<and> op_agrees is os \<and> (active os \<longrightarrow> ((i, r), s, ''published'') \<in> revs d)))"

definition publications_ok :: "db \<Rightarrow> bool" where
  "publications_ok d \<longleftrightarrow>
     (\<forall>k os. (k, os) \<in> pubs d \<longrightarrow>
        (if os = ''published'' then \<exists>s. (k, s, ''published'') \<in> revs d \<or> (k, s, ''retired'') \<in> revs d
         else \<exists>s. (k, s, ''draft'') \<in> revs d))"

definition routing_ok :: "db \<Rightarrow> bool" where
  "routing_ok d \<longleftrightarrow> aliases_ok d \<and> invocations_ok d \<and> executions_ok d \<and> publications_ok d"

lemmas routing_defs = routing_ok_def aliases_ok_def invocations_ok_def executions_ok_def publications_ok_def

lemmas aliases_okD = aliases_ok_def [THEN iffD1, rule_format]
lemmas invocations_okD = invocations_ok_def [THEN iffD1, rule_format]
lemmas executions_okD = executions_ok_def [THEN iffD1, rule_format]
lemmas publications_okD = publications_ok_def [THEN iffD1, rule_format]

section \<open>Views under updates\<close>

lemma image_update_same: "(\<And>r. v (f r) = v r) \<Longrightarrow> v ` set (sql_update p f rows) = v ` set rows"
proof -
  assume "\<And>r. v (f r) = v r"
  then have "(\<lambda>r. v (if p r then f r else r)) = v" by (simp add: fun_eq_iff)
  then show ?thesis by (simp only: sql_update_def set_map image_image)
qed

lemma set_update_one:
  assumes "unique_by key rows" and "r \<in> set rows" and "p r" and "\<And>x. x \<in> set rows \<Longrightarrow> p x \<Longrightarrow> key x = key r"
  shows "set (sql_update p f rows) = insert (f r) (set rows - {r})"
proof -
  have "p x \<longleftrightarrow> x = r" if "x \<in> set rows" for x
    using assms that by (blast intro: unique_by_eq)
  then show ?thesis using assms(2) by (auto simp: sql_update_def)
qed

lemma routing_ok_same:
  assumes "routing_ok d" and "pubs d' = pubs d" and "execs d' = execs d" and "invs d' = invs d" and "revs d' = revs d" and "lives d' \<subseteq> lives d"
  shows "routing_ok d'"
proof -
  from assms(1) have "aliases_ok d" "invocations_ok d" "executions_ok d" "publications_ok d"
    by (simp_all add: routing_ok_def)
  moreover from \<open>aliases_ok d\<close> have "aliases_ok d'"
    using assms(6) unfolding aliases_ok_def assms(5) by blast
  ultimately show ?thesis
    by (simp add: routing_ok_def invocations_ok_def executions_ok_def publications_ok_def assms(2-5))
qed

lemma views_writeOutboxAndAudit [simp]:
  "pubs (writeOutboxAndAudit h i rt ri et ac co ou op now d) = pubs d"
  "execs (writeOutboxAndAudit h i rt ri et ac co ou op now d) = execs d"
  "invs (writeOutboxAndAudit h i rt ri et ac co ou op now d) = invs d"
  "revs (writeOutboxAndAudit h i rt ri et ac co ou op now d) = revs d"
  "lives (writeOutboxAndAudit h i rt ri et ac co ou op now d) = lives d"
  by (simp_all add: view_defs)

lemma routing_ok_writeOutboxAndAudit [simp]:
  "routing_ok (writeOutboxAndAudit h i rt ri et ac co ou op now d) = routing_ok d"
  by (simp add: routing_defs)

lemma views_event:
  assumes "writeInvocationEvent h v ty ac pl now d = Inr d'"
  shows "pubs d' = pubs d" "execs d' = execs d" "invs d' = invs d" "revs d' = revs d" "lives d' = lives d"
  using assms by (auto elim!: writeInvocationEvent_Inr simp: view_defs)

lemma routing_ok_event: "writeInvocationEvent h v ty ac pl now d = Inr d' \<Longrightarrow> routing_ok d' = routing_ok d"
  by (simp add: routing_defs views_event)

lemma routing_ok_put_table_same:
  assumes "routing_ok d" and "\<And>r. op_view (f r) = op_view r"
  shows "routing_ok (put_table kind (sql_update p f (table_of kind d)) d)"
proof -
  have "op_view ` set (sql_update p f rows) = op_view ` set rows" for rows
    by (rule image_update_same) (rule assms(2))
  then show ?thesis
    by (intro routing_ok_same [OF assms(1)])
      (auto simp: view_defs put_table_publications put_table_executions table_of_def)
qed

lemma revs_functional:
  assumes "keys_ok d" and "(k, s, t) \<in> revs d" and "(k, s', t') \<in> revs d"
  shows "s' = s \<and> t' = t"
proof -
  from assms(2,3) obtain r r' where "r \<in> set (revisions d)" "r' \<in> set (revisions d)"
      "(k, s, t) = rev_view r" "(k, s', t') = rev_view r'"
    by (auto simp: revs_def)
  moreover from this have "r = r'"
    using assms(1) by (auto simp: keys_ok_def rev_view_def intro: unique_by_eq)
  ultimately show ?thesis by (simp add: rev_view_def)
qed

lemma invs_functional:
  assumes "keys_ok d" and "(k, x) \<in> invs d" and "(k, y) \<in> invs d"
  shows "x = y"
proof -
  from assms(2,3) obtain r r' where "r \<in> set (invocations d)" "r' \<in> set (invocations d)" "(k, x) = inv_view r" "(k, y) = inv_view r'"
    by (auto simp: invs_def)
  moreover from this have "r = r'"
    using assms(1) by (auto simp: keys_ok_def inv_view_def intro: unique_by_eq)
  ultimately show ?thesis by (simp add: inv_view_def)
qed


lemma invs_split:
  assumes "keys_ok d" and "(k, x) \<in> invs d"
  shows "invs d = insert (k, x) {y \<in> invs d. fst y \<noteq> k}"
proof (intro set_eqI iffI)
  fix p assume p: "p \<in> invs d"
  obtain k' y where "p = (k', y)" by (cases p)
  then show "p \<in> insert (k, x) {y \<in> invs d. fst y \<noteq> k}"
    using p invs_functional [OF assms, of y] by (cases "k' = k") simp_all
qed (use assms(2) in auto)

section \<open>Operations\<close>

lemma table_row_of_claim:
  assumes "keys_ok d" and "rows_affected p (table_of kind d) = 1" and "\<And>r. p r \<Longrightarrow> op_key r = k"
  obtains r where "r \<in> set (table_of kind d)" "p r"
    "set (sql_update p f (table_of kind d)) = insert (f r) (set (table_of kind d) - {r})"
proof -
  obtain r where r: "r \<in> set (table_of kind d)" "p r" using assms(2) by (rule rows_affected_1E)
  have "set (sql_update p f (table_of kind d)) = insert (f r) (set (table_of kind d) - {r})"
    by (rule set_update_one [where key = op_key]) (use assms keys_ok_tables r in auto)
  with r show ?thesis using that by blast
qed

lemma op_view_others:
  assumes "unique_by op_resource_key rows" and "r \<in> set rows"
  shows "op_view ` (set rows - {r}) = {x \<in> op_view ` set rows. fst x \<noteq> op_resource_key r}"
proof -
  have "op_resource_key x = op_resource_key r \<longleftrightarrow> x = r" if "x \<in> set rows" for x
    using assms that by (blast intro: unique_by_eq)
  then show ?thesis by (auto simp: op_view_def)
qed

lemma routing_ok_move_publication:
  assumes "routing_ok d" and "keys_ok d" and "(k, os) \<in> pubs d" and "os \<noteq> ''published''" and "os' \<noteq> ''published''"
    and "pubs d' = insert (k, os') {x \<in> pubs d. fst x \<noteq> k}"
    and "execs d' = execs d" "invs d' = invs d" "revs d' = revs d" "lives d' = lives d"
  shows "routing_ok d'"
proof -
  have ok: "publications_ok d" using assms(1) by (simp add: routing_ok_def)
  then obtain s where "(k, s, ''draft'') \<in> revs d" using publications_okD [OF ok assms(3)] assms(4) by auto
  with ok have "publications_ok d'"
    using assms(5) unfolding publications_ok_def assms(6,9) by auto
  then show ?thesis using assms(1)
    by (simp add: routing_ok_def aliases_ok_def invocations_ok_def executions_ok_def assms(7-10))
qed

text \<open>The first three parts survive when no published or retired revision changes.\<close>

lemma routing_monotone:
  assumes ok: "routing_ok d"
    and keep: "\<And>k s t. (k, s, t) \<in> revs d \<Longrightarrow> t \<noteq> ''draft'' \<Longrightarrow> (k, s, t) \<in> revs d'"
    and "lives d' = lives d" "invs d' = invs d" "execs d' = execs d"
  shows "aliases_ok d'" "invocations_ok d'" "executions_ok d'"
proof -
  from ok have a: "aliases_ok d" and i: "invocations_ok d" and e: "executions_ok d" by (simp_all add: routing_ok_def)
  show "aliases_ok d'" unfolding aliases_ok_def assms(3) using aliases_okD [OF a] keep by blast
  show "invocations_ok d'" unfolding invocations_ok_def assms(4)
  proof (intro allI impI)
    fix i n s r st assume "((i, n), s, r, st) \<in> invs d"
    then show "((i, r), s, ''published'') \<in> revs d' \<or> ((i, r), s, ''retired'') \<in> revs d'"
      using invocations_okD [OF i] keep by blast
  qed
  show "executions_ok d'" unfolding executions_ok_def assms(4,5)
  proof (intro allI impI)
    fix i n os assume "((i, n), os) \<in> execs d"
    then obtain s r st where "((i, n), s, r, st) \<in> invs d" "op_agrees st os" "active os \<longrightarrow> ((i, r), s, ''published'') \<in> revs d"
      using executions_okD [OF e] by blast
    then show "\<exists>s r is. ((i, n), s, r, is) \<in> invs d \<and> op_agrees is os \<and> (active os \<longrightarrow> ((i, r), s, ''published'') \<in> revs d')"
      using keep by blast
  qed
qed

lemma routing_ok_publish:
  assumes ok: "routing_ok d" and k: "keys_ok d" and s: "(k, s, ''draft'') \<in> revs d"
    and p: "pubs d' = insert (k, ''published'') {x \<in> pubs d. fst x \<noteq> k}"
    and r: "revs d' = insert (k, s, ''published'') {x \<in> revs d. fst x \<noteq> k}"
    and "execs d' = execs d" "invs d' = invs d" "lives d' = lives d"
  shows "routing_ok d'"
proof -
  have keep: "(k', s', t) \<in> revs d'" if "(k', s', t) \<in> revs d" "t \<noteq> ''draft''" for k' s' t
    using that s revs_functional [OF k s, of s' t] by (auto simp: r)
  have "aliases_ok d'" "invocations_ok d'" "executions_ok d'"
    by (rule routing_monotone [OF ok _ assms(8) assms(7) assms(6)]; blast intro: keep)+
  moreover have "publications_ok d'"
    unfolding publications_ok_def
  proof (intro allI impI)
    fix k' os'
    assume "(k', os') \<in> pubs d'"
    then consider "k' = k" "os' = ''published''" | "k' \<noteq> k" "(k', os') \<in> pubs d" by (auto simp: p)
    then show "if os' = ''published'' then \<exists>s. (k', s, ''published'') \<in> revs d' \<or> (k', s, ''retired'') \<in> revs d'
        else \<exists>s. (k', s, ''draft'') \<in> revs d'"
    proof cases
      case 1
      then show ?thesis by (auto simp: r)
    next
      case 2
      with ok show ?thesis using publications_okD [OF _ 2(2)] by (auto simp: r routing_ok_def split: if_splits)
    qed
  qed
  ultimately show ?thesis by (simp add: routing_ok_def)
qed

section \<open>Commands\<close>

lemma agrees_cancellable:
  "op_agrees is os \<Longrightarrow> is \<notin> {''cancelled'', ''cancelling'', ''succeeded'', ''failed''} \<Longrightarrow>
   invocation_CanTransition os ''cancelling'' \<and> active os"
  by (auto simp: op_agrees_def invocationResourceState_def invocation_cancellable active_def split: if_splits)

lemma execution_of_invocation:
  assumes "keys_ok d" and "executions_ok d" and "op \<in> set (executions d)" and "v \<in> set (invocations d)" and "inv_key v = op_resource_key op"
  shows "op_agrees (inv_state v) (op_observed_state op)"
    and "active (op_observed_state op) \<Longrightarrow> ((inv_domain v, inv_revision_id v), inv_service_id v, ''published'') \<in> revs d"
proof -
  obtain i n where k: "op_resource_key op = (i, n)" by (cases "op_resource_key op")
  with assms(3) have "((i, n), op_observed_state op) \<in> execs d" by (force simp: execs_def op_view_def)
  then obtain s r st where x: "((i, n), s, r, st) \<in> invs d" "op_agrees st (op_observed_state op)"
      "active (op_observed_state op) \<longrightarrow> ((i, r), s, ''published'') \<in> revs d"
    using executions_okD [OF assms(2)] by blast
  have "((i, n), inv_service_id v, inv_revision_id v, inv_state v) \<in> invs d"
    using assms(4,5) k by (force simp: invs_def inv_view_def)
  from invs_functional [OF assms(1) x(1) this] have "inv_service_id v = s" "inv_revision_id v = r" "inv_state v = st" by simp_all
  moreover have "inv_domain v = i" using assms(5) k by (simp add: inv_key_def)
  ultimately show "op_agrees (inv_state v) (op_observed_state op)"
    "active (op_observed_state op) \<Longrightarrow> ((inv_domain v, inv_revision_id v), inv_service_id v, ''published'') \<in> revs d"
    using x(2,3) by auto
qed

lemma cancellation_evolves:
  assumes ts: "operationTable kind = Inr ts" and k: "keys_ok d" and ok: "executions_ok d"
    and v: "v \<in> set (invocations d)" "inv_domain v = i" "inv_id v = ac_InvocationID input"
    "inv_state v \<notin> {''cancelled'', ''cancelling'', ''succeeded'', ''failed''}"
    and d': "publications d' = publications d"
      "executions d' = sql_update (\<lambda>op. op_domain op = i \<and> op_resource_id op = ac_InvocationID input) (cancel_set now input) (executions d)"
  shows "ops_evolve kind d d'"
proof (cases "kind = OperationKindPublication")
  case True
  with d'(1) show ?thesis by (simp add: ops_evolve_def table_of_def)
next
  case False
  with ts have inv: "kind = OperationKindInvocation" by (simp add: operationTable_cases)
  have "evolves (op_lease.any_step kind) (executions d) (executions d')"
    unfolding d'(2)
  proof (rule evolves_update)
    fix op assume op: "op \<in> set (executions d)" "op_domain op = i \<and> op_resource_id op = ac_InvocationID input"
    have "inv_key v = op_resource_key op" using op(2) v(2,3) by (simp add: key_defs)
    with execution_of_invocation(1) [OF k ok op(1) v(1)] have "op_agrees (inv_state v) (op_observed_state op)" by simp
    with v(4) have "invocation_CanTransition (op_observed_state op) ''cancelling''" using agrees_cancellable by blast
    with inv show "op_lease.any_step kind op (cancel_set now input op)" by (intro op_any [where now = now] op_cancel)
  qed
  with inv show ?thesis by (simp add: ops_evolve_def table_of_def)
qed

lemma command_evolves:
  assumes a: "command_action lib h a" and ts: "operationTable kind = Inr ts" and k: "keys_ok d" and ok: "routing_ok d"
    and r: "a d = Inr (st, body, d')"
  shows "ops_evolve kind d d'"
  using a
proof cases
  case 1
  with r show ?thesis by (auto elim!: create_service_InrE intro!: ops_evolve_same table_of_frame)
next
  case 2
  with r show ?thesis by (auto elim!: create_revision_InrE intro!: ops_evolve_same table_of_frame)
next
  case (3 now i ap caps)
  from r [unfolded 3] show ?thesis
    by (cases rule: accept_publication_InrE) (simp_all add: ops_evolve_def table_of_def)
next
  case (4 now i aa)
  from r [unfolded 4] show ?thesis by (rule assign_alias_InrE) (auto intro!: ops_evolve_same table_of_frame)
next
  case 5
  with r show ?thesis by (auto elim!: withdraw_alias_InrE intro!: ops_evolve_same table_of_frame)
next
  case 6
  with r show ?thesis by (auto elim!: retire_revision_InrE intro!: ops_evolve_same table_of_frame)
next
  case (7 now i ai)
  from r [unfolded 7] show ?thesis
  proof (cases rule: accept_invocation_InrE)
    case (1 rv v op)
    from 1(7) have "publications d' = publications d" "executions d' = executions d @ [op]"
      by (auto elim!: writeInvocationEvent_Inr)
    then show ?thesis by (simp add: ops_evolve_def table_of_def)
  qed
next
  case (8 now i ac)
  from r [unfolded 8] show ?thesis
  proof (cases rule: accept_cancellation_InrE)
    case (new v)
    from new(5) have "publications d' = publications d"
      "executions d' = sql_update (\<lambda>op. op_domain op = i \<and> op_resource_id op = ac_InvocationID ac) (cancel_set now ac) (executions d)"
      by (auto elim!: writeInvocationEvent_Inr)
    with ok show ?thesis
      by (intro cancellation_evolves [OF ts k _ new(1-4)]) (simp_all add: routing_ok_def)
  qed simp
qed

section \<open>Claims\<close>

text \<open>
  What the store knows of a claim it gave out: the operation is there with its resource, the token is not
  ahead of the row's, and while the row still carries the claim's token under an owner, that owner is the
  claim's and the row is in the state the claim saw, which is not a terminal one.
\<close>

definition genuine :: "db \<Rightarrow> operation_claim \<Rightarrow> bool" where
  "genuine d c \<longleftrightarrow>
     (\<exists>ts. operationTable (cl_Kind c) = Inr ts \<and> cl_ObservedState c \<notin> set ts) \<and>
     (\<exists>r \<in> set (table_of (cl_Kind c) d).
        op_key r = (cl_IsolationDomainID c, cl_ID c) \<and> op_resource_id r = cl_ResourceID c \<and>
        cl_FencingToken c \<le> op_lease_token r \<and>
        (op_lease_token r = cl_FencingToken c \<and> op_lease_owner r \<noteq> None \<longrightarrow>
           op_lease_owner r = Some (cl_LeaseOwner c) \<and> op_observed_state r = cl_ObservedState c))"

lemma any_step_keeps_claim:
  assumes "op_lease.any_step kind r r'" and "t \<le> op_lease_token r"
    and "op_lease_token r = t \<and> op_lease_owner r \<noteq> None \<longrightarrow> op_lease_owner r = Some w \<and> op_observed_state r = st"
  shows "op_key r' = op_key r \<and> op_resource_id r' = op_resource_id r \<and> t \<le> op_lease_token r' \<and>
    (op_lease_token r' = t \<and> op_lease_owner r' \<noteq> None \<longrightarrow> op_lease_owner r' = Some w \<and> op_observed_state r' = st)"
proof -
  from assms(1) obtain now where "op_step kind now r r'" by (auto simp: op_lease.any_step_def)
  then show ?thesis using assms(2,3)
    by (cases rule: op_stepE) (auto simp: op_set_defs cancel_set_def key_defs)
qed

lemma genuine_evolves:
  assumes "genuine d c" and "ops_evolve (cl_Kind c) d d'"
  shows "genuine d' c"
proof -
  from assms(1) obtain r where r: "r \<in> set (table_of (cl_Kind c) d)" "op_key r = (cl_IsolationDomainID c, cl_ID c)"
      "op_resource_id r = cl_ResourceID c" "cl_FencingToken c \<le> op_lease_token r"
      "op_lease_token r = cl_FencingToken c \<and> op_lease_owner r \<noteq> None \<longrightarrow>
         op_lease_owner r = Some (cl_LeaseOwner c) \<and> op_observed_state r = cl_ObservedState c"
    by (auto simp: genuine_def)
  from assms(2) r(1) obtain r' where r': "r' \<in> set (table_of (cl_Kind c) d')" "r = r' \<or> op_lease.any_step (cl_Kind c) r r'"
    unfolding ops_evolve_def by (rule evolves_row)
  from r'(2) have "op_key r' = op_key r \<and> op_resource_id r' = op_resource_id r \<and> cl_FencingToken c \<le> op_lease_token r' \<and>
      (op_lease_token r' = cl_FencingToken c \<and> op_lease_owner r' \<noteq> None \<longrightarrow>
         op_lease_owner r' = Some (cl_LeaseOwner c) \<and> op_observed_state r' = cl_ObservedState c)"
    using r(4,5) any_step_keeps_claim by blast
  with r r'(1) assms(1) show ?thesis unfolding genuine_def by (metis (no_types, lifting))
qed

lemma genuine_row:
  assumes "genuine d c" and "keys_ok d" and "r \<in> set (table_of (cl_Kind c) d)" and "op_key r = (cl_IsolationDomainID c, cl_ID c)"
  shows "op_resource_key r = (cl_IsolationDomainID c, cl_ResourceID c)" "cl_FencingToken c \<le> op_lease_token r"
    "op_lease_token r = cl_FencingToken c \<Longrightarrow> op_lease_owner r \<noteq> None \<Longrightarrow>
       op_lease_owner r = Some (cl_LeaseOwner c) \<and> op_observed_state r = cl_ObservedState c"
proof -
  from assms(1) obtain q where q: "q \<in> set (table_of (cl_Kind c) d)" "op_key q = (cl_IsolationDomainID c, cl_ID c)"
      "op_resource_id q = cl_ResourceID c" "cl_FencingToken c \<le> op_lease_token q"
      "op_lease_token q = cl_FencingToken c \<and> op_lease_owner q \<noteq> None \<longrightarrow>
         op_lease_owner q = Some (cl_LeaseOwner c) \<and> op_observed_state q = cl_ObservedState c"
    by (auto simp: genuine_def)
  have "r = q"
    by (rule unique_by_eq [where key = op_key, OF _ assms(3) q(1)]) (use keys_ok_tables [OF assms(2)] assms(4) q(2) in simp_all)
  with q show "op_resource_key r = (cl_IsolationDomainID c, cl_ResourceID c)" "cl_FencingToken c \<le> op_lease_token r"
    "op_lease_token r = cl_FencingToken c \<Longrightarrow> op_lease_owner r \<noteq> None \<Longrightarrow>
       op_lease_owner r = Some (cl_LeaseOwner c) \<and> op_observed_state r = cl_ObservedState c"
    by (auto simp: key_defs)
qed

lemma genuine_claim:
  assumes "keys_ok d" and "claimNext wn clock kind i s r rp w dur oid v d = (Inr (Some c), d')"
  shows "genuine d' c"
  using assms(2) keys_ok_tables [OF assms(1), THEN conjunct1]
proof (rule claimNext_SomeE)
  fix ts op now
  assume ts: "operationTable kind = Inr ts" and op: "op \<in> set (table_of kind d)"
    and cl: "claimable kind ts i s r rp oid v now d op"
    and c: "c = claim_of kind w (claim_set now w (now + dur) op)"
    and d': "d' = put_table kind (sql_update (\<lambda>r. op_key r = op_key op) (claim_set now w (now + dur)) (table_of kind d)) d"
  have "claim_set now w (now + dur) op \<in> set (table_of kind d')"
    using op by (force simp: d' sql_update_def)
  with ts cl show ?thesis unfolding genuine_def c
    by (intro conjI exI [of _ ts] bexI [of _ "claim_set now w (now + dur) op"])
      (auto simp: claim_of_def claimable_def claim_set_def key_defs)
qed

lemma genuine_renewed: "genuine d (c\<lparr>cl_LeaseExpiresAt := e\<rparr>) = genuine d c"
  by (simp add: genuine_def)

section \<open>Routing is kept\<close>

text \<open>Moving one execution operation, its invocation moving along or staying.\<close>

lemma routing_ok_move_execution:
  assumes ok: "routing_ok d" and k: "keys_ok d"
    and x: "((i, n), s, r, st) \<in> invs d"
    and e: "execs d' = insert ((i, n), os') {x \<in> execs d. fst x \<noteq> (i, n)}"
    and iv: "invs d' = insert ((i, n), s, r, st') {x \<in> invs d. fst x \<noteq> (i, n)}"
    and "op_agrees st' os'" and pub: "active os' \<Longrightarrow> ((i, r), s, ''published'') \<in> revs d"
    and "pubs d' = pubs d" "revs d' = revs d" "lives d' = lives d"
  shows "routing_ok d'"
proof -
  from ok have a: "aliases_ok d" and io: "invocations_ok d" and eo: "executions_ok d" and p: "publications_ok d"
    by (simp_all add: routing_ok_def)
  have "aliases_ok d'" "publications_ok d'" using a p by (simp_all add: aliases_ok_def publications_ok_def assms(8-10))
  moreover have "invocations_ok d'" unfolding invocations_ok_def
  proof (intro allI impI)
    fix i' n' s' r' st''
    assume "((i', n'), s', r', st'') \<in> invs d'"
    then have "\<exists>st. ((i', n'), s', r', st) \<in> invs d" using x by (auto simp: iv)
    then show "((i', r'), s', ''published'') \<in> revs d' \<or> ((i', r'), s', ''retired'') \<in> revs d'"
      using invocations_okD [OF io] unfolding assms(9) by blast
  qed
  moreover have "executions_ok d'" unfolding executions_ok_def
  proof (intro allI impI)
    fix i' n' os
    assume "((i', n'), os) \<in> execs d'"
    then consider "(i', n') = (i, n)" "os = os'" | "(i', n') \<noteq> (i, n)" "((i', n'), os) \<in> execs d" by (auto simp: e)
    then show "\<exists>s r is. ((i', n'), s, r, is) \<in> invs d' \<and> op_agrees is os \<and> (active os \<longrightarrow> ((i', r), s, ''published'') \<in> revs d')"
    proof cases
      case 1
      then show ?thesis using assms(6,7) by (intro exI [of _ s] exI [of _ r] exI [of _ st']) (auto simp: iv assms(9))
    next
      case 2
      with executions_okD [OF eo 2(2)] show ?thesis by (fastforce simp: iv assms(9))
    qed
  qed
  ultimately show ?thesis by (simp add: routing_ok_def)
qed

lemma inv_view_others:
  assumes "unique_by inv_key rows" and "v \<in> set rows"
  shows "inv_view ` (set rows - {v}) = {x \<in> inv_view ` set rows. fst x \<noteq> inv_key v}"
proof -
  have "inv_key x = inv_key v \<longleftrightarrow> x = v" if "x \<in> set rows" for x
    using assms that by (blast intro: unique_by_eq)
  then show ?thesis by (auto simp: inv_view_def)
qed

lemma execs_move:
  assumes "keys_ok d" and "r \<in> set (executions d)" and "op_resource_key (f r) = op_resource_key r"
    and "set rows' = insert (f r) (set (executions d) - {r})"
  shows "op_view ` set rows' = insert (op_resource_key r, op_observed_state (f r)) {x \<in> execs d. fst x \<noteq> op_resource_key r}"
  using assms op_view_others [of "executions d" r] by (simp add: keys_ok_def execs_def op_view_def)

lemma invs_move:
  assumes "keys_ok d" and "v \<in> set (invocations d)" and "inv_key v = (i, n)"
    and "\<And>w. inv_key (g w) = inv_key w" "\<And>w. inv_service_id (g w) = inv_service_id w" "\<And>w. inv_revision_id (g w) = inv_revision_id w"
  shows "inv_view ` set (sql_update (\<lambda>w. inv_domain w = i \<and> inv_id w = n) g (invocations d)) =
    insert ((i, n), inv_service_id v, inv_revision_id v, inv_state (g v)) {x \<in> invs d. fst x \<noteq> (i, n)}"
proof -
  have u: "unique_by inv_key (invocations d)" using assms(1) by (simp add: keys_ok_def)
  have "set (sql_update (\<lambda>w. inv_domain w = i \<and> inv_id w = n) g (invocations d)) = insert (g v) (set (invocations d) - {v})"
    by (rule set_update_one [where key = inv_key]) (use u assms(2,3) in \<open>auto simp: inv_key_def\<close>)
  then show ?thesis using inv_view_others [OF u assms(2)] assms(3-6) by (simp add: invs_def inv_view_def)
qed

lemma agrees_resource: "invocationResourceState ns \<noteq> [] \<Longrightarrow> op_agrees (invocationResourceState ns) ns"
  by (simp add: op_agrees_def)

text \<open>An invocation operation that a worker advances from a state that is not terminal.\<close>

lemma transition_without_resource:
  "validateTransition OperationKindInvocation os ns = None \<Longrightarrow> invocationResourceState ns = [] \<Longrightarrow> op_agrees st os \<Longrightarrow>
   active os \<Longrightarrow> ns = os"
  by (auto simp: validateTransition_def invocation_ValidateTransition_def invocation_CanTransition_def invocation_allowed_def
      invocationResourceState_def active_def op_agrees_def split: if_splits)

lemma rev_view_others:
  assumes "unique_by rev_key rows" and "v \<in> set rows"
  shows "rev_view ` (set rows - {v}) = {x \<in> rev_view ` set rows. fst x \<noteq> rev_key v}"
proof -
  have "rev_key x = rev_key v \<longleftrightarrow> x = v" if "x \<in> set rows" for x
    using assms that by (blast intro: unique_by_eq)
  then show ?thesis by (auto simp: rev_view_def)
qed

lemma revs_move:
  assumes "keys_ok d" and "v \<in> set (revisions d)" and "p v" and "\<And>w. p w \<Longrightarrow> rev_key w = rev_key v"
    and "rev_key (g v) = rev_key v" "rev_service_id (g v) = rev_service_id v"
  shows "rev_view ` set (sql_update p g (revisions d)) =
    insert (rev_key v, rev_service_id v, rev_state (g v)) {x \<in> revs d. fst x \<noteq> rev_key v}"
proof -
  have u: "unique_by rev_key (revisions d)" using assms(1) by (simp add: keys_ok_def)
  have "set (sql_update p g (revisions d)) = insert (g v) (set (revisions d) - {v})"
    by (rule set_update_one [where key = rev_key and p = p, OF u assms(2,3)]) (rule assms(4))
  then show ?thesis using rev_view_others [OF u assms(2)] assms(5,6) by (simp add: revs_def rev_view_def)
qed

lemma routing_ok_advance_publication:
  assumes ok: "routing_ok d" and k: "keys_ok d" and kind: "cl_Kind c = OperationKindPublication"
    and r: "r \<in> set (publications d)" and rk: "op_resource_key r = (cl_IsolationDomainID c, cl_ResourceID c)"
    and st: "op_observed_state r \<noteq> ''published''"
    and up: "updateResourceForTransition h c ns tr f now (put_table (cl_Kind c) rows d) = Inr d2"
    and set: "set rows = insert (advance_set ns tr f now r) (set (publications d) - {r})"
  shows "routing_ok d2"
proof -
  let ?k = "(cl_IsolationDomainID c, cl_ResourceID c)"
  have u: "unique_by op_resource_key (publications d)" using k by (simp add: keys_ok_def)
  have view: "op_view ` set rows = insert (?k, ns) {x \<in> pubs d. fst x \<noteq> ?k}"
    using op_view_others [OF u r] rk by (simp add: set pubs_def op_view_def)
  have m: "(?k, op_observed_state r) \<in> pubs d" using r rk by (force simp: pubs_def op_view_def)
  with ok st obtain s where s: "(?k, s, ''draft'') \<in> revs d"
    using publications_okD [OF _ m] by (auto simp: routing_ok_def)
  then obtain v where v: "v \<in> set (revisions d)" "rev_key v = ?k" "rev_service_id v = s" "rev_state v = ''draft''"
    by (auto simp: revs_def rev_view_def)
  from up show ?thesis
  proof (cases rule: updateResource_cases)
    case publish
    have "rev_view ` set (sql_update (\<lambda>r. rev_domain r = cl_IsolationDomainID c \<and> rev_id r = cl_ResourceID c \<and> rev_state r = ''draft'')
        (publish_set now) (revisions d)) = insert (?k, s, ''published'') {x \<in> revs d. fst x \<noteq> ?k}"
      using revs_move [OF k v(1), where g = "publish_set now" and
          p = "\<lambda>r. rev_domain r = cl_IsolationDomainID c \<and> rev_id r = cl_ResourceID c \<and> rev_state r = ''draft''"] v
      by (auto simp: publish_set_def key_defs)
    with kind publish view show ?thesis
      by (intro routing_ok_publish [OF ok k s]) (simp_all add: view_defs put_table_def)
  next
    case none
    with kind st view show ?thesis
      by (intro routing_ok_move_publication [OF ok k m, of ns]) (simp_all add: view_defs put_table_def)
  next
    case invocation
    with kind show ?thesis by simp
  qed
qed

lemma routing_ok_advance_invocation:
  assumes ok: "routing_ok d" and k: "keys_ok d" and kind: "cl_Kind c = OperationKindInvocation"
    and r: "r \<in> set (executions d)" and rk: "op_resource_key r = (cl_IsolationDomainID c, cl_ResourceID c)"
    and live: "active (op_observed_state r)" and val: "validateTransition OperationKindInvocation (op_observed_state r) ns = None"
    and up: "updateResourceForTransition h c ns tr f now (put_table (cl_Kind c) rows d) = Inr d2"
    and set: "set rows = insert (advance_set ns tr f now r) (set (executions d) - {r})"
  shows "routing_ok d2"
proof -
  let ?k = "(cl_IsolationDomainID c, cl_ResourceID c)"
  have view: "op_view ` set rows = insert (?k, ns) {x \<in> execs d. fst x \<noteq> ?k}"
    using execs_move [where f = "advance_set ns tr f now", OF k r _ set] rk by simp
  have e: "executions_ok d" using ok by (simp add: routing_ok_def)
  have m: "(?k, op_observed_state r) \<in> execs d" using r rk by (force simp: execs_def op_view_def)
  obtain sv rv st where x: "(?k, sv, rv, st) \<in> invs d" "op_agrees st (op_observed_state r)"
      "((cl_IsolationDomainID c, rv), sv, ''published'') \<in> revs d"
    using executions_okD [OF e m] live by blast
  have others: "invs d = insert (?k, sv, rv, st) {x \<in> invs d. fst x \<noteq> ?k}"
    by (rule invs_split [OF k x(1)])
  from up show ?thesis
  proof (cases rule: updateResource_cases)
    case publish
    with kind show ?thesis by simp
  next
    case none
    have "ns = op_observed_state r"
      by (rule transition_without_resource [OF val none(1) [OF kind] x(2) live])
    moreover have "invs d2 = insert (?k, sv, rv, st) {x \<in> invs d. fst x \<noteq> ?k}"
      unfolding others [symmetric] by (simp add: none(3) invs_def)
    ultimately show ?thesis using kind view x none(3)
      by (intro routing_ok_move_execution [OF ok k x(1), where os' = ns and st' = st])
        (simp_all add: pubs_def execs_def revs_def lives_def put_table_def)
  next
    case (invocation v)
    let ?d1 = "(put_table (cl_Kind c) rows d)\<lparr>invocations := sql_update (\<lambda>i. inv_domain i = cl_IsolationDomainID c \<and> inv_id i = cl_ResourceID c)
      (resource_set (invocationResourceState ns) tr f now) (invocations (put_table (cl_Kind c) rows d))\<rparr>"
    have v: "v \<in> set (invocations d)" using invocation(3) by simp
    have "(?k, inv_service_id v, inv_revision_id v, inv_state v) \<in> invs d"
      using v invocation(4) by (force simp: invs_def inv_view_def)
    from invs_functional [OF k x(1) this] have v': "inv_service_id v = sv" "inv_revision_id v = rv" by simp_all
    have iv: "inv_view ` set (sql_update (\<lambda>i. inv_domain i = cl_IsolationDomainID c \<and> inv_id i = cl_ResourceID c)
        (resource_set (invocationResourceState ns) tr f now) (invocations d)) =
        insert (?k, sv, rv, invocationResourceState ns) {x \<in> invs d. fst x \<noteq> ?k}"
      using invs_move [OF k v invocation(4), of "resource_set (invocationResourceState ns) tr f now"] v' by simp
    have "routing_ok ?d1"
      by (rule routing_ok_move_execution [OF ok k x(1), where os' = ns and st' = "invocationResourceState ns"])
        (use kind view iv x(3) agrees_resource [OF invocation(2)] in \<open>simp_all add: view_defs put_table_def\<close>)
    with invocation(5) show ?thesis by (simp add: routing_ok_event)
  qed
qed

lemma routing_ok_advance:
  assumes ok: "routing_ok d" and k: "keys_ok d" and g: "genuine d c"
    and adv: "advance lib h now clock c ns0 tr0 f0 d = (None, d')"
  shows "routing_ok d'"
  using adv
proof (rule advance_NoneE)
  fix ns tr f d2 ts
  let ?rows = "sql_update (advance_where c ns now clock) (advance_set ns tr f now) (table_of (cl_Kind c) d)"
  let ?d1 = "put_table (cl_Kind c) ?rows d"
  assume ts: "operationTable (cl_Kind c) = Inr ts"
    and v: "validateTransition (cl_Kind c) (cl_ObservedState c) ns0 = None" "revalidate lib c ns0 tr0 f0 d = Inr (ns, tr, f)"
    and one: "rows_affected (advance_where c ns now clock) (table_of (cl_Kind c) d) = 1"
    and up: "updateResourceForTransition h c ns tr f now ?d1 = Inr d2"
    and d': "d' = writeOutboxAndAudit h (cl_IsolationDomainID c) (cl_Kind c) (cl_ID c) (cl_Kind c @ ''.'' @ ns)
      (cl_ActorID c) (cl_CorrelationID c) (transitionOutcome ns) (cl_ID c) now d2"
  obtain r where r: "r \<in> set (table_of (cl_Kind c) d)" "advance_where c ns now clock r"
      and set: "set ?rows = insert (advance_set ns tr f now r) (set (table_of (cl_Kind c) d) - {r})"
    using table_row_of_claim [OF k one, of "(cl_IsolationDomainID c, cl_ID c)"]
    by (metis advance_where_def lease_held_key)
  have key: "op_key r = (cl_IsolationDomainID c, cl_ID c)" and st: "op_observed_state r = cl_ObservedState c"
    using r(2) by (auto simp: advance_where_def lease_held_def key_defs)
  have rk: "op_resource_key r = (cl_IsolationDomainID c, cl_ResourceID c)" by (rule genuine_row(1) [OF g k r(1) key])
  have live: "cl_ObservedState c \<notin> set ts" using g ts by (auto simp: genuine_def)
  have val: "validateTransition (cl_Kind c) (cl_ObservedState c) ns = None" using revalidate_transition [OF v(2,1)] by simp
  have "routing_ok d2"
  proof (cases "cl_Kind c = OperationKindPublication")
    case True
    with ts live st have "op_observed_state r \<noteq> ''published''" by (auto simp: operationTable_cases)
    with True show ?thesis
      by (intro routing_ok_advance_publication [OF ok k _ _ rk _ up]) (use r(1) set in \<open>simp_all add: table_of_def\<close>)
  next
    case False
    then have inv: "cl_Kind c = OperationKindInvocation" using ts by (simp add: operationTable_cases)
    with ts live st have "active (op_observed_state r)" by (auto simp: operationTable_cases active_def)
    with inv val st show ?thesis
      by (intro routing_ok_advance_invocation [OF ok k _ _ rk _ _ up]) (use r(1) set in \<open>simp_all add: table_of_def\<close>)
  qed
  then show "routing_ok d'" by (simp add: d')
qed

lemma repair_revision_published:
  assumes k: "keys_ok d" and "lockRepairRevision OperationKindInvocation i oid d = None"
    and r: "r \<in> set (executions d)" "op_key r = (i, oid)"
  obtains v q where "v \<in> set (invocations d)" "inv_key v = op_resource_key r" "q \<in> set (revisions d)"
    "rev_key q = (inv_domain v, inv_revision_id v)" "rev_state q = ''published''"
proof -
  from assms(2) have "repair_revision_state OperationKindInvocation i oid d = Some ''published''"
    by (simp add: lockRepairRevision_None)
  then obtain o1 v q where o1: "o1 \<in> set (executions d)" "op_domain o1 = i" "op_id o1 = oid"
      and v: "v \<in> set (invocations d)" "inv_domain v = op_domain o1" "inv_id v = op_resource_id o1"
      and q: "q \<in> set (revisions d)" "rev_domain q = inv_domain v" "rev_id q = inv_revision_id v" "rev_state q = ''published''"
    by (auto simp: repair_revision_state_def table_of_def split: option.splits dest!: sql_select_Some)
  have "o1 = r"
    by (rule unique_by_eq [where key = op_key, OF _ o1(1) r(1)]) (use k o1 r(2) in \<open>auto simp: keys_ok_def op_key_def\<close>)
  with v q show ?thesis using that [OF v(1) _ q(1)] by (simp add: key_defs)
qed

lemma routing_ok_repair:
  assumes ok: "routing_ok d" and k: "keys_ok d"
    and rep: "RepairOperation h now kind i oid ac rs dd dl d = (None, d')"
  shows "routing_ok d'"
  using rep
proof (cases rule: RepairOperation_NoneE)
  case replay
  with ok show ?thesis by simp
next
  case (fresh ts row)
  let ?p = "\<lambda>op. op_domain op = i \<and> op_id op = oid \<and> op_observed_state op = ''failed''"
  let ?rows = "sql_update ?p (repair_set now dl ac dd) (table_of kind d)"
  let ?d1 = "put_table kind ?rows (d\<lparr>inbox := inbox d @ [row]\<rparr>)"
  have key: "\<And>op. ?p op \<Longrightarrow> op_key op = (i, oid)" by (simp add: op_key_def)
  obtain r where r: "r \<in> set (table_of kind d)" "?p r"
      and set: "set ?rows = insert (repair_set now dl ac dd r) (set (table_of kind d) - {r})"
    by (rule table_row_of_claim [where p = ?p and f = "repair_set now dl ac dd", OF k fresh(5) key])
  obtain i' n where rk: "op_resource_key r = (i', n)" by (cases "op_resource_key r")
  have "routing_ok ?d1"
  proof (cases "kind = OperationKindPublication")
    case True
    have u: "unique_by op_resource_key (publications d)" using k by (simp add: keys_ok_def)
    have "(op_resource_key r, ''failed'') \<in> pubs d" using r True by (force simp: pubs_def op_view_def table_of_def)
    then show ?thesis
      by (rule routing_ok_move_publication [OF ok k, where os' = "''queued''"])
        (use True r set op_view_others [OF u, of r] in \<open>simp_all add: view_defs put_table_def table_of_def op_view_def\<close>)
  next
    case False
    then have kind: "kind = OperationKindInvocation" using fresh(1) by (simp add: operationTable_cases)
    have r': "r \<in> set (executions d)" using r(1) kind by (simp add: table_of_def)
    obtain v q where v: "v \<in> set (invocations d)" "inv_key v = op_resource_key r"
        and q: "q \<in> set (revisions d)" "rev_key q = (inv_domain v, inv_revision_id v)" "rev_state q = ''published''"
      using repair_revision_published [OF k _ r'] fresh(3) r(2) kind by (metis op_key_def)
    have x: "((i', n), inv_service_id v, inv_revision_id v, inv_state v) \<in> invs d"
      using v rk by (force simp: invs_def inv_view_def)
    have dom: "inv_domain v = i'" using v(2) rk by (simp add: inv_key_def)
    have "op_agrees (inv_state v) ''failed''"
      using execution_of_invocation(1) [OF k _ r' v] ok r(2) by (simp add: routing_ok_def)
    then have st: "inv_state v = ''failed''" by (simp add: op_agrees_def invocationResourceState_def)
    have "((i', inv_revision_id v), rev_service_id q, ''published'') \<in> revs d"
      using q dom by (force simp: revs_def rev_view_def)
    moreover have "((i', inv_revision_id v), inv_service_id v, ''published'') \<in> revs d \<or> ((i', inv_revision_id v), inv_service_id v, ''retired'') \<in> revs d"
      using invocations_okD [OF _ x] ok by (simp add: routing_ok_def)
    ultimately have pub: "((i', inv_revision_id v), inv_service_id v, ''published'') \<in> revs d"
      using revs_functional [OF k] by fastforce
    have iv: "invs ?d1 = insert ((i', n), inv_service_id v, inv_revision_id v, inv_state v) {x \<in> invs d. fst x \<noteq> (i', n)}"
      unfolding invs_split [OF k x, symmetric] by (simp add: invs_def)
    show ?thesis
      by (rule routing_ok_move_execution [OF ok k x _ iv, where os' = "''queued''"])
        (use kind rk st pub execs_move [where f = "repair_set now dl ac dd", OF k r'] set
          in \<open>simp_all add: pubs_def execs_def revs_def lives_def put_table_def table_of_def op_agrees_def\<close>)
  qed
  then show ?thesis by (simp add: fresh(6))
qed

lemma routing_ok_create_revision:
  assumes "routing_ok d" and "revs d' = insert (k, s, ''draft'') (revs d)"
    and "pubs d' = pubs d" "execs d' = execs d" "invs d' = invs d" "lives d' = lives d"
  shows "routing_ok d'"
proof -
  have keep: "x \<in> revs d'" if "x \<in> revs d" for x using that by (simp add: assms(2))
  have "aliases_ok d'" "invocations_ok d'" "executions_ok d'"
    by (rule routing_monotone [OF assms(1) _ assms(6) assms(5) assms(4)]; simp add: keep)+
  moreover have "publications_ok d'"
    unfolding publications_ok_def assms(3)
  proof (intro allI impI)
    fix k' os assume "(k', os) \<in> pubs d"
    from publications_okD [OF _ this] assms(1)
    show "if os = ''published'' then \<exists>s. (k', s, ''published'') \<in> revs d' \<or> (k', s, ''retired'') \<in> revs d' else \<exists>s. (k', s, ''draft'') \<in> revs d'"
      by (auto simp: routing_ok_def assms(2) split: if_splits)
  qed
  ultimately show ?thesis by (simp add: routing_ok_def)
qed

lemma routing_ok_assign:
  assumes "routing_ok d" and "((i, r), s, ''published'') \<in> revs d" and "lives d' \<subseteq> insert (i, s, r) (lives d)"
    and "pubs d' = pubs d" "execs d' = execs d" "invs d' = invs d" "revs d' = revs d"
  shows "routing_ok d'"
proof -
  from assms(1) have "aliases_ok d" by (simp add: routing_ok_def)
  then have "aliases_ok d'" using assms(2,3) unfolding aliases_ok_def assms(7) by blast
  with assms(1) show ?thesis
    by (simp add: routing_ok_def invocations_ok_def executions_ok_def publications_ok_def assms(4-7))
qed

lemma routing_ok_accept_publication:
  assumes "routing_ok d" and "(k, s, ''draft'') \<in> revs d" and "pubs d' = insert (k, ''queued'') (pubs d)"
    and "lives d' = lives d" "execs d' = execs d" "invs d' = invs d" "revs d' = revs d"
  shows "routing_ok d'"
proof -
  from assms(1) have "publications_ok d" by (simp add: routing_ok_def)
  then have "publications_ok d'" using assms(2) unfolding publications_ok_def assms(3,7) by auto
  with assms(1) show ?thesis
    by (simp add: routing_ok_def invocations_ok_def executions_ok_def aliases_ok_def assms(4-7))
qed

lemma routing_ok_accept_invocation:
  assumes ok: "routing_ok d" and p: "((i, r), s, ''published'') \<in> revs d"
    and iv: "invs d' = insert ((i, n), s, r, ''accepted'') (invs d)" and e: "execs d' = insert ((i, n), ''queued'') (execs d)"
    and "lives d' = lives d" "pubs d' = pubs d" "revs d' = revs d"
  shows "routing_ok d'"
proof -
  from ok have io: "invocations_ok d" and eo: "executions_ok d" by (simp_all add: routing_ok_def)
  have "invocations_ok d'" using io p unfolding invocations_ok_def iv assms(7) by blast
  moreover have "executions_ok d'" unfolding executions_ok_def
  proof (intro allI impI)
    fix i' n' os
    assume "((i', n'), os) \<in> execs d'"
    then consider "i' = i" "n' = n" "os = ''queued''" | "((i', n'), os) \<in> execs d" by (auto simp: e)
    then show "\<exists>s r is. ((i', n'), s, r, is) \<in> invs d' \<and> op_agrees is os \<and> (active os \<longrightarrow> ((i', r), s, ''published'') \<in> revs d')"
    proof cases
      case 1
      then show ?thesis using p
        by (intro exI [of _ s] exI [of _ r] exI [of _ "''accepted''"]) (auto simp: iv assms(7) op_agrees_def)
    next
      case 2
      then show ?thesis using executions_okD [OF eo] unfolding iv assms(7) by blast
    qed
  qed
  ultimately show ?thesis using ok by (simp add: routing_ok_def aliases_ok_def publications_ok_def assms(5-7))
qed

lemma routing_ok_retire:
  assumes ok: "routing_ok d" and k: "keys_ok d" and v: "((i, n), s, ''published'') \<in> revs d"
    and "\<And>s'. (i, s', n) \<notin> lives d"
    and idle: "\<And>m s' st os. ((i, m), s', n, st) \<in> invs d \<Longrightarrow> ((i, m), os) \<in> execs d \<Longrightarrow> \<not> active os"
    and r: "revs d' = insert ((i, n), s, ''retired'') {x \<in> revs d. fst x \<noteq> (i, n)}"
    and "lives d' = lives d" "pubs d' = pubs d" "execs d' = execs d" "invs d' = invs d"
  shows "routing_ok d'"
proof -
  from ok have a: "aliases_ok d" and io: "invocations_ok d" and eo: "executions_ok d" and p: "publications_ok d"
    by (simp_all add: routing_ok_def)
  have keep: "(k', s', t) \<in> revs d'" if "(k', s', t) \<in> revs d" "k' \<noteq> (i, n)" for k' s' t using that by (simp add: r)
  have "aliases_ok d'"
    unfolding aliases_ok_def assms(7) using aliases_okD [OF a] keep assms(4) by (metis prod.inject)
  moreover have "invocations_ok d'"
    unfolding invocations_ok_def assms(10)
  proof (intro allI impI)
    fix i' m s' r' st assume "((i', m), s', r', st) \<in> invs d"
    from invocations_okD [OF io this] show "((i', r'), s', ''published'') \<in> revs d' \<or> ((i', r'), s', ''retired'') \<in> revs d'"
      using revs_functional [OF k v, of s'] by (cases "(i', r') = (i, n)") (auto simp: r)
  qed
  moreover have "executions_ok d'"
    unfolding executions_ok_def assms(9,10)
  proof (intro allI impI)
    fix i' m os assume m: "((i', m), os) \<in> execs d"
    from executions_okD [OF eo this] obtain s' r' st where x: "((i', m), s', r', st) \<in> invs d" "op_agrees st os"
        "active os \<longrightarrow> ((i', r'), s', ''published'') \<in> revs d" by blast
    moreover have "active os \<longrightarrow> ((i', r'), s', ''published'') \<in> revs d'"
      using x idle m by (cases "(i', r') = (i, n)") (auto simp: r)
    ultimately show "\<exists>s r is. ((i', m), s, r, is) \<in> invs d \<and> op_agrees is os \<and> (active os \<longrightarrow> ((i', r), s, ''published'') \<in> revs d')"
      by blast
  qed
  moreover have "publications_ok d'"
    unfolding publications_ok_def assms(8)
  proof (intro allI impI)
    fix k' os assume "(k', os) \<in> pubs d"
    from publications_okD [OF p this]
    show "if os = ''published'' then \<exists>s. (k', s, ''published'') \<in> revs d' \<or> (k', s, ''retired'') \<in> revs d' else \<exists>s. (k', s, ''draft'') \<in> revs d'"
      by (cases "k' = (i, n)") (auto simp: r split: if_splits dest: revs_functional [OF k v])
  qed
  ultimately show ?thesis by (simp add: routing_ok_def)
qed

lemma routing_ok_invocation_state:
  assumes ok: "routing_ok d" and x: "((i, n), s, r, st) \<in> invs d" and none: "\<And>os. ((i, n), os) \<notin> execs d"
    and iv: "invs d' = insert ((i, n), s, r, st') {x \<in> invs d. fst x \<noteq> (i, n)}" and e: "execs d' = execs d"
    and "lives d' = lives d" "pubs d' = pubs d" "revs d' = revs d"
  shows "routing_ok d'"
proof -
  from ok have io: "invocations_ok d" and eo: "executions_ok d" by (simp_all add: routing_ok_def)
  have "invocations_ok d'" unfolding invocations_ok_def
  proof (intro allI impI)
    fix i' n' s' r' st''
    assume "((i', n'), s', r', st'') \<in> invs d'"
    then have "\<exists>st. ((i', n'), s', r', st) \<in> invs d" using x by (auto simp: iv)
    then show "((i', r'), s', ''published'') \<in> revs d' \<or> ((i', r'), s', ''retired'') \<in> revs d'"
      using invocations_okD [OF io] unfolding assms(8) by blast
  qed
  moreover have "executions_ok d'" unfolding executions_ok_def e assms(8)
  proof (intro allI impI)
    fix i' n' os assume m: "((i', n'), os) \<in> execs d"
    with none have "(i', n') \<noteq> (i, n)" by auto
    with executions_okD [OF eo m] show "\<exists>s r is. ((i', n'), s, r, is) \<in> invs d' \<and> op_agrees is os \<and> (active os \<longrightarrow> ((i', r), s, ''published'') \<in> revs d)"
      by (fastforce simp: iv)
  qed
  ultimately show ?thesis using ok by (simp add: routing_ok_def aliases_ok_def publications_ok_def assms(6-8))
qed

lemma routing_ok_retire_action:
  assumes ok: "routing_ok d" and k: "keys_ok d" and r: "retire_revision_action h now i input d = Inr (st, body, d')"
  shows "routing_ok d'"
  using r
proof (rule retire_revision_InrE)
  fix v
  assume v: "v \<in> set (revisions d)" "rev_domain v = i" "rev_id v = rr_RevisionID input" "rev_state v = ''published''"
    and idle: "\<not> revision_routed i (rr_RevisionID input) d" "\<not> revision_active i (rr_RevisionID input) d"
    and d': "d' = writeOutboxAndAudit h i ''service-revision'' (rr_RevisionID input) ''service-revision.retired'' (rr_ActorID input)
       (rr_CorrelationID input) ''succeeded'' [] now
       (d\<lparr>revisions := sql_update (\<lambda>r. rev_domain r = i \<and> rev_id r = rr_RevisionID input) (retire_set now) (revisions d)\<rparr>)"
  have vk: "rev_key v = (i, rr_RevisionID input)" using v by (simp add: rev_key_def)
  have view: "rev_view ` set (sql_update (\<lambda>r. rev_domain r = i \<and> rev_id r = rr_RevisionID input) (retire_set now) (revisions d)) =
      insert ((i, rr_RevisionID input), rev_service_id v, ''retired'') {x \<in> revs d. fst x \<noteq> (i, rr_RevisionID input)}"
    using revs_move [OF k v(1), where g = "retire_set now" and p = "\<lambda>r. rev_domain r = i \<and> rev_id r = rr_RevisionID input"] v
    by (auto simp: retire_set_def key_defs)
  have "((i, rr_RevisionID input), rev_service_id v, ''published'') \<in> revs d"
    using v vk by (force simp: revs_def rev_view_def)
  then show "routing_ok d'"
  proof (rule routing_ok_retire [OF ok k])
    show "(i, s', rr_RevisionID input) \<notin> lives d" for s'
      using idle(1) by (auto simp: lives_def revision_routed_def)
  next
    fix m s' st os
    assume "((i, m), s', rr_RevisionID input, st) \<in> invs d" "((i, m), os) \<in> execs d"
    then obtain w op where "w \<in> set (invocations d)" "inv_domain w = i" "inv_id w = m" "inv_revision_id w = rr_RevisionID input"
        "op \<in> set (executions d)" "op_domain op = i" "op_resource_id op = m" "op_observed_state op = os"
      by (auto simp: invs_def inv_view_def execs_def op_view_def key_defs)
    with idle(2) show "\<not> active os" by (auto simp: revision_active_def active_def)
  qed (use view in \<open>simp_all add: d' view_defs\<close>)
qed

lemma routing_ok_accept_cancellation:
  assumes ok: "routing_ok d" and k: "keys_ok d" and r: "accept_cancellation_action h now i input d = Inr (st, body, d')"
  shows "routing_ok d'"
  using r
proof (cases rule: accept_cancellation_InrE)
  case already
  with ok show ?thesis by simp
next
  case (new v)
  let ?n = "ac_InvocationID input"
  let ?d1 = "d\<lparr>invocations := sql_update (\<lambda>w. inv_domain w = i \<and> inv_id w = ?n) (cancelling_set now) (invocations d),
    executions := sql_update (\<lambda>op. op_domain op = i \<and> op_resource_id op = ?n) (cancel_set now input) (executions d)\<rparr>"
  have vk: "inv_key v = (i, ?n)" using new(2,3) by (simp add: inv_key_def)
  have x: "((i, ?n), inv_service_id v, inv_revision_id v, inv_state v) \<in> invs d"
    using new(1) vk by (force simp: invs_def inv_view_def)
  have iv: "invs ?d1 = insert ((i, ?n), inv_service_id v, inv_revision_id v, ''cancelling'') {x \<in> invs d. fst x \<noteq> (i, ?n)}"
    using invs_move [OF k new(1) vk, of "cancelling_set now"] by (simp add: cancelling_set_def key_defs invs_def)
  have "routing_ok ?d1"
  proof (cases "\<exists>op \<in> set (executions d). op_resource_key op = (i, ?n)")
    case True
    then obtain op where op: "op \<in> set (executions d)" "op_resource_key op = (i, ?n)" by blast
    have "op_agrees (inv_state v) (op_observed_state op)"
      and pub: "active (op_observed_state op) \<Longrightarrow> ((inv_domain v, inv_revision_id v), inv_service_id v, ''published'') \<in> revs d"
      using execution_of_invocation [OF k _ op(1) new(1)] ok vk op(2) by (simp_all add: routing_ok_def)
    with new(4) have "active (op_observed_state op)" using agrees_cancellable by blast
    with pub new(2) have pub: "((i, inv_revision_id v), inv_service_id v, ''published'') \<in> revs d" by simp
    have "set (executions ?d1) = insert (cancel_set now input op) (set (executions d) - {op})"
      using set_update_one [where key = op_resource_key and rows = "executions d" and r = op and f = "cancel_set now input"
          and p = "\<lambda>op. op_domain op = i \<and> op_resource_id op = ?n"] k op
      by (auto simp: keys_ok_def op_resource_key_def)
    then have e: "execs ?d1 = insert ((i, ?n), ''cancelling'') {x \<in> execs d. fst x \<noteq> (i, ?n)}"
      using execs_move [where f = "cancel_set now input", OF k op(1)] op(2)
      by (simp add: execs_def [of ?d1] cancel_set_def key_defs)
    show ?thesis
      by (rule routing_ok_move_execution [OF ok k x e iv])
        (use pub in \<open>simp_all add: op_agrees_def invocationResourceState_def pubs_def revs_def lives_def\<close>)
  next
    case False
    have none: "((i, ?n), os) \<notin> execs d" for os using False by (force simp: execs_def op_view_def)
    have "sql_update (\<lambda>op. op_domain op = i \<and> op_resource_id op = ?n) (cancel_set now input) (executions d) = executions d"
      using False by (intro sql_update_none) (auto simp: op_resource_key_def)
    then have e: "execs ?d1 = execs d" by (simp add: execs_def)
    show ?thesis by (rule routing_ok_invocation_state [OF ok x none iv e]) (simp_all add: pubs_def revs_def lives_def)
  qed
  with new(5) show ?thesis by (simp add: routing_ok_event)
qed

lemma routing_ok_command:
  assumes "command_action lib h a" and k: "keys_ok d" and ok: "routing_ok d" and r: "a d = Inr (st, body, d')"
  shows "routing_ok d'"
  using assms(1)
proof cases
  case 1
  with r ok show ?thesis by (auto elim!: create_service_InrE intro: routing_ok_same simp: view_defs)
next
  case (2 now i cv)
  from r [unfolded 2] show ?thesis
  proof (rule create_revision_InrE)
    fix rv assume rv: "rv = new_revision now i cv (revisions d)"
      and d': "d' = writeOutboxAndAudit h i ''service-revision'' (cv_ID cv) ''service-revision.created'' (cv_ActorID cv)
        (cv_CorrelationID cv) ''accepted'' [] now (d\<lparr>revisions := revisions d @ [rv]\<rparr>)"
    show ?thesis
      by (rule routing_ok_create_revision [OF ok, where k = "rev_key rv" and s = "rev_service_id rv"])
        (simp_all add: d' view_defs rev_view_def, simp add: rv new_revision_def)
  qed
next
  case (3 now i ap caps)
  from r [unfolded 3] show ?thesis
  proof (cases rule: accept_publication_InrE)
    case present
    with ok show ?thesis by simp
  next
    case (new rv op)
    have "((i, ap_RevisionID ap), rev_service_id rv, ''draft'') \<in> revs d"
      using new(1-4) by (force simp: revs_def rev_view_def rev_key_def)
    then show ?thesis
      by (rule routing_ok_accept_publication [OF ok]) (use new(6) in \<open>simp_all add: new(8) view_defs op_view_def queued_operation_def key_defs\<close>)
  qed
next
  case (4 now i aa)
  from r [unfolded 4] show ?thesis
  proof (rule assign_alias_InrE)
    fix rv rows and als :: alias_row
    assume rv: "rv \<in> set (revisions d)" "rev_domain rv = i" "rev_id rv = aa_RevisionID aa" "rev_service_id rv = aa_ServiceID aa" "rev_state rv = ''published''"
      and rows: "rows = sql_update (alias_named i (aa_ServiceID aa) (aa_Name aa)) (assign_set now (aa_RevisionID aa)) (aliases d) \<or>
      rows = aliases d @ [new_alias now i aa] \<and>
        (\<forall>a \<in> set (aliases d). \<not> alias_named i (aa_ServiceID aa) (aa_Name aa) a \<and> als_id_key a \<noteq> als_id_key (new_alias now i aa))"
      and d': "d' = writeOutboxAndAudit h i ''service-alias'' (als_id als) ''service-alias.assigned'' (aa_ActorID aa)
        (aa_CorrelationID aa) ''accepted'' [] now (d\<lparr>aliases := rows\<rparr>)"
    have pub: "((i, aa_RevisionID aa), aa_ServiceID aa, ''published'') \<in> revs d"
      using rv by (force simp: revs_def rev_view_def rev_key_def)
    have "lives d' \<subseteq> insert (i, aa_ServiceID aa, aa_RevisionID aa) (lives d)"
      using rows by (auto simp: d' lives_def new_alias_def assign_set_def alias_named_def elim!: in_sql_updateE)
    with ok pub show ?thesis by (rule routing_ok_assign) (simp_all add: d' view_defs)
  qed
next
  case (5 now i wa)
  from r [unfolded 5] show ?thesis
  proof (rule withdraw_alias_InrE)
    fix als :: alias_row
    assume d': "d' = writeOutboxAndAudit h i ''service-alias'' (als_id als) ''service-alias.withdrawn'' (wa_ActorID wa)
       (wa_CorrelationID wa) ''accepted'' [] now
       (d\<lparr>aliases := sql_update (alias_named i (wa_ServiceID wa) (wa_Name wa)) (withdraw_set now) (aliases d)\<rparr>)"
    have "lives d' \<subseteq> lives d" by (auto simp: d' lives_def withdraw_set_def elim!: in_sql_updateE)
    then show ?thesis by (intro routing_ok_same [OF ok]) (simp_all add: d' pubs_def execs_def invs_def revs_def)
  qed
next
  case (6 now i rr)
  with r show ?thesis using routing_ok_retire_action [OF ok k] by blast
next
  case (7 now i ai)
  from r [unfolded 7] show ?thesis
  proof (cases rule: accept_invocation_InrE)
    case (1 rv v op)
    let ?d1 = "writeOutboxAndAudit h i ''invocation'' (ai_ID ai) ''invocation.accepted'' (ai_ActorID ai) (ai_CorrelationID ai)
          ''accepted'' (inv_operation_id v) now (d\<lparr>invocations := invocations d @ [v], executions := executions d @ [op]\<rparr>)"
    have "((i, rev_id rv), ai_ServiceID ai, ''published'') \<in> revs d"
      using 1(1) by (rule resolve_alias_Some) (force simp: revs_def rev_view_def rev_key_def)
    then have "routing_ok ?d1"
      by (rule routing_ok_accept_invocation [OF ok, where n = "ai_ID ai"])
        (use 1(3,4) in \<open>simp_all add: view_defs op_view_def inv_view_def queued_operation_def accepted_invocation_def key_defs\<close>)
    with 1(7) show ?thesis by (simp add: routing_ok_event)
  qed
next
  case (8 now i ac)
  with r show ?thesis using routing_ok_accept_cancellation [OF ok k] by blast
qed

end
