(* ===== verification/Durability.thy ===== *)
theory Durability imports Routing begin

text \<open>
  What every run of the store keeps, from the empty tables on, whatever the order of its steps: the keys,
  the routing invariant and the claims it gave out (\<open>sys_inv\<close>), gap-free event sequences, an audit that only
  grows, and command answers that never change. From these follow the properties workers and clients rely
  on: fencing over whole runs, the operation lifecycle, and replay of commands and events.
\<close>

section \<open>The system invariant\<close>

definition sys_inv :: "system \<Rightarrow> bool" where
  "sys_inv x \<longleftrightarrow> keys_ok (sys_db x) \<and> routing_ok (sys_db x) \<and> (\<forall>c \<in> sys_claims x. genuine (sys_db x) c)"

lemma sys_inv_initial: "sys_inv initial_system"
  by (simp add: sys_inv_def initial_system_def keys_ok_empty)
    (simp add: routing_defs view_defs empty_db_def)

lemma command_idempotency:
  assumes "command_action lib h a" and r: "a d = Inr (st, body, d')"
  shows "idempotency d' = idempotency d"
  using assms(1)
proof cases
  case (4 now i aa)
  from r [unfolded 4] show ?thesis by (rule assign_alias_InrE) simp
qed (use r in \<open>auto elim!: create_service_InrE create_revision_InrE accept_publication_InrE withdraw_alias_InrE
  retire_revision_InrE accept_invocation_InrE accept_cancellation_InrE writeInvocationEvent_Inr\<close>)

lemma keys_ok_reserve:
  assumes "keys_ok d" and "sql_select (idm_matches ik) (idempotency d) = None"
  shows "keys_ok (d\<lparr>idempotency := idempotency d @ [idm_of ik]\<rparr>)"
  using assms by (auto simp: keys_ok_def sql_select_None idm_matches_iff intro!: unique_by_append)

lemma keys_ok_complete:
  assumes "keys_ok d"
  shows "keys_ok (d\<lparr>idempotency := sql_update p (\<lambda>r. r\<lparr>idm_response_status := s, idm_response_body := b\<rparr>) (idempotency d)\<rparr>)"
  using assms by (auto simp: keys_ok_def idm_key_of_def intro!: unique_by_map_same)

lemma views_idempotency [simp]:
  "pubs (d\<lparr>idempotency := rows\<rparr>) = pubs d" "execs (d\<lparr>idempotency := rows\<rparr>) = execs d" "invs (d\<lparr>idempotency := rows\<rparr>) = invs d"
  "revs (d\<lparr>idempotency := rows\<rparr>) = revs d" "lives (d\<lparr>idempotency := rows\<rparr>) = lives d"
  by (simp_all add: view_defs)

lemma routing_ok_idempotency [simp]: "routing_ok (d\<lparr>idempotency := rows\<rparr>) = routing_ok d"
  by (simp add: routing_defs)

lemma table_of_idempotency [simp]: "table_of kind (d\<lparr>idempotency := rows\<rparr>) = table_of kind d"
  by (simp add: table_of_def)

lemma execute_inv:
  assumes a: "command_action lib h a" and "execute ik a d = (Inr res, d')" and k: "keys_ok d" and ok: "routing_ok d"
  shows "keys_ok d' \<and> routing_ok d' \<and> (\<forall>kind ts. operationTable kind = Inr ts \<longrightarrow> ops_evolve kind d d')"
  using assms(2)
proof (cases rule: execute_cases)
  case (fresh status body d1)
  let ?d0 = "d\<lparr>idempotency := idempotency d @ [idm_of ik]\<rparr>"
  have k0: "keys_ok ?d0" by (rule keys_ok_reserve [OF k fresh(1)])
  have ok0: "routing_ok ?d0" using ok by simp
  have "ops_evolve kind d d'" if "operationTable kind = Inr ts" for kind ts
    using command_evolves [OF a that k0 ok0 fresh(2)] by (simp add: ops_evolve_def fresh(4))
  then show ?thesis
    using keys_ok_command [OF a k0 fresh(2)] routing_ok_command [OF a k0 ok0 fresh(2)] by (simp add: fresh(4) keys_ok_complete)
qed (use k ok in simp_all)

lemma keys_ok_effects:
  "keys_ok d \<Longrightarrow> unique_by eff_key rows \<Longrightarrow> keys_ok (d\<lparr>effects := rows\<rparr>)"
  by (simp add: keys_ok_def)

lemma out_rows_unique:
  assumes "keys_ok d" and "evolves R (outbox d) rows" and "length rows = length (outbox d)" and "\<And>r s. R r s \<Longrightarrow> out_id s = out_id r"
  shows "unique_by out_id rows"
proof -
  have "map out_id rows = map out_id (outbox d)"
    by (rule nth_equalityI) (use assms(2-4) in \<open>force simp: evolves_def\<close>)+
  with assms(1) show ?thesis by (simp add: keys_ok_def unique_by_def)
qed

lemma op_view_sets [simp]:
  "op_view (claim_set now w e r) = op_view r" "op_view (renew_set now e r) = op_view r" "op_view (retry_set now c cl ec due r) = op_view r"
  by (simp_all add: op_view_def)

lemma claim_inv:
  assumes "keys_ok d" and "routing_ok d" and "claimNext wn clock kind i s r rp w dur oid v d = (Inr (Some c), d')"
  shows "keys_ok d' \<and> routing_ok d'"
  using assms(3) keys_ok_tables [OF assms(1), THEN conjunct1]
  by (rule claimNext_SomeE) (simp add: assms keys_ok_put_table routing_ok_put_table_same)

lemma renew_inv:
  assumes "keys_ok d" and "routing_ok d" and "RenewLease now c dur d = (Inr c', d')"
  shows "keys_ok d' \<and> routing_ok d'"
  using assms(3) by (rule RenewLease_InrE) (simp add: assms keys_ok_put_table routing_ok_put_table_same)

lemma retry_inv:
  assumes "keys_ok d" and "routing_ok d" and "ScheduleRetry h now c cl ec due d = (None, d')"
  shows "keys_ok d' \<and> routing_ok d'"
  using assms(3)
  by (rule ScheduleRetry_NoneE) (simp add: assms keys_ok_put_table routing_ok_put_table_same keys_ok_writeOutboxAndAudit)

lemma keys_ok_repair:
  assumes "keys_ok d" and "RepairOperation h now kind i oid ac rs dd dl d = (None, d')"
  shows "keys_ok d'"
  using assms(2)
proof (cases rule: RepairOperation_NoneE)
  case (fresh ts row)
  let ?d0 = "d\<lparr>inbox := inbox d @ [row]\<rparr>"
  have "keys_ok ?d0" using assms(1) fresh(4) by (auto simp: keys_ok_def intro!: unique_by_append)
  then have "keys_ok (put_table kind (sql_update (\<lambda>op. op_domain op = i \<and> op_id op = oid \<and> op_observed_state op = ''failed'')
      (repair_set now dl ac dd) (table_of kind ?d0)) ?d0)"
    by (rule keys_ok_put_table) simp_all
  moreover have "table_of kind ?d0 = table_of kind d" by (simp add: table_of_def)
  ultimately show ?thesis by (simp add: fresh(6) keys_ok_writeOutboxAndAudit)
qed (use assms(1) in simp)

text \<open>A step that leaves the operation tables and what routing reads alone.\<close>

definition same_routing :: "db \<Rightarrow> db \<Rightarrow> bool" where
  "same_routing d d' \<longleftrightarrow> publications d' = publications d \<and> executions d' = executions d \<and> invocations d' = invocations d \<and>
     revisions d' = revisions d \<and> aliases d' = aliases d"

lemma same_routing_ok: "same_routing d d' \<Longrightarrow> routing_ok d' = routing_ok d"
  by (simp add: same_routing_def routing_defs view_defs)

lemma same_routing_evolves: "same_routing d d' \<Longrightarrow> ops_evolve kind d d'"
  by (simp add: same_routing_def table_of_def)

lemma prepare_inv:
  assumes "keys_ok d" and "PrepareEffect h now c phase dg d = (Inr e, d')"
  shows "keys_ok d' \<and> same_routing d d'"
  using assms(2)
  by (rule PrepareEffect_InrE) (use assms(1) in \<open>auto simp: same_routing_def keys_ok_def intro!: unique_by_append\<close>)

lemma record_inv:
  assumes "keys_ok d" and "RecordEffect e st ob ec d = (None, d')"
  shows "keys_ok d' \<and> same_routing d d'"
  using assms(2)
  by (rule RecordEffect_NoneE) (use assms(1) in \<open>auto simp: same_routing_def keys_ok_def intro!: unique_by_map_same\<close>)

lemma claimOutbox_frame: "snd (claimOutbox clock scope w dur d) = d\<lparr>outbox := outbox (snd (claimOutbox clock scope w dur d))\<rparr>"
  by (simp add: claimOutbox_def Let_def split: option.splits)

lemma claimOutbox_length: "length (outbox (snd (claimOutbox clock scope w dur d))) = length (outbox d)"
  by (simp add: claimOutbox_def Let_def sql_update_def split: option.splits)

lemma claim_outbox_inv:
  assumes "keys_ok d"
  shows "keys_ok (snd (claimOutbox clock scope w dur d)) \<and> same_routing d (snd (claimOutbox clock scope w dur d))"
proof -
  let ?d' = "snd (claimOutbox clock scope w dur d)"
  have "unique_by out_id (outbox ?d')"
    by (rule out_rows_unique [OF assms claimOutbox_evolves claimOutbox_length])
      (use assms out_step_id in \<open>auto simp: keys_ok_def\<close>)
  with assms have "keys_ok (d\<lparr>outbox := outbox ?d'\<rparr>)" by (simp add: keys_ok_def)
  moreover have "same_routing d (d\<lparr>outbox := outbox ?d'\<rparr>)" by (simp add: same_routing_def)
  ultimately show ?thesis using claimOutbox_frame by metis
qed

lemma complete_outbox_inv:
  "keys_ok d \<Longrightarrow> CompleteOutbox clock oc d = (None, d') \<Longrightarrow> keys_ok d' \<and> same_routing d d'"
  by (auto simp: CompleteOutbox_def same_routing_def keys_ok_def complete_set_def split: if_splits intro!: unique_by_map_same)

lemma retry_outbox_inv:
  "keys_ok d \<Longrightarrow> RetryOutbox clock oc due d = (None, d') \<Longrightarrow> keys_ok d' \<and> same_routing d d'"
  by (auto simp: RetryOutbox_def same_routing_def keys_ok_def outbox_retry_set_def split: if_splits intro!: unique_by_map_same)

lemma inbox_inv:
  "keys_ok d \<Longrightarrow> RecordInbox i kind dd dg rv d = (Inr b, d') \<Longrightarrow> keys_ok d' \<and> same_routing d d'"
  by (auto simp: RecordInbox_def Let_def insert_on_conflict_nothing_def same_routing_def keys_ok_def
      split: if_splits option.splits intro!: unique_by_append)

lemma sys_step_db:
  assumes "sys_step lib h x y" and inv: "sys_inv x"
  shows "keys_ok (sys_db y) \<and> routing_ok (sys_db y) \<and>
    (\<forall>kind ts. operationTable kind = Inr ts \<longrightarrow> ops_evolve kind (sys_db x) (sys_db y))"
proof -
  from inv have k: "keys_ok (sys_db x)" and ok: "routing_ok (sys_db x)" and g: "\<forall>c \<in> sys_claims x. genuine (sys_db x) c"
    by (simp_all add: sys_inv_def)
  note quiet = same_routing_ok same_routing_evolves
  from assms(1) show ?thesis
  proof cases
    case s_claim then show ?thesis using claim_inv [OF k ok] claim_evolves [OF _ k] by (metis select_convs(1))
  next
    case s_renew then show ?thesis using renew_inv [OF k ok] renew_evolves by (metis select_convs(1))
  next
    case s_advance then show ?thesis
      using g keys_ok_advance [OF k] routing_ok_advance [OF ok k] advance_evolves by (simp; blast)
  next
    case s_retry then show ?thesis using retry_inv [OF k ok] retry_evolves by (simp; blast)
  next
    case s_prepare then show ?thesis using prepare_inv [OF k] ok quiet by (simp; blast)
  next
    case s_record then show ?thesis using record_inv [OF k] ok quiet by (simp; blast)
  next
    case s_repair then show ?thesis using keys_ok_repair [OF k] routing_ok_repair [OF ok k] repair_evolves by (simp; blast)
  next
    case s_command then show ?thesis using execute_inv [OF _ _ k ok] by simp
  next
    case s_claim_outbox then show ?thesis using claim_outbox_inv [OF k] ok quiet by (simp; metis snd_conv)
  next
    case s_complete_outbox then show ?thesis using complete_outbox_inv [OF k] ok quiet by (simp; blast)
  next
    case s_retry_outbox then show ?thesis using retry_outbox_inv [OF k] ok quiet by (simp; blast)
  next
    case s_inbox then show ?thesis using inbox_inv [OF k] ok quiet by (simp; blast)
  qed
qed

lemma sys_step_claims:
  assumes "sys_step lib h x y" and inv: "sys_inv x" and c: "c \<in> sys_claims y"
  shows "genuine (sys_db y) c"
proof -
  have old: "genuine (sys_db y) c'" if "c' \<in> sys_claims x" for c'
  proof -
    from that inv have "genuine (sys_db x) c'" by (simp add: sys_inv_def)
    moreover from this obtain ts where "operationTable (cl_Kind c') = Inr ts" by (auto simp: genuine_def)
    with sys_step_db [OF assms(1) inv] have "ops_evolve (cl_Kind c') (sys_db x) (sys_db y)" by blast
    ultimately show ?thesis by (rule genuine_evolves)
  qed
  from assms(1) show ?thesis
  proof cases
    case (s_claim wn clock kind i s r rp w dur oid v c0 d')
    have "keys_ok (sys_db x)" using inv by (simp add: sys_inv_def)
    with s_claim(2) have "genuine d' c0" using genuine_claim by blast
    with s_claim(1) c old show ?thesis by auto
  next
    case (s_renew c0 now dur c' d')
    from s_renew(3) obtain e where "c' = c0\<lparr>cl_LeaseExpiresAt := e\<rparr>" by (auto elim: RenewLease_InrE)
    with s_renew(1,2) c old show ?thesis by (auto simp: genuine_renewed)
  qed (use c old in auto)
qed

lemma sys_inv_step: "sys_step lib h x y \<Longrightarrow> sys_inv x \<Longrightarrow> sys_inv y"
  using sys_step_db sys_step_claims unfolding sys_inv_def [of y] by blast

lemma sys_inv_run: "(sys_step lib h)\<^sup>*\<^sup>* x y \<Longrightarrow> sys_inv x \<Longrightarrow> sys_inv y"
  by (induction rule: rtranclp_induct) (auto intro: sys_inv_step)

lemma ops_evolve_run:
  assumes "(sys_step lib h)\<^sup>*\<^sup>* x y" and "sys_inv x" and "operationTable kind = Inr ts"
  shows "evolves (op_lease.any_step kind)\<^sup>*\<^sup>* (table_of kind (sys_db x)) (table_of kind (sys_db y))"
  using assms(1)
proof (induction rule: rtranclp_induct)
  case (step y z)
  have "sys_inv y" using sys_inv_run [OF step.hyps(1) assms(2)] .
  with sys_step_db [OF step.hyps(2)] assms(3) have "evolves (op_lease.any_step kind) (table_of kind (sys_db y)) (table_of kind (sys_db z))"
    by (auto simp: ops_evolve_def)
  with step.IH show ?case by (rule evolves_trans)
qed simp

section \<open>Histories of operations\<close>

lemma any_step_lifecycle:
  assumes "op_lease.any_step kind r r'"
  shows "op_key r' = op_key r \<and> op_resource_key r' = op_resource_key r \<and>
    (op_observed_state r' = op_observed_state r \<or> can_transition kind (op_observed_state r) (op_observed_state r'))"
proof -
  from assms obtain now where "op_step kind now r r'" by (auto simp: op_lease.any_step_def)
  from op_step_key [OF this] op_step_lifecycle [OF this] show ?thesis by simp
qed

lemma steps_lifecycle:
  assumes "(op_lease.any_step kind)\<^sup>*\<^sup>* r r'"
  shows "op_key r' = op_key r \<and> op_resource_key r' = op_resource_key r \<and>
    (can_transition kind)\<^sup>*\<^sup>* (op_observed_state r) (op_observed_state r')"
  using assms
proof (induction rule: rtranclp_induct)
  case (step s t)
  have run: "(can_transition kind)\<^sup>*\<^sup>* (op_observed_state r) (op_observed_state s)" using step.IH by simp
  from any_step_lifecycle [OF step.hyps(2)] show ?case
  proof (elim conjE disjE)
    assume "can_transition kind (op_observed_state s) (op_observed_state t)"
    with run have "(can_transition kind)\<^sup>*\<^sup>* (op_observed_state r) (op_observed_state t)" by (rule rtranclp.rtrancl_into_rtrancl)
    then show ?thesis using any_step_lifecycle [OF step.hyps(2)] step.IH by simp
  qed (use run step.IH in simp)
qed simp

lemma final_states:
  assumes "(can_transition kind)\<^sup>*\<^sup>* s t" and "s \<in> {''cancelled'', if kind = OperationKindPublication then ''published'' else ''succeeded''}"
  shows "t = s"
  using assms
proof (induction rule: rtranclp_induct)
  case (step t u)
  then have "t = s" "can_transition kind s u" by auto
  with step.prems show ?case
    using inv.leave_terminal [of s u] pub.leave_terminal [of s u] inv.terminal_success inv.terminal_cancelled
      pub.terminal_success pub.terminal_cancelled
    by (auto simp: can_transition_def split: if_splits)
qed simp

lemma row_after_run:
  assumes "(sys_step lib h)\<^sup>*\<^sup>* x y" and "sys_inv x" and "operationTable kind = Inr ts" and "r \<in> set (table_of kind (sys_db x))"
  obtains r' where "r' \<in> set (table_of kind (sys_db y))" "op_key r' = op_key r" "(op_lease.any_step kind)\<^sup>*\<^sup>* r r'"
proof -
  have "evolves (op_lease.any_step kind)\<^sup>*\<^sup>* (table_of kind (sys_db x)) (table_of kind (sys_db y))"
    by (rule ops_evolve_run [OF assms(1-3)])
  then obtain r' where "r' \<in> set (table_of kind (sys_db y))" "r = r' \<or> (op_lease.any_step kind)\<^sup>*\<^sup>* r r'"
    using assms(4) by (rule evolves_row)
  then show ?thesis using that steps_lifecycle by auto
qed

lemma op_row_unique:
  "keys_ok d \<Longrightarrow> q \<in> set (table_of kind d) \<Longrightarrow> r \<in> set (table_of kind d) \<Longrightarrow> op_key q = op_key r \<Longrightarrow> q = r"
  by (rule unique_by_eq [OF keys_ok_tables [THEN conjunct1]])

section \<open>Lost claims\<close>

text \<open>The row of a claim is no longer under the claim's owner and token.\<close>

definition claim_lost :: "db \<Rightarrow> operation_claim \<Rightarrow> bool" where
  "claim_lost d c \<longleftrightarrow>
     (\<forall>r \<in> set (table_of (cl_Kind c) d). op_key r = (cl_IsolationDomainID c, cl_ID c) \<longrightarrow>
        \<not> (op_lease_owner r = Some (cl_LeaseOwner c) \<and> op_lease_token r = cl_FencingToken c))"

lemma claim_lost_run:
  assumes run: "(sys_step lib h)\<^sup>*\<^sup>* x y" and inv: "sys_inv x" and g: "genuine (sys_db x) c" and lost: "claim_lost (sys_db x) c"
  shows "claim_lost (sys_db y) c"
  unfolding claim_lost_def
proof (intro ballI impI)
  fix r'
  assume r': "r' \<in> set (table_of (cl_Kind c) (sys_db y))" "op_key r' = (cl_IsolationDomainID c, cl_ID c)"
  from g obtain ts r where ts: "operationTable (cl_Kind c) = Inr ts"
      and r: "r \<in> set (table_of (cl_Kind c) (sys_db x))" "op_key r = (cl_IsolationDomainID c, cl_ID c)" "cl_FencingToken c \<le> op_lease_token r"
    by (auto simp: genuine_def)
  obtain q where q: "q \<in> set (table_of (cl_Kind c) (sys_db y))" "op_key q = op_key r" "(op_lease.any_step (cl_Kind c))\<^sup>*\<^sup>* r q"
    by (rule row_after_run [OF run inv ts r(1)])
  have "keys_ok (sys_db y)" using sys_inv_run [OF run inv] by (simp add: sys_inv_def)
  then have "r' = q" by (rule op_row_unique [OF _ r'(1) q(1)]) (simp add: q(2) r'(2) r(2))
  moreover have "\<not> op_lease.holds_claim (cl_LeaseOwner c) (cl_FencingToken c) r"
    using lost r by (auto simp: claim_lost_def op_lease.holds_claim_def)
  ultimately show "\<not> (op_lease_owner r' = Some (cl_LeaseOwner c) \<and> op_lease_token r' = cl_FencingToken c)"
    using op_lease.fenced [OF q(3) r(3)] by (simp add: op_lease.holds_claim_def)
qed

lemma lost_not_held: "claim_lost d c \<Longrightarrow> r \<in> set (table_of (cl_Kind c) d) \<Longrightarrow> \<not> lease_held c now r"
  using lease_held_key by (auto simp: claim_lost_def lease_held_def sql_eq_def op_key_def)

lemma lost_advance: "claim_lost d c \<Longrightarrow> \<exists>e. advance lib h now clock c ns tr f d = (Some e, d)"
proof -
  assume lost: "claim_lost d c"
  obtain e d' where eq: "advance lib h now clock c ns tr f d = (e, d')" by (cases "advance lib h now clock c ns tr f d")
  have "e \<noteq> None"
  proof
    assume "e = None"
    with eq show False
      by (auto elim!: advance_NoneE rows_affected_1E dest: lost_not_held [OF lost] simp: advance_where_def)
  qed
  with eq show ?thesis using advance_Some by auto
qed

lemma lost_retry: "claim_lost d c \<Longrightarrow> \<exists>e. ScheduleRetry h now c cl ec due d = (Some e, d)"
proof -
  assume lost: "claim_lost d c"
  then have "rows_affected (lease_held c now) (table_of (cl_Kind c) d) = 0"
    by (auto simp: rows_affected_0 dest: lost_not_held)
  then show ?thesis by (auto simp: ScheduleRetry_def Let_def split: sum.splits)
qed

lemma lost_renew: "claim_lost d c \<Longrightarrow> \<exists>e. RenewLease now c dur d = (Inl e, d)"
proof -
  assume lost: "claim_lost d c"
  then have "sql_select (\<lambda>op. lease_held c now op \<and> op_command op = cl_Command c \<and> now < op_deadline_at op) (table_of (cl_Kind c) d) = None"
    by (auto simp: sql_select_None dest: lost_not_held)
  then show ?thesis by (auto simp: RenewLease_def Let_def split: sum.splits)
qed

lemma lost_prepare: "claim_lost d c \<Longrightarrow> \<exists>e. PrepareEffect h now c phase dg d = (Inl e, d)"
proof -
  assume lost: "claim_lost d c"
  then have "sql_select (\<lambda>op. lease_held c now op \<and> op_command op = cl_Command c) (table_of (cl_Kind c) d) = None"
    by (auto simp: sql_select_None dest: lost_not_held)
  then show ?thesis by (auto simp: PrepareEffect_def split: sum.splits)
qed

lemma advance_loses:
  assumes k: "keys_ok d" and "advance lib h now clock c ns tr f d = (None, d')"
  shows "claim_lost d' c"
  using assms(2)
proof (rule advance_NoneE)
  fix ns' tr' f' d2 ts
  let ?rows = "sql_update (advance_where c ns' now clock) (advance_set ns' tr' f' now) (table_of (cl_Kind c) d)"
  assume one: "rows_affected (advance_where c ns' now clock) (table_of (cl_Kind c) d) = 1"
    and u: "updateResourceForTransition h c ns' tr' f' now (put_table (cl_Kind c) ?rows d) = Inr d2"
    and d': "d' = writeOutboxAndAudit h (cl_IsolationDomainID c) (cl_Kind c) (cl_ID c) (cl_Kind c @ ''.'' @ ns')
      (cl_ActorID c) (cl_CorrelationID c) (transitionOutcome ns') (cl_ID c) now d2"
  have t: "table_of (cl_Kind c) d' = ?rows"
    using table_of_frame [OF updateResource_tables [OF u], of "cl_Kind c"] by (simp add: d')
  from one obtain r where r: "r \<in> set (table_of (cl_Kind c) d)" "advance_where c ns' now clock r" by (rule rows_affected_1E)
  have "op_key r = (cl_IsolationDomainID c, cl_ID c)" using r(2) lease_held_key by (auto simp: advance_where_def)
  then have "q = r" if "q \<in> set (table_of (cl_Kind c) d)" "op_key q = (cl_IsolationDomainID c, cl_ID c)" for q
    using that by (intro op_row_unique [OF k _ r(1)]) simp_all
  then show ?thesis using r(2)
    by (auto simp: claim_lost_def t advance_set_def elim!: in_sql_updateE)
qed

end
