(* ===== verification/Records.thy ===== *)
theory Records
  imports Durability "HOL-Library.Sublist"
begin

text \<open>
  The records a run leaves behind: the audit trail and the invocation events, which only grow, the events of
  an invocation being numbered 1, 2, 3, ... without a gap, and the answers of commands, which are there with
  their row from the moment a command commits and never change. Replaying a command or reading events from a
  sequence number therefore gives the same answer whatever happened in between.
\<close>

section \<open>Audit, inbox and events only grow\<close>

definition numbered :: "event_row \<Rightarrow> event_row list \<Rightarrow> bool" where
  "numbered e rows \<longleftrightarrow> evt_sequence e = next_sequence (evt_domain e) (evt_invocation_id e) rows"

definition grows :: "db \<Rightarrow> db \<Rightarrow> bool" where
  "grows d d' \<longleftrightarrow> prefix (audit d) (audit d') \<and> prefix (inbox d) (inbox d') \<and>
     (events d' = events d \<or> (\<exists>e. events d' = events d @ [e] \<and> numbered e (events d)))"

lemma grows_refl [simp]: "grows d d"
  by (simp add: grows_def)

lemma growsI:
  "audit d' = audit d \<or> (\<exists>a. audit d' = audit d @ [a]) \<Longrightarrow> prefix (inbox d) (inbox d') \<Longrightarrow> events d' = events d \<Longrightarrow> grows d d'"
  by (auto simp: grows_def)

lemma grows_event:
  assumes "writeInvocationEvent h v ty ac pl now d1 = Inr d'" and "events d1 = events d" and "prefix (audit d) (audit d1)" and "prefix (inbox d) (inbox d1)"
  shows "grows d d'"
  using assms by (auto simp: grows_def numbered_def elim!: writeInvocationEvent_Inr)

lemma grows_command:
  assumes "command_action lib h a" and r: "a d = Inr (st, body, d')"
  shows "grows d d'"
  using assms(1)
proof cases
  case (4 now i aa)
  from r [unfolded 4] show ?thesis by (rule assign_alias_InrE) (auto simp: audit_writeOutboxAndAudit intro!: growsI)
next
  case (7 now i ai)
  from r [unfolded 7] show ?thesis
    by (rule accept_invocation_InrE) (erule grows_event; simp add: audit_writeOutboxAndAudit)
next
  case (8 now i ac)
  from r [unfolded 8] show ?thesis
  proof (cases rule: accept_cancellation_InrE)
    case (new v)
    from new(5) show ?thesis by (rule grows_event) (simp_all add: audit_writeOutboxAndAudit)
  qed simp
qed (use r in \<open>auto simp: audit_writeOutboxAndAudit elim!: create_service_InrE create_revision_InrE accept_publication_InrE
  withdraw_alias_InrE retire_revision_InrE intro!: growsI\<close>)

lemma put_table_records [simp]:
  "audit (put_table kind rows d) = audit d" "inbox (put_table kind rows d) = inbox d" "events (put_table kind rows d) = events d"
  "idempotency (put_table kind rows d) = idempotency d"
  by (simp_all add: put_table_def)

lemma advance_records:
  assumes "advance lib h now clock c ns tr f d = (None, d')"
  shows "grows d d' \<and> idempotency d' = idempotency d"
  using assms
proof (rule advance_NoneE)
  fix ns tr f d2 ts
  assume u: "updateResourceForTransition h c ns tr f now
       (put_table (cl_Kind c) (sql_update (advance_where c ns now clock) (advance_set ns tr f now) (table_of (cl_Kind c) d)) d) = Inr d2"
    and d': "d' = writeOutboxAndAudit h (cl_IsolationDomainID c) (cl_Kind c) (cl_ID c) (cl_Kind c @ ''.'' @ ns)
      (cl_ActorID c) (cl_CorrelationID c) (transitionOutcome ns) (cl_ID c) now d2"
  from u have "grows d d2 \<and> idempotency d2 = idempotency d"
  proof (cases rule: updateResource_cases)
    case (invocation v)
    from invocation(5) have "idempotency d2 = idempotency d" by (auto elim: writeInvocationEvent_Inr)
    moreover from invocation(5) have "grows d d2" by (rule grows_event) simp_all
    ultimately show ?thesis by simp
  qed (auto intro!: growsI)
  then show ?thesis by (auto simp: d' grows_def audit_writeOutboxAndAudit prefix_def)
qed

lemma quiet_records:
  "claimNext wn clock kind i s r rp w dur oid v d = (res, d') \<Longrightarrow> grows d d' \<and> idempotency d' = idempotency d"
  "RenewLease now c dur d = (res', d') \<Longrightarrow> grows d d' \<and> idempotency d' = idempotency d"
  "PrepareEffect h now c phase dg d = (Inr e, d') \<Longrightarrow> grows d d' \<and> idempotency d' = idempotency d"
  "RecordEffect ef st ob ec d = (None, d') \<Longrightarrow> grows d d' \<and> idempotency d' = idempotency d"
  "CompleteOutbox clock oc d = (res3, d') \<Longrightarrow> grows d d' \<and> idempotency d' = idempotency d"
  "RetryOutbox clock oc due d = (res3, d') \<Longrightarrow> grows d d' \<and> idempotency d' = idempotency d"
  "claimOutbox clock scope w dur d = (res4, d') \<Longrightarrow> grows d d' \<and> idempotency d' = idempotency d"
  "RecordInbox i kind dd dg' rv d = (res5, d') \<Longrightarrow> grows d d' \<and> idempotency d' = idempotency d"
  subgoal by (auto simp: claimNext_def Let_def intro!: growsI split: sum.splits option.splits)
  subgoal by (auto simp: RenewLease_def Let_def intro!: growsI split: sum.splits option.splits if_splits)
  subgoal by (auto elim!: PrepareEffect_InrE intro!: growsI)
  subgoal by (auto elim!: RecordEffect_NoneE intro!: growsI)
  subgoal by (auto simp: CompleteOutbox_def intro!: growsI split: if_splits)
  subgoal by (auto simp: RetryOutbox_def intro!: growsI split: if_splits)
  subgoal by (auto simp: claimOutbox_def Let_def intro!: growsI split: option.splits if_splits)
  subgoal by (auto simp: RecordInbox_def Let_def insert_on_conflict_nothing_def intro!: growsI split: option.splits if_splits)
  done

lemma retry_records:
  "ScheduleRetry h now c cl ec due d = (None, d') \<Longrightarrow> grows d d' \<and> idempotency d' = idempotency d"
  by (auto elim!: ScheduleRetry_NoneE simp: audit_writeOutboxAndAudit intro!: growsI)

lemma repair_records:
  "RepairOperation h now kind i oid ac rs dd dl d = (None, d') \<Longrightarrow> grows d d' \<and> idempotency d' = idempotency d"
  by (auto elim!: RepairOperation_NoneE simp: audit_writeOutboxAndAudit intro!: growsI)

lemma execute_grows:
  assumes "command_action lib h a" and "execute ik a d = (res, d')"
  shows "grows d d'"
  using assms(2)
proof (cases rule: execute_cases)
  case (fresh status body d1)
  with grows_command [OF assms(1) fresh(2)] show ?thesis by (simp add: grows_def)
qed simp_all

lemma sys_step_grows: "sys_step lib h x y \<Longrightarrow> grows (sys_db x) (sys_db y)"
  by (cases rule: sys_step.cases)
    (auto dest: quiet_records advance_records retry_records repair_records execute_grows)

section \<open>Event sequences have no gaps\<close>

definition events_of :: "string \<Rightarrow> string \<Rightarrow> event_row list \<Rightarrow> event_row list" where
  "events_of i v rows = filter (\<lambda>e. evt_domain e = i \<and> evt_invocation_id e = v) rows"

definition events_ok :: "event_row list \<Rightarrow> bool" where
  "events_ok rows \<longleftrightarrow> (\<forall>i v. map evt_sequence (events_of i v rows) = [1..<Suc (length (events_of i v rows))])"

lemma fold_max_upt: "fold max [1..<Suc n] 0 = (n :: nat)"
  by (induction n) auto

lemma next_sequence_ok: "events_ok rows \<Longrightarrow> next_sequence i v rows = Suc (length (events_of i v rows))"
  using fold_max_upt by (simp add: next_sequence_def events_ok_def events_of_def)

lemma events_ok_append:
  assumes "events_ok rows" and "numbered e rows"
  shows "events_ok (rows @ [e])"
  using assms next_sequence_ok [OF assms(1)]
  by (auto simp: events_ok_def events_of_def numbered_def)

lemma events_ok_grows: "grows d d' \<Longrightarrow> events_ok (events d) \<Longrightarrow> events_ok (events d')"
  by (auto simp: grows_def intro: events_ok_append)

lemma records_run:
  assumes "(sys_step lib h)\<^sup>*\<^sup>* x y"
  shows "prefix (audit (sys_db x)) (audit (sys_db y)) \<and> prefix (inbox (sys_db x)) (inbox (sys_db y)) \<and> prefix (events (sys_db x)) (events (sys_db y)) \<and>
    (events_ok (events (sys_db x)) \<longrightarrow> events_ok (events (sys_db y)))"
  using assms
proof (induction rule: rtranclp_induct)
  case (step y z)
  have g: "grows (sys_db y) (sys_db z)" by (rule sys_step_grows [OF step.hyps(2)])
  then have "prefix (audit (sys_db y)) (audit (sys_db z))" "prefix (inbox (sys_db y)) (inbox (sys_db z))" "prefix (events (sys_db y)) (events (sys_db z))"
    by (auto simp: grows_def)
  with step.IH events_ok_grows [OF g] show ?case by (blast intro: prefix_order.trans)
qed simp

lemma events_ok_run: "(sys_step lib h)\<^sup>*\<^sup>* initial_system y \<Longrightarrow> events_ok (events (sys_db y))"
  using records_run [of lib h initial_system y]
  by (simp add: initial_system_def empty_db_def events_ok_def events_of_def)

lemma filter_upt: "map f xs = [m..<n] \<Longrightarrow> filter (\<lambda>x. m + k \<le> f x) xs = drop k (xs :: 'a list)" for f :: "'a \<Rightarrow> nat"
proof (induction xs arbitrary: m k)
  case (Cons x xs)
  then have "f x = m" "map f xs = [Suc m..<n]" "m < n"
    by (auto simp: upt_conv_Cons dest: map_eq_Cons_D split: if_splits) (metis list.sel upt_rec list.discI)+
  with Cons.IH [of "Suc m" "k - 1"] Cons.IH [of "Suc m" 0] show ?case
    by (cases k) (auto simp: filter_id_conv intro!: filter_True)
qed simp

lemma listEvents_ok:
  assumes "events_ok (events d)"
  shows "listEvents i v after limit d =
    (let page = (if limit = 0 then drop after (events_of i v (events d)) else take limit (drop after (events_of i v (events d))))
     in if page = [] \<and> \<not> (\<exists>r \<in> set (invocations d). inv_domain r = i \<and> inv_id r = v) then Inl (Sentinel ErrNoRows) else Inr page)"
proof -
  let ?es = "events_of i v (events d)"
  have seq: "map evt_sequence ?es = [1..<Suc (length ?es)]" using assms by (simp add: events_ok_def)
  have "filter (\<lambda>e. evt_domain e = i \<and> evt_invocation_id e = v \<and> after < evt_sequence e) (events d) =
      filter (\<lambda>e. 1 + after \<le> evt_sequence e) ?es"
    by (simp add: events_of_def conj_assoc Suc_le_eq)
  also have "\<dots> = drop after ?es" by (rule filter_upt [OF seq])
  finally have f: "filter (\<lambda>e. evt_domain e = i \<and> evt_invocation_id e = v \<and> after < evt_sequence e) (events d) = drop after ?es" .
  have "sorted (map evt_sequence (drop after ?es))" 
    unfolding drop_map [symmetric] seq by (intro sorted_wrt_drop sorted_upt)
  then have "sort_key evt_sequence (drop after ?es) = drop after ?es" by (rule sort_key_id_if_sorted)
  then show ?thesis by (simp add: listEvents_def f)
qed

section \<open>Answers of commands\<close>

definition answered :: "idempotency_row \<Rightarrow> bool" where
  "answered r \<longleftrightarrow> idm_response_status r \<noteq> None \<and> idm_response_body r \<noteq> None"

lemma execute_answers:
  assumes a: "command_action lib h a" and "execute ik a d = (res, d')" and "\<forall>r \<in> set (idempotency d). answered r"
  shows "set (idempotency d) \<subseteq> set (idempotency d') \<and> (\<forall>r \<in> set (idempotency d'). answered r)"
  using assms(2)
proof (cases rule: execute_cases)
  case (fresh status body d1)
  have "idempotency d1 = idempotency d @ [idm_of ik]" using command_idempotency [OF a fresh(2)] by simp
  moreover have "\<forall>r \<in> set (idempotency d). \<not> idm_matches ik r" using fresh(1) by (simp add: sql_select_None)
  moreover have "idm_matches ik (idm_of ik)" by (simp add: idm_matches_iff)
  ultimately have "idempotency d' = idempotency d @ [(idm_of ik)\<lparr>idm_response_status := Some status, idm_response_body := Some body\<rparr>]"
    by (simp add: fresh(4) sql_update_def map_idI)
  then show ?thesis using assms(3) by (auto simp: answered_def)
qed (use assms(3) in auto)

lemmas quiet_idempotency = quiet_records [THEN conjunct2] advance_records [THEN conjunct2]
  retry_records [THEN conjunct2] repair_records [THEN conjunct2]

lemma step_answers:
  assumes "sys_step lib h x y" and "\<forall>r \<in> set (idempotency (sys_db x)). answered r"
  shows "set (idempotency (sys_db x)) \<subseteq> set (idempotency (sys_db y)) \<and> (\<forall>r \<in> set (idempotency (sys_db y)). answered r)"
  using assms(1)
proof cases
  case (s_command a ik res d')
  from execute_answers [OF s_command(2,3) assms(2)] s_command(1) show ?thesis by simp
qed (use assms(2) in \<open>simp_all add: quiet_idempotency\<close>)

lemma answers_run:
  assumes "(sys_step lib h)\<^sup>*\<^sup>* x y" and "\<forall>r \<in> set (idempotency (sys_db x)). answered r"
  shows "set (idempotency (sys_db x)) \<subseteq> set (idempotency (sys_db y)) \<and> (\<forall>r \<in> set (idempotency (sys_db y)). answered r)"
  using assms
proof (induction rule: rtranclp_induct)
  case (step y z)
  from step.IH [OF step.prems] step_answers [OF step.hyps(2)] show ?case by blast
qed simp

lemma execute_stored:
  assumes k: "keys_ok d" and "r \<in> set (idempotency d)" and "idm_matches ik r" and "answered r"
  shows "execute ik a d =
    (if idm_request_digest r \<noteq> ik_RequestDigest ik
     then (Inl (DomainError ''IDEMPOTENCY_KEY_REUSED'' ''Idempotency key was reused with a different request.'' False), d)
     else (Inr \<lparr>cr_Status = the (idm_response_status r), cr_Body = the (idm_response_body r), cr_Replayed = True\<rparr>, d))"
proof -
  have "unique_by idm_key_of (idempotency d)" using k by (simp add: keys_ok_def)
  then have "sql_select (idm_matches ik) (idempotency d) = Some r"
    by (rule sql_select_unique [where key = idm_key_of]) (use assms in \<open>auto simp: idm_matches_iff\<close>)
  then show ?thesis using assms(4) by (auto simp: execute_present answered_def)
qed

text \<open>The row a successful command leaves.\<close>

lemma execute_Inr_row:
  assumes a: "command_action lib h a" and "execute ik a d = (Inr res, d')"
  obtains r where "r \<in> set (idempotency d')" "idm_matches ik r" "idm_request_digest r = ik_RequestDigest ik"
    "idm_response_status r = Some (cr_Status res)" "idm_response_body r = Some (cr_Body res)"
  using assms(2)
proof (cases rule: execute_cases)
  case (replayed r status body)
  then show ?thesis using sql_select_Some [OF replayed(1)] by (intro that [of r]) auto
next
  case (fresh status body d1)
  let ?r = "(idm_of ik)\<lparr>idm_response_status := Some status, idm_response_body := Some body\<rparr>"
  have "idempotency d1 = idempotency d @ [idm_of ik]" using command_idempotency [OF a fresh(2)] by simp
  then have "?r \<in> set (idempotency d')" by (simp add: fresh(4) sql_update_def idm_matches_iff)
  then show ?thesis by (rule that) (use fresh(3) in \<open>simp_all add: idm_of_def idm_matches_def\<close>)
qed simp

end
