(* ===== verification/Scenario.thy ===== *)
theory Scenario
  imports Records
begin

text \<open>
  One concrete run of the store, from the empty tables: a service and a draft revision are created, its
  publication is accepted and claimed by a first worker; the lease runs out and a second worker takes the
  operation over, validates and publishes. The states of this run are the inputs at which the properties of
  the later theories are evaluated.
\<close>

definition demo_lib :: schema_lib where
  "demo_lib = \<lparr>sl_compiles = (\<lambda>_. True), sl_accepts = (\<lambda>_ _. True)\<rparr>"

definition demo_hash :: "string \<Rightarrow> string" where
  "demo_hash s = take 1 (rev s)"

definition demo_key :: "string \<Rightarrow> Idempotency" where
  "demo_key k = \<lparr>ik_IsolationDomainID = ''iso'', ik_Method = ''POST'', ik_Path = ''/v1'', ik_Key = k, ik_RequestDigest = ''digest''\<rparr>"

definition demo_service :: action where
  "demo_service = create_service_action demo_hash 1 ''iso''
     \<lparr>cs_WorkspaceID = [], cs_ID = ''svc'', cs_Name = ''n'', cs_Description = [], cs_ActorID = ''a'', cs_CorrelationID = ''c1''\<rparr>"

definition demo_revision :: action where
  "demo_revision = create_revision_action demo_hash 2 ''iso''
     \<lparr>cv_ID = ''rev'', cv_ServiceID = ''svc'', cv_RuntimeProfile = ''reference/v1'', cv_RequiredCapabilities = [],
      cv_InputSchema = Some [], cv_OutputSchema = Some [], cv_ActorID = ''a'', cv_CorrelationID = ''c2''\<rparr>"

definition demo_publication :: action where
  "demo_publication = accept_publication_action demo_lib demo_hash 3 ''iso''
     \<lparr>ap_RevisionID = ''rev'', ap_ExpectedVersion = 1, ap_ActorID = ''a'', ap_CorrelationID = ''c3'', ap_Deadline = 100\<rparr> (\<lambda>_. None)"

definition demo_claim :: "instant \<Rightarrow> string \<Rightarrow> db \<Rightarrow> operation_claim option result \<times> db" where
  "demo_claim now worker = claimNext now now OperationKindPublication ''iso'' [] [] [] worker 10 [] 0"

datatype demo_step = Command string action | Claim instant string | Move instant string

text \<open>A step of the run: a command, a claim of the publication, or a transition by the claim made last.\<close>

type_synonym demo_state = "db \<times> operation_claim list"

definition demo_do :: "demo_step \<Rightarrow> demo_state \<Rightarrow> demo_state option" where
  "demo_do s x = (case s of
     Command k a \<Rightarrow> (case execute (demo_key k) a (fst x) of (Inr _, d) \<Rightarrow> Some (d, snd x) | _ \<Rightarrow> None)
   | Claim now w \<Rightarrow> (case demo_claim now w (fst x) of (Inr (Some c), d) \<Rightarrow> Some (d, c # snd x) | _ \<Rightarrow> None)
   | Move now ns \<Rightarrow>
       (case snd x of [] \<Rightarrow> None
        | c # _ \<Rightarrow> (case advance demo_lib demo_hash now now c ns None None (fst x) of (None, d) \<Rightarrow> Some (d, snd x) | _ \<Rightarrow> None)))"

primrec demo_all :: "demo_step list \<Rightarrow> demo_state \<Rightarrow> demo_state option" where
  "demo_all [] x = Some x"
| "demo_all (s # ss) x = (case demo_do s x of None \<Rightarrow> None | Some y \<Rightarrow> demo_all ss y)"

definition demo_alias :: action where
  "demo_alias = assign_alias_action demo_hash 30 ''iso''
     \<lparr>aa_ID = ''als'', aa_ServiceID = ''svc'', aa_Name = ''live'', aa_RevisionID = ''rev'', aa_ExpectedVersion = None,
      aa_ActorID = ''a'', aa_CorrelationID = ''c4''\<rparr>"

definition demo_invocation :: action where
  "demo_invocation = accept_invocation_action demo_lib demo_hash 31 ''iso''
     \<lparr>ai_ID = ''inv'', ai_ServiceID = ''svc'', ai_Alias = ''live'', ai_Input = Some [], ai_ActorID = ''a'', ai_CorrelationID = ''c5'',
      ai_Deadline = 100, ai_DispatchTarget = None\<rparr>"

definition demo_taken_over :: "demo_step list" where
  "demo_taken_over = [Command ''k1'' demo_service, Command ''k2'' demo_revision, Command ''k3'' demo_publication,
     Claim 4 ''w1'', Claim 20 ''w2'']"

definition demo_published :: "demo_step list" where
  "demo_published = demo_taken_over @ [Move 21 ''validating'', Claim 22 ''w2'', Move 23 ''applying'', Claim 24 ''w2'',
     Move 25 ''observing'', Claim 26 ''w2'', Move 27 ''published'', Command ''k4'' demo_alias, Command ''k5'' demo_invocation]"

definition demo_end :: "demo_step list \<Rightarrow> demo_state" where
  "demo_end ss = the (demo_all ss (empty_db, []))"

definition demo_system :: "demo_state \<Rightarrow> system" where
  "demo_system x = \<lparr>sys_db = fst x, sys_claims = set (snd x)\<rparr>"

fun demo_step_ok :: "demo_step \<Rightarrow> bool" where
  "demo_step_ok (Command k a) \<longleftrightarrow> command_action demo_lib demo_hash a"
| "demo_step_ok _ \<longleftrightarrow> True"

lemma demo_do_step:
  assumes "demo_do s x = Some y" and "demo_step_ok s"
  shows "sys_step demo_lib demo_hash (demo_system x) (demo_system y)"
proof (cases s)
  case (Command k a)
  with assms obtain res where "execute (demo_key k) a (sys_db (demo_system x)) = (Inr res, fst y)" "snd y = snd x"
    by (auto simp: demo_do_def demo_system_def split: prod.splits sum.splits)
  with s_command [of demo_lib demo_hash a "demo_key k" "demo_system x" res "fst y"] Command assms(2)
  show ?thesis by (simp add: demo_system_def)
next
  case (Claim now w)
  with assms obtain c where "demo_claim now w (sys_db (demo_system x)) = (Inr (Some c), fst y)" "snd y = c # snd x"
    by (auto simp: demo_do_def demo_system_def split: prod.splits sum.splits option.splits)
  with s_claim [of _ _ _ _ _ _ _ _ _ _ _ "demo_system x" c "fst y" demo_lib demo_hash]
  show ?thesis by (simp add: demo_system_def demo_claim_def)
next
  case (Move now ns)
  with assms obtain c cs where "snd x = c # cs" "snd y = snd x"
      "advance demo_lib demo_hash now now c ns None None (sys_db (demo_system x)) = (None, fst y)"
    by (auto simp: demo_do_def demo_system_def split: prod.splits option.splits list.splits)
  with s_advance [of c "demo_system x" demo_lib demo_hash now now ns None None "fst y"]
  show ?thesis by (simp add: demo_system_def)
qed

lemma demo_all_run:
  "demo_all ss x = Some y \<Longrightarrow> list_all demo_step_ok ss \<Longrightarrow>
   (sys_step demo_lib demo_hash)\<^sup>*\<^sup>* (demo_system x) (demo_system y)"
proof (induction ss arbitrary: x)
  case (Cons s ss)
  then obtain z where z: "demo_do s x = Some z" "demo_all ss z = Some y" by (auto split: option.splits)
  with Cons.prems(2) have "sys_step demo_lib demo_hash (demo_system x) (demo_system z)" by (simp add: demo_do_step)
  with Cons.IH [OF z(2)] Cons.prems(2) show ?case by (simp add: converse_rtranclp_into_rtranclp)
qed simp

lemma demo_steps_ok: "list_all demo_step_ok demo_taken_over" "list_all demo_step_ok demo_published"
  by (simp_all add: demo_taken_over_def demo_published_def demo_service_def demo_revision_def demo_publication_def
      demo_alias_def demo_invocation_def command_action.intros)

lemma demo_run:
  assumes "demo_all ss (empty_db, []) \<noteq> None" and "list_all demo_step_ok ss"
  shows "(sys_step demo_lib demo_hash)\<^sup>*\<^sup>* initial_system (demo_system (demo_end ss))"
proof -
  from assms(1) have "demo_all ss (empty_db, []) = Some (demo_end ss)" by (simp add: demo_end_def)
  from demo_all_run [OF this assms(2)] show ?thesis by (simp add: demo_system_def initial_system_def)
qed

section \<open>States of the concrete run\<close>

definition demo_mid :: demo_state where
  "demo_mid = demo_end demo_taken_over"

definition demo_early :: demo_state where
  "demo_early = demo_end (butlast demo_taken_over)"

definition demo_final :: demo_state where
  "demo_final = demo_end demo_published"

definition demo_cancel :: action where
  "demo_cancel = accept_cancellation_action demo_hash 32 ''iso''
     \<lparr>ac_InvocationID = ''inv'', ac_ActorID = ''a'', ac_CorrelationID = ''c6''\<rparr>"

definition demo_cancelled :: demo_state where
  "demo_cancelled = the (demo_do (Command ''k6'' demo_cancel) demo_final)"

definition demo_first_claim :: operation_claim where
  "demo_first_claim = snd demo_mid ! 1"

definition demo_second_claim :: operation_claim where
  "demo_second_claim = snd demo_mid ! 0"

text \<open>What the evaluation of the run shows. Each prefix of the run is evaluated once.\<close>

lemma demo_mid_eval:
  "case demo_all (butlast demo_taken_over) (empty_db, []) of None \<Rightarrow> False
   | Some x \<Rightarrow> (case demo_do (last demo_taken_over) x of None \<Rightarrow> False
       | Some y \<Rightarrow> (case snd y of [c2, c1] \<Rightarrow>
           snd x = [c1] \<and> claim_lost (fst y) c1 \<and> cl_FencingToken c2 = 2 \<and>
           fst (advance demo_lib demo_hash 21 21 c2 ''validating'' None None (fst y)) = None \<and>
           demo_claim 20 ''w2'' (fst x) = (Inr (Some c2), fst y) \<and> cl_Kind c1 = OperationKindPublication \<and>
           cl_IsolationDomainID c1 = cl_IsolationDomainID c2 \<and> cl_ID c1 = cl_ID c2
         | _ \<Rightarrow> False))"
  by code_simp

lemma demo_all_append: "demo_all (ss @ [s]) x = (case demo_all ss x of None \<Rightarrow> None | Some y \<Rightarrow> demo_do s y)"
  by (induction ss arbitrary: x) (auto split: option.splits)

lemma demo_mid_facts:
  "demo_all demo_taken_over (empty_db, []) \<noteq> None"
  "demo_all (butlast demo_taken_over) (empty_db, []) \<noteq> None"
  "snd demo_mid = [demo_second_claim, demo_first_claim]" "snd demo_early = [demo_first_claim]"
  "claim_lost (fst demo_mid) demo_first_claim" "cl_FencingToken demo_second_claim = 2"
  "fst (advance demo_lib demo_hash 21 21 demo_second_claim ''validating'' None None (fst demo_mid)) = None"
  "demo_claim 20 ''w2'' (fst demo_early) = (Inr (Some demo_second_claim), fst demo_mid)"
  "cl_Kind demo_first_claim = OperationKindPublication"
  "cl_IsolationDomainID demo_first_claim = cl_IsolationDomainID demo_second_claim" "cl_ID demo_first_claim = cl_ID demo_second_claim"
proof -
  have split: "demo_all demo_taken_over (empty_db, []) =
      (case demo_all (butlast demo_taken_over) (empty_db, []) of None \<Rightarrow> None | Some y \<Rightarrow> demo_do (last demo_taken_over) y)"
    unfolding demo_all_append [symmetric] by (simp add: demo_taken_over_def)
  show "demo_all demo_taken_over (empty_db, []) \<noteq> None"
    "demo_all (butlast demo_taken_over) (empty_db, []) \<noteq> None"
    "snd demo_mid = [demo_second_claim, demo_first_claim]" "snd demo_early = [demo_first_claim]"
    "claim_lost (fst demo_mid) demo_first_claim" "cl_FencingToken demo_second_claim = 2"
    "fst (advance demo_lib demo_hash 21 21 demo_second_claim ''validating'' None None (fst demo_mid)) = None"
    "demo_claim 20 ''w2'' (fst demo_early) = (Inr (Some demo_second_claim), fst demo_mid)"
    "cl_Kind demo_first_claim = OperationKindPublication"
    "cl_IsolationDomainID demo_first_claim = cl_IsolationDomainID demo_second_claim" "cl_ID demo_first_claim = cl_ID demo_second_claim"
    using demo_mid_eval
    by (auto simp: demo_mid_def demo_early_def demo_end_def split demo_first_claim_def demo_second_claim_def
        split: option.splits list.splits)
qed

lemma demo_final_eval:
  "case demo_all demo_published (empty_db, []) of None \<Rightarrow> False
   | Some x \<Rightarrow> (case demo_do (Command ''k6'' demo_cancel) x of None \<Rightarrow> False
       | Some y \<Rightarrow>
           map evt_sequence (events (fst x)) = [1] \<and> ListEvents ''iso'' ''inv'' 0 (fst x) = Inr (events (fst x)) \<and>
           ListEvents ''iso'' ''inv'' 1 (fst y) = Inr [last (events (fst y))] \<and>
           map rev_state (revisions (fst x)) = [''published''] \<and> map op_observed_state (publications (fst x)) = [''published''] \<and>
           map op_observed_state (executions (fst x)) = [''queued''] \<and> outbox (fst x) \<noteq> [])"
  by code_simp

lemma demo_final_facts:
  "demo_all demo_published (empty_db, []) \<noteq> None" "demo_do (Command ''k6'' demo_cancel) demo_final \<noteq> None"
  "map evt_sequence (events (fst demo_final)) = [1]" "ListEvents ''iso'' ''inv'' 0 (fst demo_final) = Inr (events (fst demo_final))"
  "ListEvents ''iso'' ''inv'' 1 (fst demo_cancelled) = Inr [last (events (fst demo_cancelled))]"
  "map rev_state (revisions (fst demo_final)) = [''published'']" "map op_observed_state (publications (fst demo_final)) = [''published'']"
  "map op_observed_state (executions (fst demo_final)) = [''queued'']" "outbox (fst demo_final) \<noteq> []"
  using demo_final_eval by (auto simp: demo_cancelled_def demo_final_def demo_end_def split: option.splits)

lemma demo_mid_run: "(sys_step demo_lib demo_hash)\<^sup>*\<^sup>* initial_system (demo_system demo_mid)"
  unfolding demo_mid_def using demo_mid_facts(1) demo_run demo_steps_ok(1) by blast

lemma demo_early_run: "(sys_step demo_lib demo_hash)\<^sup>*\<^sup>* initial_system (demo_system demo_early)"
proof -
  have "list_all demo_step_ok (butlast demo_taken_over)"
    using demo_steps_ok(1) in_set_butlastD by (fastforce simp: list_all_iff)
  then show ?thesis unfolding demo_early_def using demo_mid_facts(2) demo_run by blast
qed

lemma demo_claims: "demo_first_claim \<in> sys_claims (demo_system demo_mid)" "demo_second_claim \<in> sys_claims (demo_system demo_mid)"
  by (simp_all add: demo_mid_facts demo_system_def)

lemma demo_final_run: "(sys_step demo_lib demo_hash)\<^sup>*\<^sup>* initial_system (demo_system demo_final)"
  unfolding demo_final_def using demo_final_facts(1) demo_run demo_steps_ok(2) by blast

lemma demo_cancelled_step: "sys_step demo_lib demo_hash (demo_system demo_final) (demo_system demo_cancelled)"
proof (rule demo_do_step)
  show "demo_do (Command ''k6'' demo_cancel) demo_final = Some demo_cancelled"
    using demo_final_facts(2) by (simp add: demo_cancelled_def)
qed (simp add: demo_cancel_def command_action.intros)

section \<open>A failed and repaired publication\<close>

definition demo_error :: api_error where
  "demo_error = APIError ''CODE'' ''message''"

lemma demo_more_eval:
  "case demo_all demo_taken_over (empty_db, []) of None \<Rightarrow> False
   | Some x \<Rightarrow> (case snd x of [] \<Rightarrow> False
       | c2 # _ \<Rightarrow>
         (case PrepareEffect demo_hash 21 c2 ''validate'' ''dg'' (fst x) of
            (Inr e, d') \<Rightarrow> list_ex (\<lambda>r. lease_held c2 22 r \<and> op_command r = cl_Command c2) (table_of (cl_Kind c2) d') | _ \<Rightarrow> False) \<and>
         (case advance demo_lib demo_hash 21 21 c2 ''failed'' None (Some demo_error) (fst x) of
            (None, d') \<Rightarrow> fst (RepairOperation demo_hash 30 OperationKindPublication ''iso'' (cl_ID c2) ''op'' ''again'' ''dd'' 200 d') = None
          | _ \<Rightarrow> False))"
  by code_simp

definition demo_failed :: db where
  "demo_failed = snd (advance demo_lib demo_hash 21 21 demo_second_claim ''failed'' None (Some demo_error) (fst demo_mid))"

definition demo_repaired :: db where
  "demo_repaired = snd (RepairOperation demo_hash 30 OperationKindPublication ''iso'' (cl_ID demo_second_claim) ''op'' ''again'' ''dd'' 200 demo_failed)"

lemma demo_mid_split:
  obtains x c2 cs where "demo_all demo_taken_over (empty_db, []) = Some x" "snd x = c2 # cs" "x = demo_mid" "c2 = demo_second_claim"
  using demo_mid_facts(1,3) by (auto simp: demo_mid_def demo_end_def)

lemma demo_prepare:
  "case PrepareEffect demo_hash 21 demo_second_claim ''validate'' ''dg'' (fst demo_mid) of
     (Inr e, d') \<Rightarrow> (\<exists>r \<in> set (table_of (cl_Kind demo_second_claim) d'). lease_held demo_second_claim 22 r \<and> op_command r = cl_Command demo_second_claim)
   | _ \<Rightarrow> False"
  by (rule demo_mid_split) (use demo_more_eval in \<open>auto simp: list_ex_iff split: prod.splits sum.splits\<close>)

lemma demo_failed_step:
  "advance demo_lib demo_hash 21 21 demo_second_claim ''failed'' None (Some demo_error) (fst demo_mid) = (None, demo_failed)"
  "RepairOperation demo_hash 30 OperationKindPublication ''iso'' (cl_ID demo_second_claim) ''op'' ''again'' ''dd'' 200 demo_failed =
     (None, demo_repaired)"
  by (rule demo_mid_split; use demo_more_eval in \<open>auto simp: demo_failed_def demo_repaired_def prod_eq_iff split: prod.splits option.splits\<close>)+

lemma demo_failed_run: "(sys_step demo_lib demo_hash)\<^sup>*\<^sup>* initial_system ((demo_system demo_mid)\<lparr>sys_db := demo_failed\<rparr>)"
proof -
  have "sys_step demo_lib demo_hash (demo_system demo_mid) ((demo_system demo_mid)\<lparr>sys_db := demo_failed\<rparr>)"
    by (rule s_advance [OF demo_claims(2)]) (use demo_failed_step(1) in \<open>simp add: demo_system_def\<close>)
  with demo_mid_run show ?thesis by simp
qed

lemma demo_repair:
  "RepairOperation demo_hash 30 OperationKindPublication ''iso'' (cl_ID demo_second_claim) ''op'' ''again'' ''dd'' 200
     (sys_db ((demo_system demo_mid)\<lparr>sys_db := demo_failed\<rparr>)) = (None, demo_repaired)"
  using demo_failed_step(2) by simp

end
