(* ===== verification/Guarantees.thy ===== *)
theory Guarantees
  imports Scenario
begin

text \<open>
  What the durable store promises to the workers and clients of the control plane, stated on whole runs from
  the empty tables and evaluated on the runs of \<open>Scenario\<close>.
\<close>

lemma reachable_sys_inv: "(sys_step lib h)\<^sup>*\<^sup>* initial_system x \<Longrightarrow> sys_inv x"
  using sys_inv_run sys_inv_initial by blast

lemma updateResource_audit: "updateResourceForTransition h c ns tr f now d = Inr d2 \<Longrightarrow> audit d2 = audit d"
  by (auto elim!: updateResource_cases writeInvocationEvent_Inr)

section \<open>Fencing\<close>

text \<open>
  C1. Fencing over whole runs: once the row of an operation is no longer under the owner and fencing token of
  a claim, then after any further steps of any workers and clients every write through that claim (a
  transition, a retry, a lease renewal, the preparation of an effect) is refused and changes nothing.
\<close>

theorem stale_claim_rejected:
  assumes "(sys_step lib h)\<^sup>*\<^sup>* initial_system x" and "c \<in> sys_claims x" and "claim_lost (sys_db x) c"
    and "(sys_step lib h)\<^sup>*\<^sup>* x y"
  shows "(\<exists>e. advance lib h now clock c ns tr f (sys_db y) = (Some e, sys_db y)) \<and>
    (\<exists>e. ScheduleRetry h now c cl ec due (sys_db y) = (Some e, sys_db y)) \<and>
    (\<exists>e. RenewLease now c dur (sys_db y) = (Inl e, sys_db y)) \<and>
    (\<exists>e. PrepareEffect h now c phase dg (sys_db y) = (Inl e, sys_db y))"
proof -
  have inv: "sys_inv x" by (rule reachable_sys_inv [OF assms(1)])
  with assms(2) have "genuine (sys_db x) c" by (simp add: sys_inv_def)
  then have "claim_lost (sys_db y) c" by (rule claim_lost_run [OF assms(4) inv _ assms(3)])
  then show ?thesis by (blast intro: lost_advance lost_retry lost_renew lost_prepare)
qed

theorem stale_claim_rejected_witness:
  "\<exists>e. advance demo_lib demo_hash 5 5 demo_first_claim ''validating'' None None (fst demo_mid) = (Some e, fst demo_mid)"
  using stale_claim_rejected [OF demo_mid_run demo_claims(1) _ rtranclp.rtrancl_refl,
      of 5 5 "''validating''" None None "''retryable''" "''code''" 6 10 "''phase''" "''digest''"] demo_mid_facts(5)
  by (simp add: demo_system_def)

text \<open>
  C2. A takeover fences: when an operation is claimed again, every claim given out for it before is lost.
\<close>

theorem takeover_fences:
  assumes "(sys_step lib h)\<^sup>*\<^sup>* initial_system x" and "c \<in> sys_claims x"
    and "claimNext wn clock kind i s r rp w dur oid v (sys_db x) = (Inr (Some c'), d')"
    and "cl_Kind c = kind" and "cl_IsolationDomainID c = cl_IsolationDomainID c'" and "cl_ID c = cl_ID c'"
  shows "cl_FencingToken c < cl_FencingToken c' \<and> claim_lost d' c"
proof -
  have inv: "sys_inv x" by (rule reachable_sys_inv [OF assms(1)])
  then have k: "keys_ok (sys_db x)" and g: "genuine (sys_db x) c" using assms(2) by (simp_all add: sys_inv_def)
  have u: "unique_by op_key (table_of kind (sys_db x))" using keys_ok_tables [OF k] by blast
  obtain ts op now where op: "operationTable kind = Inr ts" "op \<in> set (table_of kind (sys_db x))"
      "c' = claim_of kind w (claim_set now w (now + dur) op)"
      "d' = put_table kind (sql_update (\<lambda>r. op_key r = op_key op) (claim_set now w (now + dur)) (table_of kind (sys_db x))) (sys_db x)"
    by (rule claimNext_SomeE [OF assms(3) u])
  have key: "op_key op = (cl_IsolationDomainID c, cl_ID c)" using op(3) assms(5,6) by (simp add: claim_of_def claim_set_def op_key_def)
  from g obtain q where q: "q \<in> set (table_of kind (sys_db x))" "op_key q = (cl_IsolationDomainID c, cl_ID c)"
      "cl_FencingToken c \<le> op_lease_token q"
    using assms(4) by (auto simp: genuine_def)
  have "q = op" by (rule op_row_unique [OF k q(1) op(2)]) (simp add: q(2) key)
  with q(3) op(3) have less: "cl_FencingToken c < cl_FencingToken c'" by (simp add: claim_of_def claim_set_def)
  have "op_lease_token r = cl_FencingToken c'" if "r \<in> set (table_of kind d')" "op_key r = op_key op" for r
  proof -
    let ?f = "claim_set now w (now + dur)"
    from that(1) have "r \<in> set (sql_update (\<lambda>r. op_key r = op_key op) ?f (table_of kind (sys_db x)))" by (simp add: op(4))
    then obtain q where q: "q \<in> set (table_of kind (sys_db x))" "r = (if op_key q = op_key op then ?f q else q)"
      by (auto simp: sql_update_def)
    with that(2) have "op_key q = op_key op" by (auto split: if_splits)
    with q op_row_unique [OF k q(1) op(2)] show ?thesis by (simp add: op(3) claim_of_def claim_set_def)
  qed
  with less show ?thesis by (auto simp: claim_lost_def assms(4) key)
qed

theorem takeover_fences_witness:
  "cl_FencingToken demo_first_claim < cl_FencingToken demo_second_claim \<and> claim_lost (fst demo_mid) demo_first_claim"
  using takeover_fences [OF demo_early_run, of demo_first_claim 20 20 OperationKindPublication "''iso''" "[]" "[]" "[]" "''w2''" 10 "[]" 0
      demo_second_claim "fst demo_mid"] demo_mid_facts
  by (simp add: demo_system_def demo_claim_def)



section \<open>Histories\<close>



section \<open>Routing\<close>

text \<open>
  C5. In every reachable state a live alias routes to a published revision of its service, and an invocation
  whose operation is still active has a published revision of its service: nothing routes to, and nothing
  runs on, a draft or retired revision.
\<close>

theorem routes_to_published:
  assumes "(sys_step lib h)\<^sup>*\<^sup>* initial_system x"
  shows "(\<forall>a \<in> set (aliases (sys_db x)). als_withdrawn_at a = None \<longrightarrow>
      (\<exists>r \<in> set (revisions (sys_db x)). rev_domain r = als_domain a \<and> rev_id r = als_revision_id a \<and>
         rev_service_id r = als_service_id a \<and> rev_state r = ''published'')) \<and>
    (\<forall>op \<in> set (executions (sys_db x)). active (op_observed_state op) \<longrightarrow>
      (\<exists>v \<in> set (invocations (sys_db x)). inv_domain v = op_domain op \<and> inv_id v = op_resource_id op \<and>
        (\<exists>r \<in> set (revisions (sys_db x)). rev_domain r = inv_domain v \<and> rev_id r = inv_revision_id v \<and>
           rev_service_id r = inv_service_id v \<and> rev_state r = ''published'')))"
proof (intro conjI ballI impI)
  let ?d = "sys_db x"
  have ok: "aliases_ok ?d" "executions_ok ?d"
    using reachable_sys_inv [OF assms] by (simp_all add: sys_inv_def routing_ok_def)
  fix a :: alias_row
  assume "a \<in> set (aliases ?d)" "als_withdrawn_at a = None"
  then have "(als_domain a, als_service_id a, als_revision_id a) \<in> lives ?d" by (auto simp: lives_def)
  from aliases_okD [OF ok(1) this] show "\<exists>r \<in> set (revisions ?d). rev_domain r = als_domain a \<and> rev_id r = als_revision_id a \<and>
      rev_service_id r = als_service_id a \<and> rev_state r = ''published''"
    by (auto simp: revs_def rev_view_def rev_key_def)
next
  let ?d = "sys_db x"
  have ok: "executions_ok ?d" using reachable_sys_inv [OF assms] by (simp add: sys_inv_def routing_ok_def)
  fix op
  assume op: "op \<in> set (executions ?d)" and act: "active (op_observed_state op)"
  then have "((op_domain op, op_resource_id op), op_observed_state op) \<in> execs ?d"
    by (auto simp: execs_def op_view_def op_resource_key_def intro!: rev_image_eqI [where x = op])
  from executions_okD [OF ok this] act
  show "\<exists>v \<in> set (invocations ?d). inv_domain v = op_domain op \<and> inv_id v = op_resource_id op \<and>
      (\<exists>r \<in> set (revisions ?d). rev_domain r = inv_domain v \<and> rev_id r = inv_revision_id v \<and>
         rev_service_id r = inv_service_id v \<and> rev_state r = ''published'')"
    by (fastforce simp: invs_def revs_def rev_view_def inv_view_def key_defs)
qed

theorem routes_to_published_witness:
  "\<exists>v \<in> set (invocations (fst demo_final)). \<exists>r \<in> set (revisions (fst demo_final)).
     rev_id r = inv_revision_id v \<and> rev_state r = ''published''"
proof -
  obtain op where op: "executions (fst demo_final) = [op]" "op_observed_state op = ''queued''"
    using demo_final_facts(8) by auto
  from routes_to_published [OF demo_final_run] op show ?thesis
    by (auto simp: demo_system_def active_def)
qed

section \<open>Claims\<close>

text \<open>
  C6. The claim query, which takes the first row of every isolation domain and then the first of these, is the
  plain choice of the globally oldest eligible operation: due time, update time, domain and identifier in
  this order; it leases exactly that row to the worker.
\<close>

theorem claim_is_global_oldest:
  assumes "(sys_step lib h)\<^sup>*\<^sup>* initial_system x" and "kind = OperationKindPublication \<or> kind = OperationKindInvocation"
  shows "claimNext now clock kind i s r rp w dur [] v (sys_db x) =
    (let eligible = filter (claimable kind (projr (operationTable kind)) i s r rp [] v now (sys_db x)) (table_of kind (sys_db x))
     in case sort_key claim_order eligible of
       [] \<Rightarrow> (Inr None, sys_db x)
     | op # _ \<Rightarrow> (Inr (Some (claim_of kind w (claim_set now w (now + dur) op))),
         put_table kind (map (\<lambda>q. if op_key q = op_key op then claim_set now w (now + dur) q else q)
           (table_of kind (sys_db x))) (sys_db x)))"
proof -
  obtain ts where ts: "operationTable kind = Inr ts" using assms(2) by (auto simp: operationTable_def)
  have "unique_by op_key (table_of kind (sys_db x))"
    using reachable_sys_inv [OF assms(1)] keys_ok_tables by (auto simp: sys_inv_def)
  from claimNext_eq [OF this ts refl] show ?thesis
    by (simp add: ts first_by_def sql_update_def split: list.splits)
qed

theorem claim_is_global_oldest_witness:
  "\<exists>op rest. sort_key claim_order (filter (claimable OperationKindPublication [''published'', ''failed'', ''cancelled''] ''iso'' [] [] [] [] 0 20
       (fst demo_early)) (publications (fst demo_early))) = op # rest \<and>
     demo_second_claim = claim_of OperationKindPublication ''w2'' (claim_set 20 ''w2'' 30 op)"
  using claim_is_global_oldest [OF demo_early_run, of OperationKindPublication 20 20 "''iso''" "[]" "[]" "[]" "''w2''" 10 0] demo_mid_facts(8)
  by (auto simp: demo_system_def demo_claim_def operationTable_def table_of_def Let_def split: list.splits)

section \<open>Committed transitions\<close>

text \<open>
  C7. A committed transition was made under an unexpired lease of the claim, by an allowed transition from the
  state the claim saw: one row had the lease, it ends in the new state with the lease released and its
  generation increased by one, every other operation row is untouched, and exactly one audit record is
  appended, with the claim's actor and correlation.
\<close>

theorem committed_transition:
  assumes "(sys_step lib h)\<^sup>*\<^sup>* initial_system x" and "advance lib h now clock c ns0 tr f (sys_db x) = (None, d')"
  shows "\<exists>ns r r'. (ns = ns0 \<or> ns = ''failed'') \<and> can_transition (cl_Kind c) (cl_ObservedState c) ns \<and>
    r \<in> set (table_of (cl_Kind c) (sys_db x)) \<and> lease_held c now r \<and>
    set (table_of (cl_Kind c) d') = insert r' (set (table_of (cl_Kind c) (sys_db x)) - {r}) \<and>
    op_key r' = op_key r \<and> op_observed_state r' = ns \<and> op_lease_owner r' = None \<and> op_lease_token r' = op_lease_token r \<and>
    op_generation r' = op_generation r + 1 \<and>
    audit d' = audit (sys_db x) @ [\<lparr>aud_domain = cl_IsolationDomainID c, aud_actor_id = cl_ActorID c,
      aud_action = cl_Kind c @ ''.'' @ ns, aud_resource_type = cl_Kind c, aud_resource_id = cl_ID c,
      aud_outcome = transitionOutcome ns, aud_correlation_id = cl_CorrelationID c,
      aud_operation_id = (if cl_ID c = [] then None else Some (cl_ID c)), aud_occurred_at = now\<rparr>]"
  using assms(2)
proof (rule advance_NoneE)
  fix ns tr' f' d2 ts
  let ?w = "advance_where c ns now clock" and ?f = "advance_set ns tr' f' now" and ?t = "table_of (cl_Kind c) (sys_db x)"
  assume v: "validateTransition (cl_Kind c) (cl_ObservedState c) ns0 = None" and ts: "operationTable (cl_Kind c) = Inr ts"
    and re: "revalidate lib c ns0 tr f (sys_db x) = Inr (ns, tr', f')"
  assume one: "rows_affected ?w ?t = 1"
    and u: "updateResourceForTransition h c ns tr' f' now (put_table (cl_Kind c) (sql_update ?w ?f ?t) (sys_db x)) = Inr d2"
    and d': "d' = writeOutboxAndAudit h (cl_IsolationDomainID c) (cl_Kind c) (cl_ID c) (cl_Kind c @ ''.'' @ ns)
      (cl_ActorID c) (cl_CorrelationID c) (transitionOutcome ns) (cl_ID c) now d2"
  from one obtain r where r: "r \<in> set ?t" "?w r" by (rule rows_affected_1E)
  have k: "keys_ok (sys_db x)" using reachable_sys_inv [OF assms(1)] by (simp add: sys_inv_def)
  have "set (sql_update ?w ?f ?t) = insert (?f r) (set ?t - {r})"
    by (rule set_update_one [where key = op_key and p = ?w, OF keys_ok_tables [OF k, THEN conjunct1] r])
      (use r(2) lease_held_key in \<open>auto simp: advance_where_def\<close>)
  moreover have "table_of (cl_Kind c) d' = sql_update ?w ?f ?t"
    using table_of_frame [OF updateResource_tables [OF u], of "cl_Kind c"] by (simp add: d')
  moreover have "audit d2 = audit (sys_db x)" using updateResource_audit [OF u] by simp
  moreover have "op_key (?f r) = op_key r" by simp
  moreover have "op_observed_state (?f r) = ns" "op_lease_owner (?f r) = None" "op_lease_token (?f r) = op_lease_token r"
      "op_generation (?f r) = op_generation r + 1"
    by (simp_all add: advance_set_def)
  moreover have "can_transition (cl_Kind c) (cl_ObservedState c) ns" "ns = ns0 \<or> ns = ''failed''"
    using revalidate_transition [OF re v] validateTransition_None by auto
  ultimately show ?thesis using r
    by (intro exI [of _ ns] exI [of _ r] exI [of _ "?f r"]) (simp add: d' audit_writeOutboxAndAudit advance_where_def)
qed

theorem committed_transition_witness:
  "\<exists>d' a. advance demo_lib demo_hash 21 21 demo_second_claim ''validating'' None None (fst demo_mid) = (None, d') \<and>
     audit d' = audit (fst demo_mid) @ [a] \<and> aud_actor_id a = cl_ActorID demo_second_claim"
proof -
  obtain d' where d': "advance demo_lib demo_hash 21 21 demo_second_claim ''validating'' None None (fst demo_mid) = (None, d')"
    using demo_mid_facts(7) by (metis prod.collapse)
  then have "advance demo_lib demo_hash 21 21 demo_second_claim ''validating'' None None (sys_db (demo_system demo_mid)) = (None, d')"
    by (simp add: demo_system_def)
  from committed_transition [OF demo_mid_run this] d' show ?thesis by (auto simp: demo_system_def)
qed

section \<open>Records\<close>

text \<open>
  C8. Idempotent commands: once a command has been answered, then after any further run the same key with the
  same request digest gives the same status and body, marked as replayed, without running the action again,
  and the same key with another digest is refused; neither changes anything.
\<close>

theorem command_replay:
  assumes "(sys_step lib h)\<^sup>*\<^sup>* initial_system x" and "command_action lib h a"
    and "execute ik a (sys_db x) = (Inr res, d')" and "(sys_step lib h)\<^sup>*\<^sup>* (x\<lparr>sys_db := d'\<rparr>) y"
    and "ik_IsolationDomainID ik' = ik_IsolationDomainID ik" and "ik_Method ik' = ik_Method ik"
    and "ik_Path ik' = ik_Path ik" and "ik_Key ik' = ik_Key ik"
  shows "execute ik' a' (sys_db y) =
    (if ik_RequestDigest ik' = ik_RequestDigest ik then (Inr (res\<lparr>cr_Replayed := True\<rparr>), sys_db y)
     else (Inl (DomainError ''IDEMPOTENCY_KEY_REUSED'' ''Idempotency key was reused with a different request.'' False), sys_db y))"
proof -
  let ?z = "x\<lparr>sys_db := d'\<rparr>"
  have step: "sys_step lib h x ?z" by (rule s_command [OF assms(2,3)])
  with assms(1) have reach: "(sys_step lib h)\<^sup>*\<^sup>* initial_system ?z" by simp
  then have all: "\<forall>r \<in> set (idempotency (sys_db ?z)). answered r"
    using answers_run [OF reach] by (simp add: initial_system_def empty_db_def)
  obtain r where r: "r \<in> set (idempotency d')" "idm_matches ik r" "idm_request_digest r = ik_RequestDigest ik"
      "idm_response_status r = Some (cr_Status res)" "idm_response_body r = Some (cr_Body res)"
    by (rule execute_Inr_row [OF assms(2,3)])
  have "r \<in> set (idempotency (sys_db y))" using answers_run [OF assms(4) all] r(1) by auto
  moreover have "keys_ok (sys_db y)"
    using sys_inv_run [OF assms(4) reachable_sys_inv [OF reach]] by (simp add: sys_inv_def)
  moreover have "idm_matches ik' r" using r(2) assms(5-8) by (simp add: idm_matches_def)
  moreover have "answered r" using r(4,5) by (simp add: answered_def)
  ultimately show ?thesis
    using execute_stored [of "sys_db y" r ik' a'] r(3-5) by (cases res) auto
qed

theorem command_replay_witness:
  "\<exists>res d'. execute (demo_key ''k1'') demo_service empty_db = (Inr res, d') \<and>
     execute (demo_key ''k1'') demo_revision d' = (Inr (res\<lparr>cr_Replayed := True\<rparr>), d')"
proof -
  obtain res d' where e: "execute (demo_key ''k1'') demo_service empty_db = (Inr res, d')"
    using demo_mid_facts(1) by (auto simp: demo_taken_over_def demo_do_def split: prod.splits sum.splits option.splits)
  then have "execute (demo_key ''k1'') demo_service (sys_db initial_system) = (Inr res, d')" by (simp add: initial_system_def)
  moreover have "command_action demo_lib demo_hash demo_service" by (simp add: demo_service_def command_action.intros)
  ultimately show ?thesis
    using command_replay [OF rtranclp.rtrancl_refl, of demo_lib demo_hash demo_service "demo_key ''k1''" res d' _ "demo_key ''k1''" demo_revision] e
    by fastforce
qed

text \<open>
  C9. Events can be followed without loss: the events of an invocation are numbered from 1 without gaps, so a
  client that has read a page and asks again after the last number it has seen, any time later, gets exactly
  the events it has not seen, and both pages together are the whole sequence.
\<close>

theorem events_resume:
  assumes "(sys_step lib h)\<^sup>*\<^sup>* initial_system x" and "(sys_step lib h)\<^sup>*\<^sup>* x y"
    and "ListEvents i v 0 (sys_db x) = Inr seen" and "ListEvents i v (length seen) (sys_db y) = Inr new"
  shows "map evt_sequence seen = [1..<Suc (length seen)] \<and>
    map evt_sequence (seen @ new) = [1..<Suc (length seen + length new)] \<and>
    ListEvents i v 0 (sys_db y) = Inr (seen @ new)"
proof -
  have x: "events_ok (events (sys_db x))" by (rule events_ok_run [OF assms(1)])
  have y: "events_ok (events (sys_db y))" by (rule events_ok_run [OF rtranclp_trans [OF assms(1,2)]])
  have seen: "seen = events_of i v (events (sys_db x))"
    using assms(3) by (auto simp: ListEvents_def Let_def listEvents_ok [OF x] split: if_splits)
  obtain zs where "events (sys_db y) = events (sys_db x) @ zs" using records_run [OF assms(2)] by (auto simp: prefix_def)
  then have all: "events_of i v (events (sys_db y)) = seen @ events_of i v zs" by (simp add: events_of_def seen)
  then have new: "new = events_of i v zs"
    using assms(4) by (auto simp: ListEvents_def Let_def listEvents_ok [OF y] split: if_splits)
  have "\<exists>r \<in> set (invocations (sys_db y)). inv_domain r = i \<and> inv_id r = v" if "seen @ new = []"
    using that assms(4) by (auto simp: ListEvents_def Let_def listEvents_ok [OF y] all split: if_splits)
  then have "ListEvents i v 0 (sys_db y) = Inr (seen @ new)"
    by (auto simp: ListEvents_def Let_def listEvents_ok [OF y] all new)
  moreover have "map evt_sequence seen = [1..<Suc (length seen)]" using x by (simp add: events_ok_def seen)
  moreover have "map evt_sequence (seen @ new) = [1..<Suc (length seen + length new)]"
    using y [unfolded events_ok_def, rule_format, of i v] by (simp add: all new)
  ultimately show ?thesis by simp
qed

theorem events_resume_witness:
  "\<exists>e1 e2. ListEvents ''iso'' ''inv'' 0 (fst demo_cancelled) = Inr [e1, e2] \<and> evt_sequence e1 = 1 \<and> evt_sequence e2 = 2"
proof -
  obtain e1 where e1: "events (fst demo_final) = [e1]" using demo_final_facts(3) by auto
  from events_resume [OF demo_final_run r_into_rtranclp [of "sys_step demo_lib demo_hash", OF demo_cancelled_step],
      of "''iso''" "''inv''" "[e1]" "[last (events (fst demo_cancelled))]"] demo_final_facts(4,5) e1
  show ?thesis by (simp add: demo_system_def)
qed

text \<open>
  C10. The audit trail and the event log are append-only: what they hold in any state is a prefix of
  what they hold at any later point of the run.
\<close>

theorem audit_append_only:
  assumes "(sys_step lib h)\<^sup>*\<^sup>* x y"
  shows "take (length (audit (sys_db x))) (audit (sys_db y)) = audit (sys_db x) \<and>
    take (length (events (sys_db x))) (events (sys_db y)) = events (sys_db x)"
  using records_run [OF assms] by (auto simp: prefix_def)

theorem audit_append_only_witness:
  "take (length (audit (fst demo_final))) (audit (fst demo_cancelled)) = audit (fst demo_final)"
  using audit_append_only [OF r_into_rtranclp [of "sys_step demo_lib demo_hash", OF demo_cancelled_step]]
  by (simp add: demo_system_def)

end
