(* ===== verification/Isolation.thy ===== *)
theory Isolation
  imports Guarantees
begin

text \<open>
  Isolation domains do not interfere: an operation of the store that works for one domain leaves every row
  of every other domain as it is, in all tables.
\<close>

definition others :: "('r \<Rightarrow> string) \<Rightarrow> string \<Rightarrow> 'r list \<Rightarrow> 'r list" where
  "others domain i rows = filter (\<lambda>r. domain r \<noteq> i) rows"

definition untouched :: "string \<Rightarrow> db \<Rightarrow> db \<Rightarrow> bool" where
  "untouched i d d' \<longleftrightarrow>
     others fst i (workspaces d') = others fst i (workspaces d) \<and>
     others svc_domain i (services d') = others svc_domain i (services d) \<and>
     others rev_domain i (revisions d') = others rev_domain i (revisions d) \<and>
     others als_domain i (aliases d') = others als_domain i (aliases d) \<and>
     others inv_domain i (invocations d') = others inv_domain i (invocations d) \<and>
     others op_domain i (publications d') = others op_domain i (publications d) \<and>
     others op_domain i (executions d') = others op_domain i (executions d) \<and>
     others eff_domain i (effects d') = others eff_domain i (effects d) \<and>
     others out_domain i (outbox d') = others out_domain i (outbox d) \<and>
     others aud_domain i (audit d') = others aud_domain i (audit d) \<and>
     others evt_domain i (events d') = others evt_domain i (events d) \<and>
     others inb_domain i (inbox d') = others inb_domain i (inbox d) \<and>
     others idm_domain i (idempotency d') = others idm_domain i (idempotency d)"

lemma others_append [simp]: "others domain i (rows @ [r]) = (if domain r = i then others domain i rows else others domain i rows @ [r])"
  by (simp add: others_def)

lemma others_update:
  "(\<And>r. p r \<Longrightarrow> domain r = i \<and> domain (f r) = i) \<Longrightarrow> others domain i (sql_update p f rows) = others domain i rows"
  by (induction rows) (auto simp: others_def sql_update_def)

lemma untouched_refl [simp]: "untouched i d d"
  by (simp add: untouched_def)

lemma untouched_trans: "untouched i d d' \<Longrightarrow> untouched i d' d'' \<Longrightarrow> untouched i d d''"
  by (simp add: untouched_def)

lemma op_set_domain [simp]:
  "op_domain (claim_set now w e r) = op_domain r" "op_domain (renew_set now e r) = op_domain r"
  "op_domain (advance_set ns tr f now r) = op_domain r" "op_domain (retry_set now c cl ec due r) = op_domain r"
  "op_domain (repair_set now dl ac dd r) = op_domain r" "op_domain (cancel_set now input r) = op_domain r"
  by (simp_all add: op_set_defs cancel_set_def)

lemma row_set_domain [simp]:
  "rev_domain (publish_set now r) = rev_domain r" "rev_domain (retire_set now r) = rev_domain r"
  "inv_domain (resource_set rs tr f now v) = inv_domain v" "inv_domain (cancelling_set now v) = inv_domain v"
  "als_domain (assign_set now rid a) = als_domain a" "als_domain (withdraw_set now a) = als_domain a"
  by (simp_all add: publish_set_def retire_set_def resource_set_def cancelling_set_def assign_set_def withdraw_set_def)

lemma untouched_outbox [simp]: "untouched i d (writeOutboxAndAudit h i rt ri et ac co ou op now d') = untouched i d d'"
  by (simp add: untouched_def writeOutboxAndAudit_def insert_on_conflict_nothing_def)

lemma untouched_event:
  "writeInvocationEvent h v ty ac pl now d1 = Inr d' \<Longrightarrow> inv_domain v = i \<Longrightarrow> untouched i d d1 \<Longrightarrow> untouched i d d'"
  by (auto elim!: writeInvocationEvent_Inr simp: untouched_def)

lemma untouched_put_table:
  "(\<And>r. p r \<Longrightarrow> op_domain r = i \<and> op_domain (f r) = i) \<Longrightarrow>
   untouched i d (put_table kind (sql_update p f (table_of kind d)) d)"
  by (simp add: untouched_def put_table_def table_of_def others_update)

lemma untouched_tables [simp]:
  "untouched i d (d\<lparr>services := svcs\<rparr>) \<longleftrightarrow> others svc_domain i svcs = others svc_domain i (services d)"
  "untouched i d (d\<lparr>revisions := rvs\<rparr>) \<longleftrightarrow> others rev_domain i rvs = others rev_domain i (revisions d)"
  "untouched i d (d\<lparr>aliases := als\<rparr>) \<longleftrightarrow> others als_domain i als = others als_domain i (aliases d)"
  "untouched i d (d\<lparr>publications := pbs\<rparr>) \<longleftrightarrow> others op_domain i pbs = others op_domain i (publications d)"
  "untouched i d (d\<lparr>invocations := ivs, executions := exs\<rparr>) \<longleftrightarrow>
     others inv_domain i ivs = others inv_domain i (invocations d) \<and> others op_domain i exs = others op_domain i (executions d)"
  "untouched i d (d\<lparr>effects := effs\<rparr>) \<longleftrightarrow> others eff_domain i effs = others eff_domain i (effects d)"
  by (auto simp: untouched_def)

lemma execute_untouched:
  assumes a: "\<And>d0 st body d1. a d0 = Inr (st, body, d1) \<Longrightarrow> untouched (ik_IsolationDomainID ik) d0 d1"
  shows "untouched (ik_IsolationDomainID ik) d (snd (execute ik a d))"
proof -
  obtain res d' where e: "execute ik a d = (res, d')" by (cases "execute ik a d")
  have "untouched (ik_IsolationDomainID ik) d d'"
    using e
  proof (cases rule: execute_cases)
    case (fresh status body d1)
    have "others idm_domain (ik_IsolationDomainID ik) (sql_update (idm_matches ik)
        (\<lambda>r. r\<lparr>idm_response_status := Some status, idm_response_body := Some body\<rparr>) (idempotency d1)) =
        others idm_domain (ik_IsolationDomainID ik) (idempotency d1)"
      by (rule others_update) (simp add: idm_matches_def)
    with a [OF fresh(2)] show ?thesis by (simp add: fresh(4) untouched_def idm_of_def)
  qed simp_all
  then show ?thesis by (simp add: e)
qed

lemma actions_untouched:
  "create_service_action h now i cs d = Inr (st, body, d') \<Longrightarrow> untouched i d d'"
  "create_revision_action h now i cv d = Inr (st, body, d') \<Longrightarrow> untouched i d d'"
  "accept_publication_action lib h now i ap caps d = Inr (st, body, d') \<Longrightarrow> untouched i d d'"
  "assign_alias_action h now i aa d = Inr (st, body, d') \<Longrightarrow> untouched i d d'"
  "withdraw_alias_action h now i wa d = Inr (st, body, d') \<Longrightarrow> untouched i d d'"
  "retire_revision_action h now i rr d = Inr (st, body, d') \<Longrightarrow> untouched i d d'"
  subgoal by (auto elim!: create_service_InrE simp: new_service_def)
  subgoal by (auto elim!: create_revision_InrE simp: new_revision_def)
  subgoal by (auto elim!: accept_publication_InrE simp: queued_operation_def)
  subgoal by (erule assign_alias_InrE, erule disjE) (auto simp: alias_named_def new_alias_def intro!: others_update)
  subgoal by (auto elim!: withdraw_alias_InrE simp: alias_named_def intro!: others_update)
  subgoal by (auto elim!: retire_revision_InrE intro!: others_update)
  done

lemma accept_invocation_untouched:
  assumes "accept_invocation_action lib h now i ai d = Inr (st, body, d')"
  shows "untouched i d d'"
  using assms
proof (rule accept_invocation_InrE)
  fix r v op
  assume v: "v = accepted_invocation now i ai (rev_id r) (invocation_operation_id h i (ai_ID ai))"
    and op: "op = queued_operation i (invocation_operation_id h i (ai_ID ai)) (ai_ID ai) ''invoke'' ''succeeded''
       invocation_StateMachineVersion now (ai_Deadline ai) (ai_CorrelationID ai) (ai_ActorID ai)"
  assume "writeInvocationEvent h v ''lifecycle.accepted'' (ai_ActorID ai) [(''state'', JStr ''accepted'')] now
       (writeOutboxAndAudit h i ''invocation'' (ai_ID ai) ''invocation.accepted'' (ai_ActorID ai) (ai_CorrelationID ai)
          ''accepted'' (inv_operation_id v) now (d\<lparr>invocations := invocations d @ [v], executions := executions d @ [op]\<rparr>)) = Inr d'"
  then show ?thesis
    by (rule untouched_event) (simp_all add: v op accepted_invocation_def queued_operation_def)
qed

lemma accept_cancellation_untouched:
  assumes "accept_cancellation_action h now i ac d = Inr (st, body, d')"
  shows "untouched i d d'"
  using assms
proof (cases rule: accept_cancellation_InrE)
  case (new v)
  from new(5) show ?thesis
    by (rule untouched_event) (auto simp: new(2) intro!: others_update)
qed simp

lemma updateResource_untouched:
  assumes "updateResourceForTransition h c ns tr f now d1 = Inr d2" and "untouched (cl_IsolationDomainID c) d d1"
  shows "untouched (cl_IsolationDomainID c) d d2"
  using assms(1)
proof (cases rule: updateResource_cases)
  case (invocation v)
  from invocation(5) show ?thesis
  proof (rule untouched_event)
    have "others inv_domain (cl_IsolationDomainID c) (sql_update (\<lambda>i. inv_domain i = cl_IsolationDomainID c \<and> inv_id i = cl_ResourceID c)
        (resource_set (invocationResourceState ns) tr f now) (invocations d1)) = others inv_domain (cl_IsolationDomainID c) (invocations d1)"
      by (rule others_update) simp
    with assms(2) show "untouched (cl_IsolationDomainID c) d (d1\<lparr>invocations := sql_update
        (\<lambda>i. inv_domain i = cl_IsolationDomainID c \<and> inv_id i = cl_ResourceID c)
        (resource_set (invocationResourceState ns) tr f now) (invocations d1)\<rparr>)"
      by (simp add: untouched_def)
  qed (use invocation(4) in \<open>simp add: key_defs\<close>)
next
  case publish
  have "others rev_domain (cl_IsolationDomainID c) (revisions d2) = others rev_domain (cl_IsolationDomainID c) (revisions d1)"
    unfolding publish(3) by (simp, rule others_update) simp
  with assms(2) show ?thesis by (simp add: publish(3) untouched_def)
qed (use assms(2) in simp)

lemma advance_untouched: "untouched (cl_IsolationDomainID c) d (snd (advance lib h now clock c ns tr f d))"
proof -
  obtain e d' where e: "advance lib h now clock c ns tr f d = (e, d')" by (cases "advance lib h now clock c ns tr f d")
  show ?thesis
  proof (cases e)
    case None
    then have "advance lib h now clock c ns tr f d = (None, d')" using e by simp
    then show ?thesis
      by (rule advance_NoneE)
        (simp add: e, erule updateResource_untouched, rule untouched_put_table, simp add: advance_where_def lease_held_def)
  next
    case (Some err)
    with e advance_Some [of lib h now clock c ns tr f d err d'] show ?thesis by simp
  qed
qed

lemma lease_untouched:
  "untouched (cl_IsolationDomainID c) d (snd (RenewLease now c dur d))"
  "untouched (cl_IsolationDomainID c) d (snd (ScheduleRetry h now c cl ec due d))"
  "untouched (cl_IsolationDomainID c) d (snd (PrepareEffect h now c phase dg d))"
  subgoal by (auto simp: RenewLease_def Let_def lease_held_def split: sum.splits option.splits intro!: untouched_put_table)
  subgoal by (auto simp: ScheduleRetry_def Let_def lease_held_def split: sum.splits intro!: untouched_put_table)
  subgoal by (auto simp: PrepareEffect_def Let_def insert_on_conflict_nothing_def new_effect_def split: sum.splits option.splits)
  done

lemma record_untouched: "untouched (eff_domain e) d (snd (RecordEffect e st ob ec d))"
  by (auto simp: RecordEffect_def Let_def intro!: others_update)

lemma repair_untouched: "untouched i d (snd (RepairOperation h now kind i oid ac rs dd dl d))"
proof -
  obtain e d' where e: "RepairOperation h now kind i oid ac rs dd dl d = (e, d')"
    by (cases "RepairOperation h now kind i oid ac rs dd dl d")
  show ?thesis
  proof (cases e)
    case None
    with e have "RepairOperation h now kind i oid ac rs dd dl d = (None, d')" by simp
    then show ?thesis
    proof (cases rule: RepairOperation_NoneE)
      case (fresh ts row)
      let ?d0 = "d\<lparr>inbox := inbox d @ [row]\<rparr>"
      have "table_of kind ?d0 = table_of kind d" by (simp add: table_of_def)
      moreover have "untouched i ?d0 (put_table kind (sql_update (\<lambda>op. op_domain op = i \<and> op_id op = oid \<and> op_observed_state op = ''failed'')
          (repair_set now dl ac dd) (table_of kind ?d0)) ?d0)"
        by (rule untouched_put_table) simp
      moreover have "untouched i d ?d0" by (simp add: untouched_def fresh(7))
      ultimately show ?thesis by (auto simp: e fresh(6) intro: untouched_trans)
    qed (simp add: e)
  next
    case (Some err)
    with e RepairOperation_Some [of h now kind i oid ac rs dd dl d err d'] show ?thesis by simp
  qed
qed

lemma commands_untouched:
  "untouched (ik_IsolationDomainID ik) d (snd (CreateService h now ik cs d))"
  "untouched (ik_IsolationDomainID ik) d (snd (CreateRevision h now ik cv d))"
  "untouched (ik_IsolationDomainID ik) d (snd (AcceptPublication lib h now ik ap caps d))"
  "untouched (ik_IsolationDomainID ik) d (snd (AssignAlias h now ik aa d))"
  "untouched (ik_IsolationDomainID ik) d (snd (WithdrawAlias h now ik wa d))"
  "untouched (ik_IsolationDomainID ik) d (snd (RetireRevision h now ik rr d))"
  "untouched (ik_IsolationDomainID ik) d (snd (AcceptInvocation lib h now ik ai d))"
  "untouched (ik_IsolationDomainID ik) d (snd (AcceptCancellation h now ik ac d))"
  subgoal by (simp add: CreateService_def) (blast intro: execute_untouched actions_untouched(1))
  subgoal unfolding CreateRevision_def by (rule execute_untouched) (erule actions_untouched(2))
  subgoal unfolding AcceptPublication_def by (rule execute_untouched) (erule actions_untouched(3))
  subgoal unfolding AssignAlias_def by (rule execute_untouched) (erule actions_untouched(4))
  subgoal by (simp add: WithdrawAlias_def) (blast intro: execute_untouched actions_untouched(5))
  subgoal by (simp add: RetireRevision_def) (blast intro: execute_untouched actions_untouched(6))
  subgoal by (simp add: AcceptInvocation_def) (blast intro: execute_untouched accept_invocation_untouched)
  subgoal by (simp add: AcceptCancellation_def) (blast intro: execute_untouched accept_cancellation_untouched)
  done

section \<open>Domains do not interfere\<close>

text \<open>
  C11. Isolation: every command leaves all rows of other isolation domains than the caller's as they are, in
  every table, and so does every worker operation for the domains other than its claim's.
\<close>

theorem domains_do_not_interfere:
  "untouched (ik_IsolationDomainID ik) d (snd (CreateService h now ik cs d)) \<and>
   untouched (ik_IsolationDomainID ik) d (snd (CreateRevision h now ik cv d)) \<and>
   untouched (ik_IsolationDomainID ik) d (snd (AcceptPublication lib h now ik ap caps d)) \<and>
   untouched (ik_IsolationDomainID ik) d (snd (AssignAlias h now ik aa d)) \<and>
   untouched (ik_IsolationDomainID ik) d (snd (WithdrawAlias h now ik wa d)) \<and>
   untouched (ik_IsolationDomainID ik) d (snd (RetireRevision h now ik rr d)) \<and>
   untouched (ik_IsolationDomainID ik) d (snd (AcceptInvocation lib h now ik ai d)) \<and>
   untouched (ik_IsolationDomainID ik) d (snd (AcceptCancellation h now ik ac d)) \<and>
   untouched (cl_IsolationDomainID c) d (snd (Advance lib h now clock c ns tr d)) \<and>
   untouched (cl_IsolationDomainID c) d (snd (Fail lib h now clock c reason d)) \<and>
   untouched (cl_IsolationDomainID c) d (snd (RenewLease now c dur d)) \<and>
   untouched (cl_IsolationDomainID c) d (snd (ScheduleRetry h now c cl ec due d)) \<and>
   untouched (cl_IsolationDomainID c) d (snd (PrepareEffect h now c phase dg d)) \<and>
   untouched (eff_domain e) d (snd (RecordEffect e st ob ec d)) \<and>
   untouched i d (snd (RepairOperation h now kind i oid actor rs dd dl d))"
  by (simp add: commands_untouched lease_untouched record_untouched repair_untouched advance_untouched Advance_def Fail_def
      split: sum.splits)

end
