(* ===== verification/Obligations.thy ===== *)
theory Obligations
  imports Guarantees
begin

text \<open>
  Further obligations of the store: published contracts never change, external effects are prepared once,
  repairs are idempotent, leases stay within their bounds, and outputs respect the published contract.
\<close>

section \<open>Revisions are immutable\<close>

definition contract_of :: "revision_row \<Rightarrow>
    (string \<times> string) \<times> string \<times> int \<times> string \<times> string list \<times> json_object option \<times> json_object option \<times> instant \<times> string" where
  "contract_of r = (rev_key r, rev_service_id r, rev_number r, rev_runtime_profile r, rev_required_capabilities r,
     rev_input_schema r, rev_output_schema r, rev_created_at r, rev_created_by r)"

definition rev_step :: "revision_row \<Rightarrow> revision_row \<Rightarrow> bool" where
  "rev_step r r' \<longleftrightarrow> contract_of r' = contract_of r \<and>
     (rev_state r = ''draft'' \<and> rev_state r' = ''published'' \<or> rev_state r = ''published'' \<and> rev_state r' = ''retired'')"

lemma rev_step_sets:
  "rev_state r = ''draft'' \<Longrightarrow> rev_step r (publish_set now r)" "rev_state r = ''published'' \<Longrightarrow> rev_step r (retire_set now r)"
  by (simp_all add: rev_step_def contract_of_def publish_set_def retire_set_def rev_key_def)

lemma retire_evolves:
  assumes k: "keys_ok d" and "retire_revision_action h now i rr d = Inr (st, body, d')"
  shows "evolves rev_step (revisions d) (revisions d')"
  using assms(2)
proof (rule retire_revision_InrE)
  fix r
  assume r: "r \<in> set (revisions d)" "rev_domain r = i" "rev_id r = rr_RevisionID rr" "rev_state r = ''published''"
    and d': "d' = writeOutboxAndAudit h i ''service-revision'' (rr_RevisionID rr) ''service-revision.retired'' (rr_ActorID rr)
       (rr_CorrelationID rr) ''succeeded'' [] now
       (d\<lparr>revisions := sql_update (\<lambda>r. rev_domain r = i \<and> rev_id r = rr_RevisionID rr) (retire_set now) (revisions d)\<rparr>)"
  have u: "unique_by rev_key (revisions d)" using k by (simp add: keys_ok_def)
  have "rev_state q = ''published''" if "q \<in> set (revisions d)" "rev_domain q = i \<and> rev_id q = rr_RevisionID rr" for q
    using unique_by_eq [OF u that(1) r(1)] that(2) r(2-4) by (simp add: rev_key_def)
  then show ?thesis by (simp add: d' evolves_update rev_step_sets)
qed

lemma command_rev_evolves:
  assumes "command_action lib h a" and k: "keys_ok d" and r: "a d = Inr (st, body, d')"
  shows "evolves rev_step (revisions d) (revisions d')"
  using assms(1)
proof cases
  case (4 now i aa)
  from r [unfolded 4] show ?thesis by (rule assign_alias_InrE) simp
next
  case (6 now i rr)
  from retire_evolves [OF k r [unfolded 6]] show ?thesis .
qed (use r in \<open>auto elim!: create_service_InrE create_revision_InrE accept_publication_InrE
  withdraw_alias_InrE accept_invocation_InrE accept_cancellation_InrE writeInvocationEvent_Inr\<close>)

lemma advance_rev_evolves:
  assumes "advance lib h now clock c ns tr f d = (None, d')"
  shows "evolves rev_step (revisions d) (revisions d')"
  using assms
proof (rule advance_NoneE)
  fix ns tr f d2 ts
  assume u: "updateResourceForTransition h c ns tr f now
       (put_table (cl_Kind c) (sql_update (advance_where c ns now clock) (advance_set ns tr f now) (table_of (cl_Kind c) d)) d) = Inr d2"
    and d': "d' = writeOutboxAndAudit h (cl_IsolationDomainID c) (cl_Kind c) (cl_ID c) (cl_Kind c @ ''.'' @ ns)
      (cl_ActorID c) (cl_CorrelationID c) (transitionOutcome ns) (cl_ID c) now d2"
  from u have "evolves rev_step (revisions d) (revisions d2)"
    by (cases rule: updateResource_cases)
      (auto intro!: evolves_update rev_step_sets elim!: writeInvocationEvent_Inr simp: put_table_def)
  then show ?thesis by (simp add: d')
qed

lemma quiet_revisions:
  "claimNext wn clock kind i s r rp w dur oid v d = (res, d') \<Longrightarrow> revisions d' = revisions d"
  "RenewLease now c dur d = (res', d') \<Longrightarrow> revisions d' = revisions d"
  "ScheduleRetry h now c cl ec due d = (None, d') \<Longrightarrow> revisions d' = revisions d"
  "PrepareEffect h now c phase dg d = (Inr e, d') \<Longrightarrow> revisions d' = revisions d"
  "RecordEffect ef st ob ec' d = (None, d') \<Longrightarrow> revisions d' = revisions d"
  "RepairOperation h now kind i oid ac rs dd dl d = (None, d') \<Longrightarrow> revisions d' = revisions d"
  "CompleteOutbox clock oc d = (res3, d') \<Longrightarrow> revisions d' = revisions d"
  "RetryOutbox clock oc due d = (res3, d') \<Longrightarrow> revisions d' = revisions d"
  "claimOutbox clock scope w dur d = (res4, d') \<Longrightarrow> revisions d' = revisions d"
  "RecordInbox i kind dd dg' rv d = (res5, d') \<Longrightarrow> revisions d' = revisions d"
  subgoal by (auto simp: claimNext_def Let_def put_table_def split: sum.splits option.splits if_splits)
  subgoal by (auto simp: RenewLease_def Let_def put_table_def split: sum.splits option.splits if_splits)
  subgoal by (auto elim!: ScheduleRetry_NoneE simp: put_table_def)
  subgoal by (auto elim!: PrepareEffect_InrE)
  subgoal by (auto elim!: RecordEffect_NoneE)
  subgoal by (auto elim!: RepairOperation_NoneE simp: put_table_def)
  subgoal by (auto simp: CompleteOutbox_def split: if_splits)
  subgoal by (auto simp: RetryOutbox_def split: if_splits)
  subgoal by (auto simp: claimOutbox_def Let_def split: option.splits if_splits)
  subgoal by (auto simp: RecordInbox_def Let_def insert_on_conflict_nothing_def split: option.splits if_splits)
  done

lemma step_rev_evolves:
  assumes "sys_step lib h x y" and "sys_inv x"
  shows "evolves rev_step (revisions (sys_db x)) (revisions (sys_db y))"
  using assms(1)
proof cases
  case (s_command a ik res d')
  have k: "keys_ok (sys_db x)" using assms(2) by (simp add: sys_inv_def)
  from s_command(3) show ?thesis
  proof (cases rule: execute_cases)
    case (fresh status body d1)
    from command_rev_evolves [OF s_command(2) keys_ok_reserve [OF k fresh(1)] fresh(2)] s_command(1) fresh(4) show ?thesis by simp
  qed (use s_command(1) in simp_all)
qed (simp_all add: quiet_revisions advance_rev_evolves)

lemma run_rev_evolves:
  assumes "(sys_step lib h)\<^sup>*\<^sup>* x y" and "sys_inv x"
  shows "evolves rev_step\<^sup>*\<^sup>* (revisions (sys_db x)) (revisions (sys_db y))"
  using assms(1)
proof (induction rule: rtranclp_induct)
  case (step y z)
  from step_rev_evolves [OF step.hyps(2) sys_inv_run [OF step.hyps(1) assms(2)]] step.IH show ?case by (blast intro: evolves_trans)
qed simp

lemma rev_steps:
  assumes "rev_step\<^sup>*\<^sup>* r r'"
  shows "contract_of r' = contract_of r \<and> (rev_state r = ''retired'' \<longrightarrow> r' = r) \<and>
    (rev_state r = ''published'' \<longrightarrow> rev_state r' = ''published'' \<or> rev_state r' = ''retired'')"
  using assms by (induction rule: rtranclp_induct) (auto simp: rev_step_def)

text \<open>
  C12. The contract of a revision is immutable: its service, number, runtime profile, capabilities and schemas
  are those it was created with at every later point of any run; a published revision stays published until
  it is retired, and a retired one never changes again.
\<close>

theorem revision_immutable:
  assumes "(sys_step lib h)\<^sup>*\<^sup>* initial_system x" and "(sys_step lib h)\<^sup>*\<^sup>* x y" and "r \<in> set (revisions (sys_db x))"
  shows "\<exists>r' \<in> set (revisions (sys_db y)). contract_of r' = contract_of r \<and>
    (rev_state r = ''published'' \<longrightarrow> rev_state r' = ''published'' \<or> rev_state r' = ''retired'') \<and>
    (rev_state r = ''retired'' \<longrightarrow> r' = r)"
proof -
  have "evolves rev_step\<^sup>*\<^sup>* (revisions (sys_db x)) (revisions (sys_db y))"
    by (rule run_rev_evolves [OF assms(2) reachable_sys_inv [OF assms(1)]])
  then obtain r' where "r' \<in> set (revisions (sys_db y))" "r = r' \<or> rev_step\<^sup>*\<^sup>* r r'"
    using assms(3) by (rule evolves_row)
  then show ?thesis using rev_steps by blast
qed

theorem revision_immutable_witness:
  "\<exists>r \<in> set (revisions (fst demo_cancelled)). rev_state r = ''published'' \<or> rev_state r = ''retired''"
proof -
  obtain r where r: "revisions (fst demo_final) = [r]" "rev_state r = ''published''" using demo_final_facts(6) by auto
  from revision_immutable [OF demo_final_run r_into_rtranclp [of "sys_step demo_lib demo_hash", OF demo_cancelled_step], of r] r
  show ?thesis by (auto simp: demo_system_def)
qed

section \<open>Effects\<close>

text \<open>
  C13. One effect per operation and phase: after an effect was prepared, preparing the same phase again through
  any claim that holds the lease of the same operation returns the stored effect unchanged when the request
  digest is the same, and is refused as a conflict when it is not; neither inserts a second effect.
\<close>

theorem effect_prepared_once:
  assumes "(sys_step lib h)\<^sup>*\<^sup>* initial_system x" and "c \<in> sys_claims x" and "PrepareEffect h now c phase dg (sys_db x) = (Inr e, d')"
    and "cl_Kind c' = cl_Kind c" and "cl_IsolationDomainID c' = cl_IsolationDomainID c" and "cl_ID c' = cl_ID c"
    and "r \<in> set (table_of (cl_Kind c) d')" and "lease_held c' now' r" and "op_command r = cl_Command c'"
  shows "PrepareEffect h now' c' phase dg' d' =
    (if dg' = dg then (Inr e, d')
     else (Inl (DomainError ''EXTERNAL_EFFECT_CONFLICT'' ''External effect identifier was reused with a different request.'' False), d'))"
proof -
  have k: "keys_ok (sys_db x)" using reachable_sys_inv [OF assms(1)] by (simp add: sys_inv_def)
  have k': "keys_ok d'" using prepare_inv [OF k assms(3)] by blast
  have id: "effect_id h c' phase = effect_id h c phase" by (simp add: effect_id_def assms(4-6))
  obtain ts op new where p: "operationTable (cl_Kind c) = Inr ts" "e \<in> set (effects d')"
      "eff_key e = (cl_IsolationDomainID c, effect_id h c phase)" "eff_request_digest e = dg"
    by (rule PrepareEffect_InrE [OF assms(3)])
  have "sql_select (\<lambda>op. lease_held c' now' op \<and> op_command op = cl_Command c') (table_of (cl_Kind c) d') \<noteq> None"
    using assms(7-9) by (auto simp: sql_select_None)
  then obtain q where q: "sql_select (\<lambda>op. lease_held c' now' op \<and> op_command op = cl_Command c') (table_of (cl_Kind c) d') = Some q" by blast
  have "eff_key (new_effect h c' phase dg') = eff_key e" by (simp add: new_effect_def eff_key_def id assms(5) p(3) [unfolded eff_key_def])
  then have ins: "fst (insert_on_conflict_nothing (\<lambda>new r. eff_key r = eff_key new) (new_effect h c' phase dg') (effects d')) = effects d'"
    using p(2) by (auto simp: insert_on_conflict_nothing_def)
  have "unique_by eff_key (effects d')" using k' by (simp add: keys_ok_def)
  then have "sql_select (\<lambda>e. eff_domain e = cl_IsolationDomainID c' \<and> eff_id e = effect_id h c' phase) (effects d') = Some e"
    by (rule sql_select_unique) (use p(2,3) id assms(5) in \<open>auto simp: eff_key_def\<close>)
  then have "getEffect (cl_IsolationDomainID c') (effect_id h c' phase) d' = Inr e" by (simp add: getEffect_def)
  then show ?thesis by (simp add: PrepareEffect_def assms(4) p(1,4) q Let_def ins)
qed

theorem effect_prepared_once_witness:
  "\<exists>e d'. PrepareEffect demo_hash 21 demo_second_claim ''validate'' ''dg'' (fst demo_mid) = (Inr e, d') \<and>
     PrepareEffect demo_hash 22 demo_second_claim ''validate'' ''dg'' d' = (Inr e, d')"
proof -
  obtain e d' r where e: "PrepareEffect demo_hash 21 demo_second_claim ''validate'' ''dg'' (sys_db (demo_system demo_mid)) = (Inr e, d')"
      and r: "r \<in> set (table_of (cl_Kind demo_second_claim) d')" "lease_held demo_second_claim 22 r" "op_command r = cl_Command demo_second_claim"
    using demo_prepare by (auto simp: demo_system_def split: prod.splits sum.splits)
  from effect_prepared_once [OF demo_mid_run demo_claims(2) e refl refl refl r, of "''dg''"] e show ?thesis by (auto simp: demo_system_def)
qed

section \<open>Repairs\<close>

lemma RepairOperation_row:
  assumes "RepairOperation h now kind i oid ac rs dd dl d = (None, d')"
  obtains row ts where "operationTable kind = Inr ts" "ac \<noteq> []" "rs \<noteq> []" "dd \<noteq> []"
    "row \<in> set (inbox d')" "inb_key row = (i, ''command'', dd)" "inb_payload_digest row = repair_digest h kind oid rs dl" "inb_actor_id row = Some ac"
proof -
  let ?new = "\<lparr>inb_domain = i, inb_source_kind = ''command'', inb_deduplication_id = dd,
    inb_payload_digest = repair_digest h kind oid rs dl, inb_actor_id = Some ac, inb_result = None\<rparr>"
  from assms obtain ts where ts: "operationTable kind = Inr ts" "ac \<noteq> []" "rs \<noteq> []" "dd \<noteq> []"
    by (auto simp: RepairOperation_def split: if_splits sum.splits)
  note eq = assms [unfolded RepairOperation_def Let_def insert_on_conflict_nothing_def ts(1), simplified]
  show ?thesis
  proof (cases "\<exists>r \<in> set (inbox d). inb_key r = inb_key ?new")
    case True
    with eq obtain row where row: "sql_select (\<lambda>r. inb_domain r = i \<and> inb_source_kind r = ''command'' \<and> inb_deduplication_id r = dd) (inbox d) = Some row"
        "inb_payload_digest row = repair_digest h kind oid rs dl" "inb_actor_id row = Some ac" "d' = d"
      by (auto split: if_splits option.splits)
    from sql_select_Some [OF row(1)] row(2-4) show ?thesis by (intro that [OF ts, of row]) (auto simp: inb_key_def)
  next
    case False
    with eq have "?new \<in> set (inbox d')" by (auto split: if_splits option.splits)
    then show ?thesis by (rule that [OF ts]) (simp_all add: inb_key_def)
  qed
qed

text \<open>
  C14. Repairs are idempotent: after an accepted repair, repeating it with the same deduplication identifier,
  actor, reason and deadline at any later point of any run is accepted and changes nothing, even though the
  operation may have run or failed again; with another actor or content it is refused.
\<close>

theorem repair_idempotent:
  assumes "(sys_step lib h)\<^sup>*\<^sup>* initial_system x" and "RepairOperation h now kind i oid ac rs dd dl (sys_db x) = (None, d')"
    and "(sys_step lib h)\<^sup>*\<^sup>* (x\<lparr>sys_db := d'\<rparr>) y" and "now' < dl" and "now' < dl'" and "ac' \<noteq> []" and "rs' \<noteq> []"
  shows "RepairOperation h now' kind i oid ac rs dd dl (sys_db y) = (None, sys_db y) \<and>
    (ac' \<noteq> ac \<or> repair_digest h kind oid' rs' dl' \<noteq> repair_digest h kind oid rs dl \<longrightarrow>
      RepairOperation h now' kind i oid' ac' rs' dd dl' (sys_db y) =
        (Some (DomainError ''IDEMPOTENCY_KEY_REUSED'' ''Repair deduplication ID was reused with different content.'' False), sys_db y))"
proof -
  have step: "sys_step lib h x (x\<lparr>sys_db := d'\<rparr>)" by (rule s_repair [OF assms(2)])
  have inv: "sys_inv y" using sys_inv_run [OF assms(3) sys_inv_step [OF step reachable_sys_inv [OF assms(1)]]] .
  obtain row ts where row: "operationTable kind = Inr ts" "ac \<noteq> []" "rs \<noteq> []" "dd \<noteq> []"
    "row \<in> set (inbox d')" "inb_key row = (i, ''command'', dd)" "inb_payload_digest row = repair_digest h kind oid rs dl" "inb_actor_id row = Some ac"
    by (rule RepairOperation_row [OF assms(2)])
  have "prefix (inbox d') (inbox (sys_db y))" using records_run [OF assms(3)] by simp
  then have r: "row \<in> set (inbox (sys_db y))" using row(5) by (auto simp: prefix_def)
  have "unique_by inb_key (inbox (sys_db y))" using inv by (simp add: sys_inv_def keys_ok_def)
  then have sel: "sql_select (\<lambda>r. inb_domain r = i \<and> inb_source_kind r = ''command'' \<and> inb_deduplication_id r = dd) (inbox (sys_db y)) = Some row"
    by (rule sql_select_unique) (use r row(6) in \<open>auto simp: inb_key_def\<close>)
  have ex: "\<exists>q \<in> set (inbox (sys_db y)). inb_key q = (i, ''command'', dd)" using r row(6) by blast
  have "RepairOperation h now' kind i oid ac rs dd dl (sys_db y) = (None, sys_db y)"
    using ex row assms(4) by (simp add: RepairOperation_def Let_def insert_on_conflict_nothing_def inb_key_def sel)
  moreover have "RepairOperation h now' kind i oid' ac' rs' dd dl' (sys_db y) =
        (Some (DomainError ''IDEMPOTENCY_KEY_REUSED'' ''Repair deduplication ID was reused with different content.'' False), sys_db y)"
    if "ac' \<noteq> ac \<or> repair_digest h kind oid' rs' dl' \<noteq> repair_digest h kind oid rs dl"
    using ex row assms(5-7) that by (auto simp: RepairOperation_def Let_def insert_on_conflict_nothing_def inb_key_def sel)
  ultimately show ?thesis by blast
qed

theorem repair_idempotent_witness:
  "RepairOperation demo_hash 50 OperationKindPublication ''iso'' (cl_ID demo_second_claim) ''op'' ''again'' ''dd'' 200 demo_repaired =
     (None, demo_repaired) \<and>
   (\<exists>e. RepairOperation demo_hash 50 OperationKindPublication ''iso'' (cl_ID demo_second_claim) ''other'' ''again'' ''dd'' 200 demo_repaired =
     (Some e, demo_repaired))"
  using repair_idempotent [OF demo_failed_run demo_repair rtranclp.rtrancl_refl, of 50 200 "''other''" "''again''" "cl_ID demo_second_claim"] by simp

section \<open>A running invocation\<close>

definition demo_strict :: schema_lib where
  "demo_strict = \<lparr>sl_compiles = (\<lambda>_. True), sl_accepts = (\<lambda>_ v. v \<noteq> JNull)\<rparr>"

definition demo_running_op :: op_row where
  "demo_running_op = (queued_operation ''iso'' ''op'' ''inv'' ''invoke'' ''succeeded'' 2 1 100 ''c'' ''a'')
     \<lparr>op_observed_state := ''running'', op_lease_owner := Some ''w1'', op_lease_token := 1, op_lease_expires_at := Some 50\<rparr>"

definition demo_running :: db where
  "demo_running = empty_db\<lparr>
     revisions := [\<lparr>rev_domain = ''iso'', rev_id = ''rev'', rev_service_id = ''svc'', rev_number = 1, rev_state = ''published'',
       rev_runtime_profile = ''reference/v1'', rev_required_capabilities = [], rev_input_schema = None, rev_output_schema = Some [],
       rev_published_at = Some 1, rev_generation = 2, rev_version = 2, rev_created_at = 1, rev_updated_at = 1, rev_created_by = ''a''\<rparr>],
     invocations := [\<lparr>inv_domain = ''iso'', inv_id = ''inv'', inv_service_id = ''svc'', inv_revision_id = ''rev'', inv_alias = ''live'',
       inv_state = ''running'', inv_input = Some [], inv_result = None, inv_error = None, inv_correlation_id = ''c'', inv_operation_id = ''op'',
       inv_completed_at = None, inv_generation = 2, inv_version = 2, inv_created_at = 1, inv_updated_at = 1, inv_created_by = ''a''\<rparr>],
     executions := [demo_running_op]\<rparr>"

definition demo_run_claim :: operation_claim where
  "demo_run_claim = claim_of OperationKindInvocation ''w1'' demo_running_op"

section \<open>Published contracts\<close>

text \<open>
  C15. Outputs respect the published contract: committing a succeeded invocation of the reference runtime stores
  the state succeeded only when the output satisfies the output schema of its revision; otherwise the same
  transition commits the invocation as failed with the contract error and without a result.
\<close>

theorem succeeded_output_conforms:
  assumes "advance lib h now clock c ''succeeded'' tr None d = (None, d')" and "cl_Kind c = OperationKindInvocation"
    and "invocation_contract c d = Some (schema, ''reference/v1'')"
  shows "\<exists>r \<in> set (executions d). \<exists>r' \<in> set (executions d'). lease_held c now r \<and> op_key r' = op_key r \<and>
    (if \<forall>s. schema = Some s \<longrightarrow> sl_compiles lib s \<and> sl_accepts lib s (normalized tr)
     then op_observed_state r' = ''succeeded'' \<and> op_terminal_result r' = coalesce tr (op_terminal_result r)
     else op_observed_state r' = ''failed'' \<and> op_terminal_result r' = op_terminal_result r \<and>
       (\<exists>e. op_error r' = Some e \<and> ErrCorrelationID e = cl_CorrelationID c \<and>
          Code e \<in> {''REVISION_OUTPUT_SCHEMA_INVALID'', ''INVOCATION_OUTPUT_INVALID''}))"
  using assms(1)
proof (rule advance_NoneE)
  fix ns tr' f' d2 ts
  let ?w = "advance_where c ns now clock" and ?f = "advance_set ns tr' f' now"
  assume re: "revalidate lib c ''succeeded'' tr None d = Inr (ns, tr', f')"
    and one: "rows_affected ?w (table_of (cl_Kind c) d) = 1"
    and u: "updateResourceForTransition h c ns tr' f' now (put_table (cl_Kind c) (sql_update ?w ?f (table_of (cl_Kind c) d)) d) = Inr d2"
    and d': "d' = writeOutboxAndAudit h (cl_IsolationDomainID c) (cl_Kind c) (cl_ID c) (cl_Kind c @ ''.'' @ ns)
      (cl_ActorID c) (cl_CorrelationID c) (transitionOutcome ns) (cl_ID c) now d2"
  from one obtain r where "r \<in> set (table_of (cl_Kind c) d)" and w: "?w r" by (rule rows_affected_1E)
  then have r: "r \<in> set (executions d)" "?w r" using assms(2) by (simp_all add: table_of_def)
  have "executions d' = sql_update ?w ?f (executions d)"
    using table_of_frame [OF updateResource_tables [OF u], of "cl_Kind c"] assms(2) by (simp add: d' table_of_def put_table_def)
  with r have r': "?f r \<in> set (executions d')" by (auto simp: sql_update_def)
  have out: "if ValidateInvocationOutput lib schema tr = None then ns = ''succeeded'' \<and> tr' = tr
      else ns = ''failed'' \<and> tr' = None \<and> (\<exists>e. ValidateInvocationOutput lib schema tr = Some e \<and> f' = Some (e\<lparr>ErrCorrelationID := cl_CorrelationID c\<rparr>))"
    using re assms(2,3) by (auto simp: revalidate_def Let_def split: option.splits)
  have code: "Code e \<in> {''REVISION_OUTPUT_SCHEMA_INVALID'', ''INVOCATION_OUTPUT_INVALID''}"
    if "ValidateInvocationOutput lib schema tr = Some e" for e
    using that by (auto simp: ValidateInvocationOutput_def validateInvocationContract_def APIError_def split: option.splits if_splits)
  show ?thesis
  proof (intro bexI [OF _ r(1)] bexI [OF _ r'] conjI)
    show "lease_held c now r" using r(2) by (simp add: advance_where_def)
    show "op_key (?f r) = op_key r" by simp
  qed (use out code in \<open>auto simp: ValidateInvocationOutput_None [symmetric] advance_set_def coalesce_def split: if_splits\<close>)
qed

theorem succeeded_output_conforms_witness:
  "\<exists>r' \<in> set (executions (snd (advance demo_strict demo_hash 10 10 demo_run_claim ''succeeded'' None None demo_running))).
     op_observed_state r' = ''failed''"
proof -
  have ev: "fst (advance demo_strict demo_hash 10 10 demo_run_claim ''succeeded'' None None demo_running) = None \<and>
      cl_Kind demo_run_claim = OperationKindInvocation \<and> invocation_contract demo_run_claim demo_running = Some (Some [], ''reference/v1'')"
    by code_simp
  from succeeded_output_conforms [of demo_strict demo_hash 10 10 demo_run_claim None demo_running] ev show ?thesis
    by (auto simp: prod_eq_iff demo_strict_def normalized_def)
qed

section \<open>Leases\<close>

text \<open>
  C16. Leases are bounded: a claim made before the deadline of its operation expires after the moment of the
  claim and neither later than the requested duration nor later than the deadline; a renewal never shortens
  the lease below what the deadline allows and never extends it past the deadline.
\<close>

theorem lease_bounds:
  assumes "(sys_step lib h)\<^sup>*\<^sup>* initial_system x" and "0 < dur"
  shows "(claimNext now clock kind i s r rp w dur [] v (sys_db x) = (Inr (Some c), d') \<longrightarrow>
      now < cl_LeaseExpiresAt c \<and> cl_LeaseExpiresAt c \<le> now + dur \<and>
      (now < cl_DeadlineAt c \<longrightarrow> cl_LeaseExpiresAt c \<le> cl_DeadlineAt c)) \<and>
    (RenewLease now c0 dur (sys_db x) = (Inr c', d'') \<longrightarrow>
      (\<exists>q \<in> set (table_of (cl_Kind c0) (sys_db x)). lease_held c0 now q \<and>
        cl_LeaseExpiresAt c' \<le> op_deadline_at q \<and> now < cl_LeaseExpiresAt c' \<and>
        min (the (op_lease_expires_at q)) (op_deadline_at q) \<le> cl_LeaseExpiresAt c'))"
proof (intro conjI impI)
  assume cl: "claimNext now clock kind i s r rp w dur [] v (sys_db x) = (Inr (Some c), d')"
  have "unique_by op_key (table_of kind (sys_db x))"
    using reachable_sys_inv [OF assms(1)] keys_ok_tables by (auto simp: sys_inv_def)
  moreover from cl obtain ts where "operationTable kind = Inr ts" by (auto simp: claimNext_def split: sum.splits)
  ultimately obtain op where "c = claim_of kind w (claim_set now w (now + dur) op)"
    using cl by (auto simp: claimNext_eq [OF _ _ refl] split: option.splits)
  then show "now < cl_LeaseExpiresAt c" "cl_LeaseExpiresAt c \<le> now + dur" "now < cl_DeadlineAt c \<Longrightarrow> cl_LeaseExpiresAt c \<le> cl_DeadlineAt c"
    using assms(2) by (auto simp: claim_of_def claim_set_def)
next
  assume "RenewLease now c0 dur (sys_db x) = (Inr c', d'')"
  then show "\<exists>q \<in> set (table_of (cl_Kind c0) (sys_db x)). lease_held c0 now q \<and> cl_LeaseExpiresAt c' \<le> op_deadline_at q \<and>
      now < cl_LeaseExpiresAt c' \<and> min (the (op_lease_expires_at q)) (op_deadline_at q) \<le> cl_LeaseExpiresAt c'"
    by (rule RenewLease_InrE)
      (auto simp: renew_set_def lease_held_def sql_gt_def split: option.splits intro!: bexI)
qed

theorem lease_bounds_witness:
  "20 < cl_LeaseExpiresAt demo_second_claim \<and> cl_LeaseExpiresAt demo_second_claim \<le> 30"
  using lease_bounds [OF demo_early_run, of 10 20 20 OperationKindPublication "''iso''" "[]" "[]" "[]" "''w2''" 0 demo_second_claim "fst demo_mid"]
    demo_mid_facts(8)
  by (simp add: demo_system_def demo_claim_def)

section \<open>Clocks\<close>







section \<open>Failures\<close>





end
