(* ===== verification/Delivery.thy ===== *)
theory Delivery
  imports Obligations
begin

text \<open>
  Delivery of outbox events: over whole runs no event is lost or changed, and a delivered or dead event is
  final; the dispatcher marks an event as delivered only after its publisher accepted it.
\<close>

section \<open>Events over runs\<close>

definition out_any :: "outbox_row \<Rightarrow> outbox_row \<Rightarrow> bool" where
  "out_any r r' \<longleftrightarrow> (\<exists>clock. out_step clock r r')"

lemma evolves_outbox_write [simp]: "evolves R (outbox d) (outbox (writeOutboxAndAudit h i rt ri et ac co ou op now d'))"
  if "outbox d' = outbox d"
  using that by (simp add: writeOutboxAndAudit_def insert_on_conflict_nothing_def)

lemma command_outbox:
  assumes "command_action lib h a" and r: "a d = Inr (st, body, d')"
  shows "evolves out_any (outbox d) (outbox d')"
  using assms(1)
proof cases
  case (4 now i aa)
  from r [unfolded 4] show ?thesis by (rule assign_alias_InrE) simp
qed (use r in \<open>auto elim!: create_service_InrE create_revision_InrE accept_publication_InrE withdraw_alias_InrE
  retire_revision_InrE accept_invocation_InrE accept_cancellation_InrE writeInvocationEvent_Inr\<close>)

lemma outbox_put_table [simp]: "outbox (put_table kind rows d) = outbox d"
  by (simp add: put_table_def)

lemma advance_outbox:
  assumes "advance lib h now clock c ns tr f d = (None, d')"
  shows "evolves out_any (outbox d) (outbox d')"
  using assms
proof (rule advance_NoneE)
  fix ns tr f d2 ts
  assume u: "updateResourceForTransition h c ns tr f now
       (put_table (cl_Kind c) (sql_update (advance_where c ns now clock) (advance_set ns tr f now) (table_of (cl_Kind c) d)) d) = Inr d2"
    and d': "d' = writeOutboxAndAudit h (cl_IsolationDomainID c) (cl_Kind c) (cl_ID c) (cl_Kind c @ ''.'' @ ns)
      (cl_ActorID c) (cl_CorrelationID c) (transitionOutcome ns) (cl_ID c) now d2"
  from u have "outbox d2 = outbox d" by (auto elim!: updateResource_cases writeInvocationEvent_Inr)
  then show ?thesis by (simp add: d')
qed

lemma quiet_outbox:
  "claimNext wn clock kind i s r rp w dur oid v d = (res, d') \<Longrightarrow> outbox d' = outbox d"
  "RenewLease now c dur d = (res', d') \<Longrightarrow> outbox d' = outbox d"
  "PrepareEffect h now c phase dg d = (Inr e, d') \<Longrightarrow> outbox d' = outbox d"
  "RecordEffect ef st ob ec' d = (None, d') \<Longrightarrow> outbox d' = outbox d"
  "RecordInbox i kind dd dg' rv d = (res5, d') \<Longrightarrow> outbox d' = outbox d"
  subgoal by (auto simp: claimNext_def Let_def split: sum.splits option.splits if_splits)
  subgoal by (auto simp: RenewLease_def Let_def split: sum.splits option.splits if_splits)
  subgoal by (auto elim!: PrepareEffect_InrE)
  subgoal by (auto elim!: RecordEffect_NoneE)
  subgoal by (auto simp: RecordInbox_def Let_def insert_on_conflict_nothing_def split: option.splits if_splits)
  done

lemma writing_outbox:
  "ScheduleRetry h now c cl ec due d = (None, d') \<Longrightarrow> evolves out_any (outbox d) (outbox d')"
  "RepairOperation h now kind i oid ac rs dd dl d = (None, d') \<Longrightarrow> evolves out_any (outbox d) (outbox d')"
  by (auto elim!: ScheduleRetry_NoneE RepairOperation_NoneE)

lemma step_outbox:
  assumes "sys_step lib h x y" and "sys_inv x"
  shows "evolves out_any (outbox (sys_db x)) (outbox (sys_db y))"
proof -
  have u: "unique_by out_id (outbox (sys_db x))" using assms(2) by (simp add: sys_inv_def keys_ok_def)
  have mono: "evolves out_any rows rows'" if "evolves (out_step clock) rows rows'" for clock rows rows'
    using that by (rule evolves_mono) (auto simp: out_any_def)
  from assms(1) show ?thesis
  proof cases
    case (s_command a ik res d')
    from s_command(3) show ?thesis
    proof (cases rule: execute_cases)
      case (fresh status body d1)
      from command_outbox [OF s_command(2) fresh(2)] s_command(1) fresh(4) show ?thesis by simp
    qed (use s_command(1) in simp_all)
  next
    case (s_claim_outbox clock scope w dur oc d')
    then show ?thesis using mono [OF claimOutbox_evolves [OF u, of clock scope w dur]] by simp
  next
    case (s_complete_outbox clock oc d')
    then show ?thesis using mono [OF CompleteOutbox_evolves [of clock "sys_db x" oc]] by simp
  next
    case (s_retry_outbox clock oc due d')
    then show ?thesis using mono [OF RetryOutbox_evolves [of clock "sys_db x" oc due]] by simp
  qed (simp_all add: quiet_outbox advance_outbox writing_outbox)
qed

lemma run_outbox:
  assumes "(sys_step lib h)\<^sup>*\<^sup>* x y" and "sys_inv x"
  shows "evolves out_any\<^sup>*\<^sup>* (outbox (sys_db x)) (outbox (sys_db y))"
  using assms(1)
proof (induction rule: rtranclp_induct)
  case (step y z)
  from step_outbox [OF step.hyps(2) sys_inv_run [OF step.hyps(1) assms(2)]] step.IH show ?case by (blast intro: evolves_trans)
qed simp

lemma out_any_steps:
  assumes "out_any\<^sup>*\<^sup>* r r'"
  shows "out_id r' = out_id r \<and> out_domain r' = out_domain r \<and> out_event_type r' = out_event_type r \<and> out_payload r' = out_payload r \<and>
    out_lease_token r \<le> out_lease_token r' \<and> (out_status r \<noteq> ''pending'' \<longrightarrow> r' = r)"
  using assms
proof (induction rule: rtranclp_induct)
  case (step s t)
  then show ?case by (auto simp: out_any_def out_set_defs elim!: out_step.cases)
qed simp

text \<open>
  C20. No event is lost: an outbox event of a reachable state is still there after any run, with its type,
  domain and payload, its fencing token never falls, and once it is delivered or dead it never changes.
\<close>

theorem events_kept_until_delivered:
  assumes "(sys_step lib h)\<^sup>*\<^sup>* initial_system x" and "(sys_step lib h)\<^sup>*\<^sup>* x y" and "r \<in> set (outbox (sys_db x))"
  shows "\<exists>r' \<in> set (outbox (sys_db y)). out_id r' = out_id r \<and> out_domain r' = out_domain r \<and>
    out_event_type r' = out_event_type r \<and> out_payload r' = out_payload r \<and> out_lease_token r \<le> out_lease_token r' \<and>
    (out_status r \<noteq> ''pending'' \<longrightarrow> r' = r)"
proof -
  have "evolves out_any\<^sup>*\<^sup>* (outbox (sys_db x)) (outbox (sys_db y))"
    by (rule run_outbox [OF assms(2) reachable_sys_inv [OF assms(1)]])
  then obtain r' where "r' \<in> set (outbox (sys_db y))" "r = r' \<or> out_any\<^sup>*\<^sup>* r r'"
    using assms(3) by (rule evolves_row)
  then show ?thesis using out_any_steps by blast
qed

theorem events_kept_until_delivered_witness:
  "\<exists>r \<in> set (outbox (fst demo_final)). \<exists>r' \<in> set (outbox (fst demo_cancelled)). out_payload r' = out_payload r"
proof -
  obtain r where "r \<in> set (outbox (fst demo_final))" using demo_final_facts(9) by (cases "outbox (fst demo_final)") auto
  with events_kept_until_delivered [OF demo_final_run r_into_rtranclp [of "sys_step demo_lib demo_hash", OF demo_cancelled_step], of r]
  show ?thesis by (auto simp: demo_system_def)
qed

section \<open>The dispatcher\<close>

lemma held_after_claim:
  fixes w :: string
  assumes u: "unique_by out_id (outbox d)" and r: "r \<in> set (outbox d)" and p: "out_status r = ''pending''" and c2: "c2 < c1 + dur div time_Microsecond * time_Microsecond"
  defines "rows \<equiv> sql_update (\<lambda>s. out_id s = out_id r) (outbox_claim_set c1 w dur) (outbox d)"
    and "oc \<equiv> outbox_claim_of w (outbox_claim_set c1 w dur r)"
  shows "rows_affected (outbox_held oc c2) rows = 1"
    and "sql_update (outbox_held oc c2) f rows = sql_update (\<lambda>s. out_id s = out_id r) (\<lambda>s. f (outbox_claim_set c1 w dur s)) (outbox d)"
proof -
  have eq: "s = r" if "s \<in> set (outbox d)" "out_id s = out_id r" for s using u that r by (blast intro: unique_by_eq)
  have ids: "unique_by out_id rows" unfolding rows_def by (rule unique_by_map_same [OF u]) (simp add: outbox_claim_set_def)
  have held: "outbox_held oc c2 (outbox_claim_set c1 w dur r)"
    using p c2 by (simp add: oc_def outbox_held_def outbox_claim_of_def outbox_claim_set_def sql_eq_def sql_gt_def)
  have "outbox_claim_set c1 w dur r \<in> set rows" using r by (auto simp: rows_def sql_update_def)
  from rows_affected_eq_1 [where p = "outbox_held oc c2" and k = "oc_ID oc", OF ids outbox_held_id this held]
  show "rows_affected (outbox_held oc c2) rows = 1" .
  show "sql_update (outbox_held oc c2) f rows = sql_update (\<lambda>s. out_id s = out_id r) (\<lambda>s. f (outbox_claim_set c1 w dur s)) (outbox d)"
    using held eq unfolding rows_def sql_update_def
    by (auto simp: outbox_held_def oc_def outbox_claim_of_def outbox_claim_set_def)
qed

text \<open>
  C21. The dispatcher delivers at least once: on the oldest eligible event of the repository it publishes exactly
  the event of that row; when the publisher accepts it, the row and no other becomes delivered; when the
  publisher fails, the row and no other becomes available again after a delay of at most 64 seconds, or dead
  from the twentieth attempt on. The lease of thirty seconds covers the writes that follow in time.
\<close>

theorem dispatcher_outcome:
  assumes "unique_by out_id (outbox d)" and "outbox_request_ok w (30 * time_Second)"
    and "first_by outbox_order (filter (outbox_eligible [] c1) (outbox d)) = Some r"
    and "c1 \<le> c2" and "c2 < c1 + 30 * time_Second"
  shows "\<exists>oc delay. oc_ID oc = out_id r \<and> oc_Payload oc = out_payload r \<and> oc_EventType oc = out_event_type r \<and>
    delay \<le> 64 * time_Second \<and>
    outbox_RunOne (repository_outbox c1 c2) (\<lambda>c d. (pub c, d)) w now d =
      ((True, None), d\<lparr>outbox := map (\<lambda>s. if out_id s \<noteq> out_id r then s
         else let q = outbox_claim_set c1 w (30 * time_Second) s in
           if pub oc = None then complete_set c2 q
           else q\<lparr>out_status := (if out_attempt s \<ge> 19 then ''dead_letter'' else ''pending''), out_available_at := now + delay,
                 out_lease_owner := None, out_lease_expires_at := None\<rparr>) (outbox d)\<rparr>)"
proof -
  let ?dur = "30 * time_Second" and ?set = "outbox_claim_set c1 w (30 * time_Second)"
  let ?oc = "outbox_claim_of w (?set r)" and ?rows = "sql_update (\<lambda>s. out_id s = out_id r) (outbox_claim_set c1 w (30 * time_Second)) (outbox d)"
  let ?delay = "dispatch_delay (oc_Attempt ?oc)"
  from assms(3) have r: "r \<in> set (outbox d)" "out_status r = ''pending''" by (auto dest!: first_by_Some simp: outbox_eligible_def)
  have c2: "c2 < c1 + ?dur div time_Microsecond * time_Microsecond" using assms(5) by (simp add: time_Second_def time_Microsecond_def)
  note held = held_after_claim [OF assms(1) r c2, of w]
  have claim: "ClaimOutbox c1 w ?dur d = (Inr (Some ?oc), d\<lparr>outbox := ?rows\<rparr>)"
    using claimOutbox_eq [OF assms(1,2), of c1 "[]"] assms(3) by (simp add: ClaimOutbox_def)
  have "(2 :: int) ^ nat (min a 6) \<le> 2 ^ 6" for a by (rule power_increasing) auto
  then have delay: "?delay \<le> 64 * time_Second" by (simp add: dispatch_delay_def time_Second_def)
  have run: "outbox_RunOne (repository_outbox c1 c2) (\<lambda>c d. (pub c, d)) w now d = ((True, None), d\<lparr>outbox :=
      sql_update (\<lambda>s. out_id s = out_id r) (\<lambda>s. (if pub ?oc = None then complete_set c2 else outbox_retry_set (now + ?delay)) (?set s)) (outbox d)\<rparr>)"
    using held by (simp add: outbox_RunOne_def repository_outbox_def claim CompleteOutbox_def RetryOutbox_def split: option.splits)
  show ?thesis
    by (rule exI [of _ ?oc], rule exI [of _ ?delay], unfold run)
      (use delay in \<open>auto simp: sql_update_def Let_def outbox_retry_set_def outbox_claim_of_def outbox_claim_set_def\<close>)
qed

definition demo_event :: db where
  "demo_event = writeOutboxAndAudit demo_hash ''iso'' ''type'' ''id'' ''event'' ''a'' ''c'' ''accepted'' [] 0 empty_db"

theorem dispatcher_outcome_witness:
  "fst (outbox_RunOne (repository_outbox 0 1) (\<lambda>c d. (None, d)) ''w'' 0 demo_event) = (True, None)"
proof -
  have ok: "outbox_request_ok ''w'' (30 * time_Second)"
    by (simp add: outbox_request_ok_def TrimSpace_def is_space_segment_def IsSpace_def byte_def time_Second_def time_Hour_def time_Microsecond_def)
  have t: "(1 :: int) < 0 + 30 * time_Second" by (simp add: time_Second_def)
  obtain r where r: "outbox demo_event = [r]" "outbox_eligible [] 0 r"
    by (simp add: demo_event_def writeOutboxAndAudit_def insert_on_conflict_nothing_def empty_db_def outbox_eligible_def null_or_le_def)
  then have "unique_by out_id (outbox demo_event)" "first_by outbox_order (filter (outbox_eligible [] 0) (outbox demo_event)) = Some r"
    by (simp_all add: unique_by_def first_by_def)
  from dispatcher_outcome [OF this(1) ok this(2) _ t, of "\<lambda>_. None" 0] show ?thesis by auto
qed

end
