(* ===== verification/Reconciler.thy ===== *)
theory Reconciler
  imports Delivery
begin

text \<open>
  The reconciler, \<open>src/internal/reconcile/reconciler.go\<close>: one call of \<open>RunOne\<close> claims an operation and takes
  it one transition further, performing the external effect of its state through a driver. The store and the
  driver are interfaces, here records of functions on a world that they share; the clock is read from the
  world. A driver may offer the claim-bound and the publication interfaces or not, as the type assertions of
  the code ask for them.
\<close>

section \<open>Interfaces\<close>

record 'w Store =
  st_ClaimNext :: "string \<Rightarrow> string \<Rightarrow> duration \<Rightarrow> 'w \<Rightarrow> operation_claim option result \<times> 'w"
  st_Advance :: "operation_claim \<Rightarrow> string \<Rightarrow> json_object option \<Rightarrow> 'w \<Rightarrow> go_error option \<times> 'w"
  st_Fail :: "operation_claim \<Rightarrow> failure_reason \<Rightarrow> 'w \<Rightarrow> go_error option \<times> 'w"
  st_ScheduleRetry :: "operation_claim \<Rightarrow> string \<Rightarrow> string \<Rightarrow> instant \<Rightarrow> 'w \<Rightarrow> go_error option \<times> 'w"
  st_PrepareEffect :: "operation_claim \<Rightarrow> string \<Rightarrow> string \<Rightarrow> 'w \<Rightarrow> effect_row result \<times> 'w"
  st_RecordEffect :: "effect_row \<Rightarrow> string \<Rightarrow> json_object option \<Rightarrow> string \<Rightarrow> 'w \<Rightarrow> go_error option \<times> 'w"

record 'w ClaimedEffectDriver =
  ce_ObserveClaimed :: "operation_claim \<Rightarrow> effect_row \<Rightarrow> 'w \<Rightarrow> (json_object option \<times> bool) result \<times> 'w"
  ce_ApplyClaimed :: "operation_claim \<Rightarrow> effect_row \<Rightarrow> 'w \<Rightarrow> json_object option result \<times> 'w"

type_synonym 'w publisher = "operation_claim \<Rightarrow> 'w \<Rightarrow> go_error option \<times> 'w"

record 'w EffectDriver =
  ed_Observe :: "effect_row \<Rightarrow> 'w \<Rightarrow> (json_object option \<times> bool) result \<times> 'w"
  ed_Apply :: "effect_row \<Rightarrow> 'w \<Rightarrow> json_object option result \<times> 'w"
  ed_claimed :: "'w ClaimedEffectDriver option"
  ed_PublishClaimed :: "'w publisher option"
  ed_PublishAuthorizedClaimed :: "'w publisher option"

record 'w Reconciler =
  rc_store :: "'w Store"
  rc_driver :: "'w EffectDriver"
  rc_workerID :: string
  rc_leaseDuration :: duration
  rc_now :: "'w \<Rightarrow> instant"
  rc_sha256 :: "string \<Rightarrow> string"

section \<open>Effects\<close>

definition reconciler_retry :: "'w Reconciler \<Rightarrow> operation_claim \<Rightarrow> go_error \<Rightarrow> 'w \<Rightarrow> go_error option \<times> 'w" where
  "reconciler_retry rc claim cause w =
     (let classification = (if errors_Is cause ErrAmbiguousEffect then ''unknown'' else ''retryable'');
          code = (if errors_Is cause ErrInvocationCancellationRetentionRequired then ''WORKSPACE_RETENTION_REQUIRED''
                  else ''RECONCILIATION_RETRY'');
          delay = 2 ^ nat (min (cl_Attempt claim) 6) * time_Second
      in st_ScheduleRetry (rc_store rc) claim classification code (rc_now rc w + delay) w)"

definition effectRejection :: "effect_row \<Rightarrow> go_error \<Rightarrow> (failure_reason \<times> string) option" where
  "effectRejection effect cause =
     (if errors_Is cause ErrEffectDenied then Some (OperationFailureEffectDenied, ''EXTERNAL_EFFECT_DENIED'')
      else if errors_Is cause ErrEffectInvalid then Some (OperationFailureEffectInvalid, ''EXTERNAL_EFFECT_INVALID'')
      else if errors_Is cause ErrEffectTerminal \<and> eff_operation_kind effect = OperationKindInvocation \<and>
              eff_phase effect = ''run-invocation''
      then Some (OperationFailureRuntime, ''EXTERNAL_EFFECT_TERMINAL_FAILURE'')
      else None)"

text \<open>\<open>None\<close> when the error is not a rejection, otherwise what the rejection returns.\<close>

definition rejectEffect ::
    "'w Reconciler \<Rightarrow> operation_claim \<Rightarrow> effect_row \<Rightarrow> go_error \<Rightarrow> 'w \<Rightarrow> (go_error option \<times> 'w) option" where
  "rejectEffect rc claim effect cause w =
     (case effectRejection effect cause of
        None \<Rightarrow> None
      | Some (reason, code) \<Rightarrow>
          (case st_RecordEffect (rc_store rc) effect ''failed'' None code w of
             (Some err, w1) \<Rightarrow> Some (Some (errors_Join cause err), w1)
           | (None, w1) \<Rightarrow> Some (st_Fail (rc_store rc) claim reason w1)))"

definition observeWithClaim ::
    "'w EffectDriver \<Rightarrow> operation_claim \<Rightarrow> effect_row \<Rightarrow> 'w \<Rightarrow> (json_object option \<times> bool) result \<times> 'w" where
  "observeWithClaim driver claim effect =
     (case ed_claimed driver of Some claimed \<Rightarrow> ce_ObserveClaimed claimed claim effect | None \<Rightarrow> ed_Observe driver effect)"

definition applyWithClaim ::
    "'w EffectDriver \<Rightarrow> operation_claim \<Rightarrow> effect_row \<Rightarrow> 'w \<Rightarrow> json_object option result \<times> 'w" where
  "applyWithClaim driver claim effect =
     (case ed_claimed driver of Some claimed \<Rightarrow> ce_ApplyClaimed claimed claim effect | None \<Rightarrow> ed_Apply driver effect)"

definition effectAllowed :: "operation_claim \<Rightarrow> string \<Rightarrow> bool" where
  "effectAllowed claim phase =
     (if cl_Kind claim = OperationKindPublication
      then publication_AllowsEffect (cl_Command claim) (cl_ObservedState claim) phase
      else if cl_Kind claim = OperationKindInvocation
      then invocation_AllowsEffect (cl_Command claim) (cl_ObservedState claim) phase
      else False)"

definition effect_digest :: "'w Reconciler \<Rightarrow> operation_claim \<Rightarrow> string \<Rightarrow> string" where
  "effect_digest rc claim phase = rc_sha256 rc (cl_IsolationDomainID claim @ '':'' @ cl_ID claim @ '':'' @ phase)"

text \<open>What follows the effect: its success is recorded before the transition.\<close>

definition finish_effect ::
    "'w Reconciler \<Rightarrow> operation_claim \<Rightarrow> effect_row \<Rightarrow> string \<Rightarrow> json_object option \<Rightarrow> 'w \<Rightarrow> go_error option \<times> 'w" where
  "finish_effect rc claim effect nextState res w =
     (case st_RecordEffect (rc_store rc) effect ''succeeded'' res [] w of
        (Some _, w1) \<Rightarrow> reconciler_retry rc claim (Sentinel ErrAmbiguousEffect) w1
      | (None, w1) \<Rightarrow> st_Advance (rc_store rc) claim nextState None w1)"

definition unconfirmed :: "'w Reconciler \<Rightarrow> operation_claim \<Rightarrow> effect_row \<Rightarrow> go_error \<Rightarrow> 'w \<Rightarrow> go_error option \<times> 'w" where
  "unconfirmed rc claim effect err w =
     (let status = (if errors_Is err ErrAmbiguousEffect then ''unknown'' else ''failed'')
      in case st_RecordEffect (rc_store rc) effect status None ''EXTERNAL_EFFECT_UNCONFIRMED'' w of
           (Some recordErr, w1) \<Rightarrow> (Some (errors_Join err recordErr), w1)
         | (None, w1) \<Rightarrow> reconciler_retry rc claim err w1)"

definition perform_effect :: "'w Reconciler \<Rightarrow> operation_claim \<Rightarrow> effect_row \<Rightarrow> string \<Rightarrow> 'w \<Rightarrow> go_error option \<times> 'w" where
  "perform_effect rc claim effect nextState w =
     (case applyWithClaim (rc_driver rc) claim effect w of
        (Inr res, w1) \<Rightarrow> finish_effect rc claim effect nextState res w1
      | (Inl err, w1) \<Rightarrow>
          (case rejectEffect rc claim effect err w1 of Some r \<Rightarrow> r | None \<Rightarrow> unconfirmed rc claim effect err w1))"

definition applyEffect :: "'w Reconciler \<Rightarrow> operation_claim \<Rightarrow> string \<Rightarrow> string \<Rightarrow> 'w \<Rightarrow> go_error option \<times> 'w" where
  "applyEffect rc claim phase nextState w =
     (if \<not> effectAllowed claim phase then (Some (errors_New ''operation in state does not allow effect''), w)
      else case st_PrepareEffect (rc_store rc) claim phase (effect_digest rc claim phase) w of
        (Inl err, w1) \<Rightarrow> (Some err, w1)
      | (Inr effect, w1) \<Rightarrow>
          (case observeWithClaim (rc_driver rc) claim effect w1 of
             (Inl err, w2) \<Rightarrow>
               (case rejectEffect rc claim effect err w2 of Some r \<Rightarrow> r | None \<Rightarrow> reconciler_retry rc claim err w2)
           | (Inr (res, True), w2) \<Rightarrow> finish_effect rc claim effect nextState res w2
           | (Inr (_, False), w2) \<Rightarrow> perform_effect rc claim effect nextState w2))"

definition observeEffect ::
    "'w Reconciler \<Rightarrow> operation_claim \<Rightarrow> string \<Rightarrow> 'w \<Rightarrow> (json_object option \<times> bool) result \<times> 'w" where
  "observeEffect rc claim phase w =
     (case st_PrepareEffect (rc_store rc) claim phase (effect_digest rc claim phase) w of
        (Inl err, w1) \<Rightarrow> (Inl err, w1)
      | (Inr effect, w1) \<Rightarrow>
          if eff_status effect = ''succeeded'' then (Inr (eff_observation effect, True), w1)
          else case observeWithClaim (rc_driver rc) claim effect w1 of
            (Inl err, w2) \<Rightarrow> (Inl err, w2)
          | (Inr (res, False), w2) \<Rightarrow> (Inr (res, False), w2)
          | (Inr (res, True), w2) \<Rightarrow>
              (case st_RecordEffect (rc_store rc) effect ''succeeded'' res [] w2 of
                 (Some err, w3) \<Rightarrow> (Inl err, w3)
               | (None, w3) \<Rightarrow> (Inr (res, True), w3)))"

section \<open>Transitions\<close>

text \<open>The observing states: the effect is looked at again and the operation finished with its result.\<close>

definition settle :: "'w Reconciler \<Rightarrow> operation_claim \<Rightarrow> string \<Rightarrow> string \<Rightarrow> 'w \<Rightarrow> go_error option \<times> 'w" where
  "settle rc claim phase final w =
     (case observeEffect rc claim phase w of
        (Inl err, w1) \<Rightarrow> reconciler_retry rc claim err w1
      | (Inr (_, False), w1) \<Rightarrow> reconciler_retry rc claim (Sentinel ErrAmbiguousEffect) w1
      | (Inr (res, True), w1) \<Rightarrow> st_Advance (rc_store rc) claim final res w1)"

definition advance_development_publication :: "'w Reconciler \<Rightarrow> operation_claim \<Rightarrow> 'w \<Rightarrow> go_error option \<times> 'w" where
  "advance_development_publication rc claim w =
     (if cl_Command claim = ''cancel'' then st_Advance (rc_store rc) claim ''cancelled'' None w
      else
        (let authorized = publication_IsAuthorizedDevelopmentVersion (cl_StateMachineVersion claim);
             driver = (if authorized then ed_PublishAuthorizedClaimed (rc_driver rc) else ed_PublishClaimed (rc_driver rc))
         in case driver of
              None \<Rightarrow> (Some (errors_New (if authorized then ''authorized publication verifier is required''
                                        else ''governed publication verifier is required'')), w)
            | Some publish \<Rightarrow>
                if cl_ObservedState claim = ''queued'' then st_Advance (rc_store rc) claim ''validating'' None w
                else if cl_ObservedState claim = ''validating'' then
                  (case publish claim w of
                     (Some err, w1) \<Rightarrow>
                       if errors_Is err ErrLeaseLost then (Some err, w1) else reconciler_retry rc claim err w1
                   | (None, w1) \<Rightarrow> (None, w1))
                else (Some (errors_New ''governed publication state is invalid''), w)))"

definition advancePublication :: "'w Reconciler \<Rightarrow> operation_claim \<Rightarrow> 'w \<Rightarrow> go_error option \<times> 'w" where
  "advancePublication rc claim w =
     (if cl_StateMachineVersion claim = publication_QueuedDevelopmentVersion \<or>
         publication_IsAuthorizedDevelopmentVersion (cl_StateMachineVersion claim)
      then advance_development_publication rc claim w
      else if cl_StateMachineVersion claim \<noteq> publication_StateMachineVersion
      then (Some (errors_New ''publication state machine version is unsupported''), w)
      else if cl_Command claim = ''cancel'' then st_Advance (rc_store rc) claim ''cancelled'' None w
      else if cl_ObservedState claim = ''queued'' then st_Advance (rc_store rc) claim ''validating'' None w
      else if cl_ObservedState claim = ''validating'' then st_Advance (rc_store rc) claim ''applying'' None w
      else if cl_ObservedState claim = ''applying'' then applyEffect rc claim ''publish-revision'' ''observing'' w
      else if cl_ObservedState claim = ''observing'' then settle rc claim ''publish-revision'' ''published'' w
      else (Some (errors_New ''publication state is not reconcilable''), w))"

definition advanceInvocationV1 :: "'w Reconciler \<Rightarrow> operation_claim \<Rightarrow> 'w \<Rightarrow> go_error option \<times> 'w" where
  "advanceInvocationV1 rc claim w =
     (if cl_ObservedState claim = ''queued'' then st_Advance (rc_store rc) claim ''starting'' None w
      else if cl_ObservedState claim = ''starting'' then applyEffect rc claim ''start-invocation'' ''observing'' w
      else if cl_ObservedState claim = ''observing'' then settle rc claim ''start-invocation'' ''succeeded'' w
      else (Some (errors_New ''version 1 invocation state is not reconcilable''), w))"

definition advanceInvocationV2 :: "'w Reconciler \<Rightarrow> operation_claim \<Rightarrow> 'w \<Rightarrow> go_error option \<times> 'w" where
  "advanceInvocationV2 rc claim w =
     (if cl_ObservedState claim = ''queued'' then st_Advance (rc_store rc) claim ''starting'' None w
      else if cl_ObservedState claim = ''starting'' then applyEffect rc claim ''start-invocation'' ''running'' w
      else if cl_ObservedState claim = ''running'' then applyEffect rc claim ''run-invocation'' ''observing'' w
      else if cl_ObservedState claim = ''observing'' then settle rc claim ''run-invocation'' ''succeeded'' w
      else (Some (errors_New ''version 2 invocation state is not reconcilable''), w))"

definition advanceInvocation :: "'w Reconciler \<Rightarrow> operation_claim \<Rightarrow> 'w \<Rightarrow> go_error option \<times> 'w" where
  "advanceInvocation rc claim w =
     (if cl_StateMachineVersion claim = 1 then
        if cl_Command claim = ''cancel'' then
          if cl_ObservedState claim \<noteq> ''cancelling'' then st_Advance (rc_store rc) claim ''cancelling'' None w
          else st_Advance (rc_store rc) claim ''cancelled'' None w
        else advanceInvocationV1 rc claim w
      else if cl_StateMachineVersion claim = invocation_StateMachineVersion then
        if cl_Command claim = ''cancel'' then
          if cl_ObservedState claim \<noteq> ''cancelling'' then st_Advance (rc_store rc) claim ''cancelling'' None w
          else applyEffect rc claim ''cancel-invocation'' ''cancelled'' w
        else advanceInvocationV2 rc claim w
      else (Some (errors_New ''invocation state machine version is unsupported''), w))"

definition reconciler_advance :: "'w Reconciler \<Rightarrow> operation_claim \<Rightarrow> 'w \<Rightarrow> go_error option \<times> 'w" where
  "reconciler_advance rc claim w =
     (if cl_Kind claim = OperationKindPublication then advancePublication rc claim w
      else if cl_Kind claim = OperationKindInvocation then advanceInvocation rc claim w
      else (Some (errors_New ''unsupported operation kind''), w))"

definition reconciler_RunOne :: "'w Reconciler \<Rightarrow> string \<Rightarrow> 'w \<Rightarrow> (bool \<times> go_error option) \<times> 'w" where
  "reconciler_RunOne rc kind w =
     (case st_ClaimNext (rc_store rc) kind (rc_workerID rc) (rc_leaseDuration rc) w of
        (Inl err, w1) \<Rightarrow> ((False, Some err), w1)
      | (Inr None, w1) \<Rightarrow> ((False, None), w1)
      | (Inr (Some claim), w1) \<Rightarrow>
          (case (if \<not> rc_now rc w1 < cl_DeadlineAt claim then st_Fail (rc_store rc) claim OperationFailureDeadline w1
                 else reconciler_advance rc claim w1) of
             (err, w2) \<Rightarrow> ((True, err), w2)))"

end
