(* ===== verification/Reconciler_Protocol.thy ===== *)
theory Reconciler_Protocol
  imports Reconciler
begin

text \<open>
  The order of the reconciler's calls, as a monitor that watches every call to the store and to the driver,
  whatever they answer, and turns bad at the first call out of order.
\<close>

section \<open>The monitor\<close>

datatype monitor =
    MIdle
  | MClaimed operation_claim
  | MPrepared operation_claim string effect_row
  | MAbsent operation_claim string effect_row
  | MKnown operation_claim effect_row
  | MError operation_claim effect_row
  | MNoted operation_claim
  | MRecorded operation_claim
  | MUnsure operation_claim
  | MDone
  | MBad

text \<open>
  One claim comes first. An effect is prepared under the claim, then observed, then applied only when it was
  not found and the state of the operation allows its phase; only a known effect is recorded as succeeded,
  and only a failed one otherwise. One write under the claim ends the run: a transition directly after the
  claim, after the success of the effect was recorded, or on an effect recorded earlier; a failure directly
  after the claim or after the failed effect was recorded; a retry at any point after the claim.
\<close>

fun on_claim :: "operation_claim option result \<Rightarrow> monitor \<Rightarrow> monitor" where
  "on_claim (Inr (Some c)) MIdle = MClaimed c"
| "on_claim _ MIdle = MDone"
| "on_claim _ _ = MBad"

fun on_prepare :: "operation_claim \<Rightarrow> string \<Rightarrow> effect_row result \<Rightarrow> monitor \<Rightarrow> monitor" where
  "on_prepare c phase r (MClaimed c') =
     (if c = c' then (case r of Inr e \<Rightarrow> MPrepared c phase e | Inl _ \<Rightarrow> MUnsure c) else MBad)"
| "on_prepare c phase r _ = MBad"

fun on_observe :: "effect_row \<Rightarrow> (json_object option \<times> bool) result \<Rightarrow> monitor \<Rightarrow> monitor" where
  "on_observe e r (MPrepared c phase e') =
     (if e = e' then (case r of Inr (_, True) \<Rightarrow> MKnown c e | Inr (_, False) \<Rightarrow> MAbsent c phase e | Inl _ \<Rightarrow> MError c e) else MBad)"
| "on_observe e r _ = MBad"

fun on_apply :: "effect_row \<Rightarrow> json_object option result \<Rightarrow> monitor \<Rightarrow> monitor" where
  "on_apply e r (MAbsent c phase e') =
     (if e = e' \<and> effectAllowed c phase then (case r of Inr _ \<Rightarrow> MKnown c e | Inl _ \<Rightarrow> MError c e) else MBad)"
| "on_apply e r _ = MBad"

fun on_record :: "effect_row \<Rightarrow> string \<Rightarrow> go_error option \<Rightarrow> monitor \<Rightarrow> monitor" where
  "on_record e status r (MKnown c e') =
     (if e = e' \<and> status = ''succeeded'' then (if r = None then MRecorded c else MUnsure c) else MBad)"
| "on_record e status r (MError c e') =
     (if e = e' \<and> status \<in> {''failed'', ''unknown''} then (if r = None then MNoted c else MDone) else MBad)"
| "on_record e status r _ = MBad"

fun on_advance :: "operation_claim \<Rightarrow> monitor \<Rightarrow> monitor" where
  "on_advance c (MClaimed c') = (if c = c' then MDone else MBad)"
| "on_advance c (MRecorded c') = (if c = c' then MDone else MBad)"
| "on_advance c (MPrepared c' phase e) = (if c = c' \<and> eff_status e = ''succeeded'' then MDone else MBad)"
| "on_advance c _ = MBad"

fun on_fail :: "operation_claim \<Rightarrow> monitor \<Rightarrow> monitor" where
  "on_fail c (MClaimed c') = (if c = c' then MDone else MBad)"
| "on_fail c (MNoted c') = (if c = c' then MDone else MBad)"
| "on_fail c _ = MBad"

fun on_retry :: "operation_claim \<Rightarrow> monitor \<Rightarrow> monitor" where
  "on_retry c (MClaimed c') = (if c = c' then MDone else MBad)"
| "on_retry c (MAbsent c' phase e) = (if c = c' then MDone else MBad)"
| "on_retry c (MError c' e) = (if c = c' then MDone else MBad)"
| "on_retry c (MNoted c') = (if c = c' then MDone else MBad)"
| "on_retry c (MUnsure c') = (if c = c' then MDone else MBad)"
| "on_retry c _ = MBad"

fun on_publish :: "operation_claim \<Rightarrow> go_error option \<Rightarrow> monitor \<Rightarrow> monitor" where
  "on_publish c r (MClaimed c') = (if c = c' then (if r = None then MDone else MUnsure c) else MBad)"
| "on_publish c r _ = MBad"

section \<open>Monitored interfaces\<close>

definition watch :: "('w \<Rightarrow> 'r \<times> 'w) \<Rightarrow> ('r \<Rightarrow> monitor \<Rightarrow> monitor) \<Rightarrow> 'w \<times> monitor \<Rightarrow> 'r \<times> 'w \<times> monitor" where
  "watch call event wm = (case call (fst wm) of (r, w) \<Rightarrow> (r, w, event r (snd wm)))"

definition watched_store :: "'w Store \<Rightarrow> ('w \<times> monitor) Store" where
  "watched_store s =
     \<lparr>st_ClaimNext = (\<lambda>kind w dur. watch (st_ClaimNext s kind w dur) on_claim),
      st_Advance = (\<lambda>c ns tr. watch (st_Advance s c ns tr) (\<lambda>_. on_advance c)),
      st_Fail = (\<lambda>c reason. watch (st_Fail s c reason) (\<lambda>_. on_fail c)),
      st_ScheduleRetry = (\<lambda>c cl code due. watch (st_ScheduleRetry s c cl code due) (\<lambda>_. on_retry c)),
      st_PrepareEffect = (\<lambda>c phase dg. watch (st_PrepareEffect s c phase dg) (on_prepare c phase)),
      st_RecordEffect = (\<lambda>e st ob code. watch (st_RecordEffect s e st ob code) (on_record e st))\<rparr>"

definition watched_driver :: "'w EffectDriver \<Rightarrow> ('w \<times> monitor) EffectDriver" where
  "watched_driver d =
     \<lparr>ed_Observe = (\<lambda>e. watch (ed_Observe d e) (on_observe e)), ed_Apply = (\<lambda>e. watch (ed_Apply d e) (on_apply e)),
      ed_claimed = map_option (\<lambda>cd. \<lparr>ce_ObserveClaimed = (\<lambda>c e. watch (ce_ObserveClaimed cd c e) (on_observe e)),
        ce_ApplyClaimed = (\<lambda>c e. watch (ce_ApplyClaimed cd c e) (on_apply e))\<rparr>) (ed_claimed d),
      ed_PublishClaimed = map_option (\<lambda>p c. watch (p c) (on_publish c)) (ed_PublishClaimed d),
      ed_PublishAuthorizedClaimed = map_option (\<lambda>p c. watch (p c) (on_publish c)) (ed_PublishAuthorizedClaimed d)\<rparr>"

definition watched :: "'w Reconciler \<Rightarrow> ('w \<times> monitor) Reconciler" where
  "watched rc = \<lparr>rc_store = watched_store (rc_store rc), rc_driver = watched_driver (rc_driver rc), rc_workerID = rc_workerID rc,
     rc_leaseDuration = rc_leaseDuration rc, rc_now = (\<lambda>wm. rc_now rc (fst wm)), rc_sha256 = rc_sha256 rc\<rparr>"

text \<open>A watched run has the result and the world of the run itself, and its monitor ends as \<open>P\<close> says.\<close>

definition mirrors :: "'r \<times> 'w \<times> monitor \<Rightarrow> 'r \<times> 'w \<Rightarrow> (monitor \<Rightarrow> bool) \<Rightarrow> bool" where
  "mirrors out out' P \<longleftrightarrow> fst out = fst out' \<and> fst (snd out) = snd out' \<and> P (snd (snd out))"

lemmas watched_defs = watched_def watched_store_def watched_driver_def watch_def

lemma watched_simps [simp]:
  "st_ClaimNext (rc_store (watched rc)) kind wk dur wm = watch (st_ClaimNext (rc_store rc) kind wk dur) on_claim wm"
  "st_Advance (rc_store (watched rc)) c ns tr wm = watch (st_Advance (rc_store rc) c ns tr) (\<lambda>_. on_advance c) wm"
  "st_Fail (rc_store (watched rc)) c reason wm = watch (st_Fail (rc_store rc) c reason) (\<lambda>_. on_fail c) wm"
  "st_ScheduleRetry (rc_store (watched rc)) c cl code due wm = watch (st_ScheduleRetry (rc_store rc) c cl code due) (\<lambda>_. on_retry c) wm"
  "st_PrepareEffect (rc_store (watched rc)) c phase dg wm = watch (st_PrepareEffect (rc_store rc) c phase dg) (on_prepare c phase) wm"
  "st_RecordEffect (rc_store (watched rc)) e st ob code wm = watch (st_RecordEffect (rc_store rc) e st ob code) (on_record e st) wm"
  "rc_now (watched rc) wm = rc_now rc (fst wm)" "effect_digest (watched rc) c phase = effect_digest rc c phase"
  "rc_workerID (watched rc) = rc_workerID rc" "rc_leaseDuration (watched rc) = rc_leaseDuration rc"
  by (simp_all add: watched_def watched_store_def effect_digest_def)

lemma watched_driver_simps [simp]:
  "observeWithClaim (rc_driver (watched rc)) c e wm = watch (observeWithClaim (rc_driver rc) c e) (on_observe e) wm"
  "applyWithClaim (rc_driver (watched rc)) c e wm = watch (applyWithClaim (rc_driver rc) c e) (on_apply e) wm"
  "ed_PublishClaimed (rc_driver (watched rc)) = map_option (\<lambda>p c. watch (p c) (on_publish c)) (ed_PublishClaimed (rc_driver rc))"
  "ed_PublishAuthorizedClaimed (rc_driver (watched rc)) = map_option (\<lambda>p c. watch (p c) (on_publish c)) (ed_PublishAuthorizedClaimed (rc_driver rc))"
  by (simp_all add: watched_def watched_driver_def observeWithClaim_def applyWithClaim_def split: option.splits)

section \<open>Every call is in order\<close>

lemma watch_eq [simp]: "f w = (r, w') \<Longrightarrow> watch f ev (w, m) = (r, w', ev r m)"
  by (simp add: watch_def)

lemma mirrors_watch [simp]: "mirrors (watch f ev (w, m)) (f w) P \<longleftrightarrow> P (ev (fst (f w)) m)"
  by (simp add: mirrors_def watch_def split: prod.splits)

lemma mirrors_pair [simp]: "mirrors (r, w, m) (r', w') P \<longleftrightarrow> r = r' \<and> w = w' \<and> P m"
  by (auto simp: mirrors_def)

abbreviation in_order :: "'r \<times> 'w \<times> monitor \<Rightarrow> 'r \<times> 'w \<Rightarrow> bool" where
  "in_order out out' \<equiv> mirrors out out' (\<lambda>m. m \<noteq> MBad)"

lemma retry_in_order: "on_retry c m \<noteq> MBad \<Longrightarrow> in_order (reconciler_retry (watched rc) c err (w, m)) (reconciler_retry rc c err w)"
  by (simp add: reconciler_retry_def Let_def)

lemma finish_in_order: "in_order (finish_effect (watched rc) c e ns res (w, MKnown c e)) (finish_effect rc c e ns res w)"
proof (cases "st_RecordEffect (rc_store rc) e ''succeeded'' res [] w")
  case (Pair r w')
  then show ?thesis by (cases r) (simp_all add: finish_effect_def retry_in_order)
qed

lemma reject_in_order:
  "(case rejectEffect (watched rc) c e err (w, MError c e) of None \<Rightarrow> rejectEffect rc c e err w = None
    | Some out \<Rightarrow> \<exists>out'. rejectEffect rc c e err w = Some out' \<and> in_order out out')"
proof (cases "effectRejection e err")
  case (Some p)
  obtain reason code where p: "p = (reason, code)" by (cases p)
  obtain r w' where "st_RecordEffect (rc_store rc) e ''failed'' None code w = (r, w')"
    by (cases "st_RecordEffect (rc_store rc) e ''failed'' None code w")
  then show ?thesis by (cases r) (simp_all add: rejectEffect_def Some p)
qed (simp add: rejectEffect_def)

lemma reject_or_retry_in_order:
  assumes "\<And>w. rejectEffect rc c e err w = None \<Longrightarrow> in_order (f (w, MError c e)) (g w)"
  shows "in_order (case rejectEffect (watched rc) c e err (w, MError c e) of Some out \<Rightarrow> out | None \<Rightarrow> f (w, MError c e))
    (case rejectEffect rc c e err w of Some out \<Rightarrow> out | None \<Rightarrow> g w)"
  using reject_in_order [of rc c e err w] assms by (auto split: option.splits)

lemma unconfirmed_in_order: "in_order (unconfirmed (watched rc) c e err (w, MError c e)) (unconfirmed rc c e err w)"
proof -
  define status where "status = (if errors_Is err ErrAmbiguousEffect then ''unknown'' else ''failed'')"
  obtain r w' where r: "st_RecordEffect (rc_store rc) e status None ''EXTERNAL_EFFECT_UNCONFIRMED'' w = (r, w')"
    by (cases "st_RecordEffect (rc_store rc) e status None ''EXTERNAL_EFFECT_UNCONFIRMED'' w")
  have "status \<in> {''failed'', ''unknown''}" by (simp add: status_def)
  with r show ?thesis
    by (cases r) (simp_all add: unconfirmed_def status_def [symmetric] Let_def retry_in_order)
qed

lemma perform_in_order:
  assumes "effectAllowed c phase"
  shows "in_order (perform_effect (watched rc) c e ns (w, MAbsent c phase e)) (perform_effect rc c e ns w)"
proof -
  obtain r w' where r: "applyWithClaim (rc_driver rc) c e w = (r, w')" by (cases "applyWithClaim (rc_driver rc) c e w")
  with assms show ?thesis
    by (cases r) (simp_all add: perform_effect_def finish_in_order reject_or_retry_in_order unconfirmed_in_order)
qed

lemma apply_in_order: "in_order (applyEffect (watched rc) c phase ns (w, MClaimed c)) (applyEffect rc c phase ns w)"
proof (cases "effectAllowed c phase")
  case allowed: True
  obtain r w1 where p: "st_PrepareEffect (rc_store rc) c phase (effect_digest rc c phase) w = (r, w1)"
    by (cases "st_PrepareEffect (rc_store rc) c phase (effect_digest rc c phase) w")
  show ?thesis
  proof (cases r)
    case (Inr e)
    obtain ov w2 where ob: "observeWithClaim (rc_driver rc) c e w1 = (ov, w2)"
      by (cases "observeWithClaim (rc_driver rc) c e w1")
    show ?thesis
    proof (cases ov)
      case (Inl err)
      with allowed p Inr ob show ?thesis
        by (simp add: applyEffect_def reject_or_retry_in_order retry_in_order)
    next
      case v: (Inr v)
      with allowed p Inr ob show ?thesis
        by (cases v; cases "snd v") (simp_all add: applyEffect_def finish_in_order perform_in_order)
    qed
  qed (use allowed p in \<open>simp add: applyEffect_def\<close>)
qed (simp add: applyEffect_def)

lemma settle_in_order: "in_order (settle (watched rc) c phase final (w, MClaimed c)) (settle rc c phase final w)"
proof -
  obtain r w1 where p: "st_PrepareEffect (rc_store rc) c phase (effect_digest rc c phase) w = (r, w1)"
    by (cases "st_PrepareEffect (rc_store rc) c phase (effect_digest rc c phase) w")
  show ?thesis
  proof (cases r)
    case (Inr e)
    obtain ov w2 where ob: "observeWithClaim (rc_driver rc) c e w1 = (ov, w2)"
      by (cases "observeWithClaim (rc_driver rc) c e w1")
    show ?thesis
    proof (cases ov)
      case (Inl err)
      with p Inr ob show ?thesis by (simp add: settle_def observeEffect_def retry_in_order)
    next
      case v: (Inr v)
      obtain res found where vf: "v = (res, found)" by (cases v)
      obtain rr w3 where "st_RecordEffect (rc_store rc) e ''succeeded'' res [] w2 = (rr, w3)"
        by (cases "st_RecordEffect (rc_store rc) e ''succeeded'' res [] w2")
      with p Inr ob v vf show ?thesis
        by (cases found; cases rr) (simp_all add: settle_def observeEffect_def retry_in_order)
    qed
  qed (use p in \<open>simp add: settle_def observeEffect_def retry_in_order\<close>)
qed

lemma publication_in_order: "in_order (advancePublication (watched rc) c (w, MClaimed c)) (advancePublication rc c w)"
proof -
  have "in_order (advance_development_publication (watched rc) c (w, MClaimed c)) (advance_development_publication rc c w)"
  proof -
    have "in_order (case watch (p c) (on_publish c) (w, MClaimed c) of
          (Some err, w1) \<Rightarrow> if errors_Is err ErrLeaseLost then (Some err, w1) else reconciler_retry (watched rc) c err w1 | (None, w1) \<Rightarrow> (None, w1))
        (case p c w of (Some err, w1) \<Rightarrow> if errors_Is err ErrLeaseLost then (Some err, w1) else reconciler_retry rc c err w1 | (None, w1) \<Rightarrow> (None, w1))"
      for p
      by (cases "p c w"; cases "fst (p c w)") (simp_all add: retry_in_order)
    then show ?thesis
      by (simp add: advance_development_publication_def Let_def split: option.splits)
  qed
  then show ?thesis by (simp add: advancePublication_def apply_in_order settle_in_order)
qed

lemma invocation_in_order: "in_order (advanceInvocation (watched rc) c (w, MClaimed c)) (advanceInvocation rc c w)"
  by (simp add: advanceInvocation_def advanceInvocationV1_def advanceInvocationV2_def apply_in_order settle_in_order)

text \<open>
  C22. The protocol of the reconciler: whatever the store and the driver answer, one run makes its calls in the
  order the monitor demands (an external effect is applied at most once, only when its preparation was stored,
  its phase is allowed in the state of the claim, and it was observed as absent; a success is recorded before
  the transition; at most one write ends the run), and watching changes neither its result nor its effect.
\<close>

theorem reconciler_protocol:
  "case reconciler_RunOne (watched rc) kind (w, MIdle) of
     (out, w', m) \<Rightarrow> reconciler_RunOne rc kind w = (out, w') \<and> m \<noteq> MBad"
proof -
  obtain r w1 where c: "st_ClaimNext (rc_store rc) kind (rc_workerID rc) (rc_leaseDuration rc) w = (r, w1)"
    by (cases "st_ClaimNext (rc_store rc) kind (rc_workerID rc) (rc_leaseDuration rc) w")
  show ?thesis
  proof (cases "\<exists>claim. r = Inr (Some claim)")
    case True
    then obtain claim where claim: "r = Inr (Some claim)" by blast
    let ?go = "\<lambda>rc w. if \<not> rc_now rc w < cl_DeadlineAt claim then st_Fail (rc_store rc) claim OperationFailureDeadline w
      else reconciler_advance rc claim w"
    have "in_order (?go (watched rc) (w1, MClaimed claim)) (?go rc w1)"
      by (simp add: reconciler_advance_def publication_in_order invocation_in_order)
    with c claim show ?thesis by (auto simp: reconciler_RunOne_def mirrors_def split: prod.splits)
  next
    case False
    with c show ?thesis by (auto simp: reconciler_RunOne_def split: sum.splits option.splits)
  qed
qed

end
