(* ===== verification/Drivers.thy ===== *)
theory Drivers
  imports Reconciler_Protocol
begin

text \<open>
  Effect drivers, \<open>src/internal/reconcile/reference_driver.go\<close>, \<open>routed_driver.go\<close> and
  \<open>governed_invocation_driver.go\<close>. The reference driver keeps one receipt per effect in a table of its own;
  the routed driver sends an effect to the driver of its operation kind and phase and hands claim-bound routes
  only effects that match the active claim.
\<close>

section \<open>The reference driver\<close>

record receipt =
  rcp_domain :: string
  rcp_effect_id :: string
  rcp_phase :: string
  rcp_result :: json_object

definition rcp_key :: "receipt \<Rightarrow> string \<times> string" where
  "rcp_key r = (rcp_domain r, rcp_effect_id r)"

definition reference_Observe :: "effect_row \<Rightarrow> receipt list \<Rightarrow> (json_object option \<times> bool) result" where
  "reference_Observe effect rows =
     (case sql_select (\<lambda>r. rcp_domain r = eff_domain effect \<and> rcp_effect_id r = eff_id effect) rows of
        None \<Rightarrow> Inr (None, False)
      | Some r \<Rightarrow> Inr (Some (rcp_result r), True))"

definition reference_result :: "effect_row \<Rightarrow> json_object" where
  "reference_result effect =
     [(''effectId'', JStr (eff_id effect)), (''phase'', JStr (eff_phase effect)), (''status'', JStr ''succeeded'')]"

definition reference_Apply :: "effect_row \<Rightarrow> receipt list \<Rightarrow> json_object option result \<times> receipt list" where
  "reference_Apply effect rows =
     (let new = \<lparr>rcp_domain = eff_domain effect, rcp_effect_id = eff_id effect, rcp_phase = eff_phase effect,
                 rcp_result = reference_result effect\<rparr>;
          rows1 = fst (insert_on_conflict_nothing (\<lambda>new r. rcp_key r = rcp_key new) new rows)
      in case reference_Observe effect rows1 of
           Inl err \<Rightarrow> (Inl err, rows1)
         | Inr (observed, found) \<Rightarrow>
             if \<not> found then (Inl (errors_New ''reference runtime receipt was not visible after apply''), rows1)
             else (Inr observed, rows1))"

section \<open>Receipts\<close>

text \<open>
  What the reconciler relies on in a driver: an applied effect is observed from then on, with the answer it
  gave; observing changes nothing; applying again gives the same answer and changes nothing; other effects do
  not disturb it.
\<close>

locale receipts =
  fixes key :: "'e \<Rightarrow> 'k"
    and observe :: "'e \<Rightarrow> 's \<Rightarrow> ('a \<times> bool) result"
    and perform :: "'e \<Rightarrow> 's \<Rightarrow> 'a result \<times> 's"
  assumes observed: "perform e s = (Inr a, s') \<Longrightarrow> observe e s' = Inr (a, True)"
    and repeated: "observe e s = Inr (a, True) \<Longrightarrow> perform e s = (Inr a, s)"
    and separate: "perform e s = (r, s') \<Longrightarrow> key e' \<noteq> key e \<Longrightarrow> observe e' s' = observe e' s"
    and same_key: "key e' = key e \<Longrightarrow> observe e' s = observe e s"
    and lasting: "observe e s = Inr (a, True) \<Longrightarrow> perform e' s = (r, s') \<Longrightarrow> observe e s' = Inr (a, True)"
begin

fun perform_all :: "'e list \<Rightarrow> 's \<Rightarrow> 's" where
  "perform_all [] s = s"
| "perform_all (e # es) s = perform_all es (snd (perform e s))"

lemma observed_forever: "observe e s = Inr (a, True) \<Longrightarrow> observe e (perform_all es s) = Inr (a, True)"
proof (induction es arbitrary: s)
  case (Cons e' es)
  obtain r s' where p: "perform e' s = (r, s')" by (cases "perform e' s")
  have "observe e s' = Inr (a, True)" by (rule lasting [OF Cons.prems p])
  from Cons.IH [OF this] p show ?case by simp
qed simp

text \<open>An effect is performed once: whatever is performed in between, performing it again is a no-op with the same answer.\<close>

lemma performed_once:
  assumes "perform e s = (Inr a, s')"
  shows "perform e (perform_all es s') = (Inr a, perform_all es s')"
  by (rule repeated, rule observed_forever, rule observed [OF assms])

end

lemma reference_select:
  "sql_select (\<lambda>r. rcp_domain r = eff_domain e \<and> rcp_effect_id r = eff_id e) rows =
   find (\<lambda>r. rcp_key r = (eff_domain e, eff_id e)) rows"
  by (simp add: sql_select_def rcp_key_def)

lemma find_append: "find p (xs @ ys) = (case find p xs of None \<Rightarrow> find p ys | Some x \<Rightarrow> Some x)"
  by (induction xs) auto

interpretation reference: receipts "\<lambda>e. (eff_domain e, eff_id e)" reference_Observe reference_Apply
proof unfold_locales
  fix e s r s'
  note defs = reference_Apply_def reference_Observe_def reference_select Let_def insert_on_conflict_nothing_def find_append
  show "reference_Observe e s' = Inr (a, True)" if "reference_Apply e s = (Inr a, s')" for a
    using that by (auto simp: defs split: option.splits if_splits)
  show "reference_Apply e s = (Inr a, s)" if "reference_Observe e s = Inr (a, True)" for a
    using that by (auto simp: defs find_Some_iff rcp_key_def split: option.splits)
  fix e'
  assume ap: "reference_Apply e s = (r, s')"
  show "reference_Observe e' s' = reference_Observe e' s" if "(eff_domain e', eff_id e') \<noteq> (eff_domain e, eff_id e)"
    using that ap by (auto simp: defs rcp_key_def split: option.splits if_splits)
next
  fix e e' s
  show "reference_Observe e' s = reference_Observe e s" if "(eff_domain e', eff_id e') = (eff_domain e, eff_id e)"
    using that by (simp add: reference_Observe_def)
next
  fix e s a e' r s'
  assume "reference_Observe e s = Inr (a, True)" "reference_Apply e' s = (r, s')"
  then show "reference_Observe e s' = Inr (a, True)"
    by (auto simp: reference_Apply_def reference_Observe_def reference_select Let_def insert_on_conflict_nothing_def find_append
        split: option.splits if_splits)
qed

section \<open>The routed driver\<close>

type_synonym EffectRoute = "string \<times> string"

record 'w RoutedDriver =
  rd_fallback :: "'w EffectDriver"
  rd_routes :: "(EffectRoute \<times> 'w EffectDriver) list"
  rd_claimedRoutes :: "(EffectRoute \<times> 'w ClaimedEffectDriver) list"



definition effectRoute :: "effect_row \<Rightarrow> EffectRoute" where
  "effectRoute effect = (eff_operation_kind effect, eff_phase effect)"

definition forEffect :: "'w RoutedDriver \<Rightarrow> effect_row \<Rightarrow> 'w EffectDriver" where
  "forEffect driver effect =
     (case map_of (rd_routes driver) (effectRoute effect) of Some selected \<Rightarrow> selected | None \<Rightarrow> rd_fallback driver)"

definition claimedForEffect :: "'w RoutedDriver \<Rightarrow> effect_row \<Rightarrow> 'w ClaimedEffectDriver option" where
  "claimedForEffect driver effect = map_of (rd_claimedRoutes driver) (effectRoute effect)"

definition effectMatchesClaim :: "effect_row \<Rightarrow> operation_claim \<Rightarrow> bool" where
  "effectMatchesClaim effect claim \<longleftrightarrow>
     eff_domain effect \<noteq> [] \<and> eff_operation_kind effect \<noteq> [] \<and> eff_operation_id effect \<noteq> [] \<and>
     cl_IsolationDomainID claim = eff_domain effect \<and> cl_Kind claim = eff_operation_kind effect \<and>
     cl_ID claim = eff_operation_id effect \<and> cl_Command claim \<noteq> [] \<and> cl_ObservedState claim \<noteq> [] \<and>
     cl_LeaseOwner claim \<noteq> [] \<and> cl_FencingToken claim > 0"

definition routed_Observe :: "'w RoutedDriver \<Rightarrow> effect_row \<Rightarrow> 'w \<Rightarrow> (json_object option \<times> bool) result \<times> 'w" where
  "routed_Observe driver effect w =
     (if claimedForEffect driver effect \<noteq> None then (Inl (Sentinel ErrEffectClaimRequired), w)
      else ed_Observe (forEffect driver effect) effect w)"

definition routed_Apply :: "'w RoutedDriver \<Rightarrow> effect_row \<Rightarrow> 'w \<Rightarrow> json_object option result \<times> 'w" where
  "routed_Apply driver effect w =
     (if claimedForEffect driver effect \<noteq> None then (Inl (Sentinel ErrEffectClaimRequired), w)
      else ed_Apply (forEffect driver effect) effect w)"

definition routed_ObserveClaimed ::
    "'w RoutedDriver \<Rightarrow> operation_claim \<Rightarrow> effect_row \<Rightarrow> 'w \<Rightarrow> (json_object option \<times> bool) result \<times> 'w" where
  "routed_ObserveClaimed driver claim effect w =
     (case claimedForEffect driver effect of
        Some selected \<Rightarrow>
          if \<not> effectMatchesClaim effect claim then (Inl (Sentinel ErrEffectClaimMismatch), w)
          else ce_ObserveClaimed selected claim effect w
      | None \<Rightarrow> ed_Observe (forEffect driver effect) effect w)"

definition routed_ApplyClaimed ::
    "'w RoutedDriver \<Rightarrow> operation_claim \<Rightarrow> effect_row \<Rightarrow> 'w \<Rightarrow> json_object option result \<times> 'w" where
  "routed_ApplyClaimed driver claim effect w =
     (case claimedForEffect driver effect of
        Some selected \<Rightarrow>
          if \<not> effectMatchesClaim effect claim then (Inl (Sentinel ErrEffectClaimMismatch), w)
          else ce_ApplyClaimed selected claim effect w
      | None \<Rightarrow> ed_Apply (forEffect driver effect) effect w)"

text \<open>The routed driver as the reconciler sees it: both interfaces, and neither publication interface.\<close>

definition routed_driver :: "'w RoutedDriver \<Rightarrow> 'w EffectDriver" where
  "routed_driver driver =
     \<lparr>ed_Observe = routed_Observe driver, ed_Apply = routed_Apply driver,
      ed_claimed = Some \<lparr>ce_ObserveClaimed = routed_ObserveClaimed driver, ce_ApplyClaimed = routed_ApplyClaimed driver\<rparr>,
      ed_PublishClaimed = None, ed_PublishAuthorizedClaimed = None\<rparr>"


section \<open>Properties\<close>


lemma reference_perform_all: "reference.perform_all es rows = fold (\<lambda>e rows. snd (reference_Apply e rows)) es rows"
  by (induction es arbitrary: rows) simp_all

text \<open>
  C24. Effects of the reference driver happen once: after an effect was applied, applying it again, whatever was
  applied in between, gives the first answer and leaves the receipts as they are.
\<close>

theorem reference_effect_once:
  assumes "reference_Apply e rows = (Inr answer, rows')"
  shows "let later = fold (\<lambda>e rows. snd (reference_Apply e rows)) es rows' in
    reference_Apply e later = (Inr answer, later) \<and> reference_Observe e later = Inr (answer, True)"
proof -
  have "reference_Apply e (reference.perform_all es rows') = (Inr answer, reference.perform_all es rows')"
    by (rule reference.performed_once [OF assms])
  moreover have "reference_Observe e (reference.perform_all es rows') = Inr (answer, True)"
    by (rule reference.observed_forever [OF reference.observed [OF assms]])
  ultimately show ?thesis by (simp add: reference_perform_all)
qed

definition demo_effect :: "string \<Rightarrow> effect_row" where
  "demo_effect i = \<lparr>eff_domain = ''iso'', eff_id = i, eff_operation_kind = OperationKindInvocation, eff_operation_id = ''op'',
     eff_phase = ''run-invocation'', eff_request_digest = ''d'', eff_status = ''prepared'', eff_attempt = 0, eff_observation = None,
     eff_last_error_code = None\<rparr>"

theorem reference_effect_once_witness:
  "reference_Observe (demo_effect ''e1'') (snd (reference_Apply (demo_effect ''e2'') (snd (reference_Apply (demo_effect ''e1'') [])))) =
     Inr (Some (reference_result (demo_effect ''e1'')), True)"
proof -
  have "reference_Apply (demo_effect ''e1'') [] =
      (Inr (Some (reference_result (demo_effect ''e1''))), snd (reference_Apply (demo_effect ''e1'') []))"
    by code_simp
  from reference_effect_once [OF this, of "[demo_effect ''e2'']"] show ?thesis by (simp add: Let_def)
qed

end
