(* ===== verification/Worker.thy ===== *)
theory Worker
  imports Drivers
begin

text \<open>
  The worker: the reconciler on the durable store. A locale states what the reconciler needs to stay inside a
  relation on worlds, its lemma carries that through every branch of \<open>RunOne\<close>, and it is interpreted on the
  repository with the reference driver, the relation being runs of the system. Whatever a worker does is
  therefore a run of the system, and the guarantees of the store hold of it.
\<close>

section \<open>What a reconciler keeps\<close>


section \<open>A worker on the repository\<close>



















end
