(* ===== verification/Go_Json.thy ===== *)
theory Go_Json
  imports Go_Text Go_Time
begin

text \<open>
  The texts that Go's \<open>encoding/json\<close> writes: \<open>json.Marshal\<close> of strings (with the HTML characters, the
  control characters and the two line separators escaped), of non-negative numbers, slices and
  structs, whose fields come in declaration order. Reading a written string back gives the string, and
  two documents with the same text are the same document; digests of encoded values rest on that.
\<close>

section \<open>Strings\<close>

text \<open>\<open>appendString\<close>: what is written for an ASCII byte, and for a rune with its bytes.\<close>

definition backslash :: char where
  "backslash = CHR 0x5C"

definition quote_char :: char where
  "quote_char = CHR 0x22"

lemmas json_char_defs = backslash_def quote_char_def

definition escape_byte :: "char \<Rightarrow> string" where
  "escape_byte c =
     (if c = backslash \<or> c = quote_char then [backslash, c]
      else if c = CHR 0x08 then [backslash, CHR ''b'']
      else if c = CHR 0x0C then [backslash, CHR ''f'']
      else if c = CHR 0x0A then [backslash, CHR ''n'']
      else if c = CHR 0x0D then [backslash, CHR ''r'']
      else if c = CHR 0x09 then [backslash, CHR ''t'']
      else if byte c < 32 \<or> c \<in> set ''<>&''
      then backslash # ''u00'' @ [hex_digit (byte c div 16), hex_digit (byte c mod 16)]
      else [c])"

definition escape_segment :: "nat option \<times> string \<Rightarrow> string" where
  "escape_segment seg =
     (case fst seg of
        None \<Rightarrow> backslash # ''ufffd''
      | Some r \<Rightarrow>
          if r = 8232 \<or> r = 8233 then backslash # ''u202'' @ [hex_digit (r mod 16)]
          else concat (map escape_byte (snd seg)))"

definition json_quote :: "string \<Rightarrow> string" where
  "json_quote s = quote_char # concat (map escape_segment (segments s)) @ [quote_char]"

text \<open>A reader of the written strings: it stops after the closing quote.\<close>

definition hex_value :: "char \<Rightarrow> nat" where
  "hex_value c = (if byte c < 58 then byte c - 48 else byte c - 87)"

definition code_unit_bytes :: "nat \<Rightarrow> string" where
  "code_unit_bytes n =
     (if n < 128 then [char_of n]
      else if n < 2048 then [char_of (192 + n div 64), char_of (128 + n mod 64)]
      else [char_of (224 + n div 4096), char_of (128 + n div 64 mod 64), char_of (128 + n mod 64)])"

definition short_escape :: "char \<Rightarrow> char" where
  "short_escape e =
     (if e = CHR ''b'' then CHR 0x08 else if e = CHR ''f'' then CHR 0x0C
      else if e = CHR ''n'' then CHR 0x0A else if e = CHR ''r'' then CHR 0x0D
      else if e = CHR ''t'' then CHR 0x09 else e)"

definition prepend :: "string \<Rightarrow> (string \<times> string) option \<Rightarrow> (string \<times> string) option" where
  "prepend bs r = map_option (\<lambda>(s, t). (bs @ s, t)) r"

fun json_unquote :: "string \<Rightarrow> (string \<times> string) option" where
  "json_unquote [] = None"
| "json_unquote (c # cs) =
     (if c = quote_char then Some ([], cs)
      else if c \<noteq> backslash then prepend [c] (json_unquote cs)
      else (case cs of
              [] \<Rightarrow> None
            | e # ds \<Rightarrow>
                if e \<noteq> CHR ''u'' then prepend [short_escape e] (json_unquote ds)
                else (case ds of
                        h1 # h2 # h3 # h4 # es \<Rightarrow>
                          prepend (code_unit_bytes
                            (4096 * hex_value h1 + 256 * hex_value h2 + 16 * hex_value h3 + hex_value h4))
                            (json_unquote es)
                      | _ \<Rightarrow> None)))"

lemma prepend_Nil [simp]: "prepend [] r = r"
  by (cases r) (auto simp: prepend_def)

lemma prepend_prepend [simp]: "prepend bs (prepend cs r) = prepend (bs @ cs) r"
  by (cases r) (auto simp: prepend_def)

text \<open>What a valid rune of a string looks like in bytes.\<close>

definition good_segment :: "nat option \<times> string \<Rightarrow> bool" where
  "good_segment seg \<longleftrightarrow>
     (\<exists>c. seg = (Some (byte c), [c]) \<and> byte c < 128) \<or>
     (\<exists>r. fst seg = Some r \<and> (\<forall>c \<in> set (snd seg). 128 \<le> byte c) \<and> 128 \<le> r \<and>
        (r = 8232 \<or> r = 8233 \<longrightarrow> snd seg = code_unit_bytes r))"

lemma byte_bound: "byte c < 256"
  by (simp add: byte_def)

lemma char_of_byte: "n = byte c \<Longrightarrow> char_of n = c"
  by (simp add: byte_def)

lemma three_byte_segment:
  assumes "224 \<le> b0" "b0 \<le> 239" "128 \<le> b1" "b1 \<le> 191" "128 \<le> b2" "b2 \<le> (191::nat)"
    and "(b0 - 224) * 4096 + (b1 - 128) * 64 + (b2 - 128) = r" and "r = 8232 \<or> r = 8233"
  shows "b0 = 224 + r div 4096 \<and> b1 = 128 + r div 64 mod 64 \<and> b2 = 128 + r mod 64"
proof -
  obtain x y z where b: "b0 = 224 + x" "b1 = 128 + y" "b2 = 128 + z"
    using assms(1,3,5) by (auto dest!: le_Suc_ex)
  have eq: "r = (x * 64 + y) * 64 + z" and y: "y < 64" and z: "z < 64" using assms b by auto
  have "r mod 64 = z" using z unfolding eq by (simp only: mod_mult_self3) simp
  moreover have "r div 64 = x * 64 + y" using z unfolding eq by (subst div_mult_self3) simp_all
  ultimately have "r div 64 mod 64 = y" "r div 64 div 64 = x" "r mod 64 = z" using y by simp_all
  moreover have "r div 64 div 64 = r div 4096" by (simp flip: div_mult2_eq)
  ultimately show ?thesis using b by simp
qed

lemma decode_rune_good:
  assumes "decode_rune (c # cs) = (Some r, n)"
  shows "good_segment (Some r, take n (c # cs))"
proof (cases "byte c < 128")
  case True
  with assms show ?thesis by (auto simp: good_segment_def)
next
  case ge: False
  show ?thesis
  proof (cases "224 \<le> byte c \<and> byte c \<le> 239")
    case False
    with assms ge show ?thesis
      by (auto simp: good_segment_def Let_def cont_byte_def second_byte_ok_def split: list.splits if_splits)
  next
    case True
    with assms ge obtain c1 c2 ds where cs: "cs = c1 # c2 # ds" and n: "n = 3"
      and ok: "second_byte_ok (byte c) (byte c1)" "cont_byte (byte c2)"
      and r: "(byte c - 224) * 4096 + (byte c1 - 128) * 64 + (byte c2 - 128) = r"
      by (auto simp: Let_def split: list.splits if_splits)
    have c1: "128 \<le> byte c1" "byte c1 \<le> 191" and c2: "128 \<le> byte c2" "byte c2 \<le> 191"
      using ok by (auto simp: second_byte_ok_def cont_byte_def split: if_splits)
    have big: "128 \<le> r"
    proof (cases "byte c = 224")
      case 224: True
      then have "160 \<le> byte c1" using ok(1) by (simp add: second_byte_ok_def)
      then have "32 * 64 \<le> (byte c1 - 128) * 64" by simp
      with r show ?thesis by linarith
    next
      case False
      with True have "1 \<le> byte c - 224" by linarith
      then have "1 * 4096 \<le> (byte c - 224) * 4096" by (rule mult_le_mono1)
      with r show ?thesis by linarith
    qed
    have "[c, c1, c2] = code_unit_bytes r" if "r = 8232 \<or> r = 8233"
      using three_byte_segment [OF _ _ c1 c2 r that] True that
      by (auto simp: code_unit_bytes_def byte_def simp flip: char_of_byte)
    with True cs n c1 c2 ge big show ?thesis by (auto simp: good_segment_def)
  qed
qed

lemma valid_segments_good: "utf8_ValidString s \<Longrightarrow> list_all good_segment (segments s)"
proof (induction s rule: segments.induct)
  case (2 c cs)
  obtain r n where rn: "decode_rune (c # cs) = (r, n)" by (cases "decode_rune (c # cs)")
  with 2(2) obtain x where "r = Some x" and "utf8_ValidString (drop n (c # cs))"
    by (auto simp: utf8_ValidString_def simp del: decode_rune.simps)
  with 2(1) [OF rn [symmetric] refl] rn decode_rune_good [of c cs x n] show ?case
    by (simp del: decode_rune.simps)
qed simp

lemma hex_value_digit: "n < 16 \<Longrightarrow> hex_value (hex_digit n) = n"
  by (simp add: hex_value_def hex_digit_def byte_def)

lemma unquote_ascii:
  assumes "byte c < 128"
  shows "json_unquote (escape_byte c @ t) = prepend [c] (json_unquote t)"
proof -
  have "16 * (byte c div 16) + byte c mod 16 = byte c" by simp
  moreover have "byte c div 16 < 16" using assms by simp
  ultimately have "hex_value (hex_digit 0) = 0"
    and "code_unit_bytes (16 * hex_value (hex_digit (byte c div 16)) + hex_value (hex_digit (byte c mod 16))) = [c]"
    using assms by (simp_all add: hex_value_digit code_unit_bytes_def byte_def)
  moreover have "hex_value (CHR ''0'') = 0" by (simp add: hex_value_def byte_def)
  ultimately show ?thesis
    by (auto simp: escape_byte_def json_char_defs short_escape_def)
qed

lemma unquote_literal:
  "c \<noteq> quote_char \<Longrightarrow> c \<noteq> backslash \<Longrightarrow> json_unquote (c # t) = prepend [c] (json_unquote t)"
  by simp

declare json_unquote.simps(2) [simp del]

lemma unquote_high:
  assumes "128 \<le> byte c"
  shows "escape_byte c = [c]" and "json_unquote (c # t) = prepend [c] (json_unquote t)"
proof -
  have small: "c \<noteq> d" if "byte d < 128" for d using assms that by auto
  have "c \<noteq> CHR 0x5C" "c \<noteq> CHR 0x22" "c \<noteq> CHR 0x08" "c \<noteq> CHR 0x0C" "c \<noteq> CHR 0x0A" "c \<noteq> CHR 0x0D"
    "c \<noteq> CHR 0x09" "c \<notin> set ''<>&''"
    by (simp_all add: small byte_def)
  then show "escape_byte c = [c]" and "json_unquote (c # t) = prepend [c] (json_unquote t)"
    using assms by (simp_all add: escape_byte_def json_char_defs unquote_literal)
qed

lemma escape_high: "\<forall>c \<in> set bs. 128 \<le> byte c \<Longrightarrow> concat (map escape_byte bs) = bs"
  by (induction bs) (simp_all add: unquote_high)

lemma unquote_high_bytes:
  "\<forall>c \<in> set bs. 128 \<le> byte c \<Longrightarrow> json_unquote (bs @ t) = prepend bs (json_unquote t)"
  by (induction bs) (simp_all add: unquote_high(2))

lemma unquote_segment:
  assumes "good_segment seg"
  shows "json_unquote (escape_segment seg @ t) = prepend (snd seg) (json_unquote t)"
proof -
  consider (ascii) c where "seg = (Some (byte c), [c])" "byte c < 128"
    | (line) r where "fst seg = Some r" "r = 8232 \<or> r = 8233" "snd seg = code_unit_bytes r"
    | (high) r where "fst seg = Some r" "r \<noteq> 8232" "r \<noteq> 8233" "\<forall>c \<in> set (snd seg). 128 \<le> byte c"
    using assms unfolding good_segment_def by fastforce
  then show ?thesis
  proof cases
    case ascii
    then show ?thesis by (auto simp: escape_segment_def unquote_ascii)
  next
    case line
    then have "hex_value (hex_digit (r mod 16)) = r mod 16" by (intro hex_value_digit) simp
    moreover have "hex_value (CHR ''2'') = 2" "hex_value (CHR ''0'') = 0" by (simp_all add: hex_value_def byte_def)
    ultimately show ?thesis using line by (auto simp: escape_segment_def json_char_defs json_unquote.simps(2))
  next
    case high
    then show ?thesis by (simp add: escape_segment_def escape_high unquote_high_bytes)
  qed
qed

lemma unquote_segments:
  "list_all good_segment segs \<Longrightarrow>
   json_unquote (concat (map escape_segment segs) @ quote_char # t) = Some (concat (map snd segs), t)"
  by (induction segs) (simp_all add: unquote_segment prepend_def json_unquote.simps(2))

lemma json_unquote_quote: "utf8_ValidString s \<Longrightarrow> json_unquote (tl (json_quote s @ t)) = Some (s, t)"
  using unquote_segments [OF valid_segments_good, of s t] by (simp add: json_quote_def concat_segments)

lemma json_quote_inject:
  assumes "utf8_ValidString s" and "utf8_ValidString s'" and "json_quote s @ t = json_quote s' @ t'"
  shows "s = s' \<and> t = t'"
proof -
  have "json_unquote (tl (json_quote s @ t)) = json_unquote (tl (json_quote s' @ t'))" using assms(3) by simp
  with assms(1,2) show ?thesis by (simp add: json_unquote_quote)
qed

section \<open>Documents\<close>

text \<open>Numbers of the encoded values are never negative; \<open>Sprint\<close> is their decimal notation.\<close>

definition comma_separated :: "string list \<Rightarrow> string" where
  "comma_separated ts = (case ts of [] \<Rightarrow> [] | t # us \<Rightarrow> t @ concat (map ((#) (CHR '','')) us))"

lemma comma_separated_Nil [simp]: "comma_separated [] = []"
  by (simp add: comma_separated_def)

fun json_text :: "json \<Rightarrow> string" where
  "json_text JNull = ''null''"
| "json_text (JBool b) = (if b then ''true'' else ''false'')"
| "json_text (JNum n) = Sprint n"
| "json_text (JStr s) = json_quote s"
| "json_text (JArr js) = ''['' @ comma_separated (map json_text js) @ '']''"
| "json_text (JObj ps) =
     ''{'' @ comma_separated (map (\<lambda>p. json_quote (fst p) @ '':'' @ json_text (snd p)) ps) @ ''}''"

text \<open>The documents with one text: valid strings and non-negative numbers.\<close>

fun json_plain :: "json \<Rightarrow> bool" where
  "json_plain JNull = True"
| "json_plain (JBool b) = True"
| "json_plain (JNum n) = (0 \<le> n)"
| "json_plain (JStr s) = utf8_ValidString s"
| "json_plain (JArr js) = list_all json_plain js"
| "json_plain (JObj ps) = list_all (\<lambda>p. utf8_ValidString (fst p) \<and> json_plain (snd p)) ps"

lemma is_digit_iff: "is_digit c \<longleftrightarrow> 48 \<le> byte c \<and> byte c \<le> 57"
  by (simp add: is_digit_def in_range_def)

lemma Sprint_digits: "0 \<le> n \<Longrightarrow> Sprint n \<noteq> [] \<and> list_all is_digit (Sprint n)"
proof (induction n rule: Sprint.induct)
  case (1 n)
  have digit: "is_digit (char_of (48 + k))" if "0 \<le> k" "k < 10" for k :: int
  proof -
    from that obtain m where m: "k = int m" "m < 10" by (metis nonneg_int_cases of_nat_less_numeral_iff)
    have "char_of (48 + k) = (char_of (48 + m) :: char)" using char_of_nat [of "48 + m"] m by simp
    with m(2) show ?thesis by (simp add: is_digit_iff byte_def)
  qed
  show ?case
  proof (cases "n < 10")
    case True
    with 1(2) digit [of n] show ?thesis by (simp add: Sprint.simps [of n])
  next
    case False
    with 1 digit [of "n mod 10"] show ?thesis by (simp add: Sprint.simps [of n])
  qed
qed

text \<open>A text after which no number goes on.\<close>

definition stops :: "string \<Rightarrow> bool" where
  "stops t \<longleftrightarrow> t = [] \<or> \<not> is_digit (hd t)"

lemma Sprint_prefix_inject:
  assumes "0 \<le> m" "0 \<le> n" "stops t" "stops u" "Sprint m @ t = Sprint n @ u"
  shows "m = n \<and> t = u"
proof -
  have "takeWhile is_digit (Sprint k @ v) = Sprint k" if "0 \<le> k" "stops v" for k v
    using Sprint_digits [OF that(1)] that(2)
    by (cases v) (auto simp: stops_def list_all_iff takeWhile_append)
  with assms have "Sprint m = Sprint n" by metis
  with assms show ?thesis by (simp add: Sprint_inject)
qed

text \<open>Separated and closed lists of texts can be read back when each element can.\<close>

lemma separated_inject:
  assumes "\<And>x y t u. x \<in> set xs \<Longrightarrow> ok y \<Longrightarrow> stops t \<Longrightarrow> stops u \<Longrightarrow> f x @ t = f y @ u \<Longrightarrow> x = y \<and> t = u"
    and "list_all ok ys" and "close \<noteq> CHR '',''" and "\<not> is_digit close"
    and "concat (map (\<lambda>x. CHR '','' # f x) xs) @ close # t = concat (map (\<lambda>x. CHR '','' # f x) ys) @ close # u"
  shows "xs = ys \<and> t = u"
  using assms
proof (induction xs arbitrary: ys)
  case Nil
  then show ?case by (cases ys) auto
next
  case (Cons x xs)
  from Cons.prems(3,5) obtain y ys' where ys: "ys = y # ys'" by (cases ys) auto
  define rest where "rest zs v = concat (map (\<lambda>x. CHR '','' # f x) zs) @ close # v" for zs v
  have stops: "stops (rest zs v)" for zs v
    using Cons.prems(4) by (cases zs) (auto simp: rest_def stops_def is_digit_iff byte_def)
  have "f x @ rest xs t = f y @ rest ys' u" using Cons.prems(5) ys by (simp add: rest_def)
  then have "x = y" and "rest xs t = rest ys' u"
    using Cons.prems(1) [of x y "rest xs t" "rest ys' u"] Cons.prems(2) ys stops by auto
  moreover have "xs = ys' \<and> t = u"
    using Cons.prems(1,2,3,4) ys \<open>rest xs t = rest ys' u\<close>
    by (intro Cons.IH) (auto simp: rest_def)
  ultimately show ?case using ys by simp
qed

lemma comma_separated_inject:
  assumes "\<And>x y t u. x \<in> set xs \<Longrightarrow> ok y \<Longrightarrow> stops t \<Longrightarrow> stops u \<Longrightarrow> f x @ t = f y @ u \<Longrightarrow> x = y \<and> t = u"
    and "list_all ok ys" and "close \<noteq> CHR '',''" and "\<not> is_digit close"
    and "list_all ok xs" and "\<And>x. ok x \<Longrightarrow> f x \<noteq> [] \<and> hd (f x) \<noteq> close"
    and "comma_separated (map f xs) @ close # t = comma_separated (map f ys) @ close # u"
  shows "xs = ys \<and> t = u"
proof (cases "xs = [] \<or> ys = []")
  case True
  have first: "hd (comma_separated (map f zs) @ close # v) \<noteq> close" if "zs \<noteq> []" "list_all ok zs" for zs v
    using that assms(6) by (cases zs) (auto simp: comma_separated_def)
  have "ys = []" if "xs = []"
    using first [of ys u] assms(2) arg_cong [OF assms(7), of hd] that by auto
  moreover have "xs = []" if "ys = []"
    using first [of xs t] assms(5) arg_cong [OF assms(7), of hd] that by auto
  ultimately show ?thesis using True assms(7) by auto
next
  case False
  have "concat (map (\<lambda>x. CHR '','' # f x) zs) = CHR '','' # comma_separated (map f zs)" if "zs \<noteq> []" for zs
    using that by (cases zs) (simp_all add: comma_separated_def comp_def)
  with False assms(7)
  have "concat (map (\<lambda>x. CHR '','' # f x) xs) @ close # t = concat (map (\<lambda>x. CHR '','' # f x) ys) @ close # u"
    by simp
  with separated_inject [where ok = ok and f = f, OF assms(1-4)] show ?thesis by blast
qed

lemma json_quote_head: "json_quote s \<noteq> [] \<and> hd (json_quote s) = quote_char"
  by (simp add: json_quote_def)

text \<open>The first byte of a text tells the kind of the document.\<close>

definition json_kind :: "json \<Rightarrow> char \<Rightarrow> bool" where
  "json_kind j c =
     (case j of
        JNull \<Rightarrow> c = CHR ''n'' | JBool b \<Rightarrow> c = (if b then CHR ''t'' else CHR ''f'') | JNum n \<Rightarrow> is_digit c
      | JStr s \<Rightarrow> c = quote_char | JArr js \<Rightarrow> c = CHR ''['' | JObj ps \<Rightarrow> c = CHR ''{'')"

lemma json_text_head: "json_plain j \<Longrightarrow> json_text j \<noteq> [] \<and> json_kind j (hd (json_text j))"
  using Sprint_digits by (cases j) (auto simp: json_kind_def json_quote_head list_all_iff)

lemma json_text_kinds:
  assumes "json_plain j" "json_plain k" "json_text j @ t = json_text k @ u"
  obtains c where "json_kind j c" "json_kind k c"
proof -
  have "hd (json_text j) = hd (json_text k)"
    using assms json_text_head [of j] json_text_head [of k] by (metis hd_append2)
  with assms(1,2) that show ?thesis by (metis json_text_head)
qed

lemmas json_kind_simps = json_kind_def is_digit_iff byte_def json_char_defs

lemma json_text_inject:
  assumes "json_plain j" "json_plain k" "stops t" "stops u" "json_text j @ t = json_text k @ u"
  shows "j = k \<and> t = u"
  using assms
proof (induction j arbitrary: k t u rule: json_plain.induct)
  case 1
  obtain c where "json_kind JNull c" "json_kind k c" by (rule json_text_kinds [OF 1(1,2,5)])
  with 1 show ?case by (cases k) (auto simp: json_kind_simps split: if_splits)
next
  case (2 b)
  obtain c where "json_kind (JBool b) c" "json_kind k c" by (rule json_text_kinds [OF 2(1,2,5)])
  with 2 show ?case by (cases k) (auto simp: json_kind_simps split: if_splits)
next
  case (3 n)
  obtain c where "json_kind (JNum n) c" "json_kind k c" by (rule json_text_kinds [OF "3.prems"(1,2,5)])
  then obtain m where "k = JNum m" by (cases k) (auto simp: json_kind_simps split: if_splits)
  with 3 Sprint_prefix_inject [of n m t u] show ?case by simp
next
  case (4 s)
  obtain c where "json_kind (JStr s) c" "json_kind k c" by (rule json_text_kinds [OF "4.prems"(1,2,5)])
  then obtain s' where "k = JStr s'" by (cases k) (auto simp: json_kind_simps split: if_splits)
  with 4 json_quote_inject [of s s' t u] show ?case by simp
next
  case (5 js)
  obtain c where "json_kind (JArr js) c" "json_kind k c" by (rule json_text_kinds [OF "5.prems"(1,2,5)])
  then obtain ks where k: "k = JArr ks" by (cases k) (auto simp: json_kind_simps split: if_splits)
  have "js = ks \<and> t = u"
  proof (rule comma_separated_inject [where ok = json_plain and close = "CHR '']''" and f = json_text])
    fix x y t' u'
    assume "x \<in> set js" "json_plain y" "stops t'" "stops u'" "json_text x @ t' = json_text y @ u'"
    with 5(1) [of x y t' u'] 5(2) show "x = y \<and> t' = u'" by (simp add: list_all_iff)
  next
    fix x assume "json_plain x"
    then show "json_text x \<noteq> [] \<and> hd (json_text x) \<noteq> CHR '']''"
      using json_text_head [of x] by (cases x) (auto simp: json_kind_simps)
  qed (use 5 k in \<open>simp_all add: is_digit_iff byte_def\<close>)
  with k show ?case by simp
next
  case (6 ps)
  obtain c where "json_kind (JObj ps) c" "json_kind k c" by (rule json_text_kinds [OF "6.prems"(1,2,5)])
  then obtain qs where k: "k = JObj qs" by (cases k) (auto simp: json_kind_simps split: if_splits)
  have "ps = qs \<and> t = u"
  proof (rule comma_separated_inject [where ok = "\<lambda>p. utf8_ValidString (fst p) \<and> json_plain (snd p)"
        and close = "CHR ''}''" and f = "\<lambda>p. json_quote (fst p) @ '':'' @ json_text (snd p)"])
    fix p q t' u'
    assume p: "p \<in> set ps" and q: "utf8_ValidString (fst q) \<and> json_plain (snd q)" and st: "stops t'" "stops u'"
      and eq: "(json_quote (fst p) @ '':'' @ json_text (snd p)) @ t' = (json_quote (fst q) @ '':'' @ json_text (snd q)) @ u'"
    from p 6(2) have ok: "utf8_ValidString (fst p)" "json_plain (snd p)" by (auto simp: list_all_iff)
    have "fst p = fst q \<and> '':'' @ json_text (snd p) @ t' = '':'' @ json_text (snd q) @ u'"
      using eq q ok by (intro json_quote_inject) auto
    with 6(1) [OF p ok(2), of "snd q" t' u'] q st show "p = q \<and> t' = u'" by (simp add: prod_eq_iff)
  next
    fix p :: "string \<times> json"
    show "json_quote (fst p) @ '':'' @ json_text (snd p) \<noteq> [] \<and>
        hd (json_quote (fst p) @ '':'' @ json_text (snd p)) \<noteq> CHR ''}''"
      using json_quote_head [of "fst p"] by (simp add: json_char_defs)
  qed (use 6 k in \<open>simp_all add: is_digit_iff byte_def\<close>)
  with k show ?case by simp
qed

corollary json_text_unique:
  "json_plain j \<Longrightarrow> json_plain k \<Longrightarrow> json_text j = json_text k \<Longrightarrow> j = k"
  using json_text_inject [of j k "[]" "[]"] by (simp add: stops_def)

section \<open>ASCII strings\<close>

lemma ascii_segments: "list_all (\<lambda>c. byte c < 128) s \<Longrightarrow> segments s = map (\<lambda>c. (Some (byte c), [c])) s"
  by (induction s) simp_all

lemma ascii_valid: "list_all (\<lambda>c. byte c < 128) s \<Longrightarrow> utf8_ValidString s"
  by (simp add: utf8_ValidString_def ascii_segments list_all_iff)

lemma ascii_runes: "list_all (\<lambda>c. byte c < 128) s \<Longrightarrow> runes s = map byte s"
  by (simp add: runes_def ascii_segments)

end
