(* ===== verification/Plans.thy ===== *)
theory Plans
  imports Go_Json Tables
begin

text \<open>
  Execution plans, the immutable bridge between a service revision and provider placement:
  \<open>src/internal/execution/plan.go\<close> (normal form, digest, equality), the process-local store
  \<open>plan_memory_store.go\<close>, the provider profile registry \<open>provider_profiles.go\<close>, capability lists of
  \<open>provider.go\<close> and the workspace source records of \<open>src/internal/workspace/catalog.go\<close>. The hash
  function is an argument, as everywhere in the development.
\<close>

section \<open>Source records and plans\<close>

record SourceRecord =
  src_SchemaVersion :: string
  src_IsolationDomainID :: string
  src_WorkspaceID :: string
  src_ID :: string
  src_ArchiveDigest :: string
  src_StorageProfileDigest :: string
  src_ArchiveBytes :: int
  src_EntryCount :: int
  src_SourceBytes :: int

definition SourceRecordV1 :: string where
  "SourceRecordV1 = ''dataground.workspace-source/v1''"

definition MaximumArchiveBytes :: int where
  "MaximumArchiveBytes = 32 * 1024 * 1024"

definition MaximumSourceBytes :: int where
  "MaximumSourceBytes = 24 * 1024 * 1024"

definition MaximumEntries :: int where
  "MaximumEntries = 4096"

definition ValidSourceRecord :: "SourceRecord \<Rightarrow> bool" where
  "ValidSourceRecord r \<longleftrightarrow>
     src_SchemaVersion r = SourceRecordV1 \<and>
     resource_id_pattern ''iso'' (src_IsolationDomainID r) \<and>
     resource_id_pattern ''wsp'' (src_WorkspaceID r) \<and>
     resource_id_pattern ''src'' (src_ID r) \<and>
     digest_pattern (src_ArchiveDigest r) \<and>
     digest_pattern (src_StorageProfileDigest r) \<and>
     1024 \<le> src_ArchiveBytes r \<and> src_ArchiveBytes r \<le> MaximumArchiveBytes \<and>
     src_ArchiveBytes r mod 512 = 0 \<and>
     0 \<le> src_EntryCount r \<and> src_EntryCount r \<le> MaximumEntries \<and>
     0 \<le> src_SourceBytes r \<and> src_SourceBytes r \<le> MaximumSourceBytes"

record ExecutionPlan =
  pln_SchemaVersion :: string
  pln_IsolationDomainID :: string
  pln_RevisionID :: string
  pln_RuntimeProfile :: string
  pln_EnvironmentRevisionID :: string
  pln_ImageReference :: string
  pln_EnvironmentManifestDigest :: string
  pln_EnforcementBundleID :: string
  pln_EnforcementBundleDigest :: string
  pln_RuntimeMatrixID :: string
  pln_RuntimeMatrixDigest :: string
  pln_ProviderProfiles :: go_slice
  pln_RequiredCapabilities :: go_slice
  pln_WorkspaceSource :: "SourceRecord option"

record ExecutionPlanBinding =
  epb_Plan :: ExecutionPlan
  epb_ActorID :: string
  epb_CorrelationID :: string

definition ExecutionPlanSchemaV1 :: string where
  "ExecutionPlanSchemaV1 = ''dataground.execution-plan/v1''"

definition ExecutionPlanSchemaV2 :: string where
  "ExecutionPlanSchemaV2 = ''dataground.execution-plan/v2''"

section \<open>Normal form\<close>

definition validPortableValue :: "string \<Rightarrow> nat \<Rightarrow> bool" where
  "validPortableValue value maximumLength \<longleftrightarrow>
     value \<noteq> [] \<and> length value \<le> maximumLength \<and> utf8_ValidString value \<and>
     list_all (\<lambda>r. \<not> IsControl r \<and> \<not> IsSpace r) (runes value)"

definition normalizePortableValues :: "go_slice \<Rightarrow> nat \<Rightarrow> nat \<Rightarrow> bool \<Rightarrow> go_slice result" where
  "normalizePortableValues values maximumLength maximumItems rejectEquals =
     (if maximumItems < length (elements values) then Inl (errors_New ''too many portable values'')
      else if list_ex (\<lambda>v. \<not> validPortableValue v maximumLength \<or> rejectEquals \<and> Contains v ''='') (elements values)
      then Inl (errors_New ''invalid portable value'')
      else Inr (map_option sort_compact values))"

definition validImmutableImageReference :: "string \<Rightarrow> bool" where
  "validImmutableImageReference value \<longleftrightarrow>
     validPortableValue value 2048 \<and> Count value (CHR ''@'') = 1 \<and>
     takeWhile (\<lambda>c. c \<noteq> CHR ''@'') value \<noteq> [] \<and>
     digest_pattern (tl (dropWhile (\<lambda>c. c \<noteq> CHR ''@'') value))"

text \<open>The check of the schema version against the workspace source.\<close>

definition plan_source_invalid :: "ExecutionPlan \<Rightarrow> bool" where
  "plan_source_invalid plan \<longleftrightarrow>
     (pln_SchemaVersion plan = ExecutionPlanSchemaV1 \<and> pln_WorkspaceSource plan \<noteq> None) \<or>
     (pln_SchemaVersion plan = ExecutionPlanSchemaV2 \<and>
      (case pln_WorkspaceSource plan of
         None \<Rightarrow> True
       | Some source \<Rightarrow> \<not> ValidSourceRecord source \<or> src_IsolationDomainID source \<noteq> pln_IsolationDomainID plan))"

text \<open>The scalar fields, checked one after the other; \<open>None\<close> when all of them are valid.\<close>

definition plan_field_error :: "ExecutionPlan \<Rightarrow> string option" where
  "plan_field_error plan =
     (if \<not> resource_id_pattern ''iso'' (pln_IsolationDomainID plan)
      then Some ''invalid execution plan isolation domain''
      else if \<not> resource_id_pattern ''rev'' (pln_RevisionID plan)
      then Some ''invalid execution plan revision''
      else if \<not> validPortableValue (pln_RuntimeProfile plan) 128
      then Some ''invalid execution plan runtime profile''
      else if \<not> opaque_identifier_pattern (pln_EnvironmentRevisionID plan)
      then Some ''invalid execution plan environment revision''
      else if \<not> validImmutableImageReference (pln_ImageReference plan)
      then Some ''execution plan image must use an immutable sha256 reference''
      else if \<not> digest_pattern (pln_EnvironmentManifestDigest plan)
      then Some ''invalid execution plan environment manifest digest''
      else if \<not> opaque_identifier_pattern (pln_EnforcementBundleID plan)
      then Some ''invalid execution plan enforcement bundle identifier''
      else if \<not> digest_pattern (pln_EnforcementBundleDigest plan)
      then Some ''invalid execution plan enforcement bundle digest''
      else if \<not> opaque_identifier_pattern (pln_RuntimeMatrixID plan)
      then Some ''invalid execution plan runtime matrix''
      else if \<not> digest_pattern (pln_RuntimeMatrixDigest plan)
      then Some ''invalid execution plan runtime matrix digest''
      else None)"

definition NormalizeExecutionPlan :: "ExecutionPlan \<Rightarrow> ExecutionPlan result" where
  "NormalizeExecutionPlan plan =
     (if pln_SchemaVersion plan \<noteq> ExecutionPlanSchemaV1 \<and> pln_SchemaVersion plan \<noteq> ExecutionPlanSchemaV2
      then Inl (errors_New ''unsupported execution plan schema version'')
      else if plan_source_invalid plan
      then Inl (errors_New ''invalid execution plan workspace source'')
      else case plan_field_error plan of
        Some message \<Rightarrow> Inl (errors_New message)
      | None \<Rightarrow>
          (case normalizePortableValues (pln_ProviderProfiles plan) 128 64 True of
             Inl _ \<Rightarrow> Inl (errors_New ''invalid execution plan provider profile'')
           | Inr providerProfiles \<Rightarrow>
               (case normalizePortableValues (pln_RequiredCapabilities plan) 128 256 False of
                  Inl _ \<Rightarrow> Inl (errors_New ''invalid execution plan required capability'')
                | Inr requiredCapabilities \<Rightarrow>
                    Inr (plan\<lparr>pln_ProviderProfiles := providerProfiles,
                             pln_RequiredCapabilities := requiredCapabilities\<rparr>))))"

definition NormalizeExecutionPlanBinding :: "ExecutionPlanBinding \<Rightarrow> ExecutionPlanBinding result" where
  "NormalizeExecutionPlanBinding binding =
     (case NormalizeExecutionPlan (epb_Plan binding) of
        Inl err \<Rightarrow> Inl err
      | Inr plan \<Rightarrow>
          if \<not> validPortableValue (epb_ActorID binding) 256
          then Inl (errors_New ''invalid execution plan actor'')
          else if \<not> validPortableValue (epb_CorrelationID binding) 256
          then Inl (errors_New ''invalid execution plan correlation identifier'')
          else Inr (binding\<lparr>epb_Plan := plan\<rparr>))"

section \<open>Digest and equality\<close>

definition json_slice :: "go_slice \<Rightarrow> json" where
  "json_slice values = (case values of None \<Rightarrow> JNull | Some vs \<Rightarrow> JArr (map JStr vs))"

definition source_json :: "SourceRecord \<Rightarrow> json" where
  "source_json r = JObj
     [(''schemaVersion'', JStr (src_SchemaVersion r)),
      (''isolationDomainId'', JStr (src_IsolationDomainID r)),
      (''workspaceId'', JStr (src_WorkspaceID r)),
      (''id'', JStr (src_ID r)),
      (''archiveDigest'', JStr (src_ArchiveDigest r)),
      (''storageProfileDigest'', JStr (src_StorageProfileDigest r)),
      (''archiveBytes'', JNum (src_ArchiveBytes r)),
      (''entryCount'', JNum (src_EntryCount r)),
      (''sourceBytes'', JNum (src_SourceBytes r))]"

definition plan_json :: "ExecutionPlan \<Rightarrow> json" where
  "plan_json plan = JObj
     ([(''schemaVersion'', JStr (pln_SchemaVersion plan)),
       (''isolationDomainId'', JStr (pln_IsolationDomainID plan)),
       (''revisionId'', JStr (pln_RevisionID plan)),
       (''runtimeProfile'', JStr (pln_RuntimeProfile plan)),
       (''environmentRevisionId'', JStr (pln_EnvironmentRevisionID plan)),
       (''imageReference'', JStr (pln_ImageReference plan)),
       (''environmentManifestDigest'', JStr (pln_EnvironmentManifestDigest plan)),
       (''enforcementBundleId'', JStr (pln_EnforcementBundleID plan)),
       (''enforcementBundleDigest'', JStr (pln_EnforcementBundleDigest plan)),
       (''runtimeMatrixId'', JStr (pln_RuntimeMatrixID plan)),
       (''runtimeMatrixDigest'', JStr (pln_RuntimeMatrixDigest plan)),
       (''providerProfiles'', json_slice (pln_ProviderProfiles plan)),
       (''requiredCapabilities'', json_slice (pln_RequiredCapabilities plan))] @
      (case pln_WorkspaceSource plan of
         None \<Rightarrow> [] | Some source \<Rightarrow> [(''workspaceSource'', source_json source)]))"

definition DigestExecutionPlan :: "(string \<Rightarrow> string) \<Rightarrow> ExecutionPlan \<Rightarrow> string result" where
  "DigestExecutionPlan sha256 plan =
     (case NormalizeExecutionPlan plan of
        Inl err \<Rightarrow> Inl err
      | Inr normalized \<Rightarrow> Inr (''sha256:'' @ hex_EncodeToString (sha256 (json_text (plan_json normalized)))))"

definition EqualExecutionPlans :: "ExecutionPlan \<Rightarrow> ExecutionPlan \<Rightarrow> bool" where
  "EqualExecutionPlans left right \<longleftrightarrow>
     pln_WorkspaceSource left = pln_WorkspaceSource right \<and>
     pln_SchemaVersion left = pln_SchemaVersion right \<and>
     pln_IsolationDomainID left = pln_IsolationDomainID right \<and>
     pln_RevisionID left = pln_RevisionID right \<and>
     pln_RuntimeProfile left = pln_RuntimeProfile right \<and>
     pln_EnvironmentRevisionID left = pln_EnvironmentRevisionID right \<and>
     pln_ImageReference left = pln_ImageReference right \<and>
     pln_EnvironmentManifestDigest left = pln_EnvironmentManifestDigest right \<and>
     pln_EnforcementBundleID left = pln_EnforcementBundleID right \<and>
     pln_EnforcementBundleDigest left = pln_EnforcementBundleDigest right \<and>
     pln_RuntimeMatrixID left = pln_RuntimeMatrixID right \<and>
     pln_RuntimeMatrixDigest left = pln_RuntimeMatrixDigest right \<and>
     elements (pln_ProviderProfiles left) = elements (pln_ProviderProfiles right) \<and>
     elements (pln_RequiredCapabilities left) = elements (pln_RequiredCapabilities right)"

section \<open>Process-local plan store\<close>

definition scopedKey :: "string \<Rightarrow> string \<Rightarrow> string" where
  "scopedKey isolationDomainID ident = isolationDomainID @ CHR 0x00 # ident"

type_synonym MemoryExecutionPlanStore = "string \<rightharpoonup> ExecutionPlan"

definition memory_BindExecutionPlan ::
  "ExecutionPlanBinding \<Rightarrow> MemoryExecutionPlanStore \<Rightarrow> ExecutionPlan result \<times> MemoryExecutionPlanStore" where
  "memory_BindExecutionPlan binding store =
     (case NormalizeExecutionPlanBinding binding of
        Inl err \<Rightarrow> (Inl err, store)
      | Inr normalized \<Rightarrow>
          (let plan = epb_Plan normalized; key = scopedKey (pln_IsolationDomainID plan) (pln_RevisionID plan)
           in case store key of
             Some existing \<Rightarrow>
               if \<not> EqualExecutionPlans existing plan then (Inl (Sentinel ErrExecutionPlanConflict), store)
               else (Inr existing, store)
           | None \<Rightarrow> (Inr plan, store(key \<mapsto> plan))))"

definition memory_GetExecutionPlan ::
  "MemoryExecutionPlanStore \<Rightarrow> string \<Rightarrow> string \<Rightarrow> ExecutionPlan result" where
  "memory_GetExecutionPlan store isolationDomainID revisionID =
     (case store (scopedKey isolationDomainID revisionID) of
        None \<Rightarrow> Inl (Sentinel ErrExecutionPlanMissing)
      | Some plan \<Rightarrow> Inr plan)"

section \<open>Capabilities and provider profiles\<close>

text \<open>The copy made with \<open>append\<close> is nil when there is nothing to copy.\<close>

definition NormalizeCapabilities :: "string list \<Rightarrow> go_slice result" where
  "NormalizeCapabilities capabilities =
     (if list_ex (\<lambda>c. c = []) capabilities then Inl (errors_New ''capability names must not be empty'')
      else if capabilities = [] then Inr None
      else Inr (Some (sort_compact capabilities)))"

text \<open>\<open>^[a-z][a-z0-9]*(?:[._-][a-z0-9]+)*$\<close>\<close>

fun profile_tail :: "bool \<Rightarrow> string \<Rightarrow> bool" where
  "profile_tail after_separator [] = (\<not> after_separator)"
| "profile_tail after_separator (c # cs) =
     (if id_char c then profile_tail False cs
      else c \<in> set ''._-'' \<and> \<not> after_separator \<and> profile_tail True cs)"

definition provider_profile_pattern :: "string \<Rightarrow> bool" where
  "provider_profile_pattern s = (case s of [] \<Rightarrow> False | c # cs \<Rightarrow> is_lower c \<and> profile_tail False cs)"

definition profile_name_ok :: "string \<Rightarrow> bool" where
  "profile_name_ok name \<longleftrightarrow> \<not> 64 < length name \<and> provider_profile_pattern name"

text \<open>The registry is the list of its names; the nil registry is \<open>None\<close>.\<close>

fun register_profiles :: "string list \<Rightarrow> string list \<Rightarrow> string list result" where
  "register_profiles registered [] = Inr registered"
| "register_profiles registered (name # names) =
     (if \<not> profile_name_ok name then Inl (Sentinel ErrProviderProfileInvalid)
      else if name \<in> set registered then Inl (Sentinel ErrProviderProfileInvalid)
      else register_profiles (registered @ [name]) names)"

definition NewProviderProfileRegistry :: "string list \<Rightarrow> string list result" where
  "NewProviderProfileRegistry names = register_profiles [] names"

fun check_profiles :: "string list \<Rightarrow> string list \<Rightarrow> go_error option" where
  "check_profiles registry [] = None"
| "check_profiles registry (name # names) =
     (if \<not> profile_name_ok name then Some (Sentinel ErrProviderProfileInvalid)
      else if name \<notin> set registry then Some (Sentinel ErrProviderProfileUnavailable)
      else check_profiles registry names)"

definition Resolve :: "string list option \<Rightarrow> go_slice \<Rightarrow> go_slice result" where
  "Resolve registry names =
     (case registry of
        None \<Rightarrow> if elements names = [] then Inr None else Inl (Sentinel ErrProviderProfileUnavailable)
      | Some known \<Rightarrow>
          (case check_profiles known (elements names) of
             Some err \<Rightarrow> Inl err
           | None \<Rightarrow> Inr (map_option sort_compact names)))"

section \<open>Facts\<close>

lemma normalizePortableValues_Inr:
  "normalizePortableValues vs n m e = Inr ws \<longleftrightarrow>
     length (elements vs) \<le> m \<and> (\<forall>v \<in> set (elements vs). validPortableValue v n \<and> \<not> (e \<and> Contains v ''='')) \<and>
     ws = map_option sort_compact vs"
  by (auto simp: normalizePortableValues_def list_ex_iff)

lemma elements_sort_compact [simp]: "elements (map_option sort_compact vs) = sort_compact (elements vs)"
  by (cases vs) (simp_all add: sort_compact_def)

lemma normalizePortableValues_again:
  "normalizePortableValues vs n m e = Inr ws \<Longrightarrow> normalizePortableValues ws n m e = Inr ws"
  using length_sort_compact [of "elements vs"]
  by (cases vs) (auto simp: normalizePortableValues_Inr)

text \<open>What a plan in normal form satisfies.\<close>

definition plan_normal :: "ExecutionPlan \<Rightarrow> bool" where
  "plan_normal plan \<longleftrightarrow>
     pln_SchemaVersion plan \<in> {ExecutionPlanSchemaV1, ExecutionPlanSchemaV2} \<and>
     \<not> plan_source_invalid plan \<and> plan_field_error plan = None \<and>
     normalizePortableValues (pln_ProviderProfiles plan) 128 64 True = Inr (pln_ProviderProfiles plan) \<and>
     normalizePortableValues (pln_RequiredCapabilities plan) 128 256 False = Inr (pln_RequiredCapabilities plan)"

lemma plan_checks_update [simp]:
  "plan_source_invalid (plan\<lparr>pln_ProviderProfiles := a, pln_RequiredCapabilities := b\<rparr>) = plan_source_invalid plan"
  "plan_field_error (plan\<lparr>pln_ProviderProfiles := a, pln_RequiredCapabilities := b\<rparr>) = plan_field_error plan"
  by (simp_all add: plan_source_invalid_def plan_field_error_def cong: option.case_cong)

lemma NormalizeExecutionPlan_InrD:
  assumes "NormalizeExecutionPlan plan = Inr normalized"
  shows "plan_normal normalized"
    and "normalized = plan\<lparr>pln_ProviderProfiles := map_option sort_compact (pln_ProviderProfiles plan),
           pln_RequiredCapabilities := map_option sort_compact (pln_RequiredCapabilities plan)\<rparr>"
proof -
  from assms obtain ps cs where checks: "pln_SchemaVersion plan \<in> {ExecutionPlanSchemaV1, ExecutionPlanSchemaV2}"
      "\<not> plan_source_invalid plan" "plan_field_error plan = None"
    and ps: "normalizePortableValues (pln_ProviderProfiles plan) 128 64 True = Inr ps"
    and cs: "normalizePortableValues (pln_RequiredCapabilities plan) 128 256 False = Inr cs"
    and eq: "normalized = plan\<lparr>pln_ProviderProfiles := ps, pln_RequiredCapabilities := cs\<rparr>"
    by (auto simp: NormalizeExecutionPlan_def split: if_splits option.splits sum.splits)
  from checks normalizePortableValues_again [OF ps] normalizePortableValues_again [OF cs]
  show "plan_normal normalized" unfolding eq by (simp add: plan_normal_def)
  from eq ps cs
  show "normalized = plan\<lparr>pln_ProviderProfiles := map_option sort_compact (pln_ProviderProfiles plan),
           pln_RequiredCapabilities := map_option sort_compact (pln_RequiredCapabilities plan)\<rparr>"
    by (simp add: normalizePortableValues_Inr)
qed

lemma plan_normal_fixed: "plan_normal plan \<Longrightarrow> NormalizeExecutionPlan plan = Inr plan"
  by (auto simp: plan_normal_def NormalizeExecutionPlan_def)

lemma scopedKey_inject:
  assumes "CHR 0x00 \<notin> set d" "CHR 0x00 \<notin> set d'" "scopedKey d i = scopedKey d' i'"
  shows "d = d' \<and> i = i'"
proof -
  have "takeWhile (\<lambda>c. c \<noteq> CHR 0x00) (scopedKey e j) = e" if "CHR 0x00 \<notin> set e" for e j
    using that by (induction e) (auto simp: scopedKey_def)
  with assms have "d = d'" by metis
  with assms(3) show ?thesis by (simp add: scopedKey_def)
qed

section \<open>The digest identifies the plan\<close>

definition ascii :: "string \<Rightarrow> bool" where
  "ascii s = list_all (\<lambda>c. byte c < 128) s"

lemma ascii_append [simp]: "ascii (s @ t) \<longleftrightarrow> ascii s \<and> ascii t"
  by (simp add: ascii_def)

lemma ascii_utf8: "ascii s \<Longrightarrow> utf8_ValidString s"
  by (simp add: ascii_def ascii_valid)

lemma ascii_prefixes:
  "ascii ''_''" "ascii ''sha256:''" "ascii ''iso''" "ascii ''rev''" "ascii ''wsp''" "ascii ''src''"
  "ascii ExecutionPlanSchemaV1" "ascii ExecutionPlanSchemaV2" "ascii SourceRecordV1"
  by (simp_all add: ascii_def byte_def ExecutionPlanSchemaV1_def ExecutionPlanSchemaV2_def SourceRecordV1_def)

lemma match_prefixed_ascii:
  assumes "match_prefixed p cls lo hi s" and "ascii p" and "\<And>c. cls c \<Longrightarrow> byte c < 128"
  shows "ascii s"
proof -
  from assms(1) obtain t where "s = p @ t" "list_all cls t"
    by (auto simp: match_prefixed_def HasPrefix_iff)
  with assms(2,3) show ?thesis by (auto simp: ascii_def list_all_iff)
qed

lemmas char_class_defs = id_char_def hex_char_def is_digit_def is_lower_def is_upper_def in_range_def

lemma resource_id_ascii: "resource_id_pattern kind s \<Longrightarrow> ascii kind \<Longrightarrow> ascii s"
  unfolding resource_id_pattern_def
  by (erule match_prefixed_ascii) (auto simp: char_class_defs ascii_prefixes)

lemma digest_ascii: "digest_pattern s \<Longrightarrow> ascii s"
  unfolding digest_pattern_def
  by (erule match_prefixed_ascii) (auto simp: char_class_defs ascii_prefixes)

lemma opaque_ascii: "opaque_identifier_pattern s \<Longrightarrow> ascii s"
  by (auto simp: opaque_identifier_pattern_def ascii_def list_all_iff char_class_defs byte_def split: list.splits)

lemma portable_utf8: "validPortableValue s n \<Longrightarrow> utf8_ValidString s"
  by (simp add: validPortableValue_def)

lemma image_utf8: "validImmutableImageReference s \<Longrightarrow> utf8_ValidString s"
  by (auto simp: validImmutableImageReference_def intro: portable_utf8)

lemmas text_utf8 = ascii_utf8 [OF resource_id_ascii] ascii_utf8 [OF digest_ascii] ascii_utf8 [OF opaque_ascii]
  portable_utf8 image_utf8

lemma source_json_plain: "ValidSourceRecord r \<Longrightarrow> json_plain (source_json r)"
  unfolding ValidSourceRecord_def source_json_def
  by (auto simp: ascii_prefixes intro: text_utf8 ascii_utf8) (simp_all add: ascii_utf8 ascii_def byte_def)

lemma json_slice_plain:
  "(\<And>v. v \<in> set (elements vs) \<Longrightarrow> utf8_ValidString v) \<Longrightarrow> json_plain (json_slice vs)"
  by (cases vs) (auto simp: json_slice_def list_all_iff)

lemma plan_normal_utf8:
  assumes "plan_normal plan"
  shows "utf8_ValidString (pln_SchemaVersion plan)" "utf8_ValidString (pln_IsolationDomainID plan)"
    "utf8_ValidString (pln_RevisionID plan)" "utf8_ValidString (pln_RuntimeProfile plan)"
    "utf8_ValidString (pln_EnvironmentRevisionID plan)" "utf8_ValidString (pln_ImageReference plan)"
    "utf8_ValidString (pln_EnvironmentManifestDigest plan)" "utf8_ValidString (pln_EnforcementBundleID plan)"
    "utf8_ValidString (pln_EnforcementBundleDigest plan)" "utf8_ValidString (pln_RuntimeMatrixID plan)"
    "utf8_ValidString (pln_RuntimeMatrixDigest plan)"
  using assms unfolding plan_normal_def plan_field_error_def
  by (auto simp: ascii_prefixes intro: text_utf8 ascii_utf8 split: if_splits)

lemma plan_normal_slices:
  assumes "plan_normal plan"
  shows "json_plain (json_slice (pln_ProviderProfiles plan))" "json_plain (json_slice (pln_RequiredCapabilities plan))"
  using assms unfolding plan_normal_def normalizePortableValues_Inr
  by (auto intro!: json_slice_plain intro: portable_utf8)

lemma plan_normal_source:
  "plan_normal plan \<Longrightarrow> pln_WorkspaceSource plan = Some source \<Longrightarrow> ValidSourceRecord source"
  by (auto simp: plan_normal_def plan_source_invalid_def)

lemma plan_json_plain:
  assumes "plan_normal plan"
  shows "json_plain (plan_json plan)"
proof -
  have "json_plain (JObj (case pln_WorkspaceSource plan of
      None \<Rightarrow> [] | Some source \<Rightarrow> [(''workspaceSource'', source_json source)]))"
    using plan_normal_source [OF assms]
    by (auto split: option.splits simp: source_json_plain ascii_utf8 ascii_def byte_def)
  then show ?thesis
    using plan_normal_utf8 [OF assms] plan_normal_slices [OF assms]
    by (simp add: plan_json_def) (simp add: ascii_utf8 ascii_def byte_def)
qed

lemma json_slice_inject: "json_slice vs = json_slice ws \<Longrightarrow> vs = ws"
  by (auto simp: json_slice_def split: option.splits dest: map_injective intro: injI)

lemma source_json_inject: "source_json r = source_json s \<Longrightarrow> r = s"
  by (simp add: source_json_def)

lemma plan_json_inject:
  assumes "plan_json p = plan_json q"
  shows "p = q"
proof -
  have "pln_WorkspaceSource p = pln_WorkspaceSource q"
    using assms by (auto simp: plan_json_def source_json_inject split: option.splits)
  with assms show ?thesis by (auto simp: plan_json_def json_slice_inject)
qed

lemma hex_digit_inject: "m < 16 \<Longrightarrow> n < 16 \<Longrightarrow> hex_digit m = hex_digit n \<Longrightarrow> m = n"
  by (metis hex_value_digit)

lemma hex_EncodeToString_inject: "hex_EncodeToString s = hex_EncodeToString t \<Longrightarrow> s = t"
proof (induction s arbitrary: t)
  case Nil
  then show ?case by (cases t) (simp_all add: hex_EncodeToString_def)
next
  case (Cons c s)
  then obtain d u where t: "t = d # u" by (cases t) (simp_all add: hex_EncodeToString_def)
  have bound: "of_char e div 16 < (16 :: nat)" for e :: char
    by (rule less_mult_imp_div_less) (use byte_bound [of e] in \<open>simp add: byte_def\<close>)
  have eq: "hex_digit (of_char c div 16) = hex_digit (of_char d div 16)"
      "hex_digit (of_char c mod 16) = hex_digit (of_char d mod 16)" "hex_EncodeToString s = hex_EncodeToString u"
    using Cons.prems t by (simp_all add: hex_EncodeToString_def)
  have "(of_char c :: nat) div 16 = of_char d div 16" by (rule hex_digit_inject [OF bound bound eq(1)])
  moreover have "(of_char c :: nat) mod 16 = of_char d mod 16" by (rule hex_digit_inject [OF _ _ eq(2)]) simp_all
  ultimately have "(of_char c :: nat) = of_char d"
    using div_mult_mod_eq [of "of_char c :: nat" 16] div_mult_mod_eq [of "of_char d :: nat" 16] by linarith
  with Cons.IH [OF eq(3)] t show ?case by simp
qed

text \<open>C26. With a hash that does not collide on the two encodings, two plans have the same digest
  exactly when they have the same normal form: the digest that approvals, placements and audit records
  carry stands for one plan, including its workspace source and the order-free contents of its
  provider profiles and required capabilities.\<close>

theorem plan_digest_identifies:
  assumes "NormalizeExecutionPlan p = Inr p'" and "NormalizeExecutionPlan q = Inr q'"
    and "inj_on sha256 {json_text (plan_json p'), json_text (plan_json q')}"
  shows "DigestExecutionPlan sha256 p = DigestExecutionPlan sha256 q \<longleftrightarrow> p' = q'"
proof
  assume "DigestExecutionPlan sha256 p = DigestExecutionPlan sha256 q"
  then have "hex_EncodeToString (sha256 (json_text (plan_json p'))) = hex_EncodeToString (sha256 (json_text (plan_json q')))"
    unfolding DigestExecutionPlan_def assms(1,2) sum.case by (simp only: sum.inject same_append_eq)
  then have "sha256 (json_text (plan_json p')) = sha256 (json_text (plan_json q'))"
    by (rule hex_EncodeToString_inject)
  then have "json_text (plan_json p') = json_text (plan_json q')" by (rule inj_onD [OF assms(3)]) simp_all
  with assms(1,2) have "plan_json p' = plan_json q'"
    by (intro json_text_unique plan_json_plain NormalizeExecutionPlan_InrD(1))
  then show "p' = q'" by (rule plan_json_inject)
qed (simp only: DigestExecutionPlan_def assms(1,2))

section \<open>Append-only bindings\<close>

text \<open>
  What \<open>ExecutionPlanStore\<close> and \<open>EnforcementBundleStore\<close> promise: a binding is stored in the normal form
  of the request, a stored binding is never replaced or lost, and a request for another value under a
  bound key is refused and changes nothing. \<open>canon\<close> is the normal form of a request and \<open>same\<close> the
  comparison that decides between a replay and a conflict.
\<close>

locale binding_store =
  fixes bind :: "'b \<Rightarrow> 's \<Rightarrow> 'v result \<times> 's"
    and lookup_bound :: "'s \<Rightarrow> 'k \<Rightarrow> 'v result"
    and key_of :: "'v \<Rightarrow> 'k"
    and canon :: "'b \<Rightarrow> 'v result"
    and same :: "'v \<Rightarrow> 'v \<Rightarrow> bool"
    and store_ok :: "'s \<Rightarrow> bool"
  assumes bind_ok: "store_ok s \<Longrightarrow> store_ok (snd (bind b s))"
    and bind_result: "store_ok s \<Longrightarrow> fst (bind b s) = Inr v \<Longrightarrow>
      lookup_bound (snd (bind b s)) (key_of v) = Inr v \<and> (\<exists>w. canon b = Inr w \<and> key_of w = key_of v \<and> same v w)"
    and bind_keeps: "store_ok s \<Longrightarrow> lookup_bound s k = Inr v \<Longrightarrow> lookup_bound (snd (bind b s)) k = Inr v"
    and bind_refuses: "store_ok s \<Longrightarrow> lookup_bound s k = Inr v \<Longrightarrow> canon b = Inr w \<Longrightarrow> key_of w = k \<Longrightarrow>
      \<not> same v w \<Longrightarrow> \<exists>err. bind b s = (Inl err, s)"
begin

lemma binds_ok: "store_ok s \<Longrightarrow> store_ok (fold (\<lambda>b. snd \<circ> bind b) bs s)"
  by (induction bs arbitrary: s) (simp_all add: bind_ok)

lemma binds_keep:
  "store_ok s \<Longrightarrow> lookup_bound s k = Inr v \<Longrightarrow> lookup_bound (fold (\<lambda>b. snd \<circ> bind b) bs s) k = Inr v"
  by (induction bs arbitrary: s) (simp_all add: bind_ok bind_keeps)

lemma bound_forever:
  "store_ok s \<Longrightarrow> fst (bind b s) = Inr v \<Longrightarrow>
   lookup_bound (fold (\<lambda>b. snd \<circ> bind b) bs (snd (bind b s))) (key_of v) = Inr v"
  by (simp add: bind_ok bind_result binds_keep)

lemma replacement_refused:
  assumes "store_ok s" and "fst (bind b s) = Inr v" and "canon c = Inr w" and "key_of w = key_of v" and "\<not> same v w"
    and "s' = fold (\<lambda>b. snd \<circ> bind b) bs (snd (bind b s))"
  shows "\<exists>err. bind c s' = (Inl err, s')"
  using assms unfolding assms(6) by (intro bind_refuses [OF _ bound_forever]) (simp_all add: bind_ok binds_ok)

end

definition plan_key :: "ExecutionPlan \<Rightarrow> string \<times> string" where
  "plan_key plan = (pln_IsolationDomainID plan, pln_RevisionID plan)"

definition plan_canon :: "ExecutionPlanBinding \<Rightarrow> ExecutionPlan result" where
  "plan_canon binding = map_sum id epb_Plan (NormalizeExecutionPlanBinding binding)"

text \<open>Every plan of the process-local store is in normal form and stands under its own key.\<close>

definition memory_plans_ok :: "MemoryExecutionPlanStore \<Rightarrow> bool" where
  "memory_plans_ok store \<longleftrightarrow>
     (\<forall>k p. store k = Some p \<longrightarrow> plan_normal p \<and> k = scopedKey (pln_IsolationDomainID p) (pln_RevisionID p))"

lemma NormalizeExecutionPlanBinding_InrD:
  assumes "NormalizeExecutionPlanBinding b = Inr n"
  shows "NormalizeExecutionPlan (epb_Plan b) = Inr (epb_Plan n)" and "plan_normal (epb_Plan n)"
    and "n = b\<lparr>epb_Plan := epb_Plan n\<rparr>"
  using assms
  by (auto simp: NormalizeExecutionPlanBinding_def split: sum.splits if_splits intro: NormalizeExecutionPlan_InrD)

lemma EqualExecutionPlans_refl [simp]: "EqualExecutionPlans p p"
  by (simp add: EqualExecutionPlans_def)

lemma EqualExecutionPlans_key: "EqualExecutionPlans p q \<Longrightarrow> plan_key p = plan_key q"
  by (simp add: EqualExecutionPlans_def plan_key_def)

interpretation mem_plans: binding_store memory_BindExecutionPlan
  "\<lambda>store k. memory_GetExecutionPlan store (fst k) (snd k)" plan_key plan_canon EqualExecutionPlans memory_plans_ok
proof
  fix s b assume ok: "memory_plans_ok s"
  then show "memory_plans_ok (snd (memory_BindExecutionPlan b s))"
    using NormalizeExecutionPlanBinding_InrD(2)
    by (auto simp: memory_BindExecutionPlan_def memory_plans_ok_def Let_def split: sum.splits option.splits)
next
  fix s b v assume ok: "memory_plans_ok s" and v: "fst (memory_BindExecutionPlan b s) = Inr v"
  then obtain n where n: "NormalizeExecutionPlanBinding b = Inr n"
    by (auto simp: memory_BindExecutionPlan_def split: sum.splits)
  define k where "k = scopedKey (pln_IsolationDomainID (epb_Plan n)) (pln_RevisionID (epb_Plan n))"
  have v': "(if s k = None then epb_Plan n else the (s k)) = v" "EqualExecutionPlans v (epb_Plan n)"
    "snd (memory_BindExecutionPlan b s) k = Some v"
    using v n by (auto simp: memory_BindExecutionPlan_def k_def Let_def split: option.splits if_splits)
  from EqualExecutionPlans_key [OF v'(2)] v'(3)
  have "memory_GetExecutionPlan (snd (memory_BindExecutionPlan b s)) (fst (plan_key v)) (snd (plan_key v)) = Inr v"
    by (simp add: memory_GetExecutionPlan_def plan_key_def k_def)
  with n v'(2) EqualExecutionPlans_key [OF v'(2)]
  show "memory_GetExecutionPlan (snd (memory_BindExecutionPlan b s)) (fst (plan_key v)) (snd (plan_key v)) = Inr v \<and>
      (\<exists>w. plan_canon b = Inr w \<and> plan_key w = plan_key v \<and> EqualExecutionPlans v w)"
    by (simp add: plan_canon_def)
next
  fix s k v b assume "memory_GetExecutionPlan s (fst k) (snd k) = Inr v"
  then show "memory_GetExecutionPlan (snd (memory_BindExecutionPlan b s)) (fst k) (snd k) = Inr v"
    by (auto simp: memory_GetExecutionPlan_def memory_BindExecutionPlan_def Let_def split: sum.splits option.splits if_splits)
next
  fix s k v b w
  assume "memory_GetExecutionPlan s (fst k) (snd k) = Inr v" "plan_canon b = Inr w" "plan_key w = k"
    "\<not> EqualExecutionPlans v w"
  then show "\<exists>err. memory_BindExecutionPlan b s = (Inl err, s)"
    by (auto simp: memory_GetExecutionPlan_def memory_BindExecutionPlan_def plan_canon_def plan_key_def Let_def
        map_sum_def split: sum.splits option.splits if_splits)
qed

section \<open>A concrete plan\<close>

lemma match_prefixed_append:
  "match_prefixed p cls lo hi (p @ t) \<longleftrightarrow> lo \<le> length t \<and> length t \<le> hi \<and> list_all cls t"
  by (simp add: match_prefixed_def HasPrefix_def)

definition printable :: "string \<Rightarrow> bool" where
  "printable s = list_all (\<lambda>c. 33 \<le> byte c \<and> byte c \<le> 126) s"

lemma printable_portable: "printable s \<Longrightarrow> validPortableValue s n \<longleftrightarrow> s \<noteq> [] \<and> length s \<le> n"
proof -
  assume s: "printable s"
  then have "list_all (\<lambda>c. byte c < 128) s" by (auto simp: printable_def list_all_iff)
  moreover from this have "list_all (\<lambda>r. \<not> IsControl r \<and> \<not> IsSpace r) (runes s)"
    using s by (auto simp: ascii_runes list_all_iff printable_def IsControl_def IsSpace_def)
  ultimately show ?thesis by (simp add: validPortableValue_def ascii_valid)
qed

definition zero_digest :: string where
  "zero_digest = ''sha256:'' @ replicate 64 (CHR ''0'')"

definition zero_id :: "string \<Rightarrow> string" where
  "zero_id kind = (kind @ ''_'') @ replicate 20 (CHR ''0'')"

lemma digest_pattern_zero [simp]: "digest_pattern zero_digest"
  unfolding digest_pattern_def zero_digest_def match_prefixed_append
  by (simp add: char_class_defs byte_def list_all_iff)

lemma resource_id_zero [simp]: "resource_id_pattern kind (zero_id kind)"
  unfolding resource_id_pattern_def zero_id_def match_prefixed_append
  by (simp add: char_class_defs byte_def list_all_iff)

definition demo_plan :: ExecutionPlan where
  "demo_plan = \<lparr>pln_SchemaVersion = ExecutionPlanSchemaV1, pln_IsolationDomainID = zero_id ''iso'',
     pln_RevisionID = zero_id ''rev'', pln_RuntimeProfile = ''codex'', pln_EnvironmentRevisionID = ''env-1'',
     pln_ImageReference = ''img@'' @ zero_digest, pln_EnvironmentManifestDigest = zero_digest,
     pln_EnforcementBundleID = ''bundle-1'', pln_EnforcementBundleDigest = zero_digest,
     pln_RuntimeMatrixID = ''matrix-1'', pln_RuntimeMatrixDigest = zero_digest,
     pln_ProviderProfiles = Some [], pln_RequiredCapabilities = Some [''shell'', ''codex'', ''shell''],
     pln_WorkspaceSource = None\<rparr>"

definition demo_normal_plan :: ExecutionPlan where
  "demo_normal_plan = demo_plan\<lparr>pln_RequiredCapabilities := Some [''codex'', ''shell'']\<rparr>"

lemma image_reference_zero: "validImmutableImageReference (''img@'' @ zero_digest)"
proof -
  have "validPortableValue (''img@'' @ zero_digest) 2048"
    by (subst printable_portable) (simp_all add: printable_def zero_digest_def byte_def list_all_iff)
  moreover have "Count (''img@'' @ zero_digest) (CHR ''@'') = 1" by (simp add: Count_def zero_digest_def)
  ultimately show ?thesis by (simp add: validImmutableImageReference_def)
qed

lemma demo_plan_normalizes: "NormalizeExecutionPlan demo_plan = Inr demo_normal_plan"
proof -
  have "plan_field_error demo_plan = None"
    unfolding plan_field_error_def demo_plan_def
    by (simp add: image_reference_zero [simplified] printable_portable printable_def byte_def opaque_identifier_pattern_def char_class_defs)
  moreover have "normalizePortableValues (Some [''shell'', ''codex'', ''shell'']) 128 256 False = Inr (Some [''codex'', ''shell''])"
    by (simp add: normalizePortableValues_def printable_portable printable_def byte_def sort_compact_def)
  moreover have "normalizePortableValues (Some []) 128 64 True = Inr (Some [])"
    by (simp add: normalizePortableValues_def sort_compact_def)
  moreover have "pln_ProviderProfiles demo_plan = Some []"
    "pln_RequiredCapabilities demo_plan = Some [''shell'', ''codex'', ''shell'']"
    "pln_SchemaVersion demo_plan = ExecutionPlanSchemaV1" "\<not> plan_source_invalid demo_plan"
    by (simp_all add: demo_plan_def plan_source_invalid_def ExecutionPlanSchemaV1_def ExecutionPlanSchemaV2_def)
  ultimately show ?thesis by (simp add: NormalizeExecutionPlan_def) (simp add: demo_plan_def demo_normal_plan_def)
qed

theorem plan_digest_identifies_witness:
  "DigestExecutionPlan (\<lambda>bytes. bytes) demo_plan = DigestExecutionPlan (\<lambda>bytes. bytes) demo_normal_plan"
  using plan_digest_identifies [OF demo_plan_normalizes
      plan_normal_fixed [OF NormalizeExecutionPlan_InrD(1) [OF demo_plan_normalizes]], of "\<lambda>bytes. bytes"]
  by simp

text \<open>C27. Normalising a plan keeps every scalar field and the members of its two lists, orders the lists
  strictly and within their limits, and is idempotent: a plan read back from storage normalises to itself.\<close>

theorem plan_normal_form:
  assumes "NormalizeExecutionPlan p = Inr q"
  shows "NormalizeExecutionPlan q = Inr q \<and>
    q = p\<lparr>pln_ProviderProfiles := pln_ProviderProfiles q, pln_RequiredCapabilities := pln_RequiredCapabilities q\<rparr> \<and>
    set (elements (pln_ProviderProfiles q)) = set (elements (pln_ProviderProfiles p)) \<and>
    set (elements (pln_RequiredCapabilities q)) = set (elements (pln_RequiredCapabilities p)) \<and>
    sorted_wrt (<) (elements (pln_ProviderProfiles q)) \<and> sorted_wrt (<) (elements (pln_RequiredCapabilities q)) \<and>
    length (elements (pln_ProviderProfiles q)) \<le> 64 \<and> length (elements (pln_RequiredCapabilities q)) \<le> 256"
proof (intro conjI)
  note normal = NormalizeExecutionPlan_InrD [OF assms]
  show "NormalizeExecutionPlan q = Inr q" using normal(1) by (rule plan_normal_fixed)
  show "length (elements (pln_ProviderProfiles q)) \<le> 64" "length (elements (pln_RequiredCapabilities q)) \<le> 256"
    using normal(1) by (simp_all add: plan_normal_def normalizePortableValues_Inr)
qed (simp_all add: NormalizeExecutionPlan_InrD(2) [OF assms] strict_sorted_iff)

theorem plan_normal_form_witness:
  "NormalizeExecutionPlan demo_normal_plan = Inr demo_normal_plan \<and>
   set (elements (pln_RequiredCapabilities demo_normal_plan)) = {''shell'', ''codex''}"
  using plan_normal_form [OF demo_plan_normalizes] by (auto simp: demo_plan_def)

end
