(* ===== verification/Plan_Store.thy ===== *)
theory Plan_Store
  imports Plans
begin

text \<open>
  The durable plan store, \<open>src/internal/execution/postgres/plan_store.go\<close>, over the tables
  \<open>service_revisions\<close>, \<open>service_revision_execution_plans\<close> (migrations 00003 and 00068) and the audit
  records it writes. One call is one transaction. The columns of a plan row hold a normalised plan, so the CHECK
  constraints hold by construction; the two that a normalised plan can still violate are modelled: the
  NOT NULL arrays (a nil slice is sent as NULL) and the trigger \<open>enforce_execution_plan_source\<close>, which
  wants a draft revision and a completed source for a plan with a workspace source. Connection faults
  are left out.
\<close>

record plan_row =
  plr_plan :: ExecutionPlan
  plr_plan_digest :: string
  plr_bound_by :: string
  plr_correlation_id :: string
  plr_created_at :: instant

record bound_audit_row = audit_row +
  aud_id :: string
  aud_safe_metadata :: "(string \<times> string) list"

record plan_db =
  pdb_revisions :: "revision_row list"
  pdb_completed_sources :: "SourceRecord list"
  pdb_plans :: "plan_row list"
  pdb_audit :: "bound_audit_row list"

definition persistence_error :: "string \<Rightarrow> go_error" where
  "persistence_error stage = Errorf stage [Sentinel ErrPersistence]"

definition plan_row_at :: "string \<Rightarrow> string \<Rightarrow> plan_row \<Rightarrow> bool" where
  "plan_row_at isolationDomainID revisionID row \<longleftrightarrow>
     plan_key (plr_plan row) = (isolationDomainID, revisionID)"

definition ReadExecutionPlan ::
  "(string \<Rightarrow> string) \<Rightarrow> plan_db \<Rightarrow> string \<Rightarrow> string \<Rightarrow> ExecutionPlan result" where
  "ReadExecutionPlan sha256 d isolationDomainID revisionID =
     (case sql_select (plan_row_at isolationDomainID revisionID) (pdb_plans d) of
        None \<Rightarrow> Inl (Sentinel ErrExecutionPlanMissing)
      | Some row \<Rightarrow>
          (case NormalizeExecutionPlan (plr_plan row) of
             Inl _ \<Rightarrow> Inl (persistence_error ''validate persisted execution plan'')
           | Inr normalized \<Rightarrow>
               (case DigestExecutionPlan sha256 normalized of
                  Inl _ \<Rightarrow> Inl (persistence_error ''verify execution plan digest'')
                | Inr digest \<Rightarrow>
                    if digest \<noteq> plr_plan_digest row
                    then Inl (persistence_error ''verify execution plan digest'')
                    else Inr normalized)))"

definition GetExecutionPlan ::
  "(string \<Rightarrow> string) \<Rightarrow> plan_db \<Rightarrow> string \<Rightarrow> string \<Rightarrow> ExecutionPlan result" where
  "GetExecutionPlan = ReadExecutionPlan"

text \<open>What makes the database refuse the row: NULL arrays, and the trigger on plans with a source.\<close>

definition plan_source_refused :: "plan_db \<Rightarrow> ExecutionPlan \<Rightarrow> bool" where
  "plan_source_refused d plan \<longleftrightarrow>
     pln_SchemaVersion plan = ExecutionPlanSchemaV2 \<and>
     (\<not> list_ex (\<lambda>r. rev_domain r = pln_IsolationDomainID plan \<and> rev_id r = pln_RevisionID plan \<and> rev_state r = ''draft'')
          (pdb_revisions d) \<or>
      \<not> list_ex (\<lambda>s. pln_WorkspaceSource plan = Some s \<and> src_IsolationDomainID s = pln_IsolationDomainID plan)
          (pdb_completed_sources d))"

definition plan_insert_refused :: "plan_db \<Rightarrow> ExecutionPlan \<Rightarrow> bool" where
  "plan_insert_refused d plan \<longleftrightarrow>
     pln_ProviderProfiles plan = None \<or> pln_RequiredCapabilities plan = None \<or> plan_source_refused d plan"

definition plan_audit_row ::
  "(string \<Rightarrow> string) \<Rightarrow> ExecutionPlanBinding \<Rightarrow> string \<Rightarrow> instant \<Rightarrow> bound_audit_row" where
  "plan_audit_row sha256 binding planDigest now =
     (let plan = epb_Plan binding in
      \<lparr>aud_domain = pln_IsolationDomainID plan, aud_actor_id = epb_ActorID binding,
       aud_action = ''execution-plan.bind'', aud_resource_type = ''service-revision'',
       aud_resource_id = pln_RevisionID plan, aud_outcome = ''succeeded'',
       aud_correlation_id = epb_CorrelationID binding, aud_operation_id = None, aud_occurred_at = now,
       aud_id = Derived sha256 ''aud'' (pln_IsolationDomainID plan @ '':'' @ pln_RevisionID plan @ '':execution-plan''),
       aud_safe_metadata = [(''planDigest'', planDigest)]\<rparr>)"

text \<open>
  The second half of the transaction: the insert, the read back, and the audit record when a row was
  inserted. Another transaction may have bound a plan after this one read that there was none, so the
  half is stated for any tables.
\<close>

definition bind_plan_insert ::
  "(string \<Rightarrow> string) \<Rightarrow> instant \<Rightarrow> ExecutionPlanBinding \<Rightarrow> string \<Rightarrow> plan_db \<Rightarrow> ExecutionPlan result \<times> plan_db" where
  "bind_plan_insert sha256 now normalized planDigest d =
     (let plan = epb_Plan normalized;
          row = \<lparr>plr_plan = plan, plr_plan_digest = planDigest, plr_bound_by = epb_ActorID normalized,
                 plr_correlation_id = epb_CorrelationID normalized, plr_created_at = now\<rparr>
      in if plan_insert_refused d plan then (Inl (persistence_error ''bind execution plan''), d)
         else
           (let (plans, affected) =
                  insert_on_conflict_nothing (\<lambda>new old. plan_key (plr_plan new) = plan_key (plr_plan old)) row (pdb_plans d);
                inserted = d\<lparr>pdb_plans := plans\<rparr>
            in case ReadExecutionPlan sha256 inserted (pln_IsolationDomainID plan) (pln_RevisionID plan) of
                 Inl err \<Rightarrow> (Inl err, d)
               | Inr existing \<Rightarrow>
                   if \<not> EqualExecutionPlans existing plan then (Inl (Sentinel ErrExecutionPlanConflict), d)
                   else if affected = 1
                   then (Inr existing, inserted\<lparr>pdb_audit := pdb_audit d @ [plan_audit_row sha256 normalized planDigest now]\<rparr>)
                   else (Inr existing, inserted)))"

definition BindExecutionPlan ::
  "(string \<Rightarrow> string) \<Rightarrow> instant \<Rightarrow> ExecutionPlanBinding \<Rightarrow> plan_db \<Rightarrow> ExecutionPlan result \<times> plan_db" where
  "BindExecutionPlan sha256 now binding d =
     (case NormalizeExecutionPlanBinding binding of
        Inl err \<Rightarrow> (Inl err, d)
      | Inr normalized \<Rightarrow>
          (let plan = epb_Plan normalized in
           case DigestExecutionPlan sha256 plan of
             Inl err \<Rightarrow> (Inl err, d)
           | Inr planDigest \<Rightarrow>
               (case sql_select (\<lambda>r. rev_domain r = pln_IsolationDomainID plan \<and> rev_id r = pln_RevisionID plan)
                       (pdb_revisions d) of
                  None \<Rightarrow> (Inl (Sentinel ErrExecutionPlanRevisionMissing), d)
                | Some revision \<Rightarrow>
                    (case NormalizeCapabilities (rev_required_capabilities revision) of
                       Inl _ \<Rightarrow> (Inl (Sentinel ErrExecutionPlanRevisionMismatch), d)
                     | Inr revisionCapabilities \<Rightarrow>
                         if rev_runtime_profile revision \<noteq> pln_RuntimeProfile plan \<or>
                            elements revisionCapabilities \<noteq> elements (pln_RequiredCapabilities plan)
                         then (Inl (Sentinel ErrExecutionPlanRevisionMismatch), d)
                         else
                           (case ReadExecutionPlan sha256 d (pln_IsolationDomainID plan) (pln_RevisionID plan) of
                              Inr existing \<Rightarrow>
                                if \<not> EqualExecutionPlans existing plan
                                then (Inl (Sentinel ErrExecutionPlanConflict), d)
                                else (Inr existing, d)
                            | Inl err \<Rightarrow>
                                if \<not> errors_Is err ErrExecutionPlanMissing then (Inl err, d)
                                else bind_plan_insert sha256 now normalized planDigest d)))))"

section \<open>The store keeps its contract\<close>

text \<open>Every row is a normal plan with its digest, one for a revision, and no array is NULL.\<close>

definition plans_ok :: "(string \<Rightarrow> string) \<Rightarrow> plan_db \<Rightarrow> bool" where
  "plans_ok sha256 d \<longleftrightarrow>
     unique_by (\<lambda>row. plan_key (plr_plan row)) (pdb_plans d) \<and>
     (\<forall>row \<in> set (pdb_plans d). plan_normal (plr_plan row) \<and>
        DigestExecutionPlan sha256 (plr_plan row) = Inr (plr_plan_digest row) \<and>
        pln_ProviderProfiles (plr_plan row) \<noteq> None \<and> pln_RequiredCapabilities (plr_plan row) \<noteq> None)"

lemma ReadExecutionPlan_Inr:
  assumes "plans_ok sha256 d"
  shows "ReadExecutionPlan sha256 d i r = Inr p \<longleftrightarrow>
    (\<exists>row \<in> set (pdb_plans d). plr_plan row = p \<and> plan_key p = (i, r))"
proof
  assume "ReadExecutionPlan sha256 d i r = Inr p"
  then obtain row where "sql_select (plan_row_at i r) (pdb_plans d) = Some row"
      and p: "NormalizeExecutionPlan (plr_plan row) = Inr p"
    by (auto simp: ReadExecutionPlan_def split: option.splits sum.splits if_splits)
  then have row: "row \<in> set (pdb_plans d)" "plan_key (plr_plan row) = (i, r)"
    by (auto dest: sql_select_Some simp: plan_row_at_def)
  with assms p have "p = plr_plan row" by (auto simp: plans_ok_def plan_normal_fixed)
  with row show "\<exists>row \<in> set (pdb_plans d). plr_plan row = p \<and> plan_key p = (i, r)" by auto
next
  assume "\<exists>row \<in> set (pdb_plans d). plr_plan row = p \<and> plan_key p = (i, r)"
  then obtain row where row: "row \<in> set (pdb_plans d)" "plr_plan row = p" "plan_key p = (i, r)" by blast
  with assms have "sql_select (plan_row_at i r) (pdb_plans d) = Some row"
    by (intro sql_select_unique [where key = "\<lambda>row. plan_key (plr_plan row)" and k = "(i, r)"])
      (auto simp: plans_ok_def plan_row_at_def)
  moreover have "plan_normal p" "DigestExecutionPlan sha256 p = Inr (plr_plan_digest row)"
    using assms row by (auto simp: plans_ok_def)
  ultimately show "ReadExecutionPlan sha256 d i r = Inr p"
    using row by (simp add: ReadExecutionPlan_def plan_normal_fixed)
qed

lemma ReadExecutionPlan_missing:
  assumes "plans_ok sha256 d"
  shows "ReadExecutionPlan sha256 d i r = Inl (Sentinel ErrExecutionPlanMissing) \<longleftrightarrow>
    (\<forall>row \<in> set (pdb_plans d). plan_key (plr_plan row) \<noteq> (i, r))"
    and "ReadExecutionPlan sha256 d i r = Inl err \<Longrightarrow> err = Sentinel ErrExecutionPlanMissing"
proof -
  have none: "ReadExecutionPlan sha256 d i r = Inl (Sentinel ErrExecutionPlanMissing)"
    if "\<forall>row \<in> set (pdb_plans d). plan_key (plr_plan row) \<noteq> (i, r)"
    using that by (simp add: ReadExecutionPlan_def sql_select_None [THEN iffD2] plan_row_at_def)
  have some: "\<exists>p. ReadExecutionPlan sha256 d i r = Inr p"
    if "row \<in> set (pdb_plans d)" "plan_key (plr_plan row) = (i, r)" for row
    using that ReadExecutionPlan_Inr [OF assms, of i r "plr_plan row"] by blast
  from none some show "ReadExecutionPlan sha256 d i r = Inl (Sentinel ErrExecutionPlanMissing) \<longleftrightarrow>
    (\<forall>row \<in> set (pdb_plans d). plan_key (plr_plan row) \<noteq> (i, r))" by fastforce
  from none some show "ReadExecutionPlan sha256 d i r = Inl err \<Longrightarrow> err = Sentinel ErrExecutionPlanMissing" by fastforce
qed

lemma plans_ok_insert:
  assumes "plans_ok sha256 d" and "plan_normal plan" and "DigestExecutionPlan sha256 plan = Inr digest"
    and "\<not> plan_insert_refused d plan" and "\<forall>old \<in> set (pdb_plans d). plan_key plan \<noteq> plan_key (plr_plan old)"
    and "plr_plan row = plan" and "plr_plan_digest row = digest"
  shows "plans_ok sha256 (d\<lparr>pdb_plans := pdb_plans d @ [row]\<rparr>)"
  using assms by (auto simp: plans_ok_def unique_by_def plan_insert_refused_def image_iff)

text \<open>Whatever another transaction bound before the insert, the half either changes nothing and fails, or
  returns a stored plan equal to the requested one and keeps every stored plan.\<close>

lemma bind_plan_insert_contract:
  assumes ok: "plans_ok sha256 d" and normal: "plan_normal (epb_Plan n)"
    and digest: "DigestExecutionPlan sha256 (epb_Plan n) = Inr digest"
    and res: "bind_plan_insert sha256 now n digest d = (res, d')"
  shows "plans_ok sha256 d' \<and> set (pdb_plans d) \<subseteq> set (pdb_plans d') \<and> pdb_revisions d' = pdb_revisions d \<and>
    (case res of Inl _ \<Rightarrow> d' = d
     | Inr p \<Rightarrow> EqualExecutionPlans p (epb_Plan n) \<and> p \<in> plr_plan ` set (pdb_plans d'))"
proof -
  define row where "row = \<lparr>plr_plan = epb_Plan n, plr_plan_digest = digest, plr_bound_by = epb_ActorID n,
    plr_correlation_id = epb_CorrelationID n, plr_created_at = now\<rparr>"
  obtain plans affected where ins:
    "insert_on_conflict_nothing (\<lambda>new old. plan_key (plr_plan new) = plan_key (plr_plan old)) row (pdb_plans d) = (plans, affected)"
    by fastforce
  define e where "e = d\<lparr>pdb_plans := plans\<rparr>"
  show ?thesis
  proof (cases "plan_insert_refused d (epb_Plan n)")
    case True
    with res ok show ?thesis by (auto simp: bind_plan_insert_def)
  next
    case False
    have e: "plans_ok sha256 e" "set (pdb_plans d) \<subseteq> set (pdb_plans e)" "pdb_revisions e = pdb_revisions d"
      using insert_on_conflict_nothing_cases [OF ins] ok
        plans_ok_insert [OF ok normal digest False, of row]
      by (auto simp: e_def row_def)
    have audit: "plans_ok sha256 (e\<lparr>pdb_audit := a\<rparr>)" for a using e(1) by (simp add: plans_ok_def)
    have "(case ReadExecutionPlan sha256 e (pln_IsolationDomainID (epb_Plan n)) (pln_RevisionID (epb_Plan n)) of
        Inl err \<Rightarrow> (Inl err, d)
      | Inr existing \<Rightarrow>
          if \<not> EqualExecutionPlans existing (epb_Plan n) then (Inl (Sentinel ErrExecutionPlanConflict), d)
          else if affected = 1
          then (Inr existing, e\<lparr>pdb_audit := pdb_audit d @ [plan_audit_row sha256 n digest now]\<rparr>)
          else (Inr existing, e)) = (res, d')"
      using res False ins unfolding e_def by (simp add: bind_plan_insert_def Let_def row_def [symmetric])
    with e audit ok show ?thesis
      by (auto simp: ReadExecutionPlan_Inr [OF e(1)] split: sum.splits if_splits)
  qed
qed

lemma BindExecutionPlan_contract:
  assumes ok: "plans_ok sha256 d" and res: "BindExecutionPlan sha256 now b d = (res, d')"
  shows "plans_ok sha256 d' \<and> set (pdb_plans d) \<subseteq> set (pdb_plans d') \<and> pdb_revisions d' = pdb_revisions d \<and>
    (case res of Inl _ \<Rightarrow> d' = d
     | Inr p \<Rightarrow> (\<exists>w. plan_canon b = Inr w \<and> EqualExecutionPlans p w \<and> p \<in> plr_plan ` set (pdb_plans d')))"
proof (cases "NormalizeExecutionPlanBinding b")
  case (Inl err)
  with res ok show ?thesis by (auto simp: BindExecutionPlan_def)
next
  case (Inr n)
  have normal: "plan_normal (epb_Plan n)" using Inr by (rule NormalizeExecutionPlanBinding_InrD(2))
  then obtain digest where digest: "DigestExecutionPlan sha256 (epb_Plan n) = Inr digest"
    by (simp add: DigestExecutionPlan_def plan_normal_fixed)
  have canon: "plan_canon b = Inr (epb_Plan n)" using Inr by (simp add: plan_canon_def)
  define stored where
    "stored = ReadExecutionPlan sha256 d (pln_IsolationDomainID (epb_Plan n)) (pln_RevisionID (epb_Plan n))"
  consider (kept) "d' = d" "\<forall>p. res = Inr p \<longrightarrow> EqualExecutionPlans p (epb_Plan n) \<and> stored = Inr p"
    | (insert) "bind_plan_insert sha256 now n digest d = (res, d')"
    using res Inr digest
    by (cases stored)
      (auto simp: BindExecutionPlan_def Let_def stored_def [symmetric] split: option.splits sum.splits if_splits)
  then show ?thesis
  proof cases
    case kept
    with ok canon show ?thesis by (cases res) (auto simp: stored_def ReadExecutionPlan_Inr)
  next
    case insert
    from bind_plan_insert_contract [OF ok normal digest insert] canon show ?thesis by (auto split: sum.splits)
  qed
qed

interpretation pg_plans: binding_store "\<lambda>(now, binding). BindExecutionPlan sha256 now binding"
  "\<lambda>d k. GetExecutionPlan sha256 d (fst k) (snd k)" plan_key "\<lambda>(now, binding). plan_canon binding"
  EqualExecutionPlans "plans_ok sha256"
  for sha256 :: "string \<Rightarrow> string"
proof (unfold_locales; (simp only: split_paired_all prod.case)?)
  fix d now b assume "plans_ok sha256 d"
  then show "plans_ok sha256 (snd (BindExecutionPlan sha256 now b d))"
    using BindExecutionPlan_contract [of sha256 d now b] by (metis prod.collapse)
next
  fix d now b v assume ok: "plans_ok sha256 d" and v: "fst (BindExecutionPlan sha256 now b d) = Inr v"
  obtain d' where res: "BindExecutionPlan sha256 now b d = (Inr v, d')" using v by (metis prod.collapse)
  from BindExecutionPlan_contract [OF ok res] obtain w where w: "plan_canon b = Inr w" "EqualExecutionPlans v w"
    "v \<in> plr_plan ` set (pdb_plans d')" and ok': "plans_ok sha256 d'" by auto
  from w(3) have "GetExecutionPlan sha256 d' (fst (plan_key v)) (snd (plan_key v)) = Inr v"
    unfolding GetExecutionPlan_def ReadExecutionPlan_Inr [OF ok'] by auto
  with w res show "GetExecutionPlan sha256 (snd (BindExecutionPlan sha256 now b d)) (fst (plan_key v)) (snd (plan_key v)) = Inr v \<and>
      (\<exists>w. plan_canon b = Inr w \<and> plan_key w = plan_key v \<and> EqualExecutionPlans v w)"
    using EqualExecutionPlans_key by auto
next
  fix d k v now b assume ok: "plans_ok sha256 d" and v: "GetExecutionPlan sha256 d (fst k) (snd k) = Inr v"
  obtain res d' where res: "BindExecutionPlan sha256 now b d = (res, d')" by fastforce
  from BindExecutionPlan_contract [OF ok res] v
  show "GetExecutionPlan sha256 (snd (BindExecutionPlan sha256 now b d)) (fst k) (snd k) = Inr v"
    unfolding GetExecutionPlan_def using ok res by (auto simp: ReadExecutionPlan_Inr)
next
  fix d k v now b w assume ok: "plans_ok sha256 d" and v: "GetExecutionPlan sha256 d (fst k) (snd k) = Inr v"
    and w: "plan_canon b = Inr w" "plan_key w = k" "\<not> EqualExecutionPlans v w"
  obtain res d' where res: "BindExecutionPlan sha256 now b d = (res, d')" by fastforce
  note contract = BindExecutionPlan_contract [OF ok res]
  have "res \<noteq> Inr p" for p
  proof
    assume p: "res = Inr p"
    with contract w have "EqualExecutionPlans p w" "p \<in> plr_plan ` set (pdb_plans d')" by auto
    moreover from v contract ok have "v \<in> plr_plan ` set (pdb_plans d')" "plan_key v = k"
      by (auto simp: GetExecutionPlan_def ReadExecutionPlan_Inr)
    ultimately have "p = v"
      using contract w EqualExecutionPlans_key [of p w] by (auto simp: plans_ok_def dest: unique_by_eq)
    with w \<open>EqualExecutionPlans p w\<close> show False by simp
  qed
  then obtain err where "res = Inl err" by (cases res) auto
  with contract res show "\<exists>err. BindExecutionPlan sha256 now b d = (Inl err, d)" by auto
qed

section \<open>Bound plans are immutable\<close>

lemma BindExecutionPlan_revision:
  assumes "BindExecutionPlan sha256 now b d = (Inr p, d')"
  obtains w revision where "plan_canon b = Inr w" and "revision \<in> set (pdb_revisions d)"
    and "rev_domain revision = pln_IsolationDomainID w" and "rev_id revision = pln_RevisionID w"
    and "rev_runtime_profile revision = pln_RuntimeProfile w"
    and "set (rev_required_capabilities revision) = set (elements (pln_RequiredCapabilities w))"
proof -
  from assms obtain n revision caps where n: "NormalizeExecutionPlanBinding b = Inr n"
    and rev: "sql_select (\<lambda>r. rev_domain r = pln_IsolationDomainID (epb_Plan n) \<and> rev_id r = pln_RevisionID (epb_Plan n))
        (pdb_revisions d) = Some revision"
    and caps: "NormalizeCapabilities (rev_required_capabilities revision) = Inr caps"
    and eq: "rev_runtime_profile revision = pln_RuntimeProfile (epb_Plan n)"
      "elements caps = elements (pln_RequiredCapabilities (epb_Plan n))"
    by (auto simp: BindExecutionPlan_def Let_def split: option.splits sum.splits if_splits)
  from caps have "set (elements caps) = set (rev_required_capabilities revision)"
    by (auto simp: NormalizeCapabilities_def split: if_splits)
  with n eq sql_select_Some [OF rev] show ?thesis by (intro that [of "epb_Plan n" revision]) (auto simp: plan_canon_def)
qed

text \<open>C28. A bound plan is final. After a successful bind, and after any further binds, reading the plan of
  that revision returns the plan that was bound; a bind of any other plan for the revision fails and
  changes nothing; and the plan has the runtime profile and the capabilities of its service revision.\<close>

theorem plan_bound_forever:
  assumes "plans_ok sha256 d" and "BindExecutionPlan sha256 now b d = (Inr p, d')"
    and "d'' = fold (\<lambda>(t, c). snd \<circ> BindExecutionPlan sha256 t c) later d'"
  shows "GetExecutionPlan sha256 d'' (pln_IsolationDomainID p) (pln_RevisionID p) = Inr p \<and>
    (\<forall>c w t. plan_canon c = Inr w \<longrightarrow> plan_key w = plan_key p \<longrightarrow> \<not> EqualExecutionPlans p w \<longrightarrow>
      (\<exists>err. BindExecutionPlan sha256 t c d'' = (Inl err, d''))) \<and>
    (\<exists>revision \<in> set (pdb_revisions d). rev_domain revision = pln_IsolationDomainID p \<and>
      rev_id revision = pln_RevisionID p \<and> rev_runtime_profile revision = pln_RuntimeProfile p \<and>
      set (rev_required_capabilities revision) = set (elements (pln_RequiredCapabilities p)))"
proof (intro conjI allI impI)
  have fold: "d'' = fold (\<lambda>b. snd \<circ> (case b of (t, c) \<Rightarrow> BindExecutionPlan sha256 t c)) later
      (snd ((case (now, b) of (t, c) \<Rightarrow> BindExecutionPlan sha256 t c) d))"
    using assms(2,3) by (simp add: case_prod_unfold)
  have bound: "fst ((case (now, b) of (t, c) \<Rightarrow> BindExecutionPlan sha256 t c) d) = Inr p" using assms(2) by simp
  show "GetExecutionPlan sha256 d'' (pln_IsolationDomainID p) (pln_RevisionID p) = Inr p"
    using pg_plans.bound_forever [OF assms(1) bound, of later] unfolding fold plan_key_def fst_conv snd_conv .
  fix c w t assume that: "plan_canon c = Inr w" "plan_key w = plan_key p" "\<not> EqualExecutionPlans p w"
  then show "\<exists>err. BindExecutionPlan sha256 t c d'' = (Inl err, d'')"
    using pg_plans.replacement_refused [OF assms(1) bound _ that(2,3) fold, of "(t, c)"] that(1) by simp
next
  obtain w' revision where w': "plan_canon b = Inr w'" "revision \<in> set (pdb_revisions d)"
    "rev_domain revision = pln_IsolationDomainID w'" "rev_id revision = pln_RevisionID w'"
    "rev_runtime_profile revision = pln_RuntimeProfile w'"
    "set (rev_required_capabilities revision) = set (elements (pln_RequiredCapabilities w'))"
    using assms(2) by (rule BindExecutionPlan_revision)
  moreover from BindExecutionPlan_contract [OF assms(1,2)] w'(1) have "EqualExecutionPlans p w'" by auto
  ultimately show "\<exists>revision \<in> set (pdb_revisions d). rev_domain revision = pln_IsolationDomainID p \<and>
      rev_id revision = pln_RevisionID p \<and> rev_runtime_profile revision = pln_RuntimeProfile p \<and>
      set (rev_required_capabilities revision) = set (elements (pln_RequiredCapabilities p))"
    by (auto simp: EqualExecutionPlans_def)
qed

section \<open>The process-local store conforms\<close>

text \<open>The two stores hold the same plans, in every isolation domain that the process-local key can tell apart.\<close>

definition plans_agree :: "(string \<Rightarrow> string) \<Rightarrow> MemoryExecutionPlanStore \<Rightarrow> plan_db \<Rightarrow> bool" where
  "plans_agree sha256 m d \<longleftrightarrow>
     (\<forall>i r p. CHR 0x00 \<notin> set i \<longrightarrow>
        (memory_GetExecutionPlan m i r = Inr p \<longleftrightarrow> GetExecutionPlan sha256 d i r = Inr p))"

lemma plan_normal_domain:
  assumes "plan_normal p"
  shows "CHR 0x00 \<notin> set (pln_IsolationDomainID p)"
proof -
  have "resource_id_pattern ''iso'' (pln_IsolationDomainID p)"
    using assms by (auto simp: plan_normal_def plan_field_error_def split: if_splits)
  then obtain t where t: "pln_IsolationDomainID p = ''iso_'' @ t" "list_all id_char t"
    by (auto simp: resource_id_pattern_def match_prefixed_def HasPrefix_iff)
  have "\<not> id_char (CHR 0x00)" by (simp add: char_class_defs byte_def)
  with t show ?thesis by (auto simp: list_all_iff)
qed

lemma plans_agree_insert:
  assumes "plans_agree sha256 m d" and "plans_ok sha256 d" and "plans_ok sha256 d'" and "plan_normal p"
    and "memory_plans_ok m" and "pdb_plans d' = pdb_plans d @ [row]" and "plr_plan row = p"
  shows "plans_agree sha256 (m(scopedKey (pln_IsolationDomainID p) (pln_RevisionID p) \<mapsto> p)) d'"
  unfolding plans_agree_def
proof (intro allI impI)
  fix i r q assume i: "CHR 0x00 \<notin> set i"
  show "memory_GetExecutionPlan (m(scopedKey (pln_IsolationDomainID p) (pln_RevisionID p) \<mapsto> p)) i r = Inr q \<longleftrightarrow>
      GetExecutionPlan sha256 d' i r = Inr q"
  proof (cases "plan_key p = (i, r)")
    case True
    then have "GetExecutionPlan sha256 d' i r = Inr p"
      using assms(6,7) by (auto simp: GetExecutionPlan_def ReadExecutionPlan_Inr [OF assms(3)])
    with True show ?thesis by (auto simp: memory_GetExecutionPlan_def plan_key_def)
  next
    case False
    then have "scopedKey i r \<noteq> scopedKey (pln_IsolationDomainID p) (pln_RevisionID p)"
      using scopedKey_inject [OF i plan_normal_domain [OF assms(4)]] by (auto simp: plan_key_def)
    then have "memory_GetExecutionPlan (m(scopedKey (pln_IsolationDomainID p) (pln_RevisionID p) \<mapsto> p)) i r
        = memory_GetExecutionPlan m i r"
      by (simp add: memory_GetExecutionPlan_def)
    with False assms(1,6,7) i show ?thesis
      by (auto simp: plans_agree_def GetExecutionPlan_def ReadExecutionPlan_Inr assms(2,3))
  qed
qed

lemma bind_plan_insert_fresh:
  assumes ok: "plans_ok sha256 d" and normal: "plan_normal (epb_Plan n)"
    and digest: "DigestExecutionPlan sha256 (epb_Plan n) = Inr digest"
    and fresh: "\<forall>row \<in> set (pdb_plans d). plan_key (plr_plan row) \<noteq> plan_key (epb_Plan n)"
    and "\<not> plan_insert_refused d (epb_Plan n)"
  shows "bind_plan_insert sha256 now n digest d =
    (Inr (epb_Plan n), d\<lparr>pdb_plans := pdb_plans d @ [\<lparr>plr_plan = epb_Plan n, plr_plan_digest = digest,
        plr_bound_by = epb_ActorID n, plr_correlation_id = epb_CorrelationID n, plr_created_at = now\<rparr>],
      pdb_audit := pdb_audit d @ [plan_audit_row sha256 n digest now]\<rparr>)"
proof -
  define row where "row = \<lparr>plr_plan = epb_Plan n, plr_plan_digest = digest, plr_bound_by = epb_ActorID n,
    plr_correlation_id = epb_CorrelationID n, plr_created_at = now\<rparr>"
  have "insert_on_conflict_nothing (\<lambda>new old. plan_key (plr_plan new) = plan_key (plr_plan old)) row (pdb_plans d)
      = (pdb_plans d @ [row], 1)"
    using fresh by (auto simp: insert_on_conflict_nothing_def row_def)
  moreover have "plans_ok sha256 (d\<lparr>pdb_plans := pdb_plans d @ [row]\<rparr>)"
    using assms by (intro plans_ok_insert) (auto simp: row_def)
  then have "ReadExecutionPlan sha256 (d\<lparr>pdb_plans := pdb_plans d @ [row]\<rparr>)
      (pln_IsolationDomainID (epb_Plan n)) (pln_RevisionID (epb_Plan n)) = Inr (epb_Plan n)"
    by (simp add: ReadExecutionPlan_Inr) (simp add: row_def plan_key_def)
  ultimately show ?thesis
    using assms(5) unfolding bind_plan_insert_def row_def [symmetric] Let_def by simp
qed

lemma BindExecutionPlan_cases [consumes 3, case_names rejected conflict replay inserted]:
  assumes ok: "plans_ok sha256 d" and n: "NormalizeExecutionPlanBinding b = Inr n"
    and res: "BindExecutionPlan sha256 now b d = (res, d')"
  obtains err where "res = Inl err" "d' = d" "err \<noteq> Sentinel ErrExecutionPlanConflict"
    | q where "res = Inl (Sentinel ErrExecutionPlanConflict)" "d' = d" "\<not> EqualExecutionPlans q (epb_Plan n)"
      "GetExecutionPlan sha256 d (pln_IsolationDomainID (epb_Plan n)) (pln_RevisionID (epb_Plan n)) = Inr q"
    | p where "res = Inr p" "d' = d" "EqualExecutionPlans p (epb_Plan n)"
      "GetExecutionPlan sha256 d (pln_IsolationDomainID (epb_Plan n)) (pln_RevisionID (epb_Plan n)) = Inr p"
    | row where "res = Inr (epb_Plan n)" "pdb_plans d' = pdb_plans d @ [row]" "plr_plan row = epb_Plan n"
      "GetExecutionPlan sha256 d (pln_IsolationDomainID (epb_Plan n)) (pln_RevisionID (epb_Plan n))
        = Inl (Sentinel ErrExecutionPlanMissing)"
proof -
  have normal: "plan_normal (epb_Plan n)" using n by (rule NormalizeExecutionPlanBinding_InrD(2))
  then obtain digest where digest: "DigestExecutionPlan sha256 (epb_Plan n) = Inr digest"
    by (simp add: DigestExecutionPlan_def plan_normal_fixed)
  define stored where
    "stored = GetExecutionPlan sha256 d (pln_IsolationDomainID (epb_Plan n)) (pln_RevisionID (epb_Plan n))"
  have missing: "err = Sentinel ErrExecutionPlanMissing" if "stored = Inl err" for err
    using that ReadExecutionPlan_missing(2) [OF ok] by (simp add: stored_def GetExecutionPlan_def)
  consider (early) err where "res = Inl err" "d' = d" "err \<noteq> Sentinel ErrExecutionPlanConflict"
    | (stored) q where "stored = Inr q" "d' = d"
        "res = (if EqualExecutionPlans q (epb_Plan n) then Inr q else Inl (Sentinel ErrExecutionPlanConflict))"
    | (fresh) "stored = Inl (Sentinel ErrExecutionPlanMissing)" "bind_plan_insert sha256 now n digest d = (res, d')"
    using res n digest missing
    by (cases stored)
      (auto simp: BindExecutionPlan_def Let_def GetExecutionPlan_def [symmetric] stored_def [symmetric]
        split: option.splits sum.splits if_splits)
  then show thesis
  proof cases
    case (early err)
    then show thesis by (rule that(1))
  next
    case (stored q)
    then show thesis using that(2,3) [of q] by (cases "EqualExecutionPlans q (epb_Plan n)") (simp_all add: stored_def)
  next
    case fresh
    then have new: "\<forall>row \<in> set (pdb_plans d). plan_key (plr_plan row) \<noteq> plan_key (epb_Plan n)"
      using ReadExecutionPlan_missing(1) [OF ok] by (simp add: stored_def GetExecutionPlan_def plan_key_def [of "epb_Plan n"])
    show thesis
    proof (cases "plan_insert_refused d (epb_Plan n)")
      case True
      with fresh(2) show thesis by (intro that(1)) (auto simp: bind_plan_insert_def persistence_error_def)
    next
      case False
      with fresh bind_plan_insert_fresh [OF ok normal digest new, of now] show thesis
        by (intro that(4)) (auto simp: stored_def)
    qed
  qed
qed

lemma memory_GetExecutionPlan_Inr:
  "memory_GetExecutionPlan m i r = Inr p \<longleftrightarrow> m (scopedKey i r) = Some p"
  by (auto simp: memory_GetExecutionPlan_def split: option.splits)

text \<open>C29. The process-local plan store is a faithful stand-in for the durable one. From stores that hold the
  same plans, a bind that the durable store accepts is accepted by the process-local store with the same
  answer and leaves them holding the same plans, and a bind that it refuses as a conflict is refused as a
  conflict by both.\<close>

theorem plan_stores_conform:
  assumes "memory_plans_ok m" and "plans_ok sha256 d" and "plans_agree sha256 m d"
    and "BindExecutionPlan sha256 now b d = (res, d')" and "memory_BindExecutionPlan b m = (res', m')"
  shows "(res = Inr p \<longrightarrow> res' = Inr p \<and> plans_agree sha256 m' d') \<and>
    (res = Inl (Sentinel ErrExecutionPlanConflict) \<longrightarrow> res' = res \<and> m' = m \<and> d' = d)"
proof (cases "NormalizeExecutionPlanBinding b")
  case (Inl err)
  with assms(4,5) show ?thesis by (auto simp: BindExecutionPlan_def memory_BindExecutionPlan_def)
next
  case (Inr n)
  define k where "k = scopedKey (pln_IsolationDomainID (epb_Plan n)) (pln_RevisionID (epb_Plan n))"
  have normal: "plan_normal (epb_Plan n)" using Inr by (rule NormalizeExecutionPlanBinding_InrD(2))
  have agree: "m k = Some q \<longleftrightarrow>
      GetExecutionPlan sha256 d (pln_IsolationDomainID (epb_Plan n)) (pln_RevisionID (epb_Plan n)) = Inr q" for q
    using assms(3) plan_normal_domain [OF normal] by (simp add: plans_agree_def memory_GetExecutionPlan_Inr k_def)
  have mem: "(res', m') = (case m k of None \<Rightarrow> (Inr (epb_Plan n), m(k \<mapsto> epb_Plan n))
      | Some e \<Rightarrow> if EqualExecutionPlans e (epb_Plan n) then (Inr e, m) else (Inl (Sentinel ErrExecutionPlanConflict), m))"
    using assms(5) Inr by (auto simp: memory_BindExecutionPlan_def Let_def k_def split: option.splits)
  from assms(2) Inr assms(4) show ?thesis
  proof (cases rule: BindExecutionPlan_cases)
    case (inserted row)
    then have "m k = None" using agree by (cases "m k") auto
    with mem have "res' = Inr (epb_Plan n)" "m' = m(k \<mapsto> epb_Plan n)" by auto
    moreover have "plans_ok sha256 d'" using BindExecutionPlan_contract [OF assms(2,4)] by simp
    ultimately show ?thesis
      using plans_agree_insert [OF assms(3,2) _ normal assms(1) inserted(2,3)] inserted(1) by (auto simp: k_def)
  next
    case (conflict q)
    then have "m k = Some q" using agree by simp
    with mem conflict show ?thesis by auto
  next
    case (replay q)
    then have "m k = Some q" using agree by simp
    with mem replay assms(3) show ?thesis by auto
  qed simp
qed

section \<open>A concrete store\<close>

definition demo_plan_binding :: ExecutionPlanBinding where
  "demo_plan_binding = \<lparr>epb_Plan = demo_plan, epb_ActorID = ''alice'', epb_CorrelationID = ''cor-1''\<rparr>"

definition demo_revision :: revision_row where
  "demo_revision = \<lparr>rev_domain = zero_id ''iso'', rev_id = zero_id ''rev'', rev_service_id = ''svc'', rev_number = 1,
     rev_state = ''draft'', rev_runtime_profile = ''codex'', rev_required_capabilities = [''shell'', ''codex''],
     rev_input_schema = None, rev_output_schema = None, rev_published_at = None, rev_generation = 1,
     rev_version = 1, rev_created_at = 0, rev_updated_at = 0, rev_created_by = ''alice''\<rparr>"

definition demo_plan_db :: plan_db where
  "demo_plan_db = \<lparr>pdb_revisions = [demo_revision], pdb_completed_sources = [], pdb_plans = [], pdb_audit = []\<rparr>"

lemma demo_binding_normalizes:
  "NormalizeExecutionPlanBinding demo_plan_binding = Inr (demo_plan_binding\<lparr>epb_Plan := demo_normal_plan\<rparr>)"
  by (simp add: NormalizeExecutionPlanBinding_def demo_plan_binding_def demo_plan_normalizes printable_portable
      printable_def byte_def)

lemma demo_plans_ok: "plans_ok sha256 demo_plan_db"
  by (simp add: plans_ok_def demo_plan_db_def unique_by_def)

lemma demo_bind: "fst (BindExecutionPlan sha256 now demo_plan_binding demo_plan_db) = Inr demo_normal_plan"
proof -
  have normal: "plan_normal demo_normal_plan" using NormalizeExecutionPlan_InrD(1) [OF demo_plan_normalizes] .
  then obtain digest where digest: "DigestExecutionPlan sha256 demo_normal_plan = Inr digest"
    by (simp add: DigestExecutionPlan_def plan_normal_fixed)
  have fields: "pln_IsolationDomainID demo_normal_plan = zero_id ''iso''" "pln_RevisionID demo_normal_plan = zero_id ''rev''"
    "pln_RuntimeProfile demo_normal_plan = ''codex''" "pln_RequiredCapabilities demo_normal_plan = Some [''codex'', ''shell'']"
    by (simp_all add: demo_normal_plan_def demo_plan_def)
  have "\<not> plan_insert_refused demo_plan_db demo_normal_plan"
    by (simp add: plan_insert_refused_def plan_source_refused_def demo_normal_plan_def demo_plan_def
        ExecutionPlanSchemaV1_def ExecutionPlanSchemaV2_def)
  with bind_plan_insert_fresh [OF demo_plans_ok, of "demo_plan_binding\<lparr>epb_Plan := demo_normal_plan\<rparr>" sha256 digest now]
  have "fst (bind_plan_insert sha256 now (demo_plan_binding\<lparr>epb_Plan := demo_normal_plan\<rparr>) digest demo_plan_db) = Inr demo_normal_plan"
    using normal digest by (simp add: demo_plan_db_def)
  moreover have "ReadExecutionPlan sha256 demo_plan_db i r = Inl (Sentinel ErrExecutionPlanMissing)" for i r
    by (simp add: ReadExecutionPlan_def demo_plan_db_def sql_select_def)
  moreover have "sql_select (\<lambda>r. rev_domain r = zero_id ''iso'' \<and> rev_id r = zero_id ''rev'') (pdb_revisions demo_plan_db) = Some demo_revision"
    by (simp add: demo_plan_db_def sql_select_def demo_revision_def)
  moreover have "NormalizeCapabilities (rev_required_capabilities demo_revision) = Inr (Some [''codex'', ''shell''])"
    "rev_runtime_profile demo_revision = ''codex''"
    by (simp_all add: NormalizeCapabilities_def demo_revision_def sort_compact_def)
  ultimately show ?thesis by (simp add: BindExecutionPlan_def demo_binding_normalizes digest fields)
qed

theorem plan_bound_forever_witness:
  "GetExecutionPlan (\<lambda>bytes. bytes) (snd (BindExecutionPlan (\<lambda>bytes. bytes) 0 demo_plan_binding demo_plan_db))
     (zero_id ''iso'') (zero_id ''rev'') = Inr demo_normal_plan"
  using plan_bound_forever [THEN conjunct1, OF demo_plans_ok, of "\<lambda>bytes. bytes" 0 demo_plan_binding demo_normal_plan _ _ "[]"]
    demo_bind [of "\<lambda>bytes. bytes" 0]
  by (simp add: demo_normal_plan_def demo_plan_def prod_eq_iff)

theorem plan_stores_conform_witness:
  "fst (memory_BindExecutionPlan demo_plan_binding (\<lambda>_. None)) = Inr demo_normal_plan"
proof -
  have "plans_agree (\<lambda>bytes. bytes) (\<lambda>_. None) demo_plan_db"
    by (simp add: plans_agree_def memory_GetExecutionPlan_def GetExecutionPlan_def ReadExecutionPlan_def demo_plan_db_def sql_select_def)
  moreover have "memory_plans_ok (\<lambda>_. None)" by (simp add: memory_plans_ok_def)
  ultimately show ?thesis
    using plan_stores_conform [THEN conjunct1, THEN mp, OF _ demo_plans_ok _ prod.collapse [symmetric] prod.collapse [symmetric]] demo_bind by blast
qed

end
