(* ===== verification/Bundles.thy ===== *)
theory Bundles
  imports Plan_Store
begin

text \<open>
  Enforcement bundles: \<open>src/internal/execution/enforcement_bundle.go\<close> (records, object keys, reading and
  checking the bytes), \<open>enforcement_bundle_finalizer.go\<close> (durable write before binding), the policy check of
  \<open>admission.go\<close>, and the durable catalog \<open>postgres/bundle_store.go\<close> (migration 00004). Object stores and
  catalogs are arguments, records of functions over a world that the calls thread through. The context
  of a call is the function \<open>ctx_Err\<close> of the world: \<open>None\<close> until the call is cancelled, then the error.
\<close>

section \<open>Records\<close>

record EnforcementBundle =
  enb_IsolationDomainID :: string
  enb_ID :: string
  enb_RevisionID :: string
  enb_Digest :: string
  enb_Content :: string

record EnforcementBundleProvenance =
  prv_Producer :: string
  prv_SourceRevision :: string
  prv_CompilerVersion :: string
  prv_CatalogVersion :: string
  prv_TargetContractVersion :: string
  prv_Mode :: string
  prv_InputDigest :: string
  prv_BindingDigest :: string

record EnforcementBundleRecord =
  ebr_SchemaVersion :: string
  ebr_IsolationDomainID :: string
  ebr_ID :: string
  ebr_RevisionID :: string
  ebr_Digest :: string
  ebr_MediaType :: string
  ebr_SizeBytes :: int
  ebr_ObjectKey :: string
  ebr_Provenance :: EnforcementBundleProvenance

record EnforcementBundleBinding =
  ebb_Record :: EnforcementBundleRecord
  ebb_ActorID :: string
  ebb_CorrelationID :: string

record EnforcementBundleFinalization =
  ebf_Binding :: EnforcementBundleBinding
  ebf_Content :: string

definition EnforcementBundleSchemaV1 :: string where
  "EnforcementBundleSchemaV1 = ''dataground.enforcement-bundle/v1''"

definition EnforcementBundleMediaType :: string where
  "EnforcementBundleMediaType = ''application/yaml''"

definition enforcementBundleKeyPrefix :: string where
  "enforcementBundleKeyPrefix = ''enforcement-bundles/v1''"

definition enforcementBundleProducerV1 :: string where
  "enforcementBundleProducerV1 = ''rosetta''"

definition maximumEnforcementPolicyBytes :: int where
  "maximumEnforcementPolicyBytes = 4 * 1024 * 1024"

definition VerifyEnforcementPolicy :: "(string \<Rightarrow> string) \<Rightarrow> string \<Rightarrow> string \<Rightarrow> go_error option" where
  "VerifyEnforcementPolicy sha256 content digest =
     (if content = [] \<or> maximumEnforcementPolicyBytes < int (length content) \<or> \<not> digest_pattern digest
      then Some (Sentinel ErrPolicyInvalid)
      else if ''sha256:'' @ hex_EncodeToString (sha256 content) \<noteq> digest then Some (Sentinel ErrPolicyInvalid)
      else None)"

text \<open>\<open>strings.Join\<close> with slashes.\<close>

definition EnforcementBundleObjectKey :: "EnforcementBundleRecord \<Rightarrow> string" where
  "EnforcementBundleObjectKey r =
     enforcementBundleKeyPrefix @ ''/'' @ ebr_IsolationDomainID r @ ''/'' @ ebr_RevisionID r @ ''/'' @ ebr_ID r @
     ''/'' @ TrimPrefix (ebr_Digest r) ''sha256:'' @ ''.yaml''"

text \<open>\<open>^[0-9a-f]{40}$\<close>\<close>

definition source_revision_pattern :: "string \<Rightarrow> bool" where
  "source_revision_pattern = match_prefixed [] hex_char 40 40"

definition provenance_ok :: "EnforcementBundleProvenance \<Rightarrow> bool" where
  "provenance_ok p \<longleftrightarrow>
     prv_Producer p = enforcementBundleProducerV1 \<and> source_revision_pattern (prv_SourceRevision p) \<and>
     validPortableValue (prv_CompilerVersion p) 128 \<and> validPortableValue (prv_CatalogVersion p) 128 \<and>
     validPortableValue (prv_TargetContractVersion p) 128 \<and> prv_Mode p = ''strict'' \<and>
     digest_pattern (prv_InputDigest p) \<and> digest_pattern (prv_BindingDigest p)"

definition NormalizeEnforcementBundleRecord :: "EnforcementBundleRecord \<Rightarrow> EnforcementBundleRecord result" where
  "NormalizeEnforcementBundleRecord r =
     (if ebr_SchemaVersion r \<noteq> EnforcementBundleSchemaV1
      then Inl (errors_New ''unsupported enforcement bundle schema version'')
      else if \<not> resource_id_pattern ''iso'' (ebr_IsolationDomainID r) \<or> \<not> resource_id_pattern ''rev'' (ebr_RevisionID r)
      then Inl (errors_New ''invalid enforcement bundle scope'')
      else if \<not> opaque_identifier_pattern (ebr_ID r) \<or> \<not> digest_pattern (ebr_Digest r)
      then Inl (errors_New ''invalid enforcement bundle identity'')
      else if ebr_MediaType r \<noteq> EnforcementBundleMediaType \<or> ebr_SizeBytes r \<le> 0 \<or>
              maximumEnforcementPolicyBytes < ebr_SizeBytes r
      then Inl (errors_New ''invalid enforcement bundle object metadata'')
      else if \<not> provenance_ok (ebr_Provenance r)
      then Inl (errors_New ''invalid enforcement bundle provenance'')
      else if ebr_ObjectKey r \<noteq> [] \<and> ebr_ObjectKey r \<noteq> EnforcementBundleObjectKey r
      then Inl (errors_New ''invalid enforcement bundle object key'')
      else Inr (r\<lparr>ebr_ObjectKey := EnforcementBundleObjectKey r\<rparr>))"

definition NormalizeEnforcementBundleBinding :: "EnforcementBundleBinding \<Rightarrow> EnforcementBundleBinding result" where
  "NormalizeEnforcementBundleBinding b =
     (case NormalizeEnforcementBundleRecord (ebb_Record b) of
        Inl err \<Rightarrow> Inl err
      | Inr r \<Rightarrow>
          if \<not> validPortableValue (ebb_ActorID b) 256 then Inl (errors_New ''invalid enforcement bundle actor'')
          else if \<not> validPortableValue (ebb_CorrelationID b) 256
          then Inl (errors_New ''invalid enforcement bundle correlation identifier'')
          else Inr (b\<lparr>ebb_Record := r\<rparr>))"

definition EqualEnforcementBundleRecords :: "EnforcementBundleRecord \<Rightarrow> EnforcementBundleRecord \<Rightarrow> bool" where
  "EqualEnforcementBundleRecords left right \<longleftrightarrow> left = right"

section \<open>Reading a bundle\<close>

text \<open>
  The object store and the catalog. An object that is opened is read to its end: \<open>io.ReadAll\<close> and \<open>Close\<close> give the
  bytes of the stream, or an error. The limit reader cuts the stream one byte after the largest policy.
\<close>

record 'w EnforcementObjectReader =
  OpenEnforcementObject :: "string \<Rightarrow> 'w \<Rightarrow> string result result \<times> 'w"

record 'w EnforcementBundleCatalog =
  GetEnforcementBundleRecord :: "string \<Rightarrow> string \<Rightarrow> 'w \<Rightarrow> EnforcementBundleRecord result \<times> 'w"

record 'w EnforcementBundleStore = "'w EnforcementBundleCatalog" +
  BindEnforcementBundle :: "EnforcementBundleBinding \<Rightarrow> 'w \<Rightarrow> EnforcementBundleRecord result \<times> 'w"

record 'w EnforcementObjectWriter =
  PutEnforcementObjectIfAbsent :: "string \<Rightarrow> string \<Rightarrow> int \<Rightarrow> string \<Rightarrow> 'w \<Rightarrow> go_error option \<times> 'w"

text \<open>The error of a failed call: the context's error once the context is done, else the given one.\<close>

definition ctx_or :: "('w \<Rightarrow> go_error option) \<Rightarrow> 'w \<Rightarrow> go_error \<Rightarrow> go_error" where
  "ctx_or ctx_Err w err = (case ctx_Err w of Some cause \<Rightarrow> cause | None \<Rightarrow> err)"

definition readEnforcementObject ::
  "(string \<Rightarrow> string) \<Rightarrow> ('w \<Rightarrow> go_error option) \<Rightarrow> 'w EnforcementObjectReader \<Rightarrow> EnforcementBundleRecord \<Rightarrow>
   'w \<Rightarrow> string result \<times> 'w" where
  "readEnforcementObject sha256 ctx_Err objects record0 w =
     (case OpenEnforcementObject objects (ebr_ObjectKey record0) w of
        (Inl err, w) \<Rightarrow> (Inl (ctx_or ctx_Err w (Sentinel ErrEnforcementBundleUnavailable)), w)
      | (Inr (Inl err), w) \<Rightarrow> (Inl (ctx_or ctx_Err w (Sentinel ErrEnforcementBundleUnavailable)), w)
      | (Inr (Inr stream), w) \<Rightarrow>
          (let content = take (nat (maximumEnforcementPolicyBytes + 1)) stream in
           if int (length content) \<noteq> ebr_SizeBytes record0 \<or> maximumEnforcementPolicyBytes < int (length content) \<or>
              VerifyEnforcementPolicy sha256 content (ebr_Digest record0) \<noteq> None
           then (Inl (Sentinel ErrEnforcementBundleMismatch), w)
           else (Inr content, w)))"

definition GetEnforcementBundle ::
  "(string \<Rightarrow> string) \<Rightarrow> ('w \<Rightarrow> go_error option) \<Rightarrow> ('w, 'z) EnforcementBundleCatalog_scheme \<Rightarrow>
   'w EnforcementObjectReader \<Rightarrow> string \<Rightarrow> string \<Rightarrow> 'w \<Rightarrow> EnforcementBundle result \<times> 'w" where
  "GetEnforcementBundle sha256 ctx_Err catalog objects isolationDomainID bundleID w =
     (case GetEnforcementBundleRecord catalog isolationDomainID bundleID w of
        (Inl err, w) \<Rightarrow>
          (Inl (ctx_or ctx_Err w
             (if errors_Is err ErrEnforcementBundleMissing then Sentinel ErrEnforcementBundleMissing
              else Sentinel ErrEnforcementBundleUnavailable)), w)
      | (Inr stored, w) \<Rightarrow>
          (case NormalizeEnforcementBundleRecord stored of
             Inl _ \<Rightarrow> (Inl (Sentinel ErrEnforcementBundleMismatch), w)
           | Inr r \<Rightarrow>
               if ebr_IsolationDomainID r \<noteq> isolationDomainID \<or> ebr_ID r \<noteq> bundleID
               then (Inl (Sentinel ErrEnforcementBundleMismatch), w)
               else
                 (case readEnforcementObject sha256 ctx_Err objects r w of
                    (Inl err, w) \<Rightarrow> (Inl err, w)
                  | (Inr content, w) \<Rightarrow>
                      (Inr \<lparr>enb_IsolationDomainID = ebr_IsolationDomainID r, enb_ID = ebr_ID r,
                            enb_RevisionID = ebr_RevisionID r, enb_Digest = ebr_Digest r, enb_Content = content\<rparr>, w))))"

section \<open>Finalisation\<close>

definition preflight ::
  "(string \<Rightarrow> string) \<Rightarrow> ('w \<Rightarrow> go_error option) \<Rightarrow> ('w, 'z) EnforcementBundleCatalog_scheme \<Rightarrow>
   'w EnforcementObjectReader \<Rightarrow> EnforcementBundleRecord \<Rightarrow> string \<Rightarrow> 'w \<Rightarrow> EnforcementBundleRecord option result \<times> 'w" where
  "preflight sha256 ctx_Err catalog reader record0 content w =
     (case GetEnforcementBundleRecord catalog (ebr_IsolationDomainID record0) (ebr_ID record0) w of
        (Inl err, w) \<Rightarrow>
          (case ctx_Err w of
             Some cause \<Rightarrow> (Inl cause, w)
           | None \<Rightarrow>
               if errors_Is err ErrEnforcementBundleMissing then (Inr None, w)
               else (Inl (Sentinel ErrEnforcementBundleUnavailable), w))
      | (Inr stored, w) \<Rightarrow>
          (case NormalizeEnforcementBundleRecord stored of
             Inl _ \<Rightarrow> (Inl (Sentinel ErrEnforcementBundleConflict), w)
           | Inr existing \<Rightarrow>
               if \<not> EqualEnforcementBundleRecords existing record0
               then (Inl (Sentinel ErrEnforcementBundleConflict), w)
               else
                 (case readEnforcementObject sha256 ctx_Err reader existing w of
                    (Inl err, w) \<Rightarrow> (Inl err, w)
                  | (Inr persisted, w) \<Rightarrow>
                      if persisted \<noteq> content then (Inl (Sentinel ErrEnforcementBundleConflict), w)
                      else (Inr (Some existing), w))))"

text \<open>The last steps of \<open>Finalize\<close>: bind the metadata and check what was bound.\<close>

definition finalize_bind ::
  "('w \<Rightarrow> go_error option) \<Rightarrow> 'w EnforcementBundleStore \<Rightarrow> EnforcementBundleBinding \<Rightarrow>
   'w \<Rightarrow> EnforcementBundleRecord result \<times> 'w" where
  "finalize_bind ctx_Err catalog binding w =
     (case BindEnforcementBundle catalog binding w of
        (Inl err, w) \<Rightarrow>
          (Inl (ctx_or ctx_Err w
             (if errors_Is err ErrEnforcementBundleConflict \<or> errors_Is err ErrEnforcementBundleRevisionMissing then err
              else Sentinel ErrEnforcementBundleUnavailable)), w)
      | (Inr stored, w) \<Rightarrow>
          (case NormalizeEnforcementBundleRecord stored of
             Inl _ \<Rightarrow> (Inl (Sentinel ErrEnforcementBundleConflict), w)
           | Inr bound \<Rightarrow>
               if \<not> EqualEnforcementBundleRecords bound (ebb_Record binding)
               then (Inl (Sentinel ErrEnforcementBundleConflict), w)
               else (Inr bound, w)))"

definition Finalize ::
  "(string \<Rightarrow> string) \<Rightarrow> ('w \<Rightarrow> go_error option) \<Rightarrow> 'w EnforcementBundleStore \<Rightarrow> 'w EnforcementObjectReader \<Rightarrow>
   'w EnforcementObjectWriter \<Rightarrow> EnforcementBundleFinalization \<Rightarrow> 'w \<Rightarrow> EnforcementBundleRecord result \<times> 'w" where
  "Finalize sha256 ctx_Err catalog reader writer finalization w =
     (case NormalizeEnforcementBundleBinding (ebf_Binding finalization) of
        Inl err \<Rightarrow> (Inl err, w)
      | Inr binding \<Rightarrow>
          (let r = ebb_Record binding; content = ebf_Content finalization in
           if int (length content) \<noteq> ebr_SizeBytes r \<or> VerifyEnforcementPolicy sha256 content (ebr_Digest r) \<noteq> None
           then (Inl (Sentinel ErrEnforcementBundleMismatch), w)
           else
             (case preflight sha256 ctx_Err catalog reader r content w of
                (Inl err, w) \<Rightarrow> (Inl err, w)
              | (Inr (Some existing), w) \<Rightarrow> (Inr existing, w)
              | (Inr None, w) \<Rightarrow>
                  (case PutEnforcementObjectIfAbsent writer (ebr_ObjectKey r) content (ebr_SizeBytes r) (ebr_Digest r) w of
                     (writeErr, w) \<Rightarrow>
                       (case ctx_Err w of
                          Some cause \<Rightarrow> (Inl cause, w)
                        | None \<Rightarrow>
                            (case readEnforcementObject sha256 ctx_Err reader r w of
                               (Inl readErr, w) \<Rightarrow>
                                 (Inl (ctx_or ctx_Err w
                                    (if errors_Is readErr ErrEnforcementBundleMismatch \<or>
                                        (case writeErr of Some e \<Rightarrow> errors_Is e ErrEnforcementObjectConflict | None \<Rightarrow> False)
                                     then Sentinel ErrEnforcementBundleConflict
                                     else Sentinel ErrEnforcementBundleUnavailable)), w)
                             | (Inr persisted, w) \<Rightarrow>
                                 if persisted \<noteq> content then (Inl (Sentinel ErrEnforcementBundleConflict), w)
                                 else finalize_bind ctx_Err catalog binding w))))))"

section \<open>The durable catalog\<close>

text \<open>
  \<open>postgres/bundle_store.go\<close>. A row holds a normalised record, so its CHECK constraints hold; the unique
  constraints are the primary key and the object key. A failed statement is not modelled, so the only stage
  of a persistence failure that can occur is the check of the row read back.
\<close>

record bundle_row =
  bnr_record :: EnforcementBundleRecord
  bnr_bound_by :: string
  bnr_correlation_id :: string
  bnr_created_at :: instant

record bundle_db =
  bdb_revisions :: "revision_row list"
  bdb_bundles :: "bundle_row list"
  bdb_audit :: "bound_audit_row list"

definition enforcementBundlePersistenceFailure :: "string \<Rightarrow> go_error" where
  "enforcementBundlePersistenceFailure stage =
     Errorf (''enforcement bundle persistence failed during '' @ stage) [Sentinel ErrPersistence]"

definition bundle_key :: "EnforcementBundleRecord \<Rightarrow> string \<times> string" where
  "bundle_key r = (ebr_IsolationDomainID r, ebr_ID r)"

definition getEnforcementBundleRecord :: "bundle_db \<Rightarrow> string \<Rightarrow> string \<Rightarrow> EnforcementBundleRecord result" where
  "getEnforcementBundleRecord d isolationDomainID bundleID =
     (case sql_select (\<lambda>row. bundle_key (bnr_record row) = (isolationDomainID, bundleID)) (bdb_bundles d) of
        None \<Rightarrow> Inl (Sentinel ErrEnforcementBundleMissing)
      | Some row \<Rightarrow>
          (case NormalizeEnforcementBundleRecord (bnr_record row) of
             Inl _ \<Rightarrow> Inl (enforcementBundlePersistenceFailure ''record-check'')
           | Inr normalized \<Rightarrow> Inr normalized))"

definition bundle_audit_row ::
  "(string \<Rightarrow> string) \<Rightarrow> EnforcementBundleBinding \<Rightarrow> instant \<Rightarrow> bound_audit_row" where
  "bundle_audit_row sha256 b now =
     (let r = ebb_Record b in
      \<lparr>aud_domain = ebr_IsolationDomainID r, aud_actor_id = ebb_ActorID b,
       aud_action = ''enforcement-bundle.bind'', aud_resource_type = ''enforcement-bundle'',
       aud_resource_id = ebr_ID r, aud_outcome = ''succeeded'',
       aud_correlation_id = ebb_CorrelationID b, aud_operation_id = None, aud_occurred_at = now,
       aud_id = Derived sha256 ''aud'' (ebr_IsolationDomainID r @ '':'' @ ebr_ID r @ '':enforcement-bundle''),
       aud_safe_metadata = [(''artifactDigest'', ebr_Digest r), (''bindingDigest'', prv_BindingDigest (ebr_Provenance r))]\<rparr>)"

definition bundle_conflict :: "bundle_row \<Rightarrow> bundle_row \<Rightarrow> bool" where
  "bundle_conflict new old \<longleftrightarrow>
     bundle_key (bnr_record new) = bundle_key (bnr_record old) \<or>
     (ebr_IsolationDomainID (bnr_record new) = ebr_IsolationDomainID (bnr_record old) \<and>
      ebr_ObjectKey (bnr_record new) = ebr_ObjectKey (bnr_record old))"

definition pg_BindEnforcementBundle ::
  "(string \<Rightarrow> string) \<Rightarrow> instant \<Rightarrow> EnforcementBundleBinding \<Rightarrow> bundle_db \<Rightarrow> EnforcementBundleRecord result \<times> bundle_db" where
  "pg_BindEnforcementBundle sha256 now b d =
     (case NormalizeEnforcementBundleBinding b of
        Inl err \<Rightarrow> (Inl err, d)
      | Inr normalized \<Rightarrow>
          (let r = ebb_Record normalized in
           if sql_select (\<lambda>rev. rev_domain rev = ebr_IsolationDomainID r \<and> rev_id rev = ebr_RevisionID r) (bdb_revisions d) = None
           then (Inl (Sentinel ErrEnforcementBundleRevisionMissing), d)
           else
             (let row = \<lparr>bnr_record = r, bnr_bound_by = ebb_ActorID normalized,
                         bnr_correlation_id = ebb_CorrelationID normalized, bnr_created_at = now\<rparr>;
                  (bundles, affected) = insert_on_conflict_nothing bundle_conflict row (bdb_bundles d);
                  inserted = d\<lparr>bdb_bundles := bundles\<rparr>
              in case getEnforcementBundleRecord inserted (ebr_IsolationDomainID r) (ebr_ID r) of
                   Inl err \<Rightarrow>
                     if errors_Is err ErrEnforcementBundleMissing \<and> affected = 0
                     then (Inl (Sentinel ErrEnforcementBundleConflict), d)
                     else (Inl err, d)
                 | Inr existing \<Rightarrow>
                     if \<not> EqualEnforcementBundleRecords existing r
                     then (Inl (Sentinel ErrEnforcementBundleConflict), d)
                     else if affected = 1
                     then (Inr existing, inserted\<lparr>bdb_audit := bdb_audit d @ [bundle_audit_row sha256 normalized now]\<rparr>)
                     else (Inr existing, inserted))))"

section \<open>Normal records\<close>

definition bundle_normal :: "EnforcementBundleRecord \<Rightarrow> bool" where
  "bundle_normal r \<longleftrightarrow> NormalizeEnforcementBundleRecord r = Inr r"

lemma object_key_update [simp]: "EnforcementBundleObjectKey (r\<lparr>ebr_ObjectKey := k\<rparr>) = EnforcementBundleObjectKey r"
  by (simp add: EnforcementBundleObjectKey_def)

lemma NormalizeEnforcementBundleRecord_InrD:
  assumes "NormalizeEnforcementBundleRecord r = Inr n"
  shows "bundle_normal n" and "n = r\<lparr>ebr_ObjectKey := EnforcementBundleObjectKey r\<rparr>"
    and "ebr_ObjectKey n = EnforcementBundleObjectKey n" and "bundle_key n = bundle_key r"
proof -
  have n: "n = r\<lparr>ebr_ObjectKey := EnforcementBundleObjectKey r\<rparr>"
    using assms unfolding NormalizeEnforcementBundleRecord_def by (simp split: if_split_asm)
  show "n = r\<lparr>ebr_ObjectKey := EnforcementBundleObjectKey r\<rparr>" by (rule n)
  show "ebr_ObjectKey n = EnforcementBundleObjectKey n" "bundle_key n = bundle_key r"
    by (simp_all add: n bundle_key_def)
  show "bundle_normal n"
    using assms unfolding bundle_normal_def NormalizeEnforcementBundleRecord_def n by (simp split: if_split_asm)
qed

lemma bundle_normal_idem: "bundle_normal r \<Longrightarrow> NormalizeEnforcementBundleRecord r = Inr r"
  by (simp add: bundle_normal_def)

lemma bundle_normal_fields:
  assumes "bundle_normal r"
  shows "resource_id_pattern ''iso'' (ebr_IsolationDomainID r)" and "resource_id_pattern ''rev'' (ebr_RevisionID r)"
    and "opaque_identifier_pattern (ebr_ID r)" and "digest_pattern (ebr_Digest r)"
    and "0 < ebr_SizeBytes r" and "ebr_SizeBytes r \<le> maximumEnforcementPolicyBytes"
    and "ebr_ObjectKey r = EnforcementBundleObjectKey r"
  using assms NormalizeEnforcementBundleRecord_InrD(3) [of r r]
  unfolding bundle_normal_def NormalizeEnforcementBundleRecord_def by (simp_all split: if_split_asm)

lemma NormalizeEnforcementBundleBinding_InrD:
  assumes "NormalizeEnforcementBundleBinding b = Inr n"
  shows "NormalizeEnforcementBundleRecord (ebb_Record b) = Inr (ebb_Record n)" and "bundle_normal (ebb_Record n)"
  using assms NormalizeEnforcementBundleRecord_InrD(1)
  by (auto simp: NormalizeEnforcementBundleBinding_def split: sum.splits if_splits)

definition bundle_canon :: "EnforcementBundleBinding \<Rightarrow> EnforcementBundleRecord result" where
  "bundle_canon b = map_sum id ebb_Record (NormalizeEnforcementBundleBinding b)"

section \<open>The catalog keeps its contract\<close>

definition bundles_ok :: "bundle_db \<Rightarrow> bool" where
  "bundles_ok d \<longleftrightarrow>
     unique_by (\<lambda>row. bundle_key (bnr_record row)) (bdb_bundles d) \<and>
     (\<forall>row \<in> set (bdb_bundles d). bundle_normal (bnr_record row))"

lemma getEnforcementBundleRecord_Inr:
  assumes "bundles_ok d"
  shows "getEnforcementBundleRecord d i b = Inr r \<longleftrightarrow>
    (\<exists>row \<in> set (bdb_bundles d). bnr_record row = r \<and> bundle_key r = (i, b))"
proof
  assume "getEnforcementBundleRecord d i b = Inr r"
  then obtain row where "sql_select (\<lambda>row. bundle_key (bnr_record row) = (i, b)) (bdb_bundles d) = Some row"
      and r: "NormalizeEnforcementBundleRecord (bnr_record row) = Inr r"
    by (auto simp: getEnforcementBundleRecord_def split: option.splits sum.splits)
  then have row: "row \<in> set (bdb_bundles d)" "bundle_key (bnr_record row) = (i, b)" by (auto dest: sql_select_Some)
  with assms r have "r = bnr_record row" by (auto simp: bundles_ok_def bundle_normal_def)
  with row show "\<exists>row \<in> set (bdb_bundles d). bnr_record row = r \<and> bundle_key r = (i, b)" by auto
next
  assume "\<exists>row \<in> set (bdb_bundles d). bnr_record row = r \<and> bundle_key r = (i, b)"
  then obtain row where row: "row \<in> set (bdb_bundles d)" "bnr_record row = r" "bundle_key r = (i, b)" by blast
  with assms have "sql_select (\<lambda>row. bundle_key (bnr_record row) = (i, b)) (bdb_bundles d) = Some row"
    by (intro sql_select_unique [where key = "\<lambda>row. bundle_key (bnr_record row)" and k = "(i, b)"])
      (auto simp: bundles_ok_def)
  with assms row show "getEnforcementBundleRecord d i b = Inr r"
    by (auto simp: getEnforcementBundleRecord_def bundles_ok_def bundle_normal_def)
qed

lemma bundles_ok_insert:
  assumes "bundles_ok d" and "bundle_normal r" and "\<forall>old \<in> set (bdb_bundles d). \<not> bundle_conflict row old"
    and "bnr_record row = r"
  shows "bundles_ok (d\<lparr>bdb_bundles := bdb_bundles d @ [row]\<rparr>)"
  using assms by (auto simp: bundles_ok_def unique_by_def bundle_conflict_def image_iff)

lemma pg_bind_contract:
  assumes ok: "bundles_ok d" and res: "pg_BindEnforcementBundle sha256 now b d = (res, d')"
  shows "bundles_ok d' \<and> set (bdb_bundles d) \<subseteq> set (bdb_bundles d') \<and>
    (\<forall>row \<in> set (bdb_bundles d') - set (bdb_bundles d). bundle_canon b = Inr (bnr_record row)) \<and>
    (case res of Inl _ \<Rightarrow> d' = d
     | Inr r \<Rightarrow> bundle_canon b = Inr r \<and> r \<in> bnr_record ` set (bdb_bundles d'))"
proof (cases "NormalizeEnforcementBundleBinding b")
  case (Inl err)
  with res ok show ?thesis by (auto simp: pg_BindEnforcementBundle_def)
next
  case (Inr n)
  define row where "row = \<lparr>bnr_record = ebb_Record n, bnr_bound_by = ebb_ActorID n,
    bnr_correlation_id = ebb_CorrelationID n, bnr_created_at = now\<rparr>"
  have normal: "bundle_normal (ebb_Record n)" using Inr by (rule NormalizeEnforcementBundleBinding_InrD(2))
  have canon: "bundle_canon b = Inr (ebb_Record n)" using Inr by (simp add: bundle_canon_def)
  obtain bundles affected where ins: "insert_on_conflict_nothing bundle_conflict row (bdb_bundles d) = (bundles, affected)"
    by fastforce
  define e where "e = d\<lparr>bdb_bundles := bundles\<rparr>"
  have e: "bundles_ok e" "set (bdb_bundles d) \<subseteq> set (bdb_bundles e)"
    "\<forall>r \<in> set (bdb_bundles e) - set (bdb_bundles d). bnr_record r = ebb_Record n"
    using insert_on_conflict_nothing_cases [OF ins] ok bundles_ok_insert [OF ok normal, of row]
    by (auto simp: e_def row_def)
  have audit: "bundles_ok (e\<lparr>bdb_audit := a\<rparr>)" for a using e(1) by (simp add: bundles_ok_def)
  define stored where
    "stored = getEnforcementBundleRecord e (ebr_IsolationDomainID (ebb_Record n)) (ebr_ID (ebb_Record n))"
  consider (failed) err where "res = Inl err" "d' = d"
    | (bound) a where "res = Inr (ebb_Record n)" "d' = e\<lparr>bdb_audit := a\<rparr>" "stored = Inr (ebb_Record n)"
    | (kept) "res = Inr (ebb_Record n)" "d' = e" "stored = Inr (ebb_Record n)"
    using res Inr ins
    by (cases stored)
      (auto simp: pg_BindEnforcementBundle_def Let_def row_def [symmetric] e_def [symmetric] stored_def [symmetric]
        EqualEnforcementBundleRecords_def split: if_splits)
  moreover have "ebb_Record n \<in> bnr_record ` set (bdb_bundles e)" if "stored = Inr (ebb_Record n)"
    using that unfolding stored_def getEnforcementBundleRecord_Inr [OF e(1)] by force
  ultimately show ?thesis
    using e audit ok canon by cases auto
qed

interpretation pg_bundles: binding_store "\<lambda>(now, b). pg_BindEnforcementBundle sha256 now b"
  "\<lambda>d k. getEnforcementBundleRecord d (fst k) (snd k)" bundle_key "\<lambda>(now, b). bundle_canon b"
  EqualEnforcementBundleRecords bundles_ok
  for sha256 :: "string \<Rightarrow> string"
proof (unfold_locales; (simp only: split_paired_all prod.case)?)
  fix d now b assume "bundles_ok d"
  then show "bundles_ok (snd (pg_BindEnforcementBundle sha256 now b d))"
    using pg_bind_contract [of d sha256 now b] by (metis prod.collapse)
next
  fix d now b v assume ok: "bundles_ok d" and v: "fst (pg_BindEnforcementBundle sha256 now b d) = Inr v"
  obtain d' where res: "pg_BindEnforcementBundle sha256 now b d = (Inr v, d')" using v by (metis prod.collapse)
  from pg_bind_contract [OF ok res] res
  show "getEnforcementBundleRecord (snd (pg_BindEnforcementBundle sha256 now b d)) (fst (bundle_key v)) (snd (bundle_key v)) = Inr v \<and>
      (\<exists>w. bundle_canon b = Inr w \<and> bundle_key w = bundle_key v \<and> EqualEnforcementBundleRecords v w)"
    by (auto simp: getEnforcementBundleRecord_Inr EqualEnforcementBundleRecords_def)
next
  fix d k v now b assume ok: "bundles_ok d" and v: "getEnforcementBundleRecord d (fst k) (snd k) = Inr v"
  obtain res d' where res: "pg_BindEnforcementBundle sha256 now b d = (res, d')" by fastforce
  from pg_bind_contract [OF ok res] v ok res
  show "getEnforcementBundleRecord (snd (pg_BindEnforcementBundle sha256 now b d)) (fst k) (snd k) = Inr v"
    by (auto simp: getEnforcementBundleRecord_Inr)
next
  fix d k v now b w assume ok: "bundles_ok d" and v: "getEnforcementBundleRecord d (fst k) (snd k) = Inr v"
    and w: "bundle_canon b = Inr w" "bundle_key w = k" "\<not> EqualEnforcementBundleRecords v w"
  obtain res d' where res: "pg_BindEnforcementBundle sha256 now b d = (res, d')" by fastforce
  note contract = pg_bind_contract [OF ok res]
  have "res \<noteq> Inr p" for p
  proof
    assume p: "res = Inr p"
    with contract w have "p = w" "p \<in> bnr_record ` set (bdb_bundles d')" by auto
    moreover from v contract ok have "v \<in> bnr_record ` set (bdb_bundles d')" "bundle_key v = k"
      by (auto simp: getEnforcementBundleRecord_Inr)
    ultimately have "p = v" using contract w by (auto simp: bundles_ok_def dest: unique_by_eq)
    with w \<open>p = w\<close> show False by (simp add: EqualEnforcementBundleRecords_def)
  qed
  then obtain err where "res = Inl err" by (cases res) auto
  with contract res show "\<exists>err. pg_BindEnforcementBundle sha256 now b d = (Inl err, d)" by auto
qed

end
