(* ===== verification/S3_Store.thy ===== *)
theory S3_Store
  imports Bundles
begin

text \<open>
  The S3 adapter \<open>src/internal/execution/s3store/store.go\<close>: object keys, object URLs, and the two calls on
  immutable enforcement objects. The HTTP client is an argument: a function from a request to a response
  or an error. The endpoint is the parsed origin that \<open>New\<close> stores; parsing it is not modelled.
\<close>

section \<open>Requests\<close>

record http_request =
  req_Method :: string
  req_URL :: string
  req_Header :: "(string \<times> string) list"
  req_ContentLength :: int
  req_Body :: string

text \<open>The body of a response is what reading it to the end gives: the bytes or an error.\<close>

record http_response =
  resp_StatusCode :: int
  resp_ContentEncoding :: string
  resp_ContentLength :: int
  resp_Body :: "string result"

type_synonym 'w http_client = "http_request \<Rightarrow> 'w \<Rightarrow> http_response result \<times> 'w"

datatype AddressingStyle = PathStyle | VirtualHostedStyle

record s3_Store =
  s3_Scheme :: string
  s3_Host :: string
  s3_Hostname :: string
  s3_Port :: string
  s3_Bucket :: string
  s3_Style :: AddressingStyle

section \<open>Keys and URLs\<close>

fun Split :: "char \<Rightarrow> string \<Rightarrow> string list" where
  "Split sep [] = [[]]"
| "Split sep (c # cs) =
     (if c = sep then [] # Split sep cs
      else (case Split sep cs of [] \<Rightarrow> [[c]] | p # ps \<Rightarrow> (c # p) # ps))"

text \<open>\<open>^[A-Za-z0-9][A-Za-z0-9._/-]*$\<close>\<close>

definition key_pattern :: "string \<Rightarrow> bool" where
  "key_pattern key =
     (case key of
        [] \<Rightarrow> False
      | c # cs \<Rightarrow>
          (is_upper c \<or> is_lower c \<or> is_digit c) \<and>
          list_all (\<lambda>d. is_upper d \<or> is_lower d \<or> is_digit d \<or> d \<in> set ''._/-'') cs)"

definition validKey :: "string \<Rightarrow> string \<Rightarrow> bool" where
  "validKey key allowedPrefix \<longleftrightarrow>
     \<not> (1024 < length key \<or> \<not> key_pattern key \<or> Contains key ''//'' \<or> Contains key [backslash]) \<and>
     list_all (\<lambda>segment. segment \<noteq> ''.'' \<and> segment \<noteq> ''..'') (Split (CHR ''/'') key) \<and>
     allowedPrefix \<noteq> [] \<and> HasPrefix key allowedPrefix"

text \<open>Keys need no escaping, so \<open>URL.String\<close> is the plain concatenation.\<close>

definition objectURL :: "s3_Store \<Rightarrow> string \<Rightarrow> string \<Rightarrow> string result" where
  "objectURL store key allowedPrefix =
     (if \<not> validKey key allowedPrefix then Inl (errors_New ''invalid S3 platform-object key'')
      else if s3_Style store = VirtualHostedStyle
      then Inr (s3_Scheme store @ ''://'' @ s3_Bucket store @ ''.'' @ s3_Hostname store @
                (if s3_Port store \<noteq> [] then '':'' @ s3_Port store else []) @ ''/'' @ key)
      else Inr (s3_Scheme store @ ''://'' @ s3_Host store @ ''/'' @ s3_Bucket store @ ''/'' @ key))"

definition enforcement_prefix :: string where
  "enforcement_prefix = ''enforcement-bundles/v1/''"

definition errUnavailable :: go_error where
  "errUnavailable = errors_New ''s3 enforcement-object storage is unavailable''"

section \<open>The two calls\<close>

definition s3_OpenEnforcementObject ::
  "('w \<Rightarrow> go_error option) \<Rightarrow> 'w http_client \<Rightarrow> s3_Store \<Rightarrow> string \<Rightarrow> 'w \<Rightarrow> string result result \<times> 'w" where
  "s3_OpenEnforcementObject ctx_Err client store key w =
     (case objectURL store key enforcement_prefix of
        Inl err \<Rightarrow> (Inl err, w)
      | Inr url \<Rightarrow>
          (case client \<lparr>req_Method = ''GET'', req_URL = url, req_Header = [(''Accept-Encoding'', ''identity'')],
                        req_ContentLength = 0, req_Body = []\<rparr> w of
             (Inl err, w) \<Rightarrow> (Inl (ctx_or ctx_Err w errUnavailable), w)
           | (Inr response, w) \<Rightarrow>
               if resp_StatusCode response = 200
               then if resp_ContentEncoding response \<noteq> [] \<or>
                       maximumEnforcementPolicyBytes < resp_ContentLength response
                    then (Inl errUnavailable, w)
                    else (Inr (resp_Body response), w)
               else if resp_StatusCode response = 404 then (Inl (Sentinel ErrEnforcementObjectMissing), w)
               else (Inl errUnavailable, w)))"

text \<open>The content is a reader over the given bytes; the base64 text of the checksum is an argument, like the hash.\<close>

definition put_request ::
  "(string \<Rightarrow> string) \<Rightarrow> (string \<Rightarrow> string) \<Rightarrow> string \<Rightarrow> string \<Rightarrow> http_request" where
  "put_request sha256 base64 url content =
     \<lparr>req_Method = ''PUT'', req_URL = url,
      req_Header = [(''Content-Type'', EnforcementBundleMediaType), (''If-None-Match'', ''*''),
        (''x-amz-checksum-sha256'', base64 (sha256 content))],
      req_ContentLength = int (length content), req_Body = content\<rparr>"

definition s3_PutEnforcementObjectIfAbsent ::
  "(string \<Rightarrow> string) \<Rightarrow> (string \<Rightarrow> string) \<Rightarrow> ('w \<Rightarrow> go_error option) \<Rightarrow> 'w http_client \<Rightarrow> s3_Store \<Rightarrow>
   string \<Rightarrow> string \<Rightarrow> int \<Rightarrow> string \<Rightarrow> 'w \<Rightarrow> go_error option \<times> 'w" where
  "s3_PutEnforcementObjectIfAbsent sha256 base64 ctx_Err client store key content sizeBytes digest w =
     (case ctx_Err w of
        Some err \<Rightarrow> (Some err, w)
      | None \<Rightarrow>
          (case objectURL store key enforcement_prefix of
             Inl err \<Rightarrow> (Some err, w)
           | Inr url \<Rightarrow>
               if sizeBytes \<le> 0 \<or> maximumEnforcementPolicyBytes < sizeBytes \<or> \<not> digest_pattern digest
               then (Some (Sentinel ErrEnforcementObjectConflict), w)
               else
                 (let owned = take (nat (sizeBytes + 1)) content in
                  if int (length owned) \<noteq> sizeBytes \<or> VerifyEnforcementPolicy sha256 owned digest \<noteq> None
                  then (Some (Sentinel ErrEnforcementObjectConflict), w)
                  else
                    (case client (put_request sha256 base64 url owned) w of
                       (Inl err, w) \<Rightarrow> (Some (ctx_or ctx_Err w errUnavailable), w)
                     | (Inr response, w) \<Rightarrow>
                         if resp_StatusCode response = 200 then (None, w)
                         else if resp_StatusCode response = 412
                         then (Some (Sentinel ErrEnforcementObjectConflict), w)
                         else (Some errUnavailable, w)))))"

section \<open>The object store contract\<close>

text \<open>
  The two ports of \<open>enforcement_bundle.go\<close> as their comments state them, over the objects that a world
  holds: reading returns stored bytes, writing creates and never replaces, and while a call runs other
  writers may create further objects. A write may take effect although it reports an error, and may
  report an error although it took effect.
\<close>

locale object_store =
  fixes objects_of :: "'w \<Rightarrow> string \<rightharpoonup> string"
    and open_object :: "string \<Rightarrow> 'w \<Rightarrow> string result result \<times> 'w"
    and put_object :: "string \<Rightarrow> string \<Rightarrow> int \<Rightarrow> string \<Rightarrow> 'w \<Rightarrow> go_error option \<times> 'w"
  assumes open_keeps: "open_object key w = (r, w') \<Longrightarrow> objects_of w \<subseteq>\<^sub>m objects_of w'"
    and open_reads: "open_object key w = (Inr (Inr bytes), w') \<Longrightarrow> objects_of w' key = Some bytes"
    and put_keeps: "put_object key content sizeBytes digest w = (err, w') \<Longrightarrow> objects_of w \<subseteq>\<^sub>m objects_of w'"

text \<open>
  What the adapter relies on of an S3 service: a GET with status 200 carries the stored bytes, and a PUT
  with \<open>If-None-Match: *\<close> never replaces an object.
\<close>

locale s3_service =
  fixes client :: "'w http_client" and stored :: "'w \<Rightarrow> string \<rightharpoonup> string"
  assumes get_keeps: "req_Method q = ''GET'' \<Longrightarrow> client q w = (r, w') \<Longrightarrow> stored w \<subseteq>\<^sub>m stored w'"
    and get_reads: "req_Method q = ''GET'' \<Longrightarrow> client q w = (Inr response, w') \<Longrightarrow> resp_StatusCode response = 200 \<Longrightarrow>
      resp_ContentEncoding response = [] \<Longrightarrow> resp_Body response = Inr bytes \<Longrightarrow> stored w' (req_URL q) = Some bytes"
    and conditional_put: "req_Method q = ''PUT'' \<Longrightarrow> (''If-None-Match'', ''*'') \<in> set (req_Header q) \<Longrightarrow>
      client q w = (r, w') \<Longrightarrow> stored w \<subseteq>\<^sub>m stored w'"

locale s3_adapter = s3_service client stored
  for client :: "'w http_client" and stored :: "'w \<Rightarrow> string \<rightharpoonup> string" +
  fixes store :: s3_Store and ctx_Err :: "'w \<Rightarrow> go_error option"
    and sha256 :: "string \<Rightarrow> string" and base64 :: "string \<Rightarrow> string"

text \<open>The object under a key is the one stored at the URL of the key.\<close>

definition object_at :: "('w \<Rightarrow> string \<rightharpoonup> string) \<Rightarrow> s3_Store \<Rightarrow> 'w \<Rightarrow> string \<rightharpoonup> string" where
  "object_at stored store w key =
     (case objectURL store key enforcement_prefix of Inl _ \<Rightarrow> None | Inr url \<Rightarrow> stored w url)"

lemma object_at_mono: "stored w \<subseteq>\<^sub>m stored w' \<Longrightarrow> object_at stored store w \<subseteq>\<^sub>m object_at stored store w'"
  by (auto simp: object_at_def map_le_def dom_def split: sum.splits)

sublocale s3_adapter \<subseteq> object_store "object_at stored store" "s3_OpenEnforcementObject ctx_Err client store"
  "s3_PutEnforcementObjectIfAbsent sha256 base64 ctx_Err client store"
proof
  fix key w r w' assume "s3_OpenEnforcementObject ctx_Err client store key w = (r, w')"
  then have "stored w \<subseteq>\<^sub>m stored w'"
    by (auto simp: s3_OpenEnforcementObject_def dest: get_keeps [rotated] split: sum.splits prod.splits if_splits)
  then show "object_at stored store w \<subseteq>\<^sub>m object_at stored store w'" by (rule object_at_mono)
next
  fix key w bytes w' assume "s3_OpenEnforcementObject ctx_Err client store key w = (Inr (Inr bytes), w')"
  then show "object_at stored store w' key = Some bytes"
    by (auto simp: s3_OpenEnforcementObject_def object_at_def dest: get_reads [rotated]
        split: sum.splits prod.splits if_splits)
next
  fix key content n digest w r w'
  assume "s3_PutEnforcementObjectIfAbsent sha256 base64 ctx_Err client store key content n digest w = (r, w')"
  then have "stored w \<subseteq>\<^sub>m stored w'"
    by (auto simp: s3_PutEnforcementObjectIfAbsent_def put_request_def Let_def dest: conditional_put [rotated 2]
        split: option.splits sum.splits prod.splits if_splits)
  then show "object_at stored store w \<subseteq>\<^sub>m object_at stored store w'" by (rule object_at_mono)
qed

section \<open>A service with faults\<close>

text \<open>
  A service that keeps the contract while the network drops requests and responses: each request meets the
  next fault of a script, and none once the script is used up.
\<close>

datatype network_fault = Delivered | RequestLost | ResponseLost | Throttled

record s3_server =
  srv_objects :: "string \<rightharpoonup> string"
  srv_script :: "network_fault list"

definition http_status :: "int \<Rightarrow> string \<Rightarrow> http_response" where
  "http_status code body = \<lparr>resp_StatusCode = code, resp_ContentEncoding = [],
     resp_ContentLength = int (length body), resp_Body = Inr body\<rparr>"

definition serve :: "http_request \<Rightarrow> (string \<rightharpoonup> string) \<Rightarrow> http_response \<times> (string \<rightharpoonup> string)" where
  "serve q objects =
     (if req_Method q = ''GET''
      then (case objects (req_URL q) of
              None \<Rightarrow> (http_status 404 [], objects)
            | Some bytes \<Rightarrow> (http_status 200 bytes, objects))
      else if req_Method q = ''PUT'' \<and> objects (req_URL q) = None
      then (http_status 200 [], objects(req_URL q \<mapsto> req_Body q))
      else (http_status 412 [], objects))"

definition faulty_s3 :: "s3_server http_client" where
  "faulty_s3 q srv =
     (let (fault, rest) = (case srv_script srv of [] \<Rightarrow> (Delivered, []) | f # fs \<Rightarrow> (f, fs));
          (response, objects) = serve q (srv_objects srv);
          lost = errors_New ''connection lost''
      in case fault of
           Delivered \<Rightarrow> (Inr response, \<lparr>srv_objects = objects, srv_script = rest\<rparr>)
         | RequestLost \<Rightarrow> (Inl lost, srv\<lparr>srv_script := rest\<rparr>)
         | ResponseLost \<Rightarrow> (Inl lost, \<lparr>srv_objects = objects, srv_script = rest\<rparr>)
         | Throttled \<Rightarrow> (Inr (http_status 503 []), srv\<lparr>srv_script := rest\<rparr>))"

lemma serve_keeps: "serve q objects = (response, objects') \<Longrightarrow> objects \<subseteq>\<^sub>m objects'"
  by (auto simp: serve_def map_le_def split: if_splits option.splits)

lemma faulty_s3_keeps: "faulty_s3 q srv = (r, srv') \<Longrightarrow> srv_objects srv \<subseteq>\<^sub>m srv_objects srv'"
  by (auto simp: faulty_s3_def Let_def dest: serve_keeps split: list.splits prod.splits network_fault.splits)

lemma faulty_s3_reads:
  assumes "faulty_s3 q srv = (Inr response, srv')" and "req_Method q = ''GET''" and "resp_StatusCode response = 200"
    and "resp_Body response = Inr bytes"
  shows "srv_objects srv' (req_URL q) = Some bytes"
  using assms
  by (auto simp: faulty_s3_def Let_def serve_def http_status_def
      split: list.splits prod.splits network_fault.splits option.splits if_splits)

interpretation faulty: s3_service faulty_s3 srv_objects
  by unfold_locales (auto intro: faulty_s3_keeps faulty_s3_reads)

end
