(* ===== verification/Bundle_Retry.thy ===== *)
theory Bundle_Retry
  imports Bundle_Durability
begin

text \<open>
  Retries of a bundle finalisation. The object key of a valid record is a key the S3 adapter accepts, and after
  any number of attempts that failed half way, an attempt that meets no fault completes: it adopts what the
  earlier attempts left behind.
\<close>

section \<open>Object keys\<close>











section \<open>What an attempt can change\<close>











section \<open>An attempt without faults\<close>
















section \<open>Retrying\<close>


section \<open>A small deployment\<close>
















end
