(* ===== verification/Gateways.thy ===== *)
theory Gateways
  imports Plans "HOL-Library.AList"
begin

text \<open>
  Where executions run: the values of \<open>src/internal/execution/provider.go\<close> and the process-local store of
  gateways, placements and executions in \<open>memory_store.go\<close>.
\<close>

section \<open>Values\<close>

text \<open>\<open>GatewayState\<close> is a string type; its constants are these.\<close>

definition GatewayActive :: string where
  "GatewayActive = ''active''"

definition GatewayDraining :: string where
  "GatewayDraining = ''draining''"

definition GatewayUnavailable :: string where
  "GatewayUnavailable = ''unavailable''"

definition GatewayLost :: string where
  "GatewayLost = ''lost''"

lemmas gateway_states = GatewayActive_def GatewayDraining_def GatewayUnavailable_def GatewayLost_def

definition ValidGatewayState :: "string \<Rightarrow> bool" where
  "ValidGatewayState state \<longleftrightarrow> state \<in> set [GatewayActive, GatewayDraining, GatewayUnavailable, GatewayLost]"

record GatewayRegistration =
  grg_IsolationDomainID :: string
  grg_ID :: string
  grg_Endpoint :: string
  grg_Driver :: string
  grg_Capabilities :: "string list"

record Gateway =
  gtw_IsolationDomainID :: string
  gtw_ID :: string
  gtw_Driver :: string
  gtw_State :: string
  gtw_Capabilities :: go_slice

record GatewayRecord =
  gwr_Gateway :: Gateway
  gwr_Endpoint :: string

record PlacementRequest =
  plq_IsolationDomainID :: string
  plq_OperationID :: string
  plq_RequiredCapabilities :: "string list"

record Placement =
  plc_IsolationDomainID :: string
  plc_ID :: string
  plc_GatewayID :: string

record Execution =
  exe_IsolationDomainID :: string
  exe_ID :: string
  exe_GatewayID :: string
  exe_State :: string

record ExecutionRef =
  ref_IsolationDomainID :: string
  ref_ID :: string

record ExecutionRecord =
  exr_Execution :: Execution
  exr_PlacementID :: string
  exr_OperationID :: string
  exr_SandboxName :: string

text \<open>The interface \<open>StateStore\<close>, over the world that a store acts on.\<close>

record 'w StateStore =
  RegisterGateway :: "GatewayRegistration \<Rightarrow> 'w \<Rightarrow> Gateway result \<times> 'w"
  SetGatewayState :: "string \<Rightarrow> string \<Rightarrow> string \<Rightarrow> 'w \<Rightarrow> go_error option \<times> 'w"
  ReservePlacement :: "PlacementRequest \<Rightarrow> 'w \<Rightarrow> Placement result \<times> 'w"
  GetPlacement :: "string \<Rightarrow> string \<Rightarrow> 'w \<Rightarrow> Placement result \<times> 'w"
  GetGateway :: "string \<Rightarrow> string \<Rightarrow> 'w \<Rightarrow> GatewayRecord result \<times> 'w"
  SaveExecution :: "ExecutionRecord \<Rightarrow> 'w \<Rightarrow> go_error option \<times> 'w"
  GetExecution :: "ExecutionRef \<Rightarrow> 'w \<Rightarrow> ExecutionRecord result \<times> 'w"
  UpdateExecutionState :: "ExecutionRef \<Rightarrow> string \<Rightarrow> 'w \<Rightarrow> go_error option \<times> 'w"

section \<open>Checks the two stores share\<close>

definition valid_execution_state :: "string \<Rightarrow> bool" where
  "valid_execution_state state \<longleftrightarrow>
     state \<in> set [''provisioning'', ''ready'', ''running'', ''waiting'', ''deleting'', ''terminated'', ''error'', ''unknown'']"

definition same_execution_identity :: "ExecutionRecord \<Rightarrow> ExecutionRecord \<Rightarrow> bool" where
  "same_execution_identity left right \<longleftrightarrow>
     exe_IsolationDomainID (exr_Execution left) = exe_IsolationDomainID (exr_Execution right) \<and>
     exe_ID (exr_Execution left) = exe_ID (exr_Execution right) \<and>
     exe_GatewayID (exr_Execution left) = exe_GatewayID (exr_Execution right) \<and>
     exr_PlacementID left = exr_PlacementID right \<and>
     exr_OperationID left = exr_OperationID right \<and>
     exr_SandboxName left = exr_SandboxName right"

definition registration_incomplete :: "GatewayRegistration \<Rightarrow> bool" where
  "registration_incomplete r \<longleftrightarrow>
     grg_IsolationDomainID r = [] \<or> grg_ID r = [] \<or> grg_Driver r = [] \<or> grg_Endpoint r = []"

definition execution_incomplete :: "ExecutionRecord \<Rightarrow> bool" where
  "execution_incomplete r \<longleftrightarrow>
     exe_IsolationDomainID (exr_Execution r) = [] \<or> exe_ID (exr_Execution r) = [] \<or> exr_PlacementID r = [] \<or>
     exr_OperationID r = [] \<or> exr_SandboxName r = [] \<or> \<not> valid_execution_state (exe_State (exr_Execution r))"

definition containsCapabilities :: "string list \<Rightarrow> string list \<Rightarrow> bool" where
  "containsCapabilities have required \<longleftrightarrow> list_all (\<lambda>item. item \<in> set have) required"

definition live_state :: "string \<Rightarrow> bool" where
  "live_state state \<longleftrightarrow> state = ''reserved'' \<or> state = ''active''"

definition settled_state :: "string \<Rightarrow> bool" where
  "settled_state state \<longleftrightarrow> state = ''terminated'' \<or> state = ''error''"

section \<open>The process-local store\<close>

text \<open>
  A Go map is an association list with distinct keys. \<open>range\<close> visits a map in no fixed order; only the
  lookup by operation depends on it, and takes the order in which the keys are visited as an argument.
\<close>

record memoryGateway =
  mgw_record :: GatewayRecord
  mgw_reserved :: int

record memoryPlacement =
  mpl_placement :: Placement
  mpl_operationID :: string
  mpl_requiredCapabilities :: go_slice
  mpl_state :: string

record MemoryStateStore =
  mss_gateways :: "(string \<times> memoryGateway) list"
  mss_placements :: "(string \<times> memoryPlacement) list"
  mss_executions :: "(string \<times> ExecutionRecord) list"

definition NewMemoryStateStore :: MemoryStateStore where
  "NewMemoryStateStore = \<lparr>mss_gateways = [], mss_placements = [], mss_executions = []\<rparr>"

definition memory_RegisterGateway ::
  "GatewayRegistration \<Rightarrow> MemoryStateStore \<Rightarrow> Gateway result \<times> MemoryStateStore" where
  "memory_RegisterGateway registration store =
     (if registration_incomplete registration
      then (Inl (errors_New ''isolation domain, gateway id, driver, and endpoint are required''), store)
      else
        (case NormalizeCapabilities (grg_Capabilities registration) of
           Inl err \<Rightarrow> (Inl err, store)
         | Inr capabilities \<Rightarrow>
             (let key = scopedKey (grg_IsolationDomainID registration) (grg_ID registration) in
              case map_of (mss_gateways store) key of
                Some existing \<Rightarrow>
                  if gwr_Endpoint (mgw_record existing) \<noteq> grg_Endpoint registration \<or>
                     gtw_Driver (gwr_Gateway (mgw_record existing)) \<noteq> grg_Driver registration \<or>
                     elements (gtw_Capabilities (gwr_Gateway (mgw_record existing))) \<noteq> elements capabilities
                  then (Inl (Sentinel ErrStateConflict), store)
                  else (Inr (gwr_Gateway (mgw_record existing)), store)
              | None \<Rightarrow>
                  (let gateway = \<lparr>gtw_IsolationDomainID = grg_IsolationDomainID registration, gtw_ID = grg_ID registration,
                         gtw_Driver = grg_Driver registration, gtw_State = GatewayActive, gtw_Capabilities = capabilities\<rparr>
                   in (Inr gateway,
                       store\<lparr>mss_gateways := AList.update key
                         \<lparr>mgw_record = \<lparr>gwr_Gateway = gateway, gwr_Endpoint = grg_Endpoint registration\<rparr>, mgw_reserved = 0\<rparr>
                         (mss_gateways store)\<rparr>)))))"

definition memory_lose_placements ::
  "string \<Rightarrow> string \<Rightarrow> (string \<times> memoryPlacement) list \<Rightarrow> (string \<times> memoryPlacement) list" where
  "memory_lose_placements isolationDomainID gatewayID =
     map (\<lambda>(key, p).
       (key, if plc_IsolationDomainID (mpl_placement p) = isolationDomainID \<and>
                plc_GatewayID (mpl_placement p) = gatewayID \<and> live_state (mpl_state p)
             then p\<lparr>mpl_state := ''lost''\<rparr> else p))"

definition memory_lose_executions ::
  "string \<Rightarrow> string \<Rightarrow> (string \<times> ExecutionRecord) list \<Rightarrow> (string \<times> ExecutionRecord) list" where
  "memory_lose_executions isolationDomainID gatewayID =
     map (\<lambda>(key, r).
       (key, if exe_IsolationDomainID (exr_Execution r) = isolationDomainID \<and>
                exe_GatewayID (exr_Execution r) = gatewayID \<and> \<not> settled_state (exe_State (exr_Execution r))
             then r\<lparr>exr_Execution := (exr_Execution r)\<lparr>exe_State := ''unknown''\<rparr>\<rparr> else r))"

definition memory_SetGatewayState ::
  "string \<Rightarrow> string \<Rightarrow> string \<Rightarrow> MemoryStateStore \<Rightarrow> go_error option \<times> MemoryStateStore" where
  "memory_SetGatewayState isolationDomainID gatewayID state store =
     (if \<not> ValidGatewayState state then (Some (errors_New ''invalid gateway state''), store)
      else
        (let key = scopedKey isolationDomainID gatewayID in
         case map_of (mss_gateways store) key of
           None \<Rightarrow> (Some (Sentinel ErrNoGateway), store)
         | Some entry \<Rightarrow>
             (let record0 = mgw_record entry;
                  updated = entry\<lparr>mgw_record := record0\<lparr>gwr_Gateway := (gwr_Gateway record0)\<lparr>gtw_State := state\<rparr>\<rparr>\<rparr>;
                  marked = store\<lparr>mss_gateways := AList.update key updated (mss_gateways store)\<rparr>
              in (None,
                  if state = GatewayLost
                  then marked\<lparr>mss_placements := memory_lose_placements isolationDomainID gatewayID (mss_placements store),
                              mss_executions := memory_lose_executions isolationDomainID gatewayID (mss_executions store)\<rparr>
                  else marked))))"

definition memory_eligible :: "string \<Rightarrow> string list \<Rightarrow> MemoryStateStore \<Rightarrow> memoryGateway list" where
  "memory_eligible isolationDomainID capabilities store =
     filter (\<lambda>e. gtw_IsolationDomainID (gwr_Gateway (mgw_record e)) = isolationDomainID \<and>
                 gtw_State (gwr_Gateway (mgw_record e)) = GatewayActive \<and>
                 containsCapabilities (elements (gtw_Capabilities (gwr_Gateway (mgw_record e)))) capabilities)
       (map snd (mss_gateways store))"

definition memory_ReservePlacement ::
  "(string \<Rightarrow> string) \<Rightarrow> PlacementRequest \<Rightarrow> MemoryStateStore \<Rightarrow> Placement result \<times> MemoryStateStore" where
  "memory_ReservePlacement sha256 request store =
     (if plq_IsolationDomainID request = [] \<or> plq_OperationID request = []
      then (Inl (errors_New ''isolation domain and operation are required''), store)
      else
        (case NormalizeCapabilities (plq_RequiredCapabilities request) of
           Inl err \<Rightarrow> (Inl err, store)
         | Inr capabilities \<Rightarrow>
             (let domain = plq_IsolationDomainID request;
                  placementID = Derived sha256 ''plc'' (domain @ '':'' @ plq_OperationID request);
                  key = scopedKey domain placementID
              in case map_of (mss_placements store) key of
                   Some stored \<Rightarrow>
                     if mpl_operationID stored \<noteq> plq_OperationID request \<or>
                        elements (mpl_requiredCapabilities stored) \<noteq> elements capabilities
                     then (Inl (Sentinel ErrStateConflict), store)
                     else (Inr (mpl_placement stored), store)
                 | None \<Rightarrow>
                     (case sort_key (\<lambda>e. (mgw_reserved e, gtw_ID (gwr_Gateway (mgw_record e))))
                             (memory_eligible domain (elements capabilities) store) of
                        [] \<Rightarrow> (Inl (Sentinel ErrNoGateway), store)
                      | selected # _ \<Rightarrow>
                          (let gateway = gwr_Gateway (mgw_record selected);
                               placement = \<lparr>plc_IsolationDomainID = domain, plc_ID = placementID, plc_GatewayID = gtw_ID gateway\<rparr>
                           in (Inr placement,
                               store\<lparr>mss_gateways := AList.update (scopedKey (gtw_IsolationDomainID gateway) (gtw_ID gateway))
                                       (selected\<lparr>mgw_reserved := mgw_reserved selected + 1\<rparr>) (mss_gateways store),
                                     mss_placements := AList.update key
                                       \<lparr>mpl_placement = placement, mpl_operationID = plq_OperationID request,
                                        mpl_requiredCapabilities = capabilities, mpl_state = ''reserved''\<rparr>
                                       (mss_placements store)\<rparr>))))))"

definition memory_GetPlacement :: "MemoryStateStore \<Rightarrow> string \<Rightarrow> string \<Rightarrow> Placement result" where
  "memory_GetPlacement store isolationDomainID placementID =
     (case map_of (mss_placements store) (scopedKey isolationDomainID placementID) of
        None \<Rightarrow> Inl (Sentinel ErrPlacementMissing)
      | Some stored \<Rightarrow> Inr (mpl_placement stored))"

definition memory_GetGateway :: "MemoryStateStore \<Rightarrow> string \<Rightarrow> string \<Rightarrow> GatewayRecord result" where
  "memory_GetGateway store isolationDomainID gatewayID =
     (case map_of (mss_gateways store) (scopedKey isolationDomainID gatewayID) of
        None \<Rightarrow> Inl (Sentinel ErrNoGateway)
      | Some entry \<Rightarrow> Inr (mgw_record entry))"

definition memory_SaveExecution ::
  "ExecutionRecord \<Rightarrow> MemoryStateStore \<Rightarrow> go_error option \<times> MemoryStateStore" where
  "memory_SaveExecution r store =
     (if execution_incomplete r
      then (Some (errors_New ''complete execution identity and valid state are required''), store)
      else
        (let domain = exe_IsolationDomainID (exr_Execution r); key = scopedKey domain (exe_ID (exr_Execution r)) in
         case map_of (mss_executions store) key of
           Some existing \<Rightarrow>
             if \<not> same_execution_identity existing r then (Some (Sentinel ErrStateConflict), store) else (None, store)
         | None \<Rightarrow>
             (let placementKey = scopedKey domain (exr_PlacementID r) in
              case map_of (mss_placements store) placementKey of
                None \<Rightarrow> (Some (Sentinel ErrPlacementMissing), store)
              | Some placement \<Rightarrow>
                  if plc_GatewayID (mpl_placement placement) \<noteq> exe_GatewayID (exr_Execution r) \<or>
                     mpl_operationID placement \<noteq> exr_OperationID r \<or> \<not> live_state (mpl_state placement)
                  then (Some (Sentinel ErrStateConflict), store)
                  else
                    (None,
                     store\<lparr>mss_executions := AList.update key r (mss_executions store),
                           mss_placements := AList.update placementKey
                             (placement\<lparr>mpl_state := (if exe_State (exr_Execution r) = ''terminated'' then ''released'' else ''active'')\<rparr>)
                             (mss_placements store)\<rparr>))))"

definition memory_GetExecution :: "MemoryStateStore \<Rightarrow> ExecutionRef \<Rightarrow> ExecutionRecord result" where
  "memory_GetExecution store ref =
     (case map_of (mss_executions store) (scopedKey (ref_IsolationDomainID ref) (ref_ID ref)) of
        None \<Rightarrow> Inl (Sentinel ErrExecutionMissing)
      | Some stored \<Rightarrow> Inr stored)"

definition memory_GetExecutionByOperation ::
  "string list \<Rightarrow> MemoryStateStore \<Rightarrow> string \<Rightarrow> string \<Rightarrow> Execution result" where
  "memory_GetExecutionByOperation order store isolationDomainID operationID =
     (case List.find (\<lambda>r. exe_IsolationDomainID (exr_Execution r) = isolationDomainID \<and> exr_OperationID r = operationID)
             (List.map_filter (map_of (mss_executions store)) order) of
        None \<Rightarrow> Inl (Sentinel ErrExecutionMissing)
      | Some stored \<Rightarrow> Inr (exr_Execution stored))"

definition memory_release :: "string \<Rightarrow> string \<Rightarrow> MemoryStateStore \<Rightarrow> MemoryStateStore" where
  "memory_release isolationDomainID placementID store =
     (let placementKey = scopedKey isolationDomainID placementID in
      case map_of (mss_placements store) placementKey of
        None \<Rightarrow> store
      | Some placement \<Rightarrow>
          (let released = store\<lparr>mss_placements := AList.update placementKey (placement\<lparr>mpl_state := ''released''\<rparr>) (mss_placements store)\<rparr>;
               gatewayKey = scopedKey isolationDomainID (plc_GatewayID (mpl_placement placement))
           in case map_of (mss_gateways store) gatewayKey of
                None \<Rightarrow> released
              | Some gateway \<Rightarrow>
                  if mgw_reserved gateway > 0
                  then released\<lparr>mss_gateways := AList.update gatewayKey
                         (gateway\<lparr>mgw_reserved := mgw_reserved gateway - 1\<rparr>) (mss_gateways store)\<rparr>
                  else released))"

definition memory_UpdateExecutionState ::
  "ExecutionRef \<Rightarrow> string \<Rightarrow> MemoryStateStore \<Rightarrow> go_error option \<times> MemoryStateStore" where
  "memory_UpdateExecutionState ref state store =
     (let key = scopedKey (ref_IsolationDomainID ref) (ref_ID ref) in
      case map_of (mss_executions store) key of
        None \<Rightarrow> (Some (Sentinel ErrExecutionMissing), store)
      | Some stored \<Rightarrow>
          if exe_State (exr_Execution stored) = ''terminated'' \<and> state \<noteq> ''terminated''
          then (Some (Sentinel ErrStateConflict), store)
          else
            (let alreadyTerminated = (exe_State (exr_Execution stored) = ''terminated'');
                 updated = stored\<lparr>exr_Execution := (exr_Execution stored)\<lparr>exe_State := state\<rparr>\<rparr>;
                 saved = store\<lparr>mss_executions := AList.update key updated (mss_executions store)\<rparr>
             in (None,
                 if state = ''terminated'' \<and> \<not> alreadyTerminated
                 then memory_release (ref_IsolationDomainID ref) (exr_PlacementID stored) saved
                 else saved)))"

section \<open>Calls of a store\<close>

datatype store_call =
    RegisterCall GatewayRegistration
  | SetStateCall string string string
  | ReserveCall PlacementRequest
  | PlacementCall string string
  | GatewayCall string string
  | SaveCall ExecutionRecord
  | ExecutionCall ExecutionRef
  | UpdateCall ExecutionRef string

datatype store_answer =
    GatewayAnswer "Gateway result"
  | ErrorAnswer "go_error option"
  | PlacementAnswer "Placement result"
  | RecordAnswer "GatewayRecord result"
  | ExecutionAnswer "ExecutionRecord result"

fun memory_call ::
  "(string \<Rightarrow> string) \<Rightarrow> store_call \<Rightarrow> MemoryStateStore \<Rightarrow> store_answer \<times> MemoryStateStore" where
  "memory_call sha256 (RegisterCall r) m = apfst GatewayAnswer (memory_RegisterGateway r m)"
| "memory_call sha256 (SetStateCall i g state) m = apfst ErrorAnswer (memory_SetGatewayState i g state m)"
| "memory_call sha256 (ReserveCall q) m = apfst PlacementAnswer (memory_ReservePlacement sha256 q m)"
| "memory_call sha256 (PlacementCall i p) m = (PlacementAnswer (memory_GetPlacement m i p), m)"
| "memory_call sha256 (GatewayCall i g) m = (RecordAnswer (memory_GetGateway m i g), m)"
| "memory_call sha256 (SaveCall r) m = apfst ErrorAnswer (memory_SaveExecution r m)"
| "memory_call sha256 (ExecutionCall ref) m = (ExecutionAnswer (memory_GetExecution m ref), m)"
| "memory_call sha256 (UpdateCall ref state) m = apfst ErrorAnswer (memory_UpdateExecutionState ref state m)"

end
