(* ===== verification/Gateway_Store.thy ===== *)
theory Gateway_Store
  imports Gateways Tables
begin

text \<open>
  The durable store of gateways, placements and executions, \<open>src/internal/execution/postgres/store.go\<close> over the
  tables of migration 00002. Each transaction is one function on the three tables, and so is the single
  statement of a call without a transaction. The constraints that a caller's values can violate are
  modelled: a violated one makes the statement fail and the call answer with a persistence error. A value
  that is not a PostgreSQL text makes every statement that carries it fail. A nil slice is sent as NULL.
\<close>

section \<open>Tables\<close>

record gateway_row =
  gwy_record :: GatewayRecord
  gwy_version :: int
  gwy_registered_at :: instant
  gwy_updated_at :: instant

record placement_row =
  pmt_placement :: Placement
  pmt_operation_id :: string
  pmt_required_capabilities :: "string list"
  pmt_state :: string
  pmt_created_at :: instant
  pmt_updated_at :: instant

record instance_row =
  ins_record :: ExecutionRecord
  ins_created_at :: instant
  ins_updated_at :: instant
  ins_terminated_at :: "instant option"

record execution_db =
  xdb_gateways :: "gateway_row list"
  xdb_placements :: "placement_row list"
  xdb_instances :: "instance_row list"

definition empty_execution_db :: execution_db where
  "empty_execution_db = \<lparr>xdb_gateways = [], xdb_placements = [], xdb_instances = []\<rparr>"

definition gateway_key :: "gateway_row \<Rightarrow> string \<times> string" where
  "gateway_key g = (gtw_IsolationDomainID (gwr_Gateway (gwy_record g)), gtw_ID (gwr_Gateway (gwy_record g)))"

definition placement_key :: "placement_row \<Rightarrow> string \<times> string" where
  "placement_key p = (plc_IsolationDomainID (pmt_placement p), plc_ID (pmt_placement p))"

definition placement_operation :: "placement_row \<Rightarrow> string \<times> string" where
  "placement_operation p = (plc_IsolationDomainID (pmt_placement p), pmt_operation_id p)"

definition placement_gateway :: "placement_row \<Rightarrow> string \<times> string" where
  "placement_gateway p = (plc_IsolationDomainID (pmt_placement p), plc_GatewayID (pmt_placement p))"

definition execution_key :: "ExecutionRecord \<Rightarrow> string \<times> string" where
  "execution_key r = (exe_IsolationDomainID (exr_Execution r), exe_ID (exr_Execution r))"

definition execution_operation :: "ExecutionRecord \<Rightarrow> string \<times> string" where
  "execution_operation r = (exe_IsolationDomainID (exr_Execution r), exr_OperationID r)"

definition execution_gateway :: "ExecutionRecord \<Rightarrow> string \<times> string" where
  "execution_gateway r = (exe_IsolationDomainID (exr_Execution r), exe_GatewayID (exr_Execution r))"

section \<open>Constraints\<close>

definition pg_text :: "string \<Rightarrow> bool" where
  "pg_text s \<longleftrightarrow> utf8_ValidString s \<and> CHR 0x00 \<notin> set s"

text \<open>\<open>^[a-z][a-z0-9-]{0,63}$\<close>\<close>

definition driver_pattern :: "string \<Rightarrow> bool" where
  "driver_pattern s =
     (case s of [] \<Rightarrow> False | c # cs \<Rightarrow> is_lower c \<and> length cs \<le> 63 \<and> list_all (\<lambda>d. is_lower d \<or> is_digit d \<or> d = CHR ''-'') cs)"

definition gateway_columns_ok :: "GatewayRegistration \<Rightarrow> go_slice \<Rightarrow> bool" where
  "gateway_columns_ok r capabilities \<longleftrightarrow>
     resource_id_pattern ''iso'' (grg_IsolationDomainID r) \<and> resource_id_pattern ''gtw'' (grg_ID r) \<and>
     driver_pattern (grg_Driver r) \<and> pg_text (grg_Endpoint r) \<and> utf8_RuneCountInString (grg_Endpoint r) \<le> 2048 \<and>
     (case capabilities of None \<Rightarrow> False | Some names \<Rightarrow> list_all pg_text names)"

definition placement_columns_ok :: "Placement \<Rightarrow> string \<Rightarrow> bool" where
  "placement_columns_ok p operationID \<longleftrightarrow>
     resource_id_pattern ''iso'' (plc_IsolationDomainID p) \<and> resource_id_pattern ''plc'' (plc_ID p) \<and>
     resource_id_pattern ''op'' operationID"

definition instance_columns_ok :: "ExecutionRecord \<Rightarrow> bool" where
  "instance_columns_ok r \<longleftrightarrow>
     resource_id_pattern ''iso'' (exe_IsolationDomainID (exr_Execution r)) \<and>
     resource_id_pattern ''exe'' (exe_ID (exr_Execution r)) \<and> resource_id_pattern ''op'' (exr_OperationID r) \<and>
     pg_text (exr_SandboxName r) \<and> utf8_RuneCountInString (exr_SandboxName r) \<le> 128"

definition instance_conflict :: "ExecutionRecord \<Rightarrow> instance_row \<Rightarrow> bool" where
  "instance_conflict r old \<longleftrightarrow>
     execution_operation (ins_record old) = execution_operation r \<or>
     (execution_gateway (ins_record old) = execution_gateway r \<and> exr_SandboxName (ins_record old) = exr_SandboxName r)"

definition persistence_failure :: "string \<Rightarrow> go_error" where
  "persistence_failure stage = Errorf (stage @ '': execution state persistence failed'') [Sentinel ErrPersistence]"

section \<open>Gateways\<close>

definition pg_GetGateway :: "execution_db \<Rightarrow> string \<Rightarrow> string \<Rightarrow> GatewayRecord result" where
  "pg_GetGateway d isolationDomainID gatewayID =
     (if \<not> pg_text isolationDomainID \<or> \<not> pg_text gatewayID then Inl (persistence_failure ''read gateway'')
      else
        (case sql_select (\<lambda>g. gateway_key g = (isolationDomainID, gatewayID)) (xdb_gateways d) of
           None \<Rightarrow> Inl (Sentinel ErrNoGateway)
         | Some g \<Rightarrow> Inr (gwy_record g)))"

definition pg_RegisterGateway ::
  "instant \<Rightarrow> GatewayRegistration \<Rightarrow> execution_db \<Rightarrow> Gateway result \<times> execution_db" where
  "pg_RegisterGateway now registration d =
     (if registration_incomplete registration
      then (Inl (errors_New ''isolation domain, gateway id, driver, and endpoint are required''), d)
      else
        (case NormalizeCapabilities (grg_Capabilities registration) of
           Inl err \<Rightarrow> (Inl err, d)
         | Inr capabilities \<Rightarrow>
             (let domain = grg_IsolationDomainID registration;
                  exists0 = list_ex (\<lambda>g. gateway_key g = (domain, grg_ID registration)) (xdb_gateways d);
                  taken = list_ex (\<lambda>g. gtw_IsolationDomainID (gwr_Gateway (gwy_record g)) = domain \<and>
                                       gwr_Endpoint (gwy_record g) = grg_Endpoint registration) (xdb_gateways d);
                  gateway = \<lparr>gtw_IsolationDomainID = domain, gtw_ID = grg_ID registration,
                    gtw_Driver = grg_Driver registration, gtw_State = GatewayActive, gtw_Capabilities = capabilities\<rparr>;
                  row = \<lparr>gwy_record = \<lparr>gwr_Gateway = gateway, gwr_Endpoint = grg_Endpoint registration\<rparr>,
                         gwy_version = 1, gwy_registered_at = now, gwy_updated_at = now\<rparr>;
                  inserted = (if exists0 then d else d\<lparr>xdb_gateways := xdb_gateways d @ [row]\<rparr>)
              in if \<not> gateway_columns_ok registration capabilities \<or> (\<not> exists0 \<and> taken)
                 then (Inl (persistence_failure ''register gateway''), d)
                 else
                   (case pg_GetGateway inserted domain (grg_ID registration) of
                      Inl err \<Rightarrow> (Inl err, inserted)
                    | Inr stored \<Rightarrow>
                        if gwr_Endpoint stored \<noteq> grg_Endpoint registration \<or>
                           gtw_Driver (gwr_Gateway stored) \<noteq> grg_Driver registration \<or>
                           elements (gtw_Capabilities (gwr_Gateway stored)) \<noteq> elements capabilities
                        then (Inl (Sentinel ErrStateConflict), inserted)
                        else (Inr (gwr_Gateway stored), inserted)))))"

definition set_gateway_state :: "string \<Rightarrow> instant \<Rightarrow> gateway_row \<Rightarrow> gateway_row" where
  "set_gateway_state state now g =
     g\<lparr>gwy_record := (gwy_record g)\<lparr>gwr_Gateway := (gwr_Gateway (gwy_record g))\<lparr>gtw_State := state\<rparr>\<rparr>,
       gwy_version := gwy_version g + 1, gwy_updated_at := now\<rparr>"

definition set_placement_state :: "string \<Rightarrow> instant \<Rightarrow> placement_row \<Rightarrow> placement_row" where
  "set_placement_state state now p = p\<lparr>pmt_state := state, pmt_updated_at := now\<rparr>"

definition set_execution_state :: "string \<Rightarrow> ExecutionRecord \<Rightarrow> ExecutionRecord" where
  "set_execution_state state r = r\<lparr>exr_Execution := (exr_Execution r)\<lparr>exe_State := state\<rparr>\<rparr>"

definition lose_instance :: "instant \<Rightarrow> instance_row \<Rightarrow> instance_row" where
  "lose_instance now i = i\<lparr>ins_record := set_execution_state ''unknown'' (ins_record i), ins_updated_at := now\<rparr>"

definition pg_SetGatewayState ::
  "instant \<Rightarrow> string \<Rightarrow> string \<Rightarrow> string \<Rightarrow> execution_db \<Rightarrow> go_error option \<times> execution_db" where
  "pg_SetGatewayState now isolationDomainID gatewayID state d =
     (let k = (isolationDomainID, gatewayID);
          updated = d\<lparr>xdb_gateways := sql_update (\<lambda>g. gateway_key g = k) (set_gateway_state state now) (xdb_gateways d)\<rparr>
      in if \<not> ValidGatewayState state then (Some (errors_New ''invalid gateway state''), d)
         else if \<not> pg_text isolationDomainID \<or> \<not> pg_text gatewayID
         then (Some (persistence_failure ''update gateway state''), d)
         else if rows_affected (\<lambda>g. gateway_key g = k) (xdb_gateways d) = 0 then (Some (Sentinel ErrNoGateway), d)
         else if state = GatewayLost
         then (None, updated\<lparr>
           xdb_placements := sql_update (\<lambda>p. placement_gateway p = k \<and> live_state (pmt_state p))
             (set_placement_state ''lost'' now) (xdb_placements d),
           xdb_instances := sql_update (\<lambda>i. execution_gateway (ins_record i) = k \<and>
                                            \<not> settled_state (exe_State (exr_Execution (ins_record i))))
             (lose_instance now) (xdb_instances d)\<rparr>)
         else (None, updated))"

section \<open>Placements\<close>

definition getPlacementByOperation :: "execution_db \<Rightarrow> string \<Rightarrow> string \<Rightarrow> placement_row option" where
  "getPlacementByOperation d isolationDomainID operationID =
     sql_select (\<lambda>p. placement_operation p = (isolationDomainID, operationID)) (xdb_placements d)"

definition gateway_load :: "execution_db \<Rightarrow> gateway_row \<Rightarrow> nat" where
  "gateway_load d g =
     length (filter (\<lambda>p. placement_gateway p = gateway_key g \<and> live_state (pmt_state p)) (xdb_placements d))"

text \<open>
  The gateway query. \<open>FOR UPDATE ... SKIP LOCKED\<close> passes over the gateways whose rows other transactions hold
  at that moment, the argument \<open>locked\<close>. A containment test against NULL is not true for any gateway.
\<close>

definition gateway_candidates :: "string list \<Rightarrow> string \<Rightarrow> go_slice \<Rightarrow> execution_db \<Rightarrow> gateway_row list" where
  "gateway_candidates locked isolationDomainID capabilities d =
     filter (\<lambda>g. gtw_IsolationDomainID (gwr_Gateway (gwy_record g)) = isolationDomainID \<and>
                 gtw_State (gwr_Gateway (gwy_record g)) = GatewayActive \<and>
                 (case capabilities of None \<Rightarrow> False
                  | Some names \<Rightarrow> containsCapabilities (elements (gtw_Capabilities (gwr_Gateway (gwy_record g)))) names) \<and>
                 gtw_ID (gwr_Gateway (gwy_record g)) \<notin> set locked)
       (xdb_gateways d)"

definition select_gateway :: "string list \<Rightarrow> string \<Rightarrow> go_slice \<Rightarrow> execution_db \<Rightarrow> gateway_row option" where
  "select_gateway locked isolationDomainID capabilities d =
     first_by (\<lambda>g. (gateway_load d g, gtw_ID (gwr_Gateway (gwy_record g))))
       (gateway_candidates locked isolationDomainID capabilities d)"

definition pg_ReservePlacement ::
  "(string \<Rightarrow> string) \<Rightarrow> string list \<Rightarrow> instant \<Rightarrow> PlacementRequest \<Rightarrow> execution_db \<Rightarrow> Placement result \<times> execution_db" where
  "pg_ReservePlacement sha256 locked now request d =
     (if plq_IsolationDomainID request = [] \<or> plq_OperationID request = []
      then (Inl (errors_New ''isolation domain and operation are required''), d)
      else
        (case NormalizeCapabilities (plq_RequiredCapabilities request) of
           Inl err \<Rightarrow> (Inl err, d)
         | Inr capabilities \<Rightarrow>
             (let domain = plq_IsolationDomainID request; operationID = plq_OperationID request in
              if \<not> pg_text domain \<or> \<not> pg_text operationID
              then (Inl (persistence_failure ''read placement by operation''), d)
              else
                (case getPlacementByOperation d domain operationID of
                   Some stored \<Rightarrow>
                     if pmt_required_capabilities stored \<noteq> elements capabilities
                     then (Inl (Sentinel ErrStateConflict), d)
                     else (Inr (pmt_placement stored), d)
                 | None \<Rightarrow>
                     if \<not> list_all pg_text (elements capabilities)
                     then (Inl (persistence_failure ''select placement gateway''), d)
                     else
                       (case select_gateway locked domain capabilities d of
                          None \<Rightarrow> (Inl (Sentinel ErrNoGateway), d)
                        | Some gateway \<Rightarrow>
                            (let placement = \<lparr>plc_IsolationDomainID = domain,
                                   plc_ID = Derived sha256 ''plc'' (domain @ '':'' @ operationID),
                                   plc_GatewayID = gtw_ID (gwr_Gateway (gwy_record gateway))\<rparr>;
                                 row = \<lparr>pmt_placement = placement, pmt_operation_id = operationID,
                                   pmt_required_capabilities = elements capabilities, pmt_state = ''reserved'',
                                   pmt_created_at = now, pmt_updated_at = now\<rparr>
                             in if \<not> placement_columns_ok placement operationID \<or>
                                   list_ex (\<lambda>p. placement_key p = placement_key row) (xdb_placements d)
                                then (Inl (persistence_failure ''reserve placement''), d)
                                else (Inr placement, d\<lparr>xdb_placements := xdb_placements d @ [row]\<rparr>)))))))"

definition pg_GetPlacement :: "execution_db \<Rightarrow> string \<Rightarrow> string \<Rightarrow> Placement result" where
  "pg_GetPlacement d isolationDomainID placementID =
     (if \<not> pg_text isolationDomainID \<or> \<not> pg_text placementID then Inl (persistence_failure ''read placement'')
      else
        (case sql_select (\<lambda>p. placement_key p = (isolationDomainID, placementID)) (xdb_placements d) of
           None \<Rightarrow> Inl (Sentinel ErrPlacementMissing)
         | Some p \<Rightarrow> Inr (pmt_placement p)))"

section \<open>Executions\<close>

definition getExecution :: "execution_db \<Rightarrow> ExecutionRef \<Rightarrow> ExecutionRecord option result" where
  "getExecution d ref =
     (if \<not> pg_text (ref_IsolationDomainID ref) \<or> \<not> pg_text (ref_ID ref) then Inl (persistence_failure ''read execution'')
      else Inr (map_option ins_record
             (sql_select (\<lambda>i. execution_key (ins_record i) = (ref_IsolationDomainID ref, ref_ID ref)) (xdb_instances d))))"

text \<open>The second read of the execution happens under the lock of its placement; a transaction that is one
  step reads what it has read before.\<close>

definition pg_SaveExecution ::
  "instant \<Rightarrow> ExecutionRecord \<Rightarrow> execution_db \<Rightarrow> go_error option \<times> execution_db" where
  "pg_SaveExecution now r d =
     (let domain = exe_IsolationDomainID (exr_Execution r);
          terminated = (exe_State (exr_Execution r) = ''terminated'') in
      if execution_incomplete r
      then (Some (errors_New ''complete execution identity and valid state are required''), d)
      else
        (case getExecution d \<lparr>ref_IsolationDomainID = domain, ref_ID = exe_ID (exr_Execution r)\<rparr> of
           Inl err \<Rightarrow> (Some err, d)
         | Inr (Some existing) \<Rightarrow>
             if \<not> same_execution_identity existing r then (Some (Sentinel ErrStateConflict), d) else (None, d)
         | Inr None \<Rightarrow>
             if \<not> pg_text (exr_PlacementID r) then (Some (persistence_failure ''lock execution placement''), d)
             else
               (case sql_select (\<lambda>p. placement_key p = (domain, exr_PlacementID r)) (xdb_placements d) of
                  None \<Rightarrow> (Some (Sentinel ErrPlacementMissing), d)
                | Some placement \<Rightarrow>
                    if pmt_operation_id placement \<noteq> exr_OperationID r \<or>
                       plc_GatewayID (pmt_placement placement) \<noteq> exe_GatewayID (exr_Execution r) \<or>
                       \<not> live_state (pmt_state placement)
                    then (Some (Sentinel ErrStateConflict), d)
                    else if \<not> instance_columns_ok r \<or> list_ex (instance_conflict r) (xdb_instances d)
                    then (Some (persistence_failure ''save execution''), d)
                    else
                      (None,
                       d\<lparr>xdb_instances := xdb_instances d @
                           [\<lparr>ins_record = r, ins_created_at = now, ins_updated_at = now,
                             ins_terminated_at = (if terminated then Some now else None)\<rparr>],
                         xdb_placements := sql_update (\<lambda>p. placement_key p = (domain, exr_PlacementID r))
                           (set_placement_state (if terminated then ''released'' else ''active'') now) (xdb_placements d)\<rparr>))))"

definition pg_GetExecution :: "execution_db \<Rightarrow> ExecutionRef \<Rightarrow> ExecutionRecord result" where
  "pg_GetExecution d ref =
     (case getExecution d ref of
        Inl err \<Rightarrow> Inl err
      | Inr None \<Rightarrow> Inl (Sentinel ErrExecutionMissing)
      | Inr (Some r) \<Rightarrow> Inr r)"

definition pg_GetExecutionByOperation :: "execution_db \<Rightarrow> string \<Rightarrow> string \<Rightarrow> Execution result" where
  "pg_GetExecutionByOperation d isolationDomainID operationID =
     (if \<not> pg_text isolationDomainID \<or> \<not> pg_text operationID then Inl (persistence_failure ''read execution by operation'')
      else
        (case sql_select (\<lambda>i. execution_operation (ins_record i) = (isolationDomainID, operationID)) (xdb_instances d) of
           None \<Rightarrow> Inl (Sentinel ErrExecutionMissing)
         | Some i \<Rightarrow> Inr (exr_Execution (ins_record i))))"

definition pg_UpdateExecutionState ::
  "instant \<Rightarrow> ExecutionRef \<Rightarrow> string \<Rightarrow> execution_db \<Rightarrow> go_error option \<times> execution_db" where
  "pg_UpdateExecutionState now ref state d =
     (let k = (ref_IsolationDomainID ref, ref_ID ref); terminated = (state = ''terminated'') in
      if \<not> valid_execution_state state then (Some (errors_New ''invalid execution state''), d)
      else if \<not> pg_text (ref_IsolationDomainID ref) \<or> \<not> pg_text (ref_ID ref)
      then (Some (persistence_failure ''lock execution state''), d)
      else
        (case sql_select (\<lambda>i. execution_key (ins_record i) = k) (xdb_instances d) of
           None \<Rightarrow> (Some (Sentinel ErrExecutionMissing), d)
         | Some current \<Rightarrow>
             if exe_State (exr_Execution (ins_record current)) = ''terminated'' \<and> \<not> terminated
             then (Some (Sentinel ErrStateConflict), d)
             else
               (None,
                d\<lparr>xdb_instances := sql_update (\<lambda>i. execution_key (ins_record i) = k)
                    (\<lambda>i. i\<lparr>ins_record := set_execution_state state (ins_record i), ins_updated_at := now,
                           ins_terminated_at := (if terminated then Some now else None)\<rparr>) (xdb_instances d),
                  xdb_placements :=
                    (if terminated
                     then sql_update (\<lambda>p. list_ex (\<lambda>i. execution_key (ins_record i) = k \<and>
                              placement_key p = (exe_IsolationDomainID (exr_Execution (ins_record i)), exr_PlacementID (ins_record i)))
                            (xdb_instances d))
                          (set_placement_state ''released'' now) (xdb_placements d)
                     else xdb_placements d)\<rparr>)))"

section \<open>Calls\<close>

text \<open>A call at a time, while other transactions hold the rows of some gateways.\<close>

fun pg_call ::
  "(string \<Rightarrow> string) \<Rightarrow> instant \<Rightarrow> string list \<Rightarrow> store_call \<Rightarrow> execution_db \<Rightarrow> store_answer \<times> execution_db" where
  "pg_call sha256 now locked (RegisterCall r) d = apfst GatewayAnswer (pg_RegisterGateway now r d)"
| "pg_call sha256 now locked (SetStateCall i g state) d = apfst ErrorAnswer (pg_SetGatewayState now i g state d)"
| "pg_call sha256 now locked (ReserveCall q) d = apfst PlacementAnswer (pg_ReservePlacement sha256 locked now q d)"
| "pg_call sha256 now locked (PlacementCall i p) d = (PlacementAnswer (pg_GetPlacement d i p), d)"
| "pg_call sha256 now locked (GatewayCall i g) d = (RecordAnswer (pg_GetGateway d i g), d)"
| "pg_call sha256 now locked (SaveCall r) d = apfst ErrorAnswer (pg_SaveExecution now r d)"
| "pg_call sha256 now locked (ExecutionCall ref) d = (ExecutionAnswer (pg_GetExecution d ref), d)"
| "pg_call sha256 now locked (UpdateCall ref state) d = apfst ErrorAnswer (pg_UpdateExecutionState now ref state d)"

definition pg_calls ::
  "(string \<Rightarrow> string) \<Rightarrow> (instant \<times> string list \<times> store_call) list \<Rightarrow> execution_db \<Rightarrow> execution_db" where
  "pg_calls sha256 = fold (\<lambda>(now, locked, c). snd \<circ> pg_call sha256 now locked c)"

end
