(* ===== verification/Gateway_Placement.thy ===== *)
theory Gateway_Placement
  imports Gateway_Store
begin

text \<open>
  What the durable store of gateways, placements and executions keeps under every sequence of calls: the
  constraints of its tables, an execution that agrees with its placement, a placement that agrees with its
  gateway, and the placement of an operation for ever.
\<close>

section \<open>Keys under updates\<close>

lemma key_updates [simp]:
  "gateway_key (set_gateway_state s now g) = gateway_key g"
  "placement_key (set_placement_state s now p) = placement_key p"
  "placement_operation (set_placement_state s now p) = placement_operation p"
  "placement_gateway (set_placement_state s now p) = placement_gateway p"
  "execution_key (set_execution_state s r) = execution_key r"
  "execution_operation (set_execution_state s r) = execution_operation r"
  "execution_gateway (set_execution_state s r) = execution_gateway r"
  "exr_PlacementID (set_execution_state s r) = exr_PlacementID r"
  "ins_record (lose_instance now i) = set_execution_state ''unknown'' (ins_record i)"
  "pmt_state (set_placement_state s now p) = s"
  "pmt_required_capabilities (set_placement_state s now p) = pmt_required_capabilities p"
  "pmt_placement (set_placement_state s now p) = pmt_placement p"
  "pmt_operation_id (set_placement_state s now p) = pmt_operation_id p"
  "exe_State (exr_Execution (set_execution_state s r)) = s"
  "gtw_Capabilities (gwr_Gateway (gwy_record (set_gateway_state s now g))) = gtw_Capabilities (gwr_Gateway (gwy_record g))"
  "gtw_State (gwr_Gateway (gwy_record (set_gateway_state s now g))) = s"
  "gwr_Endpoint (gwy_record (set_gateway_state s now g)) = gwr_Endpoint (gwy_record g)"
  by (simp_all add: gateway_key_def set_gateway_state_def placement_key_def set_placement_state_def
    placement_operation_def placement_gateway_def execution_key_def set_execution_state_def
    execution_operation_def execution_gateway_def lose_instance_def)

definition execution_placement :: "ExecutionRecord \<Rightarrow> string \<times> string" where
  "execution_placement r = (exe_IsolationDomainID (exr_Execution r), exr_PlacementID r)"

lemma execution_placement_update [simp]: "execution_placement (set_execution_state s r) = execution_placement r"
  by (simp add: execution_placement_def set_execution_state_def)

section \<open>The invariant\<close>

definition gateways_ok :: "gateway_row list \<Rightarrow> bool" where
  "gateways_ok gs \<longleftrightarrow> unique_by gateway_key gs \<and> (\<forall>g \<in> set gs. ValidGatewayState (gtw_State (gwr_Gateway (gwy_record g))))"

definition placed_on :: "placement_row \<Rightarrow> gateway_row \<Rightarrow> bool" where
  "placed_on p g \<longleftrightarrow>
     gateway_key g = placement_gateway p \<and>
     containsCapabilities (elements (gtw_Capabilities (gwr_Gateway (gwy_record g)))) (pmt_required_capabilities p) \<and>
     (live_state (pmt_state p) \<longrightarrow> gtw_State (gwr_Gateway (gwy_record g)) \<noteq> GatewayLost)"

definition placements_ok :: "gateway_row list \<Rightarrow> placement_row list \<Rightarrow> bool" where
  "placements_ok gs ps \<longleftrightarrow>
     unique_by placement_key ps \<and> unique_by placement_operation ps \<and>
     (\<forall>p \<in> set ps. pmt_state p \<in> {''reserved'', ''active'', ''released'', ''lost''} \<and>
        placement_columns_ok (pmt_placement p) (pmt_operation_id p) \<and> list_all pg_text (pmt_required_capabilities p) \<and>
        (\<exists>g \<in> set gs. placed_on p g))"

definition runs_in :: "instance_row \<Rightarrow> placement_row \<Rightarrow> bool" where
  "runs_in i p \<longleftrightarrow>
     placement_key p = execution_placement (ins_record i) \<and>
     placement_operation p = execution_operation (ins_record i) \<and>
     placement_gateway p = execution_gateway (ins_record i) \<and>
     (pmt_state p = ''released'' \<longleftrightarrow> exe_State (exr_Execution (ins_record i)) = ''terminated'') \<and>
     pmt_state p \<noteq> ''reserved''"

definition instances_ok :: "placement_row list \<Rightarrow> instance_row list \<Rightarrow> bool" where
  "instances_ok ps is \<longleftrightarrow>
     unique_by (execution_key \<circ> ins_record) is \<and> unique_by (execution_operation \<circ> ins_record) is \<and>
     (\<forall>i \<in> set is. valid_execution_state (exe_State (exr_Execution (ins_record i))) \<and>
        (ins_terminated_at i \<noteq> None \<longleftrightarrow> exe_State (exr_Execution (ins_record i)) = ''terminated'') \<and>
        (\<exists>p \<in> set ps. runs_in i p)) \<and>
     (\<forall>p \<in> set ps. pmt_state p \<in> {''active'', ''released''} \<longrightarrow> (\<exists>i \<in> set is. runs_in i p))"

definition execution_ok :: "execution_db \<Rightarrow> bool" where
  "execution_ok d \<longleftrightarrow>
     gateways_ok (xdb_gateways d) \<and> placements_ok (xdb_gateways d) (xdb_placements d) \<and>
     instances_ok (xdb_placements d) (xdb_instances d)"

lemma empty_execution_ok: "execution_ok empty_execution_db"
  by (simp add: execution_ok_def gateways_ok_def placements_ok_def instances_ok_def empty_execution_db_def unique_by_def)


section \<open>Every call keeps it\<close>

lemma placements_ok_mono:
  assumes "placements_ok gs ps" and "set gs \<subseteq> set gs'"
  shows "placements_ok gs' ps"
  using assms unfolding placements_ok_def by blast

lemma register_ok:
  assumes "execution_ok d" and "pg_RegisterGateway now r d = (res, d')"
  shows "execution_ok d'"
proof -
  consider "d' = d" | g where "d' = d\<lparr>xdb_gateways := xdb_gateways d @ [g]\<rparr>"
      "\<forall>old \<in> set (xdb_gateways d). gateway_key old \<noteq> gateway_key g" "gtw_State (gwr_Gateway (gwy_record g)) = GatewayActive"
    using assms(2)
    by (auto simp: pg_RegisterGateway_def Let_def list_ex_iff gateway_key_def split: if_splits sum.splits)
  then show ?thesis
  proof cases
    case 1
    with assms(1) show ?thesis by simp
  next
    case 2
    then have "gateways_ok (xdb_gateways d')"
      using assms(1) by (auto simp: execution_ok_def gateways_ok_def unique_by_def ValidGatewayState_def)
    with 2 assms(1) show ?thesis
      by (auto simp: execution_ok_def intro: placements_ok_mono)
  qed
qed

lemma mark_gateway_ok:
  assumes "placements_ok gs ps" and "state \<noteq> GatewayLost"
  shows "placements_ok (sql_update (\<lambda>g. gateway_key g = k) (set_gateway_state state now) gs) ps"
proof -
  have "\<exists>g' \<in> set (sql_update (\<lambda>g. gateway_key g = k) (set_gateway_state state now) gs). placed_on p g'"
    if "g \<in> set gs" "placed_on p g" for p g
  proof -
    define g' where "g' = (if gateway_key g = k then set_gateway_state state now g else g)"
    have "g' \<in> set (sql_update (\<lambda>g. gateway_key g = k) (set_gateway_state state now) gs)"
      using that(1) by (auto simp: sql_update_def g'_def)
    moreover have "placed_on p g'" using that(2) assms(2) by (auto simp: placed_on_def g'_def)
    ultimately show ?thesis by blast
  qed
  then show ?thesis using assms(1) unfolding placements_ok_def by blast
qed

lemma lose_gateway_ok:
  assumes "placements_ok gs ps"
  shows "placements_ok (sql_update (\<lambda>g. gateway_key g = k) (set_gateway_state GatewayLost now) gs)
    (sql_update (\<lambda>p. placement_gateway p = k \<and> live_state (pmt_state p)) (set_placement_state ''lost'' now) ps)"
    (is "placements_ok ?gs ?ps")
proof -
  have lost: "\<not> live_state ''lost''" by (simp add: live_state_def)
  have "\<exists>g' \<in> set ?gs. placed_on p' g'" if changed: "p' \<in> set ?ps" for p'
  proof -
    obtain p where p: "p \<in> set ps" "p' = (if placement_gateway p = k \<and> live_state (pmt_state p) then set_placement_state ''lost'' now p else p)"
      using changed unfolding sql_update_def set_map by blast
    then obtain g where g: "g \<in> set gs" "placed_on p g" using assms by (auto simp: placements_ok_def)
    have "placed_on p' (if gateway_key g = k then set_gateway_state GatewayLost now g else g)"
      using g(2) p(2) lost by (auto simp: placed_on_def)
    moreover have "(if gateway_key g = k then set_gateway_state GatewayLost now g else g) \<in> set ?gs"
      using g(1) by (auto simp: sql_update_def)
    ultimately show ?thesis by blast
  qed
  moreover have "pmt_state p' \<in> {''reserved'', ''active'', ''released'', ''lost''} \<and>
      placement_columns_ok (pmt_placement p') (pmt_operation_id p') \<and> list_all pg_text (pmt_required_capabilities p')"
    if "p' \<in> set ?ps" for p'
    using that assms by (auto simp: placements_ok_def elim!: in_sql_updateE)
  ultimately show ?thesis using assms by (simp add: placements_ok_def unique_by_update)
qed

definition instance_fields_ok :: "instance_row \<Rightarrow> bool" where
  "instance_fields_ok i \<longleftrightarrow>
     valid_execution_state (exe_State (exr_Execution (ins_record i))) \<and>
     (ins_terminated_at i \<noteq> None \<longleftrightarrow> exe_State (exr_Execution (ins_record i)) = ''terminated'')"

lemma instances_ok_map:
  assumes ok: "instances_ok ps is"
    and keys: "\<And>i. i \<in> set is \<Longrightarrow> execution_key (ins_record (fi i)) = execution_key (ins_record i) \<and>
      execution_operation (ins_record (fi i)) = execution_operation (ins_record i) \<and> instance_fields_ok (fi i)"
    and runs: "\<And>i p. i \<in> set is \<Longrightarrow> p \<in> set ps \<Longrightarrow> runs_in i p \<Longrightarrow> runs_in (fi i) (fp p)"
    and active: "\<And>p. p \<in> set ps \<Longrightarrow> pmt_state (fp p) \<in> {''active'', ''released''} \<Longrightarrow> \<exists>i \<in> set is. runs_in i p"
  shows "instances_ok (map fp ps) (map fi is)"
  unfolding instances_ok_def
proof (intro conjI ballI impI)
  have "map (execution_key \<circ> ins_record) (map fi is) = map (execution_key \<circ> ins_record) is"
    "map (execution_operation \<circ> ins_record) (map fi is) = map (execution_operation \<circ> ins_record) is"
    using keys by simp_all
  then show "unique_by (execution_key \<circ> ins_record) (map fi is)" "unique_by (execution_operation \<circ> ins_record) (map fi is)"
    using ok unfolding instances_ok_def unique_by_def by metis+
next
  fix i' assume "i' \<in> set (map fi is)"
  then obtain i where i: "i \<in> set is" "i' = fi i" by auto
  then show "valid_execution_state (exe_State (exr_Execution (ins_record i')))"
    "ins_terminated_at i' \<noteq> None \<longleftrightarrow> exe_State (exr_Execution (ins_record i')) = ''terminated''"
    using keys by (auto simp: instance_fields_ok_def)
  obtain p where "p \<in> set ps" "runs_in i p" using ok i(1) unfolding instances_ok_def by blast
  with runs i show "\<exists>p \<in> set (map fp ps). runs_in i' p" by auto
next
  fix p' assume "p' \<in> set (map fp ps)" "pmt_state p' \<in> {''active'', ''released''}"
  then obtain p where p: "p \<in> set ps" "p' = fp p" "pmt_state (fp p) \<in> {''active'', ''released''}" by auto
  with active obtain i where "i \<in> set is" "runs_in i p" by blast
  with runs p show "\<exists>i \<in> set (map fi is). runs_in i p'" by auto
qed

lemma instances_ok_insert:
  assumes ok: "instances_ok ps is" and fields: "instance_fields_ok i" and p: "p \<in> set ps" "runs_in i (fp p)" "pmt_state p = ''reserved''"
    and fresh: "\<forall>j \<in> set is. execution_key (ins_record j) \<noteq> execution_key (ins_record i) \<and>
      execution_operation (ins_record j) \<noteq> execution_operation (ins_record i)"
    and others: "\<And>q. q \<in> set ps \<Longrightarrow> q \<noteq> p \<Longrightarrow> fp q = q"
  shows "instances_ok (map fp ps) (is @ [i])"
  unfolding instances_ok_def
proof (intro conjI ballI impI)
  show "unique_by (execution_key \<circ> ins_record) (is @ [i])" "unique_by (execution_operation \<circ> ins_record) (is @ [i])"
    using ok fresh by (auto simp: instances_ok_def unique_by_def)
next
  fix j assume j: "j \<in> set (is @ [i])"
  then show "valid_execution_state (exe_State (exr_Execution (ins_record j)))"
    "ins_terminated_at j \<noteq> None \<longleftrightarrow> exe_State (exr_Execution (ins_record j)) = ''terminated''"
    using ok fields by (auto simp: instances_ok_def instance_fields_ok_def)
  show "\<exists>q \<in> set (map fp ps). runs_in j q"
  proof (cases "j \<in> set is")
    case True
    then obtain q where q: "q \<in> set ps" "runs_in j q" using ok unfolding instances_ok_def by blast
    then have "q \<noteq> p" using p(3) by (auto simp: runs_in_def)
    with q others show ?thesis by force
  next
    case False
    with j p show ?thesis by auto
  qed
next
  fix q' assume "q' \<in> set (map fp ps)" "pmt_state q' \<in> {''active'', ''released''}"
  then obtain q where q: "q \<in> set ps" "q' = fp q" "pmt_state (fp q) \<in> {''active'', ''released''}" by auto
  show "\<exists>j \<in> set (is @ [i]). runs_in j q'"
  proof (cases "q = p")
    case False
    then have "\<exists>j \<in> set is. runs_in j q" using q others ok unfolding instances_ok_def by metis
    with False q others show ?thesis by auto
  qed (use p q in auto)
qed

lemma lose_instances_ok:
  assumes "instances_ok ps is"
  shows "instances_ok (sql_update (\<lambda>p. placement_gateway p = k \<and> live_state (pmt_state p)) (set_placement_state ''lost'' now) ps)
    (sql_update (\<lambda>i. execution_gateway (ins_record i) = k \<and> \<not> settled_state (exe_State (exr_Execution (ins_record i)))) (lose_instance now) is)"
  unfolding sql_update_def
proof (rule instances_ok_map [OF assms])
  fix i assume "i \<in> set is"
  then show "execution_key (ins_record (if execution_gateway (ins_record i) = k \<and> \<not> settled_state (exe_State (exr_Execution (ins_record i))) then lose_instance now i else i)) =
      execution_key (ins_record i) \<and>
      execution_operation (ins_record (if execution_gateway (ins_record i) = k \<and> \<not> settled_state (exe_State (exr_Execution (ins_record i))) then lose_instance now i else i)) =
      execution_operation (ins_record i) \<and>
      instance_fields_ok (if execution_gateway (ins_record i) = k \<and> \<not> settled_state (exe_State (exr_Execution (ins_record i))) then lose_instance now i else i)"
    using assms by (auto simp: instances_ok_def instance_fields_ok_def valid_execution_state_def settled_state_def lose_instance_def)
qed (use assms in \<open>auto simp: runs_in_def live_state_def settled_state_def instances_ok_def split: if_splits\<close>)

lemma set_state_ok:
  assumes "execution_ok d" and "pg_SetGatewayState now i g state d = (res, d')"
  shows "execution_ok d'"
proof -
  have ok: "gateways_ok (xdb_gateways d)" "placements_ok (xdb_gateways d) (xdb_placements d)" "instances_ok (xdb_placements d) (xdb_instances d)"
    using assms(1) by (simp_all add: execution_ok_def)
  have marked: "gateways_ok (sql_update (\<lambda>r. gateway_key r = k) (set_gateway_state state now) (xdb_gateways d))"
    if "ValidGatewayState state" for k
    using ok(1) that by (auto simp: gateways_ok_def elim!: in_sql_updateE intro!: unique_by_update)
  show ?thesis
    using assms ok marked
    by (auto simp: pg_SetGatewayState_def execution_ok_def Let_def mark_gateway_ok lose_gateway_ok lose_instances_ok split: if_splits)
qed

lemma select_gateway_Some:
  assumes "select_gateway locked i capabilities d = Some g"
  shows "g \<in> set (xdb_gateways d) \<and> gtw_IsolationDomainID (gwr_Gateway (gwy_record g)) = i \<and>
    gtw_State (gwr_Gateway (gwy_record g)) = GatewayActive \<and> gtw_ID (gwr_Gateway (gwy_record g)) \<notin> set locked \<and>
    containsCapabilities (elements (gtw_Capabilities (gwr_Gateway (gwy_record g)))) (elements capabilities)"
  using first_by_Some [OF assms [unfolded select_gateway_def]]
  by (auto simp: gateway_candidates_def split: option.splits)

lemma reserve_cases:
  assumes "pg_ReservePlacement sha256 locked now q d = (res, d')"
  obtains (same) "d' = d"
  | (placed) row g where "d' = d\<lparr>xdb_placements := xdb_placements d @ [row]\<rparr>" "res = Inr (pmt_placement row)"
      "select_gateway locked (plq_IsolationDomainID q) (Some (pmt_required_capabilities row)) d = Some g" "placed_on row g"
      "pmt_state row = ''reserved''" "placement_operation row = (plq_IsolationDomainID q, plq_OperationID q)"
      "NormalizeCapabilities (plq_RequiredCapabilities q) = Inr (Some (pmt_required_capabilities row))"
      "\<forall>p \<in> set (xdb_placements d). placement_key p \<noteq> placement_key row \<and> placement_operation p \<noteq> placement_operation row"
      "placement_key row = (plq_IsolationDomainID q,
        Derived sha256 ''plc'' (plq_IsolationDomainID q @ '':'' @ plq_OperationID q))"
      "placement_columns_ok (pmt_placement row) (pmt_operation_id row)" "list_all pg_text (pmt_required_capabilities row)"
proof (cases "d' = d")
  case True
  with that show ?thesis by blast
next
  case False
  then obtain capabilities g where caps: "NormalizeCapabilities (plq_RequiredCapabilities q) = Inr capabilities"
    and free: "getPlacementByOperation d (plq_IsolationDomainID q) (plq_OperationID q) = None"
    and g: "select_gateway locked (plq_IsolationDomainID q) capabilities d = Some g"
    using assms by (auto simp: pg_ReservePlacement_def Let_def split: sum.splits option.splits if_splits)
  obtain names where names: "capabilities = Some names"
    using g by (cases capabilities) (auto simp: select_gateway_def gateway_candidates_def first_by_def)
  define row where "row = \<lparr>pmt_placement = \<lparr>plc_IsolationDomainID = plq_IsolationDomainID q,
      plc_ID = Derived sha256 ''plc'' (plq_IsolationDomainID q @ '':'' @ plq_OperationID q),
      plc_GatewayID = gtw_ID (gwr_Gateway (gwy_record g))\<rparr>, pmt_operation_id = plq_OperationID q,
    pmt_required_capabilities = names, pmt_state = ''reserved'', pmt_created_at = now, pmt_updated_at = now\<rparr>"
  have d': "d' = d\<lparr>xdb_placements := xdb_placements d @ [row]\<rparr>" "res = Inr (pmt_placement row)"
    "\<forall>p \<in> set (xdb_placements d). placement_key p \<noteq> placement_key row"
    "placement_columns_ok (pmt_placement row) (pmt_operation_id row)" "list_all pg_text (pmt_required_capabilities row)"
    using assms False caps free g names
    by (auto simp: pg_ReservePlacement_def Let_def row_def list_ex_iff split: if_splits)
  have placed: "placed_on row g"
    using select_gateway_Some [OF g] names
    by (auto simp: placed_on_def row_def gateway_key_def placement_gateway_def gateway_states)
  have others: "\<forall>p \<in> set (xdb_placements d). placement_key p \<noteq> placement_key row \<and> placement_operation p \<noteq> placement_operation row"
    using d'(3) free by (auto simp: getPlacementByOperation_def sql_select_None row_def placement_operation_def)
  show ?thesis
    by (rule that(2) [OF d'(1,2) _ placed _ _ _ others _ d'(4,5)])
      (use g caps names in \<open>simp_all add: row_def placement_operation_def placement_key_def\<close>)
qed

lemma instances_ok_more_placements:
  assumes "instances_ok ps is" and "pmt_state row = ''reserved''"
  shows "instances_ok (ps @ [row]) is"
  using assms unfolding instances_ok_def by auto

lemma reserve_ok:
  assumes "execution_ok d" and "pg_ReservePlacement sha256 locked now q d = (res, d')"
  shows "execution_ok d'"
  using assms(2)
proof (cases rule: reserve_cases)
  case (placed row g)
  have "placements_ok (xdb_gateways d) (xdb_placements d @ [row])"
    using assms(1) placed select_gateway_Some [OF placed(3)]
    by (auto simp: execution_ok_def placements_ok_def unique_by_def)
  with assms(1) placed(1,5) show ?thesis
    by (simp add: execution_ok_def instances_ok_more_placements)
qed (use assms(1) in simp)

lemma save_cases:
  assumes "pg_SaveExecution now r d = (res, d')"
  obtains (same) "d' = d"
  | (saved) p where "p \<in> set (xdb_placements d)" "placement_key p = execution_placement r"
      "placement_operation p = execution_operation r" "placement_gateway p = execution_gateway r" "live_state (pmt_state p)"
      "\<forall>i \<in> set (xdb_instances d). execution_key (ins_record i) \<noteq> execution_key r \<and> \<not> instance_conflict r i"
      "valid_execution_state (exe_State (exr_Execution r))" "res = None"
      "d' = d\<lparr>xdb_instances := xdb_instances d @ [\<lparr>ins_record = r, ins_created_at = now, ins_updated_at = now,
          ins_terminated_at = (if exe_State (exr_Execution r) = ''terminated'' then Some now else None)\<rparr>],
        xdb_placements := sql_update (\<lambda>p. placement_key p = execution_placement r)
          (set_placement_state (if exe_State (exr_Execution r) = ''terminated'' then ''released'' else ''active'') now) (xdb_placements d)\<rparr>"
proof (cases "d' = d")
  case True
  with that show ?thesis by blast
next
  case False
  then obtain p where p: "sql_select (\<lambda>p. placement_key p = execution_placement r) (xdb_placements d) = Some p"
    and free: "getExecution d \<lparr>ref_IsolationDomainID = exe_IsolationDomainID (exr_Execution r), ref_ID = exe_ID (exr_Execution r)\<rparr> = Inr None"
    and rest: "pmt_operation_id p = exr_OperationID r" "plc_GatewayID (pmt_placement p) = exe_GatewayID (exr_Execution r)"
      "live_state (pmt_state p)" "\<not> list_ex (instance_conflict r) (xdb_instances d)" "\<not> execution_incomplete r" "res = None"
      "d' = d\<lparr>xdb_instances := xdb_instances d @ [\<lparr>ins_record = r, ins_created_at = now, ins_updated_at = now,
          ins_terminated_at = (if exe_State (exr_Execution r) = ''terminated'' then Some now else None)\<rparr>],
        xdb_placements := sql_update (\<lambda>p. placement_key p = execution_placement r)
          (set_placement_state (if exe_State (exr_Execution r) = ''terminated'' then ''released'' else ''active'') now) (xdb_placements d)\<rparr>"
    using assms unfolding pg_SaveExecution_def Let_def execution_placement_def [symmetric]
    by (auto split: sum.splits option.splits if_splits)
  note stored = sql_select_Some [OF p]
  show ?thesis
  proof (rule that(2) [of p])
    show "placement_operation p = execution_operation r" "placement_gateway p = execution_gateway r"
      using stored rest by (simp_all add: placement_operation_def execution_operation_def placement_gateway_def
        execution_gateway_def placement_key_def execution_placement_def)
    show "\<forall>i \<in> set (xdb_instances d). execution_key (ins_record i) \<noteq> execution_key r \<and> \<not> instance_conflict r i"
      using free rest(4) by (auto simp: getExecution_def sql_select_None execution_key_def list_ex_iff split: if_splits)
  qed (use stored rest in \<open>simp_all add: execution_incomplete_def\<close>)
qed

lemma set_placement_ok:
  assumes ok: "placements_ok gs ps" and states: "s \<in> {''reserved'', ''active'', ''released'', ''lost''}"
    and live: "\<And>p. p \<in> set ps \<Longrightarrow> c p \<Longrightarrow> live_state s \<Longrightarrow> live_state (pmt_state p)"
  shows "placements_ok gs (sql_update c (set_placement_state s now) ps)"
proof -
  have "\<exists>g \<in> set gs. placed_on p' g" if changed: "p' \<in> set (sql_update c (set_placement_state s now) ps)" for p'
  proof -
    obtain p where p: "p \<in> set ps" "p' = (if c p then set_placement_state s now p else p)"
      using changed unfolding sql_update_def set_map by blast
    then obtain g where "g \<in> set gs" "placed_on p g" using ok by (auto simp: placements_ok_def)
    then show ?thesis using p live by (auto simp: placed_on_def)
  qed
  moreover have "pmt_state p' \<in> {''reserved'', ''active'', ''released'', ''lost''} \<and>
      placement_columns_ok (pmt_placement p') (pmt_operation_id p') \<and> list_all pg_text (pmt_required_capabilities p')"
    if "p' \<in> set (sql_update c (set_placement_state s now) ps)" for p'
    using that ok states by (elim in_sql_updateE) (auto simp: placements_ok_def)
  ultimately show ?thesis using ok by (simp add: placements_ok_def unique_by_update)
qed

lemma save_ok:
  assumes "execution_ok d" and "pg_SaveExecution now r d = (res, d')"
  shows "execution_ok d'"
  using assms(2)
proof (cases rule: save_cases)
  case (saved p)
  have ok: "placements_ok (xdb_gateways d) (xdb_placements d)" "instances_ok (xdb_placements d) (xdb_instances d)"
    using assms(1) by (simp_all add: execution_ok_def)
  define s where "s = (if exe_State (exr_Execution r) = ''terminated'' then ''released'' else ''active'')"
  define fp where "fp x = (if placement_key x = execution_placement r then set_placement_state s now x else x)" for x
  define i where "i = \<lparr>ins_record = r, ins_created_at = now, ins_updated_at = now,
    ins_terminated_at = (if exe_State (exr_Execution r) = ''terminated'' then Some now else None)\<rparr>"
  have d': "xdb_placements d' = map fp (xdb_placements d)" "xdb_instances d' = xdb_instances d @ [i]" "xdb_gateways d' = xdb_gateways d"
    by (simp_all add: saved(9) sql_update_def fp_def [abs_def] s_def i_def)
  have reserved: "pmt_state p = ''reserved''"
    using saved(1,3,5,6) ok(2) by (auto simp: instances_ok_def live_state_def runs_in_def instance_conflict_def)
  have only: "x = p" if "x \<in> set (xdb_placements d)" "placement_key x = execution_placement r" for x
    using that saved(1,2) ok(1) unique_by_eq [of placement_key "xdb_placements d" x p] by (simp add: placements_ok_def)
  have "placements_ok (xdb_gateways d) (sql_update (\<lambda>x. placement_key x = execution_placement r) (set_placement_state s now) (xdb_placements d))"
    by (rule set_placement_ok [OF ok(1)]) (use only saved(5) in \<open>auto simp: s_def\<close>)
  then have "placements_ok (xdb_gateways d') (xdb_placements d')" by (simp add: saved(9) s_def)
  moreover have "instances_ok (xdb_placements d') (xdb_instances d')"
    unfolding d'
  proof (rule instances_ok_insert [OF ok(2) _ saved(1) _ reserved])
    show "runs_in i (fp p)" using saved(2-4) by (simp add: runs_in_def fp_def i_def s_def)
  qed (use saved(6,7) only in \<open>auto simp: i_def instance_fields_ok_def instance_conflict_def fp_def\<close>)
  ultimately show ?thesis using assms(1) by (simp add: execution_ok_def d')
qed (use assms(1) in simp)

lemma runs_in_placement:
  assumes "placements_ok gs ps" and "instances_ok ps is" and "i \<in> set is" and "p \<in> set ps"
    and "placement_key p = execution_placement (ins_record i)"
  shows "runs_in i p"
proof -
  obtain q where q: "q \<in> set ps" "runs_in i q" using assms(2,3) unfolding instances_ok_def by blast
  then have "q = p" using assms(1,4,5) unique_by_eq [of placement_key ps q p] by (simp add: placements_ok_def runs_in_def)
  with q show ?thesis by simp
qed

lemma runs_in_unique:
  assumes "instances_ok ps is" and "j \<in> set is" and "i \<in> set is" and "runs_in j p" and "runs_in i p"
  shows "j = i"
proof -
  have "(execution_operation \<circ> ins_record) j = (execution_operation \<circ> ins_record) i"
    using assms(4,5) by (simp add: runs_in_def)
  then show ?thesis using assms(1-3) unfolding instances_ok_def by (blast intro: unique_by_eq)
qed

lemma update_cases:
  assumes "pg_UpdateExecutionState now ref state d = (res, d')" and "k = (ref_IsolationDomainID ref, ref_ID ref)"
  obtains (same) "d' = d"
  | (updated) i where "i \<in> set (xdb_instances d)" "execution_key (ins_record i) = k" "valid_execution_state state"
      "exe_State (exr_Execution (ins_record i)) = ''terminated'' \<Longrightarrow> state = ''terminated''" "res = None"
      "d' = d\<lparr>xdb_instances := sql_update (\<lambda>i. execution_key (ins_record i) = k)
          (\<lambda>i. i\<lparr>ins_record := set_execution_state state (ins_record i), ins_updated_at := now,
                 ins_terminated_at := (if state = ''terminated'' then Some now else None)\<rparr>) (xdb_instances d),
        xdb_placements := sql_update (\<lambda>p. state = ''terminated'' \<and> (\<exists>i \<in> set (xdb_instances d).
            execution_key (ins_record i) = k \<and> placement_key p = execution_placement (ins_record i)))
          (set_placement_state ''released'' now) (xdb_placements d)\<rparr>"
proof (cases "d' = d")
  case True
  with that show ?thesis by blast
next
  case False
  then obtain i where i: "sql_select (\<lambda>i. execution_key (ins_record i) = k) (xdb_instances d) = Some i"
    and facts: "valid_execution_state state" "\<not> (exe_State (exr_Execution (ins_record i)) = ''terminated'' \<and> state \<noteq> ''terminated'')"
    using assms unfolding pg_UpdateExecutionState_def Let_def by (simp split: if_splits option.splits)
  have none: "xdb_placements d = sql_update (\<lambda>p. False) (set_placement_state ''released'' now) (xdb_placements d)"
    by (simp add: sql_update_none)
  show ?thesis
    by (rule that(2) [of i])
      (use assms False i facts sql_select_Some [OF i] none in
        \<open>simp_all add: pg_UpdateExecutionState_def Let_def list_ex_iff execution_placement_def split: if_splits\<close>)
qed

lemma update_ok:
  assumes "execution_ok d" and "pg_UpdateExecutionState now ref state d = (res, d')"
  shows "execution_ok d'"
proof -
  define k where "k = (ref_IsolationDomainID ref, ref_ID ref)"
  have ok: "placements_ok (xdb_gateways d) (xdb_placements d)" "instances_ok (xdb_placements d) (xdb_instances d)"
    using assms(1) by (simp_all add: execution_ok_def)
  from assms(2) k_def show ?thesis
  proof (cases rule: update_cases)
    case (updated i)
    have only_i: "j = i" if "j \<in> set (xdb_instances d)" "execution_key (ins_record j) = k" for j
      using that updated(1,2) ok(2) unique_by_eq [of "execution_key \<circ> ins_record" "xdb_instances d" j i] by (simp add: instances_ok_def)
    have here: "runs_in i p" if "p \<in> set (xdb_placements d)" "placement_key p = execution_placement (ins_record i)" for p
      using runs_in_placement [OF ok updated(1) that] .
    define fi where "fi j = (if execution_key (ins_record j) = k then j\<lparr>ins_record := set_execution_state state (ins_record j),
      ins_updated_at := now, ins_terminated_at := (if state = ''terminated'' then Some now else None)\<rparr> else j)" for j :: instance_row
    define fp where "fp p = (if state = ''terminated'' \<and> placement_key p = execution_placement (ins_record i)
      then set_placement_state ''released'' now p else p)" for p :: placement_row
    have "(\<exists>j \<in> set (xdb_instances d). execution_key (ins_record j) = k \<and> placement_key p = execution_placement (ins_record j)) \<longleftrightarrow>
        placement_key p = execution_placement (ins_record i)" for p
      using only_i updated(1,2) by blast
    then have d': "xdb_instances d' = map fi (xdb_instances d)" "xdb_placements d' = map fp (xdb_placements d)"
      "xdb_gateways d' = xdb_gateways d"
      by (simp_all add: updated(6) sql_update_def fi_def [abs_def] fp_def [abs_def])
    have "placements_ok (xdb_gateways d) (map fp (xdb_placements d))"
      unfolding fp_def sql_update_def [symmetric] by (rule set_placement_ok [OF ok(1)]) (auto simp: live_state_def)
    moreover have "instances_ok (map fp (xdb_placements d)) (map fi (xdb_instances d))"
    proof (rule instances_ok_map [OF ok(2)])
      fix j p assume j: "j \<in> set (xdb_instances d)" and p: "p \<in> set (xdb_placements d)" and run: "runs_in j p"
      show "runs_in (fi j) (fp p)"
      proof (cases "j = i")
        case True
        have "fi j = j\<lparr>ins_record := set_execution_state state (ins_record j), ins_updated_at := now,
            ins_terminated_at := (if state = ''terminated'' then Some now else None)\<rparr>"
          using updated(2) by (simp add: True fi_def)
        moreover have "fp p = (if state = ''terminated'' then set_placement_state ''released'' now p else p)"
          using run by (simp add: True fp_def runs_in_def)
        moreover have "runs_in i p" "state = ''terminated'' \<or> exe_State (exr_Execution (ins_record i)) \<noteq> ''terminated''"
          using run updated(4) True by blast+
        ultimately show ?thesis unfolding True runs_in_def by (elim disjE) simp_all
      next
        case False
        then have "placement_key p \<noteq> execution_placement (ins_record i)" "execution_key (ins_record j) \<noteq> k"
          using runs_in_unique [OF ok(2) j updated(1) run] here [OF p] only_i [OF j] by blast+
        with run show ?thesis by (simp add: fi_def fp_def)
      qed
    next
      fix p assume p: "p \<in> set (xdb_placements d)" "pmt_state (fp p) \<in> {''active'', ''released''}"
      then show "\<exists>j \<in> set (xdb_instances d). runs_in j p"
        using here updated(1) ok(2) by (cases "placement_key p = execution_placement (ins_record i)") (auto simp: fp_def instances_ok_def)
    qed (use ok(2) updated(3) in \<open>auto simp: fi_def instances_ok_def instance_fields_ok_def\<close>)
    ultimately show ?thesis using assms(1) by (simp add: execution_ok_def d')
  qed (use assms(1) in simp)
qed

lemma pg_call_ok: "execution_ok d \<Longrightarrow> execution_ok (snd (pg_call sha256 now locked c d))"
  by (cases c)
    (auto intro: register_ok set_state_ok reserve_ok save_ok update_ok prod.collapse [symmetric])

lemma pg_calls_ok: "execution_ok d \<Longrightarrow> execution_ok (pg_calls sha256 calls d)"
  unfolding pg_calls_def by (induction calls arbitrary: d) (auto simp: pg_call_ok)


section \<open>Placements are final\<close>

lemma NormalizeCapabilities_eq:
  assumes "NormalizeCapabilities xs = Inr a" and "NormalizeCapabilities ys = Inr b"
  shows "elements a = elements b \<longleftrightarrow> set xs = set ys"
proof -
  have "elements a = sort_compact xs" "elements b = sort_compact ys"
    using assms by (auto simp: NormalizeCapabilities_def sort_compact_def split: if_splits)
  then show ?thesis by (metis sort_compact_eq_iff)
qed

text \<open>
  What a client of a placement store relies on. \<open>placed s (i, op)\<close> is the placement of an operation, with the
  capabilities it was reserved for.
\<close>

locale placement_store =
  fixes ok :: "'s \<Rightarrow> bool" and step :: "'c \<Rightarrow> 's \<Rightarrow> 's"
    and reserve :: "'e \<Rightarrow> PlacementRequest \<Rightarrow> 's \<Rightarrow> Placement result \<times> 's"
    and get :: "'s \<Rightarrow> string \<Rightarrow> string \<Rightarrow> Placement result"
    and placed :: "'s \<Rightarrow> string \<times> string \<rightharpoonup> Placement \<times> string list"
  assumes step_ok: "ok s \<Longrightarrow> ok (step c s)"
    and step_placed: "ok s \<Longrightarrow> placed s \<subseteq>\<^sub>m placed (step c s)"
    and reserve_step: "ok s \<Longrightarrow> ok (snd (reserve e q s))"
    and reserve_placed: "ok s \<Longrightarrow> reserve e q s = (Inr p, s') \<Longrightarrow>
      \<exists>capabilities. NormalizeCapabilities (plq_RequiredCapabilities q) = Inr capabilities \<and>
        placed s' (plq_IsolationDomainID q, plq_OperationID q) = Some (p, elements capabilities)"
    and placed_reserve: "ok s \<Longrightarrow> placed s (plq_IsolationDomainID q, plq_OperationID q) = Some (p, names) \<Longrightarrow>
      NormalizeCapabilities (plq_RequiredCapabilities q) = Inr capabilities \<Longrightarrow>
      plq_IsolationDomainID q \<noteq> [] \<Longrightarrow> plq_OperationID q \<noteq> [] \<Longrightarrow>
      reserve e q s = (if elements capabilities = names then Inr p else Inl (Sentinel ErrStateConflict), s)"
    and placed_get: "ok s \<Longrightarrow> placed s k = Some (p, names) \<Longrightarrow> get s (fst k) (plc_ID p) = Inr p"
begin

lemma steps_ok: "ok s \<Longrightarrow> ok (fold step cs s)"
  by (induction cs arbitrary: s) (auto simp: step_ok)

lemma steps_placed: "ok s \<Longrightarrow> placed s \<subseteq>\<^sub>m placed (fold step cs s)"
proof (induction cs arbitrary: s)
  case (Cons c cs)
  then have "placed s \<subseteq>\<^sub>m placed (step c s)" "placed (step c s) \<subseteq>\<^sub>m placed (fold step cs (step c s))"
    by (simp_all add: step_ok step_placed)
  then show ?case by (auto intro: map_le_trans)
qed simp

lemma placement_stays:
  assumes "ok s" and "reserve e q s = (Inr p, s')"
  shows "\<exists>capabilities. NormalizeCapabilities (plq_RequiredCapabilities q) = Inr capabilities \<and>
    placed (fold step cs s') (plq_IsolationDomainID q, plq_OperationID q) = Some (p, elements capabilities)"
proof -
  obtain capabilities where c: "NormalizeCapabilities (plq_RequiredCapabilities q) = Inr capabilities"
    "placed s' (plq_IsolationDomainID q, plq_OperationID q) = Some (p, elements capabilities)"
    using reserve_placed [OF assms] by blast
  have "ok s'" using reserve_step [OF assms(1), of e q] assms(2) by simp
  then have "placed s' \<subseteq>\<^sub>m placed (fold step cs s')" by (rule steps_placed)
  with c show ?thesis by (metis domI map_le_def)
qed

lemma placement_final:
  assumes "ok s" and "reserve e q s = (Inr p, s')" and "s'' = fold step cs s'"
    and again: "plq_IsolationDomainID q' = plq_IsolationDomainID q" "plq_OperationID q' = plq_OperationID q"
      "plq_IsolationDomainID q \<noteq> []" "plq_OperationID q \<noteq> []"
      "NormalizeCapabilities (plq_RequiredCapabilities q') = Inr capabilities"
  shows "reserve e' q' s'' = (if set (plq_RequiredCapabilities q') = set (plq_RequiredCapabilities q)
      then Inr p else Inl (Sentinel ErrStateConflict), s'') \<and>
    get s'' (plq_IsolationDomainID q) (plc_ID p) = Inr p"
proof -
  obtain names where names: "NormalizeCapabilities (plq_RequiredCapabilities q) = Inr names"
    and p: "placed s'' (plq_IsolationDomainID q, plq_OperationID q) = Some (p, elements names)"
    using placement_stays [OF assms(1,2)] assms(3) by blast
  have ok: "ok s''" using steps_ok [OF reserve_step [OF assms(1), of e q]] assms(2,3) by simp
  have "reserve e' q' s'' = (if elements capabilities = elements names then Inr p else Inl (Sentinel ErrStateConflict), s'')"
    by (rule placed_reserve [OF ok]) (use p again in simp_all)
  moreover have "get s'' (plq_IsolationDomainID q) (plc_ID p) = Inr p" using placed_get [OF ok p] by simp
  ultimately show ?thesis using NormalizeCapabilities_eq [OF again(5) names] by simp
qed

end


definition pg_placed :: "execution_db \<Rightarrow> string \<times> string \<rightharpoonup> Placement \<times> string list" where
  "pg_placed d k = map_option (\<lambda>p. (pmt_placement p, pmt_required_capabilities p))
     (sql_select (\<lambda>p. placement_operation p = k) (xdb_placements d))"

lemma resource_id_pg_text: "resource_id_pattern kind s \<Longrightarrow> list_all id_char kind \<Longrightarrow> pg_text s"
proof -
  assume "resource_id_pattern kind s" and kind: "list_all id_char kind"
  then obtain t where t: "s = kind @ ''_'' @ t" "list_all id_char t"
    by (auto simp: resource_id_pattern_def match_prefixed_def HasPrefix_iff)
  have plain: "byte c < 128" "c \<noteq> CHR 0x00" if "id_char c" for c
    using that by (auto simp: char_class_defs byte_def)
  then have "list_all (\<lambda>c. byte c < 128) s" "CHR 0x00 \<notin> set s" using kind t by (auto simp: list_all_iff byte_def)
  then show ?thesis by (simp add: pg_text_def ascii_valid)
qed

lemma sql_select_single [simp]: "sql_select p [r] = (if p r then Some r else None)"
  by (simp add: sql_select_def)

lemma select_same_update:
  "(\<And>r. q (f r) = q r) \<Longrightarrow> (\<And>r. g (f r) = g r) \<Longrightarrow>
   map_option g (sql_select q (sql_update p f rows)) = map_option g (sql_select q rows)"
  by (induction rows) (auto simp: sql_select_def sql_update_def)

lemma pg_placed_frame: "xdb_placements d' = xdb_placements d \<Longrightarrow> pg_placed d' = pg_placed d"
  by (rule ext) (simp add: pg_placed_def)

lemma pg_placed_update [simp]:
  "xdb_placements d' = sql_update c (set_placement_state s now) (xdb_placements d) \<Longrightarrow> pg_placed d' = pg_placed d"
  by (rule ext) (simp add: pg_placed_def select_same_update)

lemma pg_placed_append:
  "xdb_placements d' = xdb_placements d @ [row] \<Longrightarrow>
   (\<forall>p \<in> set (xdb_placements d). placement_operation p \<noteq> placement_operation row) \<Longrightarrow>
   pg_placed d' = (pg_placed d)(placement_operation row \<mapsto> (pmt_placement row, pmt_required_capabilities row))"
proof (rule ext)
  fix k assume d': "xdb_placements d' = xdb_placements d @ [row]"
    and fresh: "\<forall>p \<in> set (xdb_placements d). placement_operation p \<noteq> placement_operation row"
  then have "sql_select (\<lambda>p. placement_operation p = k) (xdb_placements d') = (if k = placement_operation row then Some row
      else sql_select (\<lambda>p. placement_operation p = k) (xdb_placements d))"
    using sql_select_None [of "\<lambda>p. placement_operation p = k" "xdb_placements d"]
    by (auto simp: sql_select_append split: option.splits)
  then show "pg_placed d' k = ((pg_placed d)(placement_operation row \<mapsto> (pmt_placement row, pmt_required_capabilities row))) k"
    by (simp add: pg_placed_def)
qed

lemma pg_call_placed:
  assumes "execution_ok d"
  shows "pg_placed d \<subseteq>\<^sub>m pg_placed (snd (pg_call sha256 now locked c d))"
proof (cases c)
  case (SetStateCall i g state)
  then have "xdb_placements (snd (pg_call sha256 now locked c d)) = xdb_placements d \<or>
      xdb_placements (snd (pg_call sha256 now locked c d)) = sql_update
        (\<lambda>p. placement_gateway p = (i, g) \<and> live_state (pmt_state p)) (set_placement_state ''lost'' now) (xdb_placements d)"
    by (simp add: pg_SetGatewayState_def Let_def)
  then have "pg_placed (snd (pg_call sha256 now locked c d)) = pg_placed d"
    by (elim disjE) (auto intro: pg_placed_update pg_placed_frame)
  then show ?thesis by simp
next
  case (ReserveCall q)
  obtain res d' where e: "pg_ReservePlacement sha256 locked now q d = (res, d')" by fastforce
  from e show ?thesis
  proof (cases rule: reserve_cases)
    case (placed row g)
    have "pg_placed d' = (pg_placed d)(placement_operation row \<mapsto> (pmt_placement row, pmt_required_capabilities row))"
      by (rule pg_placed_append) (use placed(1) in simp, use placed(8) in blast)
    moreover have "sql_select (\<lambda>p. placement_operation p = placement_operation row) (xdb_placements d) = None"
      using placed(8) unfolding sql_select_None by blast
    ultimately show ?thesis by (auto simp: ReserveCall e map_le_def pg_placed_def)
  qed (simp add: ReserveCall e)
next
  case (SaveCall r)
  obtain res d' where e: "pg_SaveExecution now r d = (res, d')" by fastforce
  from e show ?thesis
  proof (cases rule: save_cases)
    case (saved p)
    then have "pg_placed d' = pg_placed d" by (auto intro: pg_placed_update)
    then show ?thesis by (simp add: SaveCall e)
  qed (simp add: SaveCall e)
next
  case (UpdateCall ref state)
  obtain res d' where e: "pg_UpdateExecutionState now ref state d = (res, d')" by fastforce
  from e refl show ?thesis
  proof (cases rule: update_cases)
    case (updated i)
    then have "pg_placed d' = pg_placed d" by (auto intro: pg_placed_update)
    then show ?thesis by (simp add: UpdateCall e)
  qed (simp add: UpdateCall e)
next
  case (RegisterCall r)
  then have "xdb_placements (snd (pg_call sha256 now locked c d)) = xdb_placements d"
    by (auto simp: pg_RegisterGateway_def Let_def split: sum.splits)
  then have "pg_placed (snd (pg_call sha256 now locked c d)) = pg_placed d" by (rule pg_placed_frame)
  then show ?thesis by simp
qed simp_all

lemma pg_placed_row:
  assumes "execution_ok d" and "pg_placed d k = Some (p, names)"
  obtains row where "row \<in> set (xdb_placements d)" "placement_operation row = k" "pmt_placement row = p"
    "pmt_required_capabilities row = names" "getPlacementByOperation d (fst k) (snd k) = Some row"
    "pg_text (fst k)" "pg_text (snd k)" "pg_text (plc_ID p)" "plc_IsolationDomainID p = fst k"
proof -
  obtain row where row: "sql_select (\<lambda>p. placement_operation p = k) (xdb_placements d) = Some row"
    "pmt_placement row = p" "pmt_required_capabilities row = names"
    using assms(2) by (auto simp: pg_placed_def)
  note stored = sql_select_Some [OF row(1)]
  have "placement_columns_ok p (pmt_operation_id row)"
    using assms(1) stored row(2) by (auto simp: execution_ok_def placements_ok_def)
  moreover have "list_all id_char ''iso''" "list_all id_char ''op''" "list_all id_char ''plc''"
    by (simp_all add: char_class_defs byte_def)
  ultimately have "pg_text (plc_IsolationDomainID p)" "pg_text (pmt_operation_id row)" "pg_text (plc_ID p)"
    by (auto simp: placement_columns_ok_def intro: resource_id_pg_text)
  moreover have "k = (plc_IsolationDomainID p, pmt_operation_id row)"
    using stored row(2) by (auto simp: placement_operation_def)
  ultimately have keys: "pg_text (fst k)" "pg_text (snd k)" "pg_text (plc_ID p)" "plc_IsolationDomainID p = fst k" by simp_all
  have "getPlacementByOperation d (fst k) (snd k) = Some row" using row(1) by (simp add: getPlacementByOperation_def)
  with stored row(2,3) keys that show thesis by blast
qed

lemma append_placement_differs [simp]: "d\<lparr>xdb_placements := xdb_placements d @ [row]\<rparr> \<noteq> d"
  by (metis append_self_conv execution_db.ext_inject execution_db.surjective execution_db.update_convs(2) not_Cons_self2)

interpretation durable: placement_store execution_ok "\<lambda>(now, locked, c). snd \<circ> pg_call sha256 now locked c"
  "\<lambda>(now, locked). pg_ReservePlacement sha256 locked now" pg_GetPlacement pg_placed for sha256
proof
  fix d c assume "execution_ok d"
  then show "execution_ok ((case c of (now, locked, c) \<Rightarrow> snd \<circ> pg_call sha256 now locked c) d)"
    "pg_placed d \<subseteq>\<^sub>m pg_placed ((case c of (now, locked, c) \<Rightarrow> snd \<circ> pg_call sha256 now locked c) d)"
    by (auto simp: pg_call_ok pg_call_placed split: prod.splits)
next
  fix d e q assume "execution_ok d"
  then show "execution_ok (snd ((case e of (now, locked) \<Rightarrow> pg_ReservePlacement sha256 locked now) q d))"
    by (auto intro: reserve_ok prod.collapse [symmetric] split: prod.splits)
next
  fix d e q p d' assume ok: "execution_ok d" and "(case e of (now, locked) \<Rightarrow> pg_ReservePlacement sha256 locked now) q d = (Inr p, d')"
  then obtain now locked where r: "pg_ReservePlacement sha256 locked now q d = (Inr p, d')" by (cases e) auto
  then show "\<exists>capabilities. NormalizeCapabilities (plq_RequiredCapabilities q) = Inr capabilities \<and>
      pg_placed d' (plq_IsolationDomainID q, plq_OperationID q) = Some (p, elements capabilities)"
  proof (cases rule: reserve_cases)
    case same
    then show ?thesis using r
      by (auto simp: pg_ReservePlacement_def Let_def pg_placed_def getPlacementByOperation_def split: sum.splits option.splits if_splits)
  next
    case (placed row g)
    have "pg_placed d' = (pg_placed d)(placement_operation row \<mapsto> (pmt_placement row, pmt_required_capabilities row))"
      by (rule pg_placed_append) (use placed(1) in simp, use placed(8) in blast)
    with placed(2,6,7) show ?thesis by simp
  qed
next
  fix d e p names capabilities and q :: PlacementRequest
  assume ok: "execution_ok d" and p: "pg_placed d (plq_IsolationDomainID q, plq_OperationID q) = Some (p, names)"
    and q: "NormalizeCapabilities (plq_RequiredCapabilities q) = Inr capabilities" "plq_IsolationDomainID q \<noteq> []" "plq_OperationID q \<noteq> []"
  obtain row where "getPlacementByOperation d (plq_IsolationDomainID q) (plq_OperationID q) = Some row"
    "pmt_placement row = p" "pmt_required_capabilities row = names" "pg_text (plq_IsolationDomainID q)" "pg_text (plq_OperationID q)"
    using pg_placed_row [OF ok p] by auto
  with q show "(case e of (now, locked) \<Rightarrow> pg_ReservePlacement sha256 locked now) q d =
      (if elements capabilities = names then Inr p else Inl (Sentinel ErrStateConflict), d)"
    by (auto simp: pg_ReservePlacement_def Let_def split: prod.splits)
next
  fix d k p names assume ok: "execution_ok d" and p: "pg_placed d k = Some (p, names)"
  then obtain row where row: "row \<in> set (xdb_placements d)" "placement_operation row = k" "pmt_placement row = p"
    "pg_text (fst k)" "pg_text (plc_ID p)" "plc_IsolationDomainID p = fst k"
    using pg_placed_row [OF ok p] by metis
  have "sql_select (\<lambda>r. placement_key r = (fst k, plc_ID p)) (xdb_placements d) = Some row"
    using ok row by (intro sql_select_unique [of placement_key]) (auto simp: execution_ok_def placements_ok_def placement_key_def)
  with row show "pg_GetPlacement d (fst k) (plc_ID p) = Inr p" by (simp add: pg_GetPlacement_def)
qed

text \<open>C34. The placement of an operation is final. Once a placement has been reserved, then after any further
  calls a reservation for the same operation returns that placement when it requires the same set of
  capabilities and is refused with a conflict when it does not, whatever has become of the gateway; and the
  placement can be read.\<close>

theorem placement_is_final:
  assumes "pg_ReservePlacement sha256 locked now q (pg_calls sha256 before empty_execution_db) = (Inr p, d)"
    and "d' = pg_calls sha256 later d"
    and "plq_IsolationDomainID q' = plq_IsolationDomainID q" and "plq_OperationID q' = plq_OperationID q"
    and "[] \<notin> set (plq_RequiredCapabilities q')"
  shows "pg_ReservePlacement sha256 locked' now' q' d' =
      (if set (plq_RequiredCapabilities q') = set (plq_RequiredCapabilities q) then Inr p else Inl (Sentinel ErrStateConflict), d') \<and>
    pg_GetPlacement d' (plq_IsolationDomainID q) (plc_ID p) = Inr p"
proof -
  have ok: "execution_ok (pg_calls sha256 before empty_execution_db)" using empty_execution_ok by (rule pg_calls_ok)
  have names: "plq_IsolationDomainID q \<noteq> []" "plq_OperationID q \<noteq> []"
    using assms(1) by (auto simp: pg_ReservePlacement_def split: if_splits)
  obtain capabilities where c: "NormalizeCapabilities (plq_RequiredCapabilities q') = Inr capabilities"
    using assms(5) by (cases "plq_RequiredCapabilities q' = []") (auto simp: NormalizeCapabilities_def list_ex_iff)
  have r: "(case (now, locked) of (now, locked) \<Rightarrow> pg_ReservePlacement sha256 locked now) q (pg_calls sha256 before empty_execution_db) = (Inr p, d)"
    using assms(1) by simp
  show ?thesis
    using durable.placement_final [OF ok r assms(2) [unfolded pg_calls_def] assms(3,4) names c, of "(now', locked')"] by simp
qed

section \<open>The choice of a gateway\<close>


section \<open>A small deployment\<close>

definition zero_sha256 :: "string \<Rightarrow> string" where
  "zero_sha256 s = replicate 32 (CHR 0x00)"

definition demo_registration :: "string \<Rightarrow> GatewayRegistration" where
  "demo_registration endpoint = \<lparr>grg_IsolationDomainID = zero_id ''iso'', grg_ID = zero_id ''gtw'', grg_Endpoint = endpoint,
     grg_Driver = ''docker'', grg_Capabilities = [''codex'', ''shell'']\<rparr>"

definition demo_request :: PlacementRequest where
  "demo_request = \<lparr>plq_IsolationDomainID = zero_id ''iso'', plq_OperationID = zero_id ''op'', plq_RequiredCapabilities = [''codex'', ''shell'']\<rparr>"

definition demo_gateway_row :: "string \<Rightarrow> gateway_row" where
  "demo_gateway_row endpoint = \<lparr>gwy_record = \<lparr>gwr_Gateway = \<lparr>gtw_IsolationDomainID = zero_id ''iso'', gtw_ID = zero_id ''gtw'',
       gtw_Driver = ''docker'', gtw_State = GatewayActive, gtw_Capabilities = Some [''codex'', ''shell'']\<rparr>, gwr_Endpoint = endpoint\<rparr>,
     gwy_version = 1, gwy_registered_at = 0, gwy_updated_at = 0\<rparr>"

definition demo_gateways :: execution_db where
  "demo_gateways = \<lparr>xdb_gateways = [demo_gateway_row ''gw''], xdb_placements = [], xdb_instances = []\<rparr>"

definition demo_placement :: Placement where
  "demo_placement = \<lparr>plc_IsolationDomainID = zero_id ''iso'', plc_ID = zero_id ''plc'', plc_GatewayID = zero_id ''gtw''\<rparr>"

lemma ascii_pg_text: "list_all (\<lambda>c. 0 < byte c \<and> byte c < 128) s \<Longrightarrow> pg_text s"
  by (auto simp: pg_text_def list_all_iff byte_def intro: ascii_valid)

lemma zero_pg_text [simp]:
  "pg_text (zero_id ''iso'')" "pg_text (zero_id ''op'')" "pg_text (zero_id ''gtw'')" "pg_text (zero_id ''plc'')" "pg_text (zero_id ''exe'')"
  by (rule resource_id_pg_text [OF resource_id_zero], simp add: char_class_defs byte_def)+

lemma zero_derived: "Derived zero_sha256 kind s = zero_id kind"
  by (simp add: Derived_def zero_sha256_def zero_id_def hex_EncodeToString_def) code_simp

lemma demo_register: "pg_RegisterGateway 0 (demo_registration ''gw'') empty_execution_db =
  (Inr (gwr_Gateway (gwy_record (demo_gateway_row ''gw''))), demo_gateways)"
proof -
  have "pg_text ''codex''" "pg_text ''shell''" "pg_text ''gw''" by (rule ascii_pg_text, simp add: byte_def)+
  moreover have "utf8_RuneCountInString ''gw'' = 2"
    by (subst utf8_RuneCountInString_def, subst ascii_segments) (simp_all add: byte_def)
  moreover have "driver_pattern ''docker''" by (simp add: driver_pattern_def class_defs)
  ultimately have "gateway_columns_ok (demo_registration ''gw'') (Some [''codex'', ''shell''])"
    by (simp add: gateway_columns_ok_def demo_registration_def)
  moreover have "NormalizeCapabilities (grg_Capabilities (demo_registration ''gw'')) = Inr (Some [''codex'', ''shell''])"
    by (simp add: NormalizeCapabilities_def demo_registration_def sort_compact_def)
  moreover have "\<not> registration_incomplete (demo_registration ''gw'')"
    by (simp add: registration_incomplete_def demo_registration_def zero_id_def)
  ultimately show ?thesis
    by (simp add: pg_RegisterGateway_def Let_def empty_execution_db_def pg_GetGateway_def)
      (simp add: demo_registration_def demo_gateways_def demo_gateway_row_def gateway_key_def)
qed

lemma demo_registered: "pg_calls zero_sha256 [(0, [], RegisterCall (demo_registration ''gw''))] empty_execution_db = demo_gateways"
  by (simp add: pg_calls_def demo_register)

definition demo_placement_row :: placement_row where
  "demo_placement_row = \<lparr>pmt_placement = demo_placement, pmt_operation_id = zero_id ''op'', pmt_required_capabilities = [''codex'', ''shell''],
     pmt_state = ''reserved'', pmt_created_at = 0, pmt_updated_at = 0\<rparr>"

definition demo_reserved_db :: execution_db where
  "demo_reserved_db = demo_gateways\<lparr>xdb_placements := [demo_placement_row]\<rparr>"

lemma demo_reserve: "pg_ReservePlacement zero_sha256 [] 0 demo_request demo_gateways = (Inr demo_placement, demo_reserved_db)"
proof -
  have "pg_text ''codex''" "pg_text ''shell''" by (rule ascii_pg_text, simp add: byte_def)+
  moreover have "NormalizeCapabilities (plq_RequiredCapabilities demo_request) = Inr (Some [''codex'', ''shell''])"
    by (simp add: NormalizeCapabilities_def demo_request_def sort_compact_def)
  moreover have "select_gateway [] (zero_id ''iso'') (Some [''codex'', ''shell'']) demo_gateways = Some (demo_gateway_row ''gw'')"
    by (simp add: select_gateway_def gateway_candidates_def demo_gateways_def first_by_def demo_gateway_row_def containsCapabilities_def)
  moreover have "getPlacementByOperation demo_gateways (zero_id ''iso'') (zero_id ''op'') = None"
    by (simp add: getPlacementByOperation_def demo_gateways_def sql_select_def)
  moreover have "placement_columns_ok demo_placement (zero_id ''op'')" "zero_id ''iso'' \<noteq> []" "zero_id ''op'' \<noteq> []"
    by (simp_all add: placement_columns_ok_def demo_placement_def) (simp_all add: zero_id_def)
  ultimately show ?thesis
    by (simp add: pg_ReservePlacement_def Let_def demo_request_def zero_derived)
      (simp add: demo_gateways_def demo_gateway_row_def demo_placement_def demo_reserved_db_def demo_placement_row_def)
qed

lemma demo_reserved: "fst (pg_ReservePlacement zero_sha256 [] 0 demo_request demo_gateways) = Inr demo_placement"
  by (simp add: demo_reserve)

theorem placement_is_final_witness:
  "fst (pg_ReservePlacement zero_sha256 [] 5 demo_request
     (pg_calls zero_sha256 [(1, [], SetStateCall (zero_id ''iso'') (zero_id ''gtw'') GatewayLost)]
       (snd (pg_ReservePlacement zero_sha256 [] 0 demo_request demo_gateways)))) = Inr demo_placement"
proof -
  have r: "pg_ReservePlacement zero_sha256 [] 0 demo_request
      (pg_calls zero_sha256 [(0, [], RegisterCall (demo_registration ''gw''))] empty_execution_db) =
      (Inr demo_placement, snd (pg_ReservePlacement zero_sha256 [] 0 demo_request demo_gateways))"
    unfolding demo_registered by (rule prod_eqI) (simp_all add: demo_reserved)
  have "[] \<notin> set (plq_RequiredCapabilities demo_request)" by (simp add: demo_request_def)
  from placement_is_final [OF r refl refl refl this, THEN conjunct1] show ?thesis by (simp only: simp_thms if_True fst_conv)
qed


end
