(* ===== verification/Store_Conformance.thy ===== *)
theory Store_Conformance
  imports Gateway_Placement
begin

text \<open>
  The process-local state store is the conformance store for the durable one. The tables of the durable
  store determine a process-local store, and the calls of the two commute with this abstraction, apart from the
  cases the process-local store treats differently: lost gateways and executions saved as terminated, whose
  reservations it does not give back, and executions set to a state that does not exist.
\<close>

section \<open>Association lists that come from rows\<close>

definition keyed :: "('r \<Rightarrow> string \<times> string) \<Rightarrow> ('r \<Rightarrow> 'v) \<Rightarrow> 'r list \<Rightarrow> (string \<times> 'v) list" where
  "keyed key h rows = map (\<lambda>r. (scopedKey (fst (key r)) (snd (key r)), h r)) rows"

definition keys_plain :: "('r \<Rightarrow> string \<times> string) \<Rightarrow> 'r list \<Rightarrow> bool" where
  "keys_plain key rows \<longleftrightarrow> (\<forall>r \<in> set rows. CHR 0x00 \<notin> set (fst (key r)))"

lemma map_of_keyed:
  assumes "keys_plain key rows" and "CHR 0x00 \<notin> set i"
  shows "map_of (keyed key h rows) (scopedKey i k) = map_option h (sql_select (\<lambda>r. key r = (i, k)) rows)"
  using assms
proof (induction rows)
  case (Cons r rows)
  then have "scopedKey (fst (key r)) (snd (key r)) = scopedKey i k \<longleftrightarrow> key r = (i, k)"
    using scopedKey_inject [of "fst (key r)" i "snd (key r)" k] by (auto simp: keys_plain_def prod_eq_iff)
  with Cons show ?case by (auto simp: keyed_def keys_plain_def sql_select_def)
qed (simp add: keyed_def sql_select_def)

lemma update_absent: "k \<notin> fst ` set xs \<Longrightarrow> AList.update k v xs = xs @ [(k, v)]"
  by (induction xs) auto

lemma update_keyed_new:
  assumes "keys_plain key rows" and "CHR 0x00 \<notin> set (fst (key r))" and "\<forall>s \<in> set rows. key s \<noteq> key r"
    and "k = scopedKey (fst (key r)) (snd (key r))"
  shows "AList.update k (h r) (keyed key h rows) = keyed key h (rows @ [r])"
proof -
  have "k \<notin> fst ` set (keyed key h rows)"
  proof
    assume "k \<in> fst ` set (keyed key h rows)"
    then obtain s where s: "s \<in> set rows" "scopedKey (fst (key s)) (snd (key s)) = k" by (auto simp: keyed_def)
    then have "key s = key r"
      using assms scopedKey_inject [of "fst (key s)" "fst (key r)" "snd (key s)" "snd (key r)"]
      by (auto simp: keys_plain_def prod_eq_iff)
    with assms(3) s show False by blast
  qed
  then show ?thesis using assms(4) by (simp add: update_absent) (simp add: keyed_def)
qed

lemma update_keyed:
  assumes "keys_plain key rows" and "unique_by key rows" and "r \<in> set rows" and "k = scopedKey (fst (key r)) (snd (key r))"
  shows "AList.update k v (keyed key h rows) = keyed key (\<lambda>s. if key s = key r then v else h s) rows"
  using assms
proof (induction rows)
  case (Cons s rows)
  have inj: "scopedKey (fst (key t)) (snd (key t)) = k \<longleftrightarrow> key t = key r" if "t \<in> set (s # rows)" for t
    using Cons.prems that scopedKey_inject [of "fst (key t)" "fst (key r)" "snd (key t)" "snd (key r)"]
    by (auto simp: keys_plain_def prod_eq_iff)
  show ?case
  proof (cases "key s = key r")
    case True
    then have "\<forall>t \<in> set rows. key t \<noteq> key r" using Cons.prems(2) by (auto simp: unique_by_def image_iff)
    then show ?thesis using True Cons.prems(4) by (simp add: keyed_def cong: map_cong)
  next
    case False
    then show ?thesis using Cons inj by (auto simp: keyed_def keys_plain_def unique_by_def)
  qed
qed simp


lemma update_keyed_row:
  assumes "keys_plain key rows" and "unique_by key rows" and "r \<in> set rows" and "k = scopedKey (fst (key r)) (snd (key r))"
    and "\<And>s. key (f s) = key s" and "v = h' (f r)" and "\<And>s. s \<in> set rows \<Longrightarrow> key s \<noteq> key r \<Longrightarrow> h' s = h s"
    and "\<And>s. p s \<longleftrightarrow> key s = key r"
  shows "AList.update k v (keyed key h rows) = keyed key h' (sql_update p f rows)"
proof -
  have "s = r" if "s \<in> set rows" "key s = key r" for s using unique_by_eq [OF assms(2) that(1) assms(3) that(2)] .
  then show ?thesis
    unfolding update_keyed [OF assms(1-4)] using assms(5-8) by (auto simp: keyed_def sql_update_def)
qed

section \<open>The abstraction\<close>

definition memory_gateway :: "execution_db \<Rightarrow> gateway_row \<Rightarrow> memoryGateway" where
  "memory_gateway d g = \<lparr>mgw_record = gwy_record g, mgw_reserved = int (gateway_load d g)\<rparr>"

definition memory_placement :: "placement_row \<Rightarrow> memoryPlacement" where
  "memory_placement p = \<lparr>mpl_placement = pmt_placement p, mpl_operationID = pmt_operation_id p,
     mpl_requiredCapabilities = Some (pmt_required_capabilities p), mpl_state = pmt_state p\<rparr>"

definition memory_of :: "execution_db \<Rightarrow> MemoryStateStore" where
  "memory_of d = \<lparr>mss_gateways = keyed gateway_key (memory_gateway d) (xdb_gateways d),
     mss_placements = keyed placement_key memory_placement (xdb_placements d),
     mss_executions = keyed (\<lambda>x. execution_key (ins_record x)) ins_record (xdb_instances d)\<rparr>"

definition conform_ok :: "(string \<Rightarrow> string) \<Rightarrow> execution_db \<Rightarrow> bool" where
  "conform_ok sha256 d \<longleftrightarrow> execution_ok d \<and>
     (\<forall>g \<in> set (xdb_gateways d). pg_text (gtw_IsolationDomainID (gwr_Gateway (gwy_record g))) \<and>
        gtw_Capabilities (gwr_Gateway (gwy_record g)) \<noteq> None) \<and>
     (\<forall>p \<in> set (xdb_placements d). pmt_state p \<noteq> ''lost'' \<and>
        plc_ID (pmt_placement p) = Derived sha256 ''plc'' (plc_IsolationDomainID (pmt_placement p) @ '':'' @ pmt_operation_id p))"

lemma pg_text_plain: "pg_text s \<Longrightarrow> CHR 0x00 \<notin> set s"
  by (simp add: pg_text_def)

lemma conform_plain:
  assumes "conform_ok sha256 d"
  shows "keys_plain gateway_key (xdb_gateways d)" and "keys_plain placement_key (xdb_placements d)"
    and "keys_plain (\<lambda>x. execution_key (ins_record x)) (xdb_instances d)"
    and "unique_by gateway_key (xdb_gateways d)" and "unique_by placement_key (xdb_placements d)"
    and "unique_by (\<lambda>x. execution_key (ins_record x)) (xdb_instances d)"
proof -
  have ok: "gateways_ok (xdb_gateways d)" "placements_ok (xdb_gateways d) (xdb_placements d)" "instances_ok (xdb_placements d) (xdb_instances d)"
    using assms by (simp_all add: conform_ok_def execution_ok_def)
  show "keys_plain gateway_key (xdb_gateways d)"
    using assms by (auto simp: conform_ok_def keys_plain_def gateway_key_def dest: pg_text_plain)
  have iso: "list_all id_char ''iso''" by (simp add: char_class_defs byte_def)
  show p: "keys_plain placement_key (xdb_placements d)"
    using ok(2) resource_id_pg_text [OF _ iso]
    by (auto simp: placements_ok_def placement_columns_ok_def keys_plain_def placement_key_def dest!: pg_text_plain)
  show "keys_plain (\<lambda>x. execution_key (ins_record x)) (xdb_instances d)"
    unfolding keys_plain_def
  proof
    fix i assume "i \<in> set (xdb_instances d)"
    then obtain q where "q \<in> set (xdb_placements d)" "runs_in i q" using ok(3) unfolding instances_ok_def by blast
    then show "CHR 0x00 \<notin> set (fst (execution_key (ins_record i)))"
      using p by (auto simp: keys_plain_def runs_in_def placement_key_def execution_placement_def execution_key_def)
  qed
  show "unique_by gateway_key (xdb_gateways d)" "unique_by placement_key (xdb_placements d)"
    "unique_by (\<lambda>x. execution_key (ins_record x)) (xdb_instances d)"
    using ok by (simp_all add: gateways_ok_def placements_ok_def instances_ok_def comp_def)
qed

lemma memory_lookup:
  assumes "conform_ok sha256 d" and "pg_text i"
  shows "map_of (mss_gateways (memory_of d)) (scopedKey i k) =
      map_option (memory_gateway d) (sql_select (\<lambda>g. gateway_key g = (i, k)) (xdb_gateways d))"
    and "map_of (mss_placements (memory_of d)) (scopedKey i k) =
      map_option memory_placement (sql_select (\<lambda>p. placement_key p = (i, k)) (xdb_placements d))"
    and "map_of (mss_executions (memory_of d)) (scopedKey i k) =
      map_option ins_record (sql_select (\<lambda>x. execution_key (ins_record x) = (i, k)) (xdb_instances d))"
  by (simp_all add: memory_of_def map_of_keyed conform_plain [OF assms(1)] pg_text_plain [OF assms(2)])

definition refused :: "go_error \<Rightarrow> bool" where
  "refused e \<longleftrightarrow> errors_Is e ErrPersistence"

lemma refused_simps [simp]: "refused (persistence_failure s)" "\<not> refused (errors_New m)" "refused (Sentinel x) \<longleftrightarrow> x = ErrPersistence"
  by (auto simp: refused_def persistence_failure_def)

lemma conform_reads:
  assumes "conform_ok sha256 d"
  shows "(\<forall>e. pg_GetGateway d i k = Inl e \<longrightarrow> \<not> refused e) \<Longrightarrow> memory_GetGateway (memory_of d) i k = pg_GetGateway d i k"
    and "(\<forall>e. pg_GetPlacement d i k = Inl e \<longrightarrow> \<not> refused e) \<Longrightarrow> memory_GetPlacement (memory_of d) i k = pg_GetPlacement d i k"
    and "(\<forall>e. pg_GetExecution d ref = Inl e \<longrightarrow> \<not> refused e) \<Longrightarrow> memory_GetExecution (memory_of d) ref = pg_GetExecution d ref"
  by (auto simp: pg_GetGateway_def pg_GetPlacement_def pg_GetExecution_def getExecution_def memory_GetGateway_def
      memory_GetPlacement_def memory_GetExecution_def memory_lookup [OF assms] memory_gateway_def memory_placement_def
    split: option.splits if_splits)

section \<open>Gateways\<close>

lemma list_ex_select: "list_ex p rows \<longleftrightarrow> sql_select p rows \<noteq> None"
  by (simp add: sql_select_None list_ex_iff)

lemma memory_gateway_frame: "xdb_placements d' = xdb_placements d \<Longrightarrow> memory_gateway d' = memory_gateway d"
  by (simp add: memory_gateway_def [abs_def] gateway_load_def)

lemma keyed_cong: "(\<And>r. r \<in> set rows \<Longrightarrow> h r = h' r) \<Longrightarrow> keyed key h rows = keyed key h' rows"
  by (simp add: keyed_def)

lemma no_load:
  assumes "execution_ok d" and "\<forall>old \<in> set (xdb_gateways d). gateway_key old \<noteq> gateway_key g"
  shows "gateway_load d g = 0"
proof -
  have "placement_gateway p \<noteq> gateway_key g" if "p \<in> set (xdb_placements d)" for p
    using that assms by (auto simp: execution_ok_def placements_ok_def placed_on_def)
  then show ?thesis by (auto simp: gateway_load_def filter_empty_conv)
qed

lemma register_Some:
  assumes "NormalizeCapabilities xs = Inr capabilities" and "gateway_columns_ok r capabilities"
  shows "capabilities \<noteq> None" and "pg_text (grg_IsolationDomainID r)" and "pg_text (grg_ID r)"
proof -
  have "list_all id_char ''iso''" "list_all id_char ''gtw''" by (simp_all add: char_class_defs byte_def)
  with assms(2) show "capabilities \<noteq> None" "pg_text (grg_IsolationDomainID r)" "pg_text (grg_ID r)"
    by (auto simp: gateway_columns_ok_def intro: resource_id_pg_text split: option.splits)
qed

lemma conform_register:
  assumes ok: "conform_ok sha256 d" and e: "pg_RegisterGateway now r d = (res, d')" and "\<forall>e. res = Inl e \<longrightarrow> \<not> refused e"
  shows "memory_RegisterGateway r (memory_of d) = (res, memory_of d') \<and> conform_ok sha256 d'"
proof (cases "registration_incomplete r")
  case True
  with e ok show ?thesis by (auto simp: pg_RegisterGateway_def memory_RegisterGateway_def)
next
  case complete: False
  show ?thesis
  proof (cases "NormalizeCapabilities (grg_Capabilities r)")
    case (Inl err)
    with complete e ok show ?thesis by (auto simp: pg_RegisterGateway_def memory_RegisterGateway_def)
  next
    case (Inr capabilities)
    define g where "g = \<lparr>gwy_record = \<lparr>gwr_Gateway = \<lparr>gtw_IsolationDomainID = grg_IsolationDomainID r, gtw_ID = grg_ID r,
        gtw_Driver = grg_Driver r, gtw_State = GatewayActive, gtw_Capabilities = capabilities\<rparr>, gwr_Endpoint = grg_Endpoint r\<rparr>,
      gwy_version = 1, gwy_registered_at = now, gwy_updated_at = now\<rparr>"
    have key: "gateway_key g = (grg_IsolationDomainID r, grg_ID r)" by (simp add: gateway_key_def g_def)
    have columns: "gateway_columns_ok r capabilities"
      using assms(2,3) complete Inr by (auto simp: pg_RegisterGateway_def Let_def split: if_splits)
    note facts = register_Some [OF Inr columns]
    show ?thesis
    proof (cases "sql_select (\<lambda>g. gateway_key g = (grg_IsolationDomainID r, grg_ID r)) (xdb_gateways d)")
      case (Some old)
      then have "list_ex (\<lambda>g. gateway_key g = (grg_IsolationDomainID r, grg_ID r)) (xdb_gateways d)" by (simp add: list_ex_select)
      with e Some complete Inr columns facts ok show ?thesis
        by (auto simp: pg_RegisterGateway_def memory_RegisterGateway_def Let_def memory_lookup [OF ok] pg_GetGateway_def memory_gateway_def)
    next
      case None
      then have fresh: "\<not> list_ex (\<lambda>g. gateway_key g = (grg_IsolationDomainID r, grg_ID r)) (xdb_gateways d)"
          "\<forall>old \<in> set (xdb_gateways d). gateway_key old \<noteq> gateway_key g"
        by (simp_all add: list_ex_select sql_select_None key)
      have new: "sql_select (\<lambda>g. gateway_key g = (grg_IsolationDomainID r, grg_ID r)) (xdb_gateways d @ [g]) = Some g"
        using None by (simp add: sql_select_append key)
      have d': "d' = d\<lparr>xdb_gateways := xdb_gateways d @ [g]\<rparr>" "res = Inr (gwr_Gateway (gwy_record g))"
        using e assms(3) complete Inr columns facts fresh(1) new
        by (auto simp: pg_RegisterGateway_def Let_def pg_GetGateway_def g_def [symmetric] split: if_splits) (auto simp: g_def)
      have "execution_ok d'" using register_ok [OF _ e] ok by (simp add: conform_ok_def)
      then have ok': "conform_ok sha256 d'" using ok facts by (auto simp: conform_ok_def d' g_def)
      have "AList.update (scopedKey (grg_IsolationDomainID r) (grg_ID r)) (memory_gateway d g) (keyed gateway_key (memory_gateway d) (xdb_gateways d))
          = keyed gateway_key (memory_gateway d) (xdb_gateways d @ [g])"
        by (rule update_keyed_new) (use conform_plain(1) [OF ok] fresh(2) facts key in \<open>auto dest: pg_text_plain\<close>)
      moreover have "memory_gateway d g = \<lparr>mgw_record = gwy_record g, mgw_reserved = 0\<rparr>"
        using no_load [OF _ fresh(2)] ok by (simp add: memory_gateway_def conform_ok_def)
      moreover have "memory_gateway d' = memory_gateway d" by (rule memory_gateway_frame) (simp add: d')
      ultimately have "memory_RegisterGateway r (memory_of d) = (res, memory_of d')"
        using complete Inr None facts
        by (simp add: memory_RegisterGateway_def Let_def memory_lookup [OF ok] d'(2)) (simp add: memory_of_def d' g_def)
      with ok' show ?thesis by simp
    qed
  qed
qed

lemma conform_set_state:
  assumes ok: "conform_ok sha256 d" and e: "pg_SetGatewayState now i k state d = (res, d')"
    and "\<forall>e. res = Some e \<longrightarrow> \<not> refused e" and "state \<noteq> GatewayLost"
  shows "memory_SetGatewayState i k state (memory_of d) = (res, memory_of d') \<and> conform_ok sha256 d'"
proof (cases "ValidGatewayState state \<and> pg_text i \<and> pg_text k")
  case False
  with assms show ?thesis by (auto simp: pg_SetGatewayState_def memory_SetGatewayState_def Let_def split: if_splits)
next
  case valid: True
  show ?thesis
  proof (cases "sql_select (\<lambda>g. gateway_key g = (i, k)) (xdb_gateways d)")
    case None
    then have "rows_affected (\<lambda>g. gateway_key g = (i, k)) (xdb_gateways d) = 0" by (simp add: sql_select_None rows_affected_0)
    with valid None e ok memory_lookup(1) [OF ok, of i k] show ?thesis
      by (auto simp: pg_SetGatewayState_def memory_SetGatewayState_def Let_def)
  next
    case (Some g)
    then have g: "g \<in> set (xdb_gateways d)" "gateway_key g = (i, k)" by (auto dest: sql_select_Some)
    then have "rows_affected (\<lambda>g. gateway_key g = (i, k)) (xdb_gateways d) \<noteq> 0" by (auto simp: rows_affected_0)
    then have d': "res = None" "d' = d\<lparr>xdb_gateways := sql_update (\<lambda>g. gateway_key g = (i, k)) (set_gateway_state state now) (xdb_gateways d)\<rparr>"
      using e valid assms(4) by (auto simp: pg_SetGatewayState_def Let_def)
    have frame: "memory_gateway d' = memory_gateway d" by (rule memory_gateway_frame) (simp add: d')
    have m': "memory_of d' = (memory_of d)\<lparr>mss_gateways := keyed gateway_key (memory_gateway d)
        (sql_update (\<lambda>g. gateway_key g = (i, k)) (set_gateway_state state now) (xdb_gateways d))\<rparr>"
      unfolding memory_of_def frame by (simp add: d'(2))
    have "AList.update (scopedKey i k) (memory_gateway d (set_gateway_state state now g)) (keyed gateway_key (memory_gateway d) (xdb_gateways d))
        = keyed gateway_key (memory_gateway d) (sql_update (\<lambda>g. gateway_key g = (i, k)) (set_gateway_state state now) (xdb_gateways d))"
      by (rule update_keyed_row [OF conform_plain(1,4) [OF ok] g(1)]) (simp_all add: g)
    moreover have "memory_gateway d (set_gateway_state state now g) = (memory_gateway d g)\<lparr>mgw_record :=
        (gwy_record g)\<lparr>gwr_Gateway := (gwr_Gateway (gwy_record g))\<lparr>gtw_State := state\<rparr>\<rparr>\<rparr>"
      by (simp add: memory_gateway_def gateway_load_def) (simp add: set_gateway_state_def)
    ultimately have "memory_SetGatewayState i k state (memory_of d) = (res, memory_of d')"
      using valid Some assms(4)
      by (simp add: memory_SetGatewayState_def Let_def memory_lookup [OF ok] d'(1) m') (simp add: memory_of_def memory_gateway_def)
    moreover have "execution_ok d'" using set_state_ok [OF _ e] ok by (simp add: conform_ok_def)
    then have "conform_ok sha256 d'"
      using ok by (auto simp: conform_ok_def d'(2) set_gateway_state_def elim!: in_sql_updateE)
    ultimately show ?thesis by simp
  qed
qed

section \<open>Placements\<close>

lemma memory_eligible_of:
  assumes "conform_ok sha256 d"
  shows "memory_eligible i names (memory_of d) = map (memory_gateway d) (gateway_candidates [] i (Some names) d)"
  by (auto simp: memory_eligible_def memory_of_def keyed_def gateway_candidates_def memory_gateway_def filter_map comp_def)

lemma insort_key_map: "insort_key f (g x) (map g xs) = map g (insort_key (\<lambda>x. f (g x)) x xs)"
  by (induction xs) simp_all

lemma sort_key_map: "sort_key f (map g xs) = map g (sort_key (\<lambda>x. f (g x)) xs)"
  by (induction xs) (simp_all add: insort_key_map)

lemma sort_key_iso:
  assumes "\<And>x y. f x \<le> f y \<longleftrightarrow> g x \<le> g y"
  shows "sort_key f xs = sort_key g xs"
proof -
  have "insort_key f x ys = insort_key g x ys" for x ys by (induction ys) (simp_all add: assms)
  then show ?thesis by (induction xs) simp_all
qed

lemma memory_selection:
  assumes "conform_ok sha256 d"
  shows "(case sort_key (\<lambda>e. (mgw_reserved e, gtw_ID (gwr_Gateway (mgw_record e)))) (memory_eligible i names (memory_of d)) of
      [] \<Rightarrow> None | e # _ \<Rightarrow> Some e) = map_option (memory_gateway d) (select_gateway [] i (Some names) d)"
proof -
  let ?key = "\<lambda>g. (gateway_load d g, gtw_ID (gwr_Gateway (gwy_record g)))"
  have "sort_key (\<lambda>g. (int (gateway_load d g), gtw_ID (gwr_Gateway (gwy_record g)))) gs = sort_key ?key gs" for gs
    by (rule sort_key_iso) (auto simp: less_eq_prod_def)
  then show ?thesis
    by (simp add: memory_eligible_of [OF assms] sort_key_map select_gateway_def first_by_def)
      (simp add: memory_gateway_def split: list.splits)
qed

lemma select_by_operation:
  assumes "conform_ok sha256 d"
    and "\<forall>p \<in> set (xdb_placements d). placement_key p = (i, Derived sha256 ''plc'' (i @ '':'' @ op)) \<longrightarrow> pmt_operation_id p = op"
  shows "sql_select (\<lambda>p. placement_key p = (i, Derived sha256 ''plc'' (i @ '':'' @ op))) (xdb_placements d) = getPlacementByOperation d i op"
proof -
  have "placement_key p = (i, Derived sha256 ''plc'' (i @ '':'' @ op)) \<longleftrightarrow> placement_operation p = (i, op)"
    if "p \<in> set (xdb_placements d)" for p
    using that assms by (auto simp: conform_ok_def placement_key_def placement_operation_def)
  then show ?thesis
    unfolding getPlacementByOperation_def sql_select_def by (intro find_cong) auto
qed

lemma gateway_load_append:
  "gateway_load (d\<lparr>xdb_placements := xdb_placements d @ [row]\<rparr>) g =
   gateway_load d g + (if placement_gateway row = gateway_key g \<and> live_state (pmt_state row) then 1 else 0)"
  by (simp add: gateway_load_def)

lemma conform_placed:
  assumes ok: "conform_ok sha256 d" and g: "g \<in> set (xdb_gateways d)" "placed_on row g"
    and row: "pmt_state row = ''reserved''" "\<forall>p \<in> set (xdb_placements d). placement_key p \<noteq> placement_key row"
      "pg_text (fst (placement_key row))"
    and d': "d' = d\<lparr>xdb_placements := xdb_placements d @ [row]\<rparr>"
  shows "memory_of d' = (memory_of d)\<lparr>
    mss_gateways := AList.update (scopedKey (fst (gateway_key g)) (snd (gateway_key g)))
      ((memory_gateway d g)\<lparr>mgw_reserved := mgw_reserved (memory_gateway d g) + 1\<rparr>) (mss_gateways (memory_of d)),
    mss_placements := AList.update (scopedKey (fst (placement_key row)) (snd (placement_key row))) (memory_placement row)
      (mss_placements (memory_of d))\<rparr>"
proof -
  have load: "memory_gateway d' s = (if gateway_key s = gateway_key g
      then (memory_gateway d s)\<lparr>mgw_reserved := mgw_reserved (memory_gateway d s) + 1\<rparr> else memory_gateway d s)" for s
    using g(2) row(1) by (auto simp: memory_gateway_def d' gateway_load_append placed_on_def live_state_def)
  have "sql_update (\<lambda>s. gateway_key s = gateway_key g) (\<lambda>s. s) (xdb_gateways d) = xdb_gateways d"
    by (simp add: sql_update_def)
  moreover have "AList.update (scopedKey (fst (gateway_key g)) (snd (gateway_key g)))
      ((memory_gateway d g)\<lparr>mgw_reserved := mgw_reserved (memory_gateway d g) + 1\<rparr>) (keyed gateway_key (memory_gateway d) (xdb_gateways d)) =
      keyed gateway_key (memory_gateway d') (sql_update (\<lambda>s. gateway_key s = gateway_key g) (\<lambda>s. s) (xdb_gateways d))"
    by (rule update_keyed_row [OF conform_plain(1,4) [OF ok] g(1)]) (simp_all add: load)
  moreover have "AList.update (scopedKey (fst (placement_key row)) (snd (placement_key row))) (memory_placement row)
      (keyed placement_key memory_placement (xdb_placements d)) = keyed placement_key memory_placement (xdb_placements d @ [row])"
    by (rule update_keyed_new [OF conform_plain(2) [OF ok]]) (use row(2,3) in \<open>auto dest: pg_text_plain\<close>)
  ultimately show ?thesis by (simp add: memory_of_def) (simp add: d')
qed

lemma conform_reserve_new:
  assumes ok: "conform_ok sha256 d" and e: "pg_ReservePlacement sha256 [] now q d = (res, d')"
    and accepted: "\<forall>e. res = Inl e \<longrightarrow> \<not> refused e"
    and complete: "plq_IsolationDomainID q \<noteq> []" "plq_OperationID q \<noteq> []"
    and caps: "NormalizeCapabilities (plq_RequiredCapabilities q) = Inr (Some names)"
    and plain: "pg_text (plq_IsolationDomainID q)" "pg_text (plq_OperationID q)"
    and k: "k = Derived sha256 ''plc'' (plq_IsolationDomainID q @ '':'' @ plq_OperationID q)"
    and lookup: "map_of (mss_placements (memory_of d)) (scopedKey (plq_IsolationDomainID q) k) = None"
    and None: "getPlacementByOperation d (plq_IsolationDomainID q) (plq_OperationID q) = None"
    and Some: "select_gateway [] (plq_IsolationDomainID q) (Some names) d = Some g"
  shows "memory_ReservePlacement sha256 q (memory_of d) = (res, memory_of d') \<and> conform_ok sha256 d'"
proof -
  have "d' \<noteq> d"
    using e accepted None Some complete caps plain by (auto simp: pg_ReservePlacement_def Let_def split: if_splits)
  with e obtain row where row: "d' = d\<lparr>xdb_placements := xdb_placements d @ [row]\<rparr>" "res = Inr (pmt_placement row)" "placed_on row g"
      "pmt_state row = ''reserved''" "placement_operation row = (plq_IsolationDomainID q, plq_OperationID q)"
      "pmt_required_capabilities row = names" "placement_key row = (plq_IsolationDomainID q, k)"
      "\<forall>p \<in> set (xdb_placements d). placement_key p \<noteq> placement_key row"
    using Some caps by (cases rule: reserve_cases) (auto simp: k)
  note g = select_gateway_Some [OF Some]
  have m': "memory_of d' = (memory_of d)\<lparr>
      mss_gateways := AList.update (scopedKey (fst (gateway_key g)) (snd (gateway_key g)))
        ((memory_gateway d g)\<lparr>mgw_reserved := mgw_reserved (memory_gateway d g) + 1\<rparr>) (mss_gateways (memory_of d)),
      mss_placements := AList.update (scopedKey (fst (placement_key row)) (snd (placement_key row))) (memory_placement row)
        (mss_placements (memory_of d))\<rparr>"
    by (rule conform_placed [OF ok _ row(3,4,8) _ row(1)]) (use g plain row(7) in simp_all)
  have selected: "(case sort_key (\<lambda>e. (mgw_reserved e, gtw_ID (gwr_Gateway (mgw_record e))))
      (memory_eligible (plq_IsolationDomainID q) names (memory_of d)) of [] \<Rightarrow> None | e # _ \<Rightarrow> Some e) = Some (memory_gateway d g)"
    using memory_selection [OF ok] Some by simp
  have placement: "pmt_placement row = \<lparr>plc_IsolationDomainID = plq_IsolationDomainID q, plc_ID = k, plc_GatewayID = gtw_ID (gwr_Gateway (gwy_record g))\<rparr>"
    "pmt_operation_id row = plq_OperationID q"
    using row(3,5,7) by (auto simp: placed_on_def placement_operation_def placement_key_def placement_gateway_def gateway_key_def intro!: Placement.equality)
  have "memory_ReservePlacement sha256 q (memory_of d) = (res, memory_of d')"
    unfolding memory_ReservePlacement_def Let_def k [symmetric] m'
    using complete caps lookup None selected
    by (simp add: row(2,4,6,7) placement memory_placement_def gateway_key_def split: list.splits)
      (simp add: memory_gateway_def)
  moreover have "execution_ok d'" using reserve_ok [OF _ e] ok by (simp add: conform_ok_def)
  then have "conform_ok sha256 d'" using ok row(4) by (auto simp: conform_ok_def row(1) placement k)
  ultimately show ?thesis by simp
qed

lemma conform_reserve:
  assumes ok: "conform_ok sha256 d" and e: "pg_ReservePlacement sha256 [] now q d = (res, d')"
    and accepted: "\<forall>e. res = Inl e \<longrightarrow> \<not> refused e" and "plq_RequiredCapabilities q \<noteq> []"
    and collide: "\<forall>p \<in> set (xdb_placements d). placement_key p = (plq_IsolationDomainID q,
      Derived sha256 ''plc'' (plq_IsolationDomainID q @ '':'' @ plq_OperationID q)) \<longrightarrow> pmt_operation_id p = plq_OperationID q"
  shows "memory_ReservePlacement sha256 q (memory_of d) = (res, memory_of d') \<and> conform_ok sha256 d'"
proof (cases "plq_IsolationDomainID q = [] \<or> plq_OperationID q = [] \<or> list_ex (\<lambda>c. c = []) (plq_RequiredCapabilities q)")
  case True
  with e ok show ?thesis
    by (auto simp: pg_ReservePlacement_def memory_ReservePlacement_def NormalizeCapabilities_def split: if_splits)
next
  case False
  define names where "names = sort_compact (plq_RequiredCapabilities q)"
  define k where "k = Derived sha256 ''plc'' (plq_IsolationDomainID q @ '':'' @ plq_OperationID q)"
  have caps: "NormalizeCapabilities (plq_RequiredCapabilities q) = Inr (Some names)"
    using False assms(4) by (simp add: NormalizeCapabilities_def names_def)
  have plain: "pg_text (plq_IsolationDomainID q)" "pg_text (plq_OperationID q)"
    using e accepted False caps by (auto simp: pg_ReservePlacement_def Let_def split: if_splits)
  have lookup: "map_of (mss_placements (memory_of d)) (scopedKey (plq_IsolationDomainID q) k) =
      map_option memory_placement (getPlacementByOperation d (plq_IsolationDomainID q) (plq_OperationID q))"
    unfolding memory_lookup(2) [OF ok plain(1)] k_def by (simp only: select_by_operation [OF ok collide])
  have memory: "memory_ReservePlacement sha256 q (memory_of d) =
      (case getPlacementByOperation d (plq_IsolationDomainID q) (plq_OperationID q) of
         Some p \<Rightarrow> if pmt_operation_id p \<noteq> plq_OperationID q \<or> pmt_required_capabilities p \<noteq> names
           then (Inl (Sentinel ErrStateConflict), memory_of d) else (Inr (pmt_placement p), memory_of d)
       | None \<Rightarrow> (case select_gateway [] (plq_IsolationDomainID q) (Some names) d of
           None \<Rightarrow> (Inl (Sentinel ErrNoGateway), memory_of d)
         | Some g \<Rightarrow> memory_ReservePlacement sha256 q (memory_of d)))"
    using False caps lookup memory_selection [OF ok, of "plq_IsolationDomainID q" names]
    by (auto simp: memory_ReservePlacement_def Let_def k_def memory_placement_def split: option.splits list.splits)
  show ?thesis
  proof (cases "getPlacementByOperation d (plq_IsolationDomainID q) (plq_OperationID q)")
    case (Some p)
    then have "pmt_operation_id p = plq_OperationID q"
      by (auto simp: getPlacementByOperation_def placement_operation_def dest: sql_select_Some)
    with Some memory e False caps plain ok show ?thesis by (auto simp: pg_ReservePlacement_def Let_def)
  next
    case None
    show ?thesis
    proof (cases "select_gateway [] (plq_IsolationDomainID q) (Some names) d")
      case no_gateway: None
      with None memory e accepted False caps plain ok show ?thesis by (auto simp: pg_ReservePlacement_def Let_def split: if_splits)
    next
      case (Some g)
      have "plq_IsolationDomainID q \<noteq> []" "plq_OperationID q \<noteq> []" using False by simp_all
      from conform_reserve_new [OF ok e accepted this caps plain k_def _ None Some] lookup None show ?thesis by simp
    qed
  qed
qed

section \<open>Executions\<close>

lemma filter_update_length:
  assumes "\<And>p. p \<in> set ps \<Longrightarrow> c p \<Longrightarrow> q (f p) = q p"
  shows "length (filter q (sql_update c f ps)) = length (filter q ps)"
  using assms by (induction ps) (auto simp: sql_update_def)

lemma memory_gateway_live:
  assumes "xdb_placements d' = sql_update c (set_placement_state s now) (xdb_placements d)"
    and "\<And>p. p \<in> set (xdb_placements d) \<Longrightarrow> c p \<Longrightarrow> live_state (pmt_state p) = live_state s"
  shows "memory_gateway d' = memory_gateway d"
  unfolding memory_gateway_def [abs_def] gateway_load_def assms(1)
  by (subst filter_update_length) (auto simp: assms(2))

lemma memory_placement_update:
  "memory_placement (set_placement_state s now p) = (memory_placement p)\<lparr>mpl_state := s\<rparr>"
  by (simp add: memory_placement_def)

lemma conform_saved:
  assumes ok: "conform_ok sha256 d" and e: "pg_SaveExecution now r d = (None, d')" and "d' \<noteq> d"
    and state: "exe_State (exr_Execution r) \<noteq> ''terminated''"
  obtains p where "sql_select (\<lambda>p. placement_key p = execution_placement r) (xdb_placements d) = Some p"
    "pmt_operation_id p = exr_OperationID r" "plc_GatewayID (pmt_placement p) = exe_GatewayID (exr_Execution r)" "live_state (pmt_state p)"
    "sql_select (\<lambda>x. execution_key (ins_record x) = execution_key r) (xdb_instances d) = None"
    "memory_of d' = (memory_of d)\<lparr>
       mss_executions := AList.update (scopedKey (fst (execution_key r)) (snd (execution_key r))) r (mss_executions (memory_of d)),
       mss_placements := AList.update (scopedKey (fst (execution_placement r)) (snd (execution_placement r)))
         ((memory_placement p)\<lparr>mpl_state := ''active''\<rparr>) (mss_placements (memory_of d))\<rparr>"
    "conform_ok sha256 d'"
  using e
proof (cases rule: save_cases)
  case (saved p)
  note plain = conform_plain [OF ok]
  have domain: "CHR 0x00 \<notin> set (fst (execution_key r))"
    using plain(2) saved(1,2) by (auto simp: keys_plain_def execution_key_def execution_placement_def placement_key_def)
  define i where "i = \<lparr>ins_record = r, ins_created_at = now, ins_updated_at = now, ins_terminated_at = None\<rparr>"
  have d': "xdb_instances d' = xdb_instances d @ [i]" "xdb_gateways d' = xdb_gateways d"
    "xdb_placements d' = sql_update (\<lambda>p. placement_key p = execution_placement r) (set_placement_state ''active'' now) (xdb_placements d)"
    using state by (simp_all add: saved(9) i_def)
  have only: "x = p" if "x \<in> set (xdb_placements d)" "placement_key x = execution_placement r" for x
    using unique_by_eq [OF plain(5) that(1) saved(1)] that(2) saved(2) by simp
  have frame: "memory_gateway d' = memory_gateway d"
    by (rule memory_gateway_live [OF d'(3)]) (use only saved(5) in \<open>auto simp: live_state_def\<close>)
  have executions: "AList.update (scopedKey (fst (execution_key r)) (snd (execution_key r))) r
      (keyed (\<lambda>x. execution_key (ins_record x)) ins_record (xdb_instances d)) =
      keyed (\<lambda>x. execution_key (ins_record x)) ins_record (xdb_instances d @ [i])"
    using update_keyed_new [OF plain(3), of i _ ins_record] domain saved(6) by (auto simp: i_def)
  have placements: "AList.update (scopedKey (fst (execution_placement r)) (snd (execution_placement r))) ((memory_placement p)\<lparr>mpl_state := ''active''\<rparr>)
      (keyed placement_key memory_placement (xdb_placements d)) = keyed placement_key memory_placement (xdb_placements d')"
    unfolding d'(3)
    by (rule update_keyed_row [OF plain(2,5) saved(1)]) (simp_all add: saved(2) memory_placement_update)
  have "execution_ok d'" using save_ok [OF _ e] ok by (simp add: conform_ok_def)
  then have "conform_ok sha256 d'"
    using ok by (auto simp: conform_ok_def d' elim!: in_sql_updateE)
  moreover have "sql_select (\<lambda>p. placement_key p = execution_placement r) (xdb_placements d) = Some p"
    by (rule sql_select_unique [OF plain(5)]) (use saved(1,2) in auto)
  moreover have "sql_select (\<lambda>x. execution_key (ins_record x) = execution_key r) (xdb_instances d) = None"
    using saved(6) by (auto simp: sql_select_None)
  moreover have "pmt_operation_id p = exr_OperationID r" "plc_GatewayID (pmt_placement p) = exe_GatewayID (exr_Execution r)"
    using saved(3,4) by (simp_all add: placement_operation_def execution_operation_def placement_gateway_def execution_gateway_def)
  moreover have "memory_of d' = (memory_of d)\<lparr>
       mss_executions := AList.update (scopedKey (fst (execution_key r)) (snd (execution_key r))) r (mss_executions (memory_of d)),
       mss_placements := AList.update (scopedKey (fst (execution_placement r)) (snd (execution_placement r)))
         ((memory_placement p)\<lparr>mpl_state := ''active''\<rparr>) (mss_placements (memory_of d))\<rparr>"
    using executions placements by (simp add: memory_of_def frame) (simp add: d')
  ultimately show thesis using that saved(5) by blast
qed (use assms(3) in simp)

lemma append_instance_differs [simp]: "d\<lparr>xdb_instances := xdb_instances d @ [i], xdb_placements := ps\<rparr> \<noteq> d"
proof
  assume "d\<lparr>xdb_instances := xdb_instances d @ [i], xdb_placements := ps\<rparr> = d"
  then have "xdb_instances (d\<lparr>xdb_instances := xdb_instances d @ [i], xdb_placements := ps\<rparr>) = xdb_instances d" by (rule arg_cong)
  then show False by simp
qed

lemma conform_save:
  assumes ok: "conform_ok sha256 d" and e: "pg_SaveExecution now r d = (res, d')"
    and accepted: "\<forall>e. res = Some e \<longrightarrow> \<not> refused e" and state: "exe_State (exr_Execution r) \<noteq> ''terminated''"
  shows "memory_SaveExecution r (memory_of d) = (res, memory_of d') \<and> conform_ok sha256 d'"
proof (cases "d' = d \<or> execution_incomplete r")
  case False
  then have "res = None" using e by (auto elim: save_cases)
  with e False state obtain p where p: "sql_select (\<lambda>p. placement_key p = execution_placement r) (xdb_placements d) = Some p"
    "pmt_operation_id p = exr_OperationID r" "plc_GatewayID (pmt_placement p) = exe_GatewayID (exr_Execution r)" "live_state (pmt_state p)"
    "sql_select (\<lambda>x. execution_key (ins_record x) = execution_key r) (xdb_instances d) = None"
    "memory_of d' = (memory_of d)\<lparr>
       mss_executions := AList.update (scopedKey (fst (execution_key r)) (snd (execution_key r))) r (mss_executions (memory_of d)),
       mss_placements := AList.update (scopedKey (fst (execution_placement r)) (snd (execution_placement r)))
         ((memory_placement p)\<lparr>mpl_state := ''active''\<rparr>) (mss_placements (memory_of d))\<rparr>"
    "conform_ok sha256 d'"
    using conform_saved [OF ok, of now r d'] by blast
  have plain: "pg_text (exe_IsolationDomainID (exr_Execution r))"
    using e False by (auto simp: pg_SaveExecution_def getExecution_def Let_def split: if_splits)
  have "memory_SaveExecution r (memory_of d) = (None, memory_of d')"
    using False p(1-5) state unfolding p(6)
    by (simp add: memory_SaveExecution_def Let_def memory_lookup [OF ok plain] execution_key_def execution_placement_def)
      (simp add: memory_placement_def)
  then show ?thesis using \<open>res = None\<close> p(7) by simp
next
  case same: True
  show ?thesis
  proof (cases "execution_incomplete r")
    case True
    with e ok show ?thesis by (auto simp: pg_SaveExecution_def memory_SaveExecution_def)
  next
    case False
    then have "d' = d" using same by simp
    have plain: "pg_text (exe_IsolationDomainID (exr_Execution r))"
      using e accepted False by (auto simp: pg_SaveExecution_def getExecution_def Let_def split: if_splits)
    show ?thesis
      using e accepted False ok unfolding \<open>d' = d\<close>
      by (auto simp: pg_SaveExecution_def getExecution_def memory_SaveExecution_def Let_def memory_lookup [OF ok plain]
          execution_key_def execution_placement_def memory_placement_def split: if_splits option.splits)
  qed
qed

lemma memory_gateway_released:
  assumes "unique_by placement_key (xdb_placements d)" and p: "p \<in> set (xdb_placements d)" "live_state (pmt_state p)"
    and d': "xdb_placements d' = sql_update (\<lambda>x. placement_key x = placement_key p) (set_placement_state ''released'' now) (xdb_placements d)"
  shows "gateway_load d g = gateway_load d' g + (if placement_gateway p = gateway_key g then 1 else 0)"
proof -
  let ?live = "\<lambda>x. placement_gateway x = gateway_key g \<and> live_state (pmt_state x)"
  have "length (filter ?live ps) = length (filter ?live (sql_update (\<lambda>x. placement_key x = placement_key p) (set_placement_state ''released'' now) ps))
      + (if placement_gateway p = gateway_key g then 1 else 0)"
    if "p \<in> set ps" "unique_by placement_key ps" for ps
    using that
  proof (induction ps)
    case (Cons x ps)
    have dead: "\<not> live_state ''released''" by (simp add: live_state_def)
    show ?case
    proof (cases "x = p")
      case True
      then have "sql_update (\<lambda>x. placement_key x = placement_key p) (set_placement_state ''released'' now) ps = ps"
        using Cons.prems(2) by (intro sql_update_none) (auto simp: unique_by_def image_iff)
      then show ?thesis using True p(2) dead by (simp add: sql_update_def)
    next
      case False
      then have "placement_key x \<noteq> placement_key p" using Cons.prems by (auto simp: unique_by_def image_iff)
      then show ?thesis using False Cons by (auto simp: sql_update_def unique_by_def)
    qed
  qed simp
  then show ?thesis using p(1) assms(1) by (simp add: gateway_load_def d')
qed

lemma placement_of_execution:
  assumes ok: "conform_ok sha256 d" and x: "x \<in> set (xdb_instances d)"
  obtains p g where "p \<in> set (xdb_placements d)" "placement_key p = execution_placement (ins_record x)"
    "g \<in> set (xdb_gateways d)" "gateway_key g = placement_gateway p"
    "pmt_state p = (if exe_State (exr_Execution (ins_record x)) = ''terminated'' then ''released'' else ''active'')"
proof -
  have "\<exists>p \<in> set (xdb_placements d). runs_in x p"
    using ok x unfolding conform_ok_def execution_ok_def instances_ok_def by blast
  then obtain p where p: "p \<in> set (xdb_placements d)" "runs_in x p" by blast
  moreover obtain g where "g \<in> set (xdb_gateways d)" "placed_on p g"
    using ok p(1) unfolding conform_ok_def execution_ok_def placements_ok_def by blast
  moreover have "pmt_state p \<in> {''reserved'', ''active'', ''released'', ''lost''}" "pmt_state p \<noteq> ''lost''"
    using ok p(1) unfolding conform_ok_def execution_ok_def placements_ok_def by blast+
  ultimately show thesis using that by (auto simp: runs_in_def placed_on_def)
qed

lemma conform_release:
  assumes ok: "conform_ok sha256 d" and p: "p \<in> set (xdb_placements d)" "pmt_state p = ''active''"
    and g: "g \<in> set (xdb_gateways d)" "gateway_key g = placement_gateway p"
    and m: "mss_gateways m = mss_gateways (memory_of d)" "mss_placements m = mss_placements (memory_of d)"
    and d': "xdb_gateways d' = xdb_gateways d"
      "xdb_placements d' = sql_update (\<lambda>x. placement_key x = placement_key p) (set_placement_state ''released'' now) (xdb_placements d)"
  shows "memory_release (fst (placement_key p)) (snd (placement_key p)) m =
    m\<lparr>mss_gateways := mss_gateways (memory_of d'), mss_placements := mss_placements (memory_of d')\<rparr>"
proof -
  note plain = conform_plain [OF ok]
  have domain: "pg_text (fst (placement_key p))" "fst (placement_gateway p) = fst (placement_key p)"
    using ok g by (auto simp: conform_ok_def placement_gateway_def placement_key_def gateway_key_def)
  have load: "gateway_load d s = gateway_load d' s + (if placement_gateway p = gateway_key s then 1 else 0)" for s
    by (rule memory_gateway_released [OF plain(5) p(1) _ d'(2)]) (simp add: p(2) live_state_def)
  have "sql_select (\<lambda>x. placement_key x = placement_key p) (xdb_placements d) = Some p"
    by (rule sql_select_unique [OF plain(5)]) (use p in auto)
  then have placement: "map_of (mss_placements (memory_of d)) (scopedKey (fst (placement_key p)) (snd (placement_key p))) = Some (memory_placement p)"
    using memory_lookup(2) [OF ok domain(1), of "snd (placement_key p)"] by simp
  have "sql_select (\<lambda>x. gateway_key x = placement_gateway p) (xdb_gateways d) = Some g"
    by (rule sql_select_unique [OF plain(4)]) (use g in auto)
  then have gateway: "map_of (mss_gateways (memory_of d)) (scopedKey (fst (placement_key p)) (plc_GatewayID (pmt_placement p))) = Some (memory_gateway d g)"
    using memory_lookup(1) [OF ok domain(1), of "plc_GatewayID (pmt_placement p)"]
    by (simp add: placement_gateway_def placement_key_def)
  have "AList.update (scopedKey (fst (placement_key p)) (snd (placement_key p))) ((memory_placement p)\<lparr>mpl_state := ''released''\<rparr>)
      (keyed placement_key memory_placement (xdb_placements d)) = keyed placement_key memory_placement (xdb_placements d')"
    unfolding d'(2) by (rule update_keyed_row [OF plain(2,5) p(1)]) (simp_all add: memory_placement_update)
  moreover have "sql_update (\<lambda>s. gateway_key s = gateway_key g) (\<lambda>s. s) (xdb_gateways d) = xdb_gateways d'"
    by (simp add: sql_update_def d'(1))
  moreover have "AList.update (scopedKey (fst (placement_key p)) (plc_GatewayID (pmt_placement p)))
      ((memory_gateway d g)\<lparr>mgw_reserved := mgw_reserved (memory_gateway d g) - 1\<rparr>) (keyed gateway_key (memory_gateway d) (xdb_gateways d)) =
      keyed gateway_key (memory_gateway d') (sql_update (\<lambda>s. gateway_key s = gateway_key g) (\<lambda>s. s) (xdb_gateways d))"
    by (rule update_keyed_row [OF plain(1,4) g(1)])
      (use g(2) load in \<open>auto simp: memory_gateway_def placement_gateway_def placement_key_def\<close>)
  moreover have "0 < mgw_reserved (memory_gateway d g)" using load [of g] g(2) by (simp add: memory_gateway_def)
  ultimately show ?thesis
    using placement gateway m by (simp add: memory_release_def Let_def) (simp add: memory_of_def memory_placement_def)
qed

lemma conform_updated:
  assumes ok: "conform_ok sha256 d" and x: "x \<in> set (xdb_instances d)" "execution_key (ins_record x) = k" "pg_text (fst k)"
    and allowed: "exe_State (exr_Execution (ins_record x)) = ''terminated'' \<longrightarrow> state = ''terminated''"
    and d': "d' = d\<lparr>xdb_instances := sql_update (\<lambda>i. execution_key (ins_record i) = k)
          (\<lambda>i. i\<lparr>ins_record := set_execution_state state (ins_record i), ins_updated_at := now,
                 ins_terminated_at := (if state = ''terminated'' then Some now else None)\<rparr>) (xdb_instances d),
        xdb_placements := sql_update (\<lambda>p. state = ''terminated'' \<and> (\<exists>i \<in> set (xdb_instances d).
            execution_key (ins_record i) = k \<and> placement_key p = execution_placement (ins_record i)))
          (set_placement_state ''released'' now) (xdb_placements d)\<rparr>"
    and ref: "ref_IsolationDomainID ref = fst k" "ref_ID ref = snd k"
  shows "memory_UpdateExecutionState ref state (memory_of d) = (None, memory_of d')"
proof -
  note plain = conform_plain [OF ok]
  obtain p g where p: "p \<in> set (xdb_placements d)" "placement_key p = execution_placement (ins_record x)"
    and g: "g \<in> set (xdb_gateways d)" "gateway_key g = placement_gateway p"
    and released: "pmt_state p = (if exe_State (exr_Execution (ins_record x)) = ''terminated'' then ''released'' else ''active'')"
    using placement_of_execution [OF ok x(1)] .
  have "i = x" if "i \<in> set (xdb_instances d)" "execution_key (ins_record i) = k" for i
    using unique_by_eq [OF plain(6) that(1) x(1)] that(2) x(2) by simp
  then have same: "(\<exists>i \<in> set (xdb_instances d). execution_key (ins_record i) = k \<and> placement_key y = execution_placement (ins_record i)) \<longleftrightarrow>
      placement_key y = placement_key p" for y
    using x(1,2) unfolding p(2) by blast
  have only: "y = p" if "y \<in> set (xdb_placements d)" "placement_key y = placement_key p" for y
    using unique_by_eq [OF plain(5) that(1) p(1) that(2)] .
  have rows: "xdb_gateways d' = xdb_gateways d"
    "xdb_placements d' = sql_update (\<lambda>y. state = ''terminated'' \<and> placement_key y = placement_key p) (set_placement_state ''released'' now) (xdb_placements d)"
    by (simp_all add: d' same)
  have instances: "xdb_instances d' = sql_update (\<lambda>i. execution_key (ins_record i) = k)
      (\<lambda>i. i\<lparr>ins_record := set_execution_state state (ins_record i), ins_updated_at := now,
             ins_terminated_at := (if state = ''terminated'' then Some now else None)\<rparr>) (xdb_instances d)"
    by (simp add: d')
  define m where "m = (memory_of d)\<lparr>mss_executions := mss_executions (memory_of d')\<rparr>"
  have lookup: "map_of (mss_executions (memory_of d)) (scopedKey (fst k) (snd k)) = Some (ins_record x)"
    using memory_lookup(3) [OF ok x(3), of "snd k"] sql_select_unique [OF plain(6), of _ k x] x by simp
  have executions: "AList.update (scopedKey (fst k) (snd k)) (set_execution_state state (ins_record x)) (mss_executions (memory_of d)) =
      mss_executions (memory_of d')"
    unfolding memory_of_def MemoryStateStore.simps instances
    by (rule update_keyed_row [OF plain(3,6) x(1)]) (simp_all add: x)
  have memory: "memory_UpdateExecutionState ref state (memory_of d) =
      (None, if state = ''terminated'' \<and> exe_State (exr_Execution (ins_record x)) \<noteq> ''terminated''
        then memory_release (fst k) (exr_PlacementID (ins_record x)) m else m)"
    using lookup allowed executions by (auto simp: memory_UpdateExecutionState_def Let_def ref m_def set_execution_state_def)
  have key: "fst (placement_key p) = fst k" "snd (placement_key p) = exr_PlacementID (ins_record x)"
    using p(2) x(2) by (auto simp: execution_placement_def execution_key_def)
  show ?thesis
  proof (cases "state = ''terminated'' \<and> exe_State (exr_Execution (ins_record x)) \<noteq> ''terminated''")
    case True
    then have "pmt_state p = ''active''" using released by simp
    from conform_release [OF ok p(1) this g _ _ rows(1), of m now] True memory key rows(2)
    show ?thesis by (simp add: m_def)
  next
    case False
    have placements: "keyed placement_key memory_placement (xdb_placements d') = keyed placement_key memory_placement (xdb_placements d)"
      using released False by (auto simp: rows(2) keyed_def sql_update_def memory_placement_update memory_placement_def dest!: only)
    have "memory_gateway d' = memory_gateway d"
      by (rule memory_gateway_live [OF rows(2)]) (use released False in \<open>auto simp: live_state_def dest!: only\<close>)
    then have "m = memory_of d'" unfolding m_def using placements by (simp add: memory_of_def rows(1))
    with memory False show ?thesis by simp
  qed
qed

lemma update_success:
  assumes e: "pg_UpdateExecutionState now ref state d = (None, d')" and k: "k = (ref_IsolationDomainID ref, ref_ID ref)"
  obtains x where "x \<in> set (xdb_instances d)" "execution_key (ins_record x) = k"
    "exe_State (exr_Execution (ins_record x)) = ''terminated'' \<longrightarrow> state = ''terminated''"
    "d' = d\<lparr>xdb_instances := sql_update (\<lambda>i. execution_key (ins_record i) = k)
          (\<lambda>i. i\<lparr>ins_record := set_execution_state state (ins_record i), ins_updated_at := now,
                 ins_terminated_at := (if state = ''terminated'' then Some now else None)\<rparr>) (xdb_instances d),
        xdb_placements := sql_update (\<lambda>p. state = ''terminated'' \<and> (\<exists>i \<in> set (xdb_instances d).
            execution_key (ins_record i) = k \<and> placement_key p = execution_placement (ins_record i)))
          (set_placement_state ''released'' now) (xdb_placements d)\<rparr>"
proof -
  obtain x where x: "sql_select (\<lambda>i. execution_key (ins_record i) = k) (xdb_instances d) = Some x"
    and allowed: "\<not> (exe_State (exr_Execution (ins_record x)) = ''terminated'' \<and> state \<noteq> ''terminated'')"
    using e k unfolding pg_UpdateExecutionState_def Let_def by (simp split: if_splits option.splits)
  have none: "xdb_placements d = sql_update (\<lambda>p. False) (set_placement_state ''released'' now) (xdb_placements d)"
    by (simp add: sql_update_none)
  show thesis
    by (rule that [of x])
      (use e k x allowed sql_select_Some [OF x] none in
        \<open>simp_all add: pg_UpdateExecutionState_def Let_def list_ex_iff execution_placement_def split: if_splits\<close>)
qed

lemma conform_update:
  assumes ok: "conform_ok sha256 d" and e: "pg_UpdateExecutionState now ref state d = (res, d')"
    and accepted: "\<forall>e. res = Some e \<longrightarrow> \<not> refused e" and valid: "valid_execution_state state"
  shows "memory_UpdateExecutionState ref state (memory_of d) = (res, memory_of d') \<and> conform_ok sha256 d'"
proof -
  define k where "k = (ref_IsolationDomainID ref, ref_ID ref)"
  have plain: "pg_text (ref_IsolationDomainID ref)"
    using e accepted valid by (auto simp: pg_UpdateExecutionState_def Let_def split: if_splits)
  have "res = None \<or> memory_UpdateExecutionState ref state (memory_of d) = (res, memory_of d) \<and> d' = d"
    using e accepted valid
    by (auto simp: pg_UpdateExecutionState_def memory_UpdateExecutionState_def Let_def memory_lookup [OF ok plain] split: if_splits option.splits)
  then show ?thesis
  proof
    assume "res = None"
    with e have success: "pg_UpdateExecutionState now ref state d = (None, d')" by simp
    obtain x where x: "x \<in> set (xdb_instances d)" "execution_key (ins_record x) = k"
      and allowed: "exe_State (exr_Execution (ins_record x)) = ''terminated'' \<longrightarrow> state = ''terminated''"
      and d': "d' = d\<lparr>xdb_instances := sql_update (\<lambda>i. execution_key (ins_record i) = k)
          (\<lambda>i. i\<lparr>ins_record := set_execution_state state (ins_record i), ins_updated_at := now,
                 ins_terminated_at := (if state = ''terminated'' then Some now else None)\<rparr>) (xdb_instances d),
        xdb_placements := sql_update (\<lambda>p. state = ''terminated'' \<and> (\<exists>i \<in> set (xdb_instances d).
            execution_key (ins_record i) = k \<and> placement_key p = execution_placement (ins_record i)))
          (set_placement_state ''released'' now) (xdb_placements d)\<rparr>"
      using update_success [OF success k_def] .
    have "execution_ok d'" using update_ok [OF _ success] ok by (simp add: conform_ok_def)
    then have "conform_ok sha256 d'" using ok by (auto simp: conform_ok_def d' elim!: in_sql_updateE)
    with conform_updated [OF ok x _ allowed d'] show ?thesis using plain \<open>res = None\<close> by (simp add: k_def)
  next
    assume "memory_UpdateExecutionState ref state (memory_of d) = (res, memory_of d) \<and> d' = d"
    with ok show ?thesis by simp
  qed
qed

section \<open>Calls and runs\<close>

fun answer_error :: "store_answer \<Rightarrow> go_error option" where
  "answer_error (GatewayAnswer r) = (case r of Inl e \<Rightarrow> Some e | Inr _ \<Rightarrow> None)"
| "answer_error (ErrorAnswer e) = e"
| "answer_error (PlacementAnswer r) = (case r of Inl e \<Rightarrow> Some e | Inr _ \<Rightarrow> None)"
| "answer_error (RecordAnswer r) = (case r of Inl e \<Rightarrow> Some e | Inr _ \<Rightarrow> None)"
| "answer_error (ExecutionAnswer r) = (case r of Inl e \<Rightarrow> Some e | Inr _ \<Rightarrow> None)"

text \<open>The calls that the two stores answer alike, unless the database refuses them.\<close>

fun comparable :: "(string \<Rightarrow> string) \<Rightarrow> store_call \<Rightarrow> execution_db \<Rightarrow> bool" where
  "comparable sha256 (SetStateCall i g state) d = (state \<noteq> GatewayLost)"
| "comparable sha256 (ReserveCall q) d =
     (plq_RequiredCapabilities q \<noteq> [] \<and>
      (\<forall>p \<in> set (xdb_placements d). placement_key p = (plq_IsolationDomainID q,
         Derived sha256 ''plc'' (plq_IsolationDomainID q @ '':'' @ plq_OperationID q)) \<longrightarrow> pmt_operation_id p = plq_OperationID q))"
| "comparable sha256 (SaveCall r) d = (exe_State (exr_Execution r) \<noteq> ''terminated'')"
| "comparable sha256 (UpdateCall ref state) d = valid_execution_state state"
| "comparable sha256 _ d = True"

lemma conform_call:
  assumes "conform_ok sha256 d" and "comparable sha256 c d" and "pg_call sha256 now [] c d = (a, d')"
    and "\<forall>e. answer_error a = Some e \<longrightarrow> \<not> refused e"
  shows "memory_call sha256 c (memory_of d) = (a, memory_of d') \<and> conform_ok sha256 d'"
proof (cases c)
  case (RegisterCall r)
  obtain res x where "pg_RegisterGateway now r d = (res, x)" by fastforce
  with conform_register [OF assms(1) this] assms RegisterCall show ?thesis by auto
next
  case (SetStateCall i g state)
  obtain res x where "pg_SetGatewayState now i g state d = (res, x)" by fastforce
  with conform_set_state [OF assms(1) this] assms SetStateCall show ?thesis by auto
next
  case (ReserveCall q)
  obtain res x where "pg_ReservePlacement sha256 [] now q d = (res, x)" by fastforce
  with conform_reserve [OF assms(1) this] assms ReserveCall show ?thesis by auto
next
  case (SaveCall r)
  obtain res x where "pg_SaveExecution now r d = (res, x)" by fastforce
  with conform_save [OF assms(1) this] assms SaveCall show ?thesis by auto
next
  case (UpdateCall ref state)
  obtain res x where "pg_UpdateExecutionState now ref state d = (res, x)" by fastforce
  with conform_update [OF assms(1) this] assms UpdateCall show ?thesis by auto
qed (use assms conform_reads [OF assms(1)] in auto)

fun pg_answers :: "(string \<Rightarrow> string) \<Rightarrow> (instant \<times> store_call) list \<Rightarrow> execution_db \<Rightarrow> store_answer list" where
  "pg_answers sha256 [] d = []"
| "pg_answers sha256 ((now, c) # cs) d =
     fst (pg_call sha256 now [] c d) # pg_answers sha256 cs (snd (pg_call sha256 now [] c d))"

fun memory_answers :: "(string \<Rightarrow> string) \<Rightarrow> (instant \<times> store_call) list \<Rightarrow> MemoryStateStore \<Rightarrow> store_answer list" where
  "memory_answers sha256 [] m = []"
| "memory_answers sha256 ((now, c) # cs) m =
     fst (memory_call sha256 c m) # memory_answers sha256 cs (snd (memory_call sha256 c m))"

fun comparable_run :: "(string \<Rightarrow> string) \<Rightarrow> (instant \<times> store_call) list \<Rightarrow> execution_db \<Rightarrow> bool" where
  "comparable_run sha256 [] d = True"
| "comparable_run sha256 ((now, c) # cs) d =
     (comparable sha256 c d \<and> (\<forall>e. answer_error (fst (pg_call sha256 now [] c d)) = Some e \<longrightarrow> \<not> errors_Is e ErrPersistence) \<and>
      comparable_run sha256 cs (snd (pg_call sha256 now [] c d)))"

lemma conform_run:
  "conform_ok sha256 d \<Longrightarrow> comparable_run sha256 calls d \<Longrightarrow> memory_answers sha256 calls (memory_of d) = pg_answers sha256 calls d"
proof (induction sha256 calls d rule: comparable_run.induct)
  case (2 sha256 now c cs d)
  obtain a d' where call: "pg_call sha256 now [] c d = (a, d')" by fastforce
  with 2 conform_call [OF "2.prems"(1) _ call] show ?case by (auto simp: refused_def)
qed simp

text \<open>C36. The process-local store answers like the durable one. Start both empty and make the same calls, one
  after the other. As long as the database refuses none of them, no gateway is declared lost, no
  execution is first saved as terminated or set to a state that does not exist, every reservation requires a capability and
  no two placement identifiers collide, the answers of the two stores are equal.\<close>

theorem state_stores_conform:
  assumes "comparable_run sha256 calls empty_execution_db"
  shows "memory_answers sha256 calls NewMemoryStateStore = pg_answers sha256 calls empty_execution_db"
proof -
  have "conform_ok sha256 empty_execution_db"
    using empty_execution_ok by (simp add: conform_ok_def) (simp add: empty_execution_db_def)
  moreover have "memory_of empty_execution_db = NewMemoryStateStore"
    by (simp add: memory_of_def keyed_def empty_execution_db_def NewMemoryStateStore_def)
  ultimately show ?thesis using conform_run assms by metis
qed

theorem state_stores_conform_witness:
  "memory_answers zero_sha256 [(0, RegisterCall (demo_registration ''gw'')), (0, ReserveCall demo_request)] NewMemoryStateStore =
   pg_answers zero_sha256 [(0, RegisterCall (demo_registration ''gw'')), (0, ReserveCall demo_request)] empty_execution_db"
proof -
  have "comparable_run zero_sha256 [(0, RegisterCall (demo_registration ''gw'')), (0, ReserveCall demo_request)] empty_execution_db"
    using demo_reserved by (simp add: demo_register) (simp add: demo_gateways_def demo_request_def)
  then show ?thesis by (rule state_stores_conform)
qed

text \<open>A request without required capabilities is sent as NULL and finds no gateway in the durable store.\<close>

lemma no_capabilities_no_gateway:
  assumes "plq_RequiredCapabilities q = []" and "getPlacementByOperation d (plq_IsolationDomainID q) (plq_OperationID q) = None"
  shows "\<exists>err. pg_ReservePlacement sha256 locked now q d = (Inl err, d)"
  using assms by (auto simp: pg_ReservePlacement_def Let_def NormalizeCapabilities_def select_gateway_def gateway_candidates_def first_by_def)

text \<open>
  Where the stores differ: declaring a gateway lost frees its live placements in the durable store, while the
  process-local store goes on counting them.
\<close>

lemma lost_gateway_reservations:
  assumes ok: "conform_ok sha256 d" and g: "g \<in> set (xdb_gateways d)" "gateway_key g = (i, k)" "pg_text k"
    and m: "memory_SetGatewayState i k GatewayLost (memory_of d) = (None, m)"
    and d': "pg_SetGatewayState now i k GatewayLost d = (None, d')"
  shows "\<exists>entry. map_of (mss_gateways m) (scopedKey i k) = Some entry \<and> mgw_reserved entry = int (gateway_load d g) \<and>
    gateway_load d' g = 0"
proof -
  have plain: "pg_text i" using ok g by (auto simp: conform_ok_def gateway_key_def)
  have "sql_select (\<lambda>g. gateway_key g = (i, k)) (xdb_gateways d) = Some g"
    by (rule sql_select_unique [OF conform_plain(4) [OF ok]]) (use g in auto)
  then have "map_of (mss_gateways (memory_of d)) (scopedKey i k) = Some (memory_gateway d g)"
    by (simp add: memory_lookup [OF ok plain])
  then have "map_of (mss_gateways m) (scopedKey i k) = Some ((memory_gateway d g)\<lparr>mgw_record :=
      (gwy_record g)\<lparr>gwr_Gateway := (gwr_Gateway (gwy_record g))\<lparr>gtw_State := GatewayLost\<rparr>\<rparr>\<rparr>)"
    using m by (auto simp: memory_SetGatewayState_def Let_def memory_gateway_def update_conv' split: if_splits)
  moreover have "xdb_placements d' = sql_update (\<lambda>p. placement_gateway p = (i, k) \<and> live_state (pmt_state p)) (set_placement_state ''lost'' now) (xdb_placements d)"
    using d' by (auto simp: pg_SetGatewayState_def Let_def split: if_splits)
  then have "gateway_load d' g = 0"
    by (auto simp: gateway_load_def g(2) filter_empty_conv live_state_def elim!: in_sql_updateE)
  ultimately show ?thesis by (simp add: memory_gateway_def)
qed

end
