(* ===== verification/Provider.thy ===== *)
theory Provider
  imports Gateways Bundles
begin

text \<open>
  The execution provider over the OpenShell command line, \<open>src/internal/execution/openshell/provider.go\<close>. The
  program that the runner starts, the state store and the policy workspace are arguments over a world that
  their calls change, and so are the decoder of the program's JSON output and the mapping of a phase to lower
  case: what is shown holds for all of them.
\<close>

section \<open>Sequencing\<close>

text \<open>\<open>if err != nil { return err }\<close> after a call, and a deferred call.\<close>

definition and_then :: "('w \<Rightarrow> 'a result \<times> 'w) \<Rightarrow> ('a \<Rightarrow> 'w \<Rightarrow> 'b result \<times> 'w) \<Rightarrow> 'w \<Rightarrow> 'b result \<times> 'w" where
  "and_then m f w = (case m w of (Inl err, w) \<Rightarrow> (Inl err, w) | (Inr x, w) \<Rightarrow> f x w)"

definition returns :: "'a result \<Rightarrow> 'w \<Rightarrow> 'a result \<times> 'w" where
  "returns r w = (r, w)"

definition checked :: "('w \<Rightarrow> go_error option \<times> 'w) \<Rightarrow> 'w \<Rightarrow> unit result \<times> 'w" where
  "checked m w = (case m w of (None, w) \<Rightarrow> (Inr (), w) | (Some err, w) \<Rightarrow> (Inl err, w))"

definition deferring :: "('w \<Rightarrow> go_error option \<times> 'w) \<Rightarrow> ('w \<Rightarrow> 'a result \<times> 'w) \<Rightarrow> 'w \<Rightarrow> 'a result \<times> 'w" where
  "deferring c m w = (case m w of (r, w) \<Rightarrow> (r, snd (c w)))"

lemma and_then_elim:
  assumes "and_then m f s = (r, s')"
  obtains (stopped) err where "m s = (Inl err, s')" "r = Inl err" | (passed) x t where "m s = (Inr x, t)" "f x t = (r, s')"
  using assms by (cases "m s" rule: prod.exhaust) (auto simp: and_then_def split: sum.splits)

lemma and_then_Inr:
  "and_then m f w = (Inr y, w') \<longleftrightarrow> (\<exists>x v. m w = (Inr x, v) \<and> f x v = (Inr y, w'))"
  by (cases "m w" rule: prod.exhaust) (auto simp: and_then_def split: sum.splits)

lemma deferring_Inr: "deferring c m w = (Inr y, w') \<longleftrightarrow> (\<exists>v. m w = (Inr y, v) \<and> w' = snd (c v))"
  by (cases "m w") (auto simp: deferring_def)

section \<open>Values\<close>

record command_result =
  cmd_Stdout :: string
  cmd_ExitCode :: int
  cmd_FailureClass :: string
  cmd_FailureHint :: string

type_synonym 'w runner = "string \<Rightarrow> string list \<Rightarrow> 'w \<Rightarrow> (command_result \<times> go_error option) \<times> 'w"

record 'w PolicyWorkspace =
  pws_materialize :: "string \<Rightarrow> 'w \<Rightarrow> string result \<times> 'w"
  pws_cleanup :: "string \<Rightarrow> 'w \<Rightarrow> go_error option \<times> 'w"

record sandboxView =
  svw_Name :: string
  svw_Phase :: string
  svw_Labels :: "(string \<times> string) list"

record CreateRequest =
  crq_Placement :: Placement
  crq_IsolationDomainID :: string
  crq_OperationID :: string
  crq_Image :: string
  crq_Policy :: string
  crq_PolicyDigest :: string
  crq_ProviderProfiles :: go_slice

record Observation =
  obs_IsolationDomainID :: string
  obs_ExecutionID :: string
  obs_State :: string
  obs_ObservedAt :: instant

record Orphan =
  orp_IsolationDomainID :: string
  orp_ID :: string
  orp_GatewayID :: string

record 'w Provider =
  osp_run :: "'w runner"
  osp_binary :: string
  osp_expected :: string
  osp_workspace :: "'w PolicyWorkspace option"
  osp_now :: "'w \<Rightarrow> instant"
  osp_store :: "'w StateStore"
  osp_profiles :: "string list option"
  osp_sha256 :: "string \<Rightarrow> string"
  osp_sandboxes :: "string \<Rightarrow> sandboxView list result"
  osp_settings :: "string \<Rightarrow> (string \<times> (string \<times> string) list option) result"
  osp_ToLower :: "string \<Rightarrow> string"

definition managedLabel :: string where "managedLabel = ''dataground.managed''"
definition operationLabel :: string where "operationLabel = ''dataground.operation''"
definition isolationLabel :: string where "isolationLabel = ''dataground.isolation''"
definition executionLabel :: string where "executionLabel = ''dataground.execution''"
definition createLabel :: string where "createLabel = ''dataground.create''"
definition providerProfilesSetting :: string where "providerProfilesSetting = ''providers_v2_enabled''"

definition run_failed :: "command_result \<times> go_error option \<Rightarrow> bool" where
  "run_failed r \<longleftrightarrow> snd r \<noteq> None \<or> cmd_ExitCode (fst r) \<noteq> 0"

definition NativeFailureUnknown :: string where
  "NativeFailureUnknown = ''unknown''"

text \<open>\<open>errors.As\<close> for the error of a failed command: the first one in the tree.\<close>

fun native_error :: "go_error \<Rightarrow> (string \<times> string) option" where
  "native_error (NativeCommandError failure hint) = Some (failure, hint)"
| "native_error (Errorf msg causes) =
     (case filter (\<lambda>e. e \<noteq> None) (map native_error causes) of [] \<Rightarrow> None | e # _ \<Rightarrow> e)"
| "native_error _ = None"

definition NativeFailureHintOf :: "go_error \<Rightarrow> string" where
  "NativeFailureHintOf err = (case native_error err of Some (_, hint) \<Rightarrow> hint | None \<Rightarrow> [])"

definition NativeFailureClassOf :: "go_error \<Rightarrow> string" where
  "NativeFailureClassOf err = (case native_error err of Some (failure, _) \<Rightarrow> failure | None \<Rightarrow> NativeFailureUnknown)"

definition IsNativeCommandFailure :: "go_error \<Rightarrow> bool" where
  "IsNativeCommandFailure err \<longleftrightarrow> native_error err \<noteq> None"

definition nativeCommandFailure :: "command_result \<Rightarrow> go_error list \<Rightarrow> go_error" where
  "nativeCommandFailure result causes =
     Errorf [] ([Sentinel ErrProviderFailure,
       NativeCommandError (if cmd_FailureClass result = [] then NativeFailureUnknown else cmd_FailureClass result)
         (cmd_FailureHint result)] @ causes)"

lemma native_failure:
  "errors_Is (nativeCommandFailure result causes) ErrProviderFailure"
  "NativeFailureHintOf (nativeCommandFailure result causes) = cmd_FailureHint result"
  by (simp_all add: nativeCommandFailure_def NativeFailureHintOf_def)

section \<open>Images, digests and names\<close>

text \<open>\<open>strings.Split\<close> with a separator that is not empty.\<close>

function SplitOn :: "string \<Rightarrow> string \<Rightarrow> string list" where
  "SplitOn sep s =
     (if s = [] then [[]]
      else if sep \<noteq> [] \<and> HasPrefix s sep then [] # SplitOn sep (drop (length sep) s)
      else (case SplitOn sep (tl s) of [] \<Rightarrow> [[hd s]] | p # ps \<Rightarrow> (hd s # p) # ps))"
  by pat_completeness auto
termination by (relation "measure (length \<circ> snd)") auto

declare SplitOn.simps [simp del]

definition hex_any_case :: "char \<Rightarrow> bool" where
  "hex_any_case c \<longleftrightarrow> is_digit c \<or> in_range 97 102 c \<or> in_range 65 70 c"

text \<open>Sixty-four characters decode as hexadecimal exactly when each is a hexadecimal digit.\<close>

definition isDigestPinned :: "string \<Rightarrow> bool" where
  "isDigestPinned ref =
     (case SplitOn ''@sha256:'' ref of
        [name, digest] \<Rightarrow> name \<noteq> [] \<and> length digest = 64 \<and> list_all hex_any_case digest
      | _ \<Rightarrow> False)"

text \<open>\<open>^sha256:[a-f0-9]{64}$\<close>\<close>

definition localDiagnosticImagePattern :: "string \<Rightarrow> bool" where
  "localDiagnosticImagePattern = match_prefixed ''sha256:'' hex_char 64 64"

definition shortDigest :: "(string \<Rightarrow> string) \<Rightarrow> string \<Rightarrow> string" where
  "shortDigest sha256 value = hex_EncodeToString (take 12 (sha256 value))"

definition sandboxName :: "(string \<Rightarrow> string) \<Rightarrow> string \<Rightarrow> string \<Rightarrow> string" where
  "sandboxName sha256 isolationDomainID operationID = ''dg-'' @ shortDigest sha256 (isolationDomainID @ '':'' @ operationID)"

definition fingerprintCreate :: "(string \<Rightarrow> string) \<Rightarrow> CreateRequest \<Rightarrow> go_slice \<Rightarrow> string" where
  "fingerprintCreate sha256 request providerProfiles =
     take 63 (hex_EncodeToString (sha256 (json_text (JObj
       [(''isolationDomainId'', JStr (crq_IsolationDomainID request)),
        (''operationId'', JStr (crq_OperationID request)),
        (''image'', JStr (crq_Image request)),
        (''policyDigest'', JStr (crq_PolicyDigest request)),
        (''providerProfiles'', json_slice providerProfiles)]))))"

definition gatewayArgs :: "string \<Rightarrow> string list \<Rightarrow> string list" where
  "gatewayArgs endpoint args = [''--gateway-endpoint'', endpoint] @ args"

definition list_args :: "string \<Rightarrow> string list" where
  "list_args endpoint =
     gatewayArgs endpoint [''sandbox'', ''list'', ''--selector'', managedLabel @ ''=true'', ''--output'', ''json'']"

section \<open>Stored state\<close>

definition executionContext :: "('w, 'z) Provider_scheme \<Rightarrow> string \<Rightarrow> string \<Rightarrow> 'w \<Rightarrow> GatewayRecord result \<times> 'w" where
  "executionContext p isolationDomainID gatewayID =
     and_then (GetGateway (osp_store p) isolationDomainID gatewayID) (\<lambda>r.
       if gtw_State (gwr_Gateway r) = GatewayLost \<or> gtw_State (gwr_Gateway r) = GatewayUnavailable
       then returns (Inl (Sentinel ErrNoGateway)) else returns (Inr r))"

definition validatePlacement :: "('w, 'z) Provider_scheme \<Rightarrow> CreateRequest \<Rightarrow> 'w \<Rightarrow> unit result \<times> 'w" where
  "validatePlacement p request =
     (let domain = crq_IsolationDomainID request; placement = crq_Placement request in
      if plc_ID placement \<noteq> Derived (osp_sha256 p) ''plc'' (domain @ '':'' @ crq_OperationID request)
      then returns (Inl (errors_New ''placement does not match the requested operation''))
      else (\<lambda>w. case GetPlacement (osp_store p) domain (plc_ID placement) w of
        (Inl _, w) \<Rightarrow> (Inl (errors_New ''placement is not reserved''), w)
      | (Inr stored, w) \<Rightarrow>
          if stored \<noteq> placement \<or> plc_IsolationDomainID placement \<noteq> domain
          then (Inl (errors_New ''placement is not reserved''), w) else (Inr (), w)))"

definition lookupExecution ::
  "('w, 'z) Provider_scheme \<Rightarrow> ExecutionRef \<Rightarrow> 'w \<Rightarrow> (ExecutionRecord \<times> GatewayRecord) result \<times> 'w" where
  "lookupExecution p ref =
     and_then (GetExecution (osp_store p) ref) (\<lambda>entry.
       and_then (executionContext p (ref_IsolationDomainID ref) (exe_GatewayID (exr_Execution entry))) (\<lambda>gateway.
         returns (Inr (entry, gateway))))"

definition rememberExecution ::
  "('w, 'z) Provider_scheme \<Rightarrow> Execution \<Rightarrow> string \<Rightarrow> string \<Rightarrow> string \<Rightarrow> 'w \<Rightarrow> unit result \<times> 'w" where
  "rememberExecution p value0 placementID operationID sandbox =
     and_then (checked (SaveExecution (osp_store p)
       \<lparr>exr_Execution = value0, exr_PlacementID = placementID, exr_OperationID = operationID, exr_SandboxName = sandbox\<rparr>))
     (\<lambda>_. checked (UpdateExecutionState (osp_store p)
       \<lparr>ref_IsolationDomainID = exe_IsolationDomainID value0, ref_ID = exe_ID value0\<rparr> (exe_State value0)))"

section \<open>Observation\<close>

definition label :: "sandboxView \<Rightarrow> string \<Rightarrow> string" where
  "label item key = (case map_of (svw_Labels item) key of None \<Rightarrow> [] | Some v \<Rightarrow> v)"

definition observeByName ::
  "('w, 'z) Provider_scheme \<Rightarrow> string \<Rightarrow> string \<Rightarrow> string \<Rightarrow> Execution \<Rightarrow> 'w \<Rightarrow> Execution option result \<times> 'w" where
  "observeByName p endpoint sandbox createFingerprint execution w =
     (case osp_run p (osp_binary p) (list_args endpoint) w of (r, w) \<Rightarrow>
        if run_failed r then (Inl (errors_Join (Sentinel ErrProviderObservation) (nativeCommandFailure (fst r) [])), w)
        else
          (case osp_sandboxes p (cmd_Stdout (fst r)) of
             Inl _ \<Rightarrow> (Inl (errors_Join (Sentinel ErrProviderFailure) (Sentinel ErrProviderObservation)), w)
           | Inr items \<Rightarrow>
               (case List.find (\<lambda>item. svw_Name item = sandbox) items of
                  None \<Rightarrow> (Inr None, w)
                | Some item \<Rightarrow>
                    if label item createLabel \<noteq> createFingerprint then (Inl (Sentinel ErrStateConflict), w)
                    else (Inr (Some (execution\<lparr>exe_State := osp_ToLower p (svw_Phase item)\<rparr>)), w))))"

definition provider_Observe :: "('w, 'z) Provider_scheme \<Rightarrow> ExecutionRef \<Rightarrow> 'w \<Rightarrow> Observation result \<times> 'w" where
  "provider_Observe p ref =
     (let seen = (\<lambda>state w. (Inr \<lparr>obs_IsolationDomainID = ref_IsolationDomainID ref, obs_ExecutionID = ref_ID ref,
                              obs_State = state, obs_ObservedAt = osp_now p w\<rparr>, w));
          settle = (\<lambda>state. and_then (checked (UpdateExecutionState (osp_store p) ref state)) (\<lambda>_. seen state))
      in and_then (GetExecution (osp_store p) ref) (\<lambda>entry.
           if exe_State (exr_Execution entry) = ''terminated'' then seen ''terminated''
           else
             and_then (executionContext p (ref_IsolationDomainID ref) (exe_GatewayID (exr_Execution entry))) (\<lambda>gateway w.
               case osp_run p (osp_binary p) (list_args (gwr_Endpoint gateway)) w of (r, w) \<Rightarrow>
                 if run_failed r then (Inl (Sentinel ErrProviderFailure), w)
                 else
                   (case osp_sandboxes p (cmd_Stdout (fst r)) of
                      Inl _ \<Rightarrow> (Inl (Sentinel ErrProviderFailure), w)
                    | Inr items \<Rightarrow>
                        (case List.find (\<lambda>item. svw_Name item = exr_SandboxName entry) items of
                           Some item \<Rightarrow> settle (osp_ToLower p (svw_Phase item)) w
                         | None \<Rightarrow> settle ''terminated'' w)))))"

section \<open>Creation\<close>

definition create_args :: "('w, 'z) Provider_scheme \<Rightarrow> CreateRequest \<Rightarrow> go_slice \<Rightarrow> string \<Rightarrow> string \<Rightarrow> string list" where
  "create_args p request providerProfiles endpoint policyPath =
     (let domain = crq_IsolationDomainID request; operation = crq_OperationID request; sha256 = osp_sha256 p in
      gatewayArgs endpoint
        ([''sandbox'', ''create'', ''--name'', sandboxName sha256 domain operation, ''--from'', crq_Image request,
          ''--policy'', policyPath, ''--keep'', ''--no-auto-providers'', ''--approval-mode'', ''manual'',
          ''--label'', managedLabel @ ''=true'', ''--label'', operationLabel @ ''='' @ shortDigest sha256 operation,
          ''--label'', isolationLabel @ ''='' @ shortDigest sha256 domain,
          ''--label'', executionLabel @ ''='' @ Derived sha256 ''exe'' (domain @ '':'' @ operation),
          ''--label'', createLabel @ ''='' @ fingerprintCreate sha256 request providerProfiles]
         @ concat (map (\<lambda>profile. [''--provider'', profile]) (elements providerProfiles)) @ [''--'', ''true'']))"

text \<open>The execution of an operation, its observation under the fingerprint of the request, and its record.\<close>

definition requested :: "('w, 'z) Provider_scheme \<Rightarrow> CreateRequest \<Rightarrow> string \<Rightarrow> string \<Rightarrow> Execution" where
  "requested p request gatewayID state =
     \<lparr>exe_IsolationDomainID = crq_IsolationDomainID request,
      exe_ID = Derived (osp_sha256 p) ''exe'' (crq_IsolationDomainID request @ '':'' @ crq_OperationID request),
      exe_GatewayID = gatewayID, exe_State = state\<rparr>"

definition observe_requested ::
  "('w, 'z) Provider_scheme \<Rightarrow> CreateRequest \<Rightarrow> go_slice \<Rightarrow> GatewayRecord \<Rightarrow> 'w \<Rightarrow> Execution option result \<times> 'w" where
  "observe_requested p request providerProfiles gateway =
     observeByName p (gwr_Endpoint gateway)
       (sandboxName (osp_sha256 p) (crq_IsolationDomainID request) (crq_OperationID request))
       (fingerprintCreate (osp_sha256 p) request providerProfiles)
       (requested p request (plc_GatewayID (crq_Placement request)) [])"

definition remember_requested :: "('w, 'z) Provider_scheme \<Rightarrow> CreateRequest \<Rightarrow> Execution \<Rightarrow> 'w \<Rightarrow> unit result \<times> 'w" where
  "remember_requested p request value0 =
     rememberExecution p value0 (plc_ID (crq_Placement request)) (crq_OperationID request)
       (sandboxName (osp_sha256 p) (crq_IsolationDomainID request) (crq_OperationID request))"

text \<open>The command, the removal of the policy file and what follows each outcome of the two.\<close>

definition create_run ::
  "('w, 'z) Provider_scheme \<Rightarrow> CreateRequest \<Rightarrow> go_slice \<Rightarrow> GatewayRecord \<Rightarrow> ('w \<Rightarrow> go_error option \<times> 'w) \<Rightarrow> Execution \<Rightarrow>
   string list \<Rightarrow> 'w \<Rightarrow> Execution result \<times> 'w" where
  "create_run p request providerProfiles gateway cleanup created args w =
     (case osp_run p (osp_binary p) args w of (r, w) \<Rightarrow>
      case cleanup w of
        (Some cleanupErr, w) \<Rightarrow>
          if run_failed r then (Inl (nativeCommandFailure (fst r) [cleanupErr]), w)
          else (case remember_requested p request created w of
                  (Inl err, w) \<Rightarrow> (Inl (errors_Join cleanupErr err), w)
                | (Inr _, w) \<Rightarrow> (Inl cleanupErr, w))
      | (None, w) \<Rightarrow>
          if run_failed r then
            (case observe_requested p request providerProfiles gateway w of
               (Inr (Some observed), w) \<Rightarrow>
                 if exe_State observed \<in> {''error'', ''deleting'', ''unknown''} then (Inl (nativeCommandFailure (fst r) []), w)
                 else and_then (remember_requested p request observed) (\<lambda>_. returns (Inr observed)) w
             | (Inr None, w) \<Rightarrow> (Inl (nativeCommandFailure (fst r) []), w)
             | (Inl observeErr, w) \<Rightarrow>
                 if errors_Is observeErr ErrStateConflict then (Inl observeErr, w)
                 else (Inl (nativeCommandFailure (fst r) []), w))
          else (Inr created, w))"

text \<open>A sandbox that is not there: the policy file, the record before the command, and the command.\<close>

definition create_new ::
  "('w, 'z) Provider_scheme \<Rightarrow> CreateRequest \<Rightarrow> go_slice \<Rightarrow> GatewayRecord \<Rightarrow> 'w \<Rightarrow> Execution result \<times> 'w" where
  "create_new p request providerProfiles gateway =
     (case osp_workspace p of
        None \<Rightarrow> returns (Inl (Sentinel ErrPolicyWorkspaceUnavailable))
      | Some ws \<Rightarrow>
          (let created = requested p request (gtw_ID (gwr_Gateway gateway)) ''provisioning'' in
           and_then (pws_materialize ws (crq_Policy request)) (\<lambda>policyPath.
             deferring (pws_cleanup ws policyPath)
               (and_then (remember_requested p request created) (\<lambda>_.
                  create_run p request providerProfiles gateway (pws_cleanup ws policyPath) created
                    (create_args p request providerProfiles (gwr_Endpoint gateway) policyPath))))))"

definition create :: "('w, 'z) Provider_scheme \<Rightarrow> CreateRequest \<Rightarrow> bool \<Rightarrow> 'w \<Rightarrow> Execution result \<times> 'w" where
  "create p request localDiagnostic =
     (if plc_ID (crq_Placement request) = [] \<or> plc_GatewayID (crq_Placement request) = [] \<or>
         crq_IsolationDomainID request = [] \<or> crq_OperationID request = []
      then returns (Inl (errors_New ''placement, isolation domain, and operation are required''))
      else if \<not> isDigestPinned (crq_Image request) \<and> \<not> (localDiagnostic \<and> localDiagnosticImagePattern (crq_Image request))
      then returns (Inl (errors_New ''sandbox image must be pinned by sha256 digest''))
      else and_then (validatePlacement p request) (\<lambda>_.
        case VerifyEnforcementPolicy (osp_sha256 p) (crq_Policy request) (crq_PolicyDigest request) of
          Some err \<Rightarrow> returns (Inl err)
        | None \<Rightarrow>
          (case Resolve (osp_profiles p) (crq_ProviderProfiles request) of
             Inl err \<Rightarrow> returns (Inl err)
           | Inr providerProfiles \<Rightarrow>
               and_then (executionContext p (crq_IsolationDomainID request) (plc_GatewayID (crq_Placement request))) (\<lambda>gateway.
                 and_then (observe_requested p request providerProfiles gateway) (\<lambda>observed.
                   case observed of
                     Some seen \<Rightarrow> and_then (remember_requested p request seen) (\<lambda>_. returns (Inr seen))
                   | None \<Rightarrow> create_new p request providerProfiles gateway)))))"

definition provider_Create :: "('w, 'z) Provider_scheme \<Rightarrow> CreateRequest \<Rightarrow> 'w \<Rightarrow> Execution result \<times> 'w" where
  "provider_Create p request = create p request False"

definition credentialEvidenceOpenShellVersion :: string where
  "credentialEvidenceOpenShellVersion = ''0.0.86''"

definition runtimeSSHGatewayEndpoint :: string where
  "runtimeSSHGatewayEndpoint = ''http://127.0.0.1:8080''"

definition CreateLocalDiagnostic :: "('w, 'z) Provider_scheme \<Rightarrow> CreateRequest \<Rightarrow> 'w \<Rightarrow> Execution result \<times> 'w" where
  "CreateLocalDiagnostic p request =
     (if osp_expected p \<noteq> credentialEvidenceOpenShellVersion \<or> \<not> localDiagnosticImagePattern (crq_Image request)
      then returns (Inl (Sentinel ErrStateConflict))
      else (\<lambda>w. case executionContext p (crq_IsolationDomainID request) (plc_GatewayID (crq_Placement request)) w of
        (Inl _, w) \<Rightarrow> (Inl (Sentinel ErrStateConflict), w)
      | (Inr gateway, w) \<Rightarrow>
          if gtw_Driver (gwr_Gateway gateway) \<noteq> ''docker'' \<or> gwr_Endpoint gateway \<noteq> runtimeSSHGatewayEndpoint
          then (Inl (Sentinel ErrStateConflict), w)
          else create p request True w))"

section \<open>The other operations\<close>

definition provider_SelectGateway :: "('w, 'z) Provider_scheme \<Rightarrow> PlacementRequest \<Rightarrow> 'w \<Rightarrow> Placement result \<times> 'w" where
  "provider_SelectGateway p request = ReservePlacement (osp_store p) request"

definition provider_SetGatewayState ::
  "('w, 'z) Provider_scheme \<Rightarrow> string \<Rightarrow> string \<Rightarrow> string \<Rightarrow> 'w \<Rightarrow> unit result \<times> 'w" where
  "provider_SetGatewayState p isolationDomainID gatewayID state =
     (if state \<in> {GatewayActive, GatewayDraining, GatewayUnavailable, GatewayLost}
      then checked (SetGatewayState (osp_store p) isolationDomainID gatewayID state)
      else returns (Inl (errors_New ''invalid gateway state'')))"

definition provider_Logs :: "('w, 'z) Provider_scheme \<Rightarrow> ExecutionRef \<Rightarrow> int \<Rightarrow> 'w \<Rightarrow> string result \<times> 'w" where
  "provider_Logs p ref lines =
     and_then (lookupExecution p ref) (\<lambda>(entry, gateway) w.
       case osp_run p (osp_binary p) (gatewayArgs (gwr_Endpoint gateway)
              [''logs'', exr_SandboxName entry, ''-n'', Sprint (if lines = 0 then 200 else lines)]) w of
         (r, w) \<Rightarrow> if run_failed r then (Inl (Sentinel ErrProviderFailure), w) else (Inr (cmd_Stdout (fst r)), w))"

definition provider_Terminate :: "('w, 'z) Provider_scheme \<Rightarrow> ExecutionRef \<Rightarrow> 'w \<Rightarrow> unit result \<times> 'w" where
  "provider_Terminate p ref w =
     (case GetExecution (osp_store p) ref w of
        (Inl err, w) \<Rightarrow> if errors_Is err ErrExecutionMissing then (Inr (), w) else (Inl err, w)
      | (Inr entry, w) \<Rightarrow>
          if exe_State (exr_Execution entry) = ''terminated'' then (Inr (), w)
          else and_then (executionContext p (ref_IsolationDomainID ref) (exe_GatewayID (exr_Execution entry))) (\<lambda>gateway w.
            case osp_run p (osp_binary p) (gatewayArgs (gwr_Endpoint gateway) [''sandbox'', ''delete'', exr_SandboxName entry]) w of
              (r, w) \<Rightarrow>
                if run_failed r then
                  (case provider_Observe p ref w of
                     (Inr observation, w) \<Rightarrow>
                       if obs_State observation = ''terminated'' then (Inr (), w) else (Inl (Sentinel ErrProviderFailure), w)
                   | (Inl _, w) \<Rightarrow> (Inl (Sentinel ErrProviderFailure), w))
                else checked (UpdateExecutionState (osp_store p) ref ''terminated'') w) w)"

text \<open>Orphans with the same identifier are equal, so the order that the unstable sort leaves them in does not show.\<close>

definition provider_ListOrphans ::
  "('w, 'z) Provider_scheme \<Rightarrow> string \<Rightarrow> string \<Rightarrow> string list \<Rightarrow> 'w \<Rightarrow> Orphan list result \<times> 'w" where
  "provider_ListOrphans p isolationDomainID gatewayID known =
     and_then (executionContext p isolationDomainID gatewayID) (\<lambda>gateway w.
       case osp_run p (osp_binary p) (list_args (gwr_Endpoint gateway)) w of (r, w) \<Rightarrow>
         if run_failed r then (Inl (Sentinel ErrProviderFailure), w)
         else
           (case osp_sandboxes p (cmd_Stdout (fst r)) of
              Inl _ \<Rightarrow> (Inl (Sentinel ErrProviderFailure), w)
            | Inr items \<Rightarrow>
                (Inr (map (\<lambda>candidate. \<lparr>orp_IsolationDomainID = isolationDomainID, orp_ID = candidate, orp_GatewayID = gatewayID\<rparr>)
                       (sort (filter (\<lambda>candidate. candidate \<noteq> [] \<and> candidate \<notin> set known)
                          (map (\<lambda>item. label item executionLabel) items)))), w)))"

definition providerProfilesEnabled :: "('w, 'z) Provider_scheme \<Rightarrow> string \<Rightarrow> 'w \<Rightarrow> bool result \<times> 'w" where
  "providerProfilesEnabled p endpoint w =
     (case osp_run p (osp_binary p) (gatewayArgs endpoint [''settings'', ''get'', ''--global'', ''--json'']) w of (r, w) \<Rightarrow>
        if run_failed r then (Inl (errors_Join (Sentinel ErrProviderSettingsObservation) (nativeCommandFailure (fst r) [])), w)
        else
          (case osp_settings p (cmd_Stdout (fst r)) of
             Inr (scope, Some settings) \<Rightarrow>
               if scope = ''global'' then (Inr (map_of settings providerProfilesSetting = Some ''true''), w)
               else (Inl (errors_Join (Sentinel ErrProviderFailure) (Sentinel ErrProviderSettingsObservation)), w)
           | _ \<Rightarrow> (Inl (errors_Join (Sentinel ErrProviderFailure) (Sentinel ErrProviderSettingsObservation)), w)))"

definition EnableProviderProfiles :: "('w, 'z) Provider_scheme \<Rightarrow> string \<Rightarrow> string \<Rightarrow> 'w \<Rightarrow> unit result \<times> 'w" where
  "EnableProviderProfiles p isolationDomainID gatewayID =
     and_then (executionContext p isolationDomainID gatewayID) (\<lambda>gateway.
       and_then (providerProfilesEnabled p (gwr_Endpoint gateway)) (\<lambda>enabled w.
         if enabled then (Inr (), w)
         else
           (case osp_run p (osp_binary p) (gatewayArgs (gwr_Endpoint gateway)
                   [''settings'', ''set'', ''--global'', ''--key'', providerProfilesSetting, ''--value'', ''true'', ''--yes'']) w of
              (r, w) \<Rightarrow>
                (case providerProfilesEnabled p (gwr_Endpoint gateway) w of
                   (Inr True, w) \<Rightarrow> (Inr (), w)
                 | (observed, w) \<Rightarrow>
                     if run_failed r then (Inl (errors_Join (Sentinel ErrProviderSettingsMutation) (nativeCommandFailure (fst r) [])), w)
                     else (case observed of
                             Inl observeErr \<Rightarrow> (Inl observeErr, w)
                           | Inr _ \<Rightarrow> (Inl (errors_Join (Sentinel ErrProviderFailure) (Sentinel ErrProviderSettingsVerification)), w))))))"

end
