(* ===== verification/Runner.thy ===== *)
theory Runner
  imports Provider
begin

text \<open>
  The command runner of the OpenShell provider, \<open>src/internal/execution/openshell/runner.go\<close>: the bounded buffer
  of a command's diagnostics and the class that they give a failed command. The process itself is the
  operating system's, and \<open>strings.ToLower\<close> is an argument.
\<close>

section \<open>Diagnostics\<close>

definition maxNativeDiagnosticBytes :: int where
  "maxNativeDiagnosticBytes = 65536"

record diagnosticBuffer =
  dgb_buffer :: string
  dgb_remaining :: int
  dgb_overflow :: bool

text \<open>\<open>Write\<close> accepts everything and keeps what fits.\<close>

definition diagnosticBuffer_Write :: "string \<Rightarrow> diagnosticBuffer \<Rightarrow> int \<times> diagnosticBuffer" where
  "diagnosticBuffer_Write value0 buffer =
     (let kept = (if dgb_remaining buffer < int (length value0) then take (nat (dgb_remaining buffer)) value0 else value0) in
      (int (length value0),
       \<lparr>dgb_buffer = dgb_buffer buffer @ kept, dgb_remaining = dgb_remaining buffer - int (length kept),
        dgb_overflow = (dgb_overflow buffer \<or> dgb_remaining buffer < int (length value0))\<rparr>))"

definition empty_diagnostics :: diagnosticBuffer where
  "empty_diagnostics = \<lparr>dgb_buffer = [], dgb_remaining = maxNativeDiagnosticBytes, dgb_overflow = False\<rparr>"

section \<open>Classification\<close>

definition NativeFailurePermission :: string where
  "NativeFailurePermission = ''permission''"

definition NativeFailureMissing :: string where
  "NativeFailureMissing = ''missing-path''"

definition NativeFailureImage :: string where
  "NativeFailureImage = ''image''"

definition NativeFailureSupervisor :: string where
  "NativeFailureSupervisor = ''supervisor''"

definition NativeFailureProvider :: string where
  "NativeFailureProvider = ''provider''"

definition NativeFailurePolicy :: string where
  "NativeFailurePolicy = ''policy''"

definition NativeFailureNetwork :: string where
  "NativeFailureNetwork = ''network''"

definition NativeFailureTimeout :: string where
  "NativeFailureTimeout = ''timeout''"

definition NativeFailureOverflow :: string where
  "NativeFailureOverflow = ''diagnostic-overflow''"

definition NativeFailureArgument :: string where
  "NativeFailureArgument = ''argument''"

definition NativeFailureArgumentGateway :: string where
  "NativeFailureArgumentGateway = ''argument-gateway''"

definition NativeFailureArgumentName :: string where
  "NativeFailureArgumentName = ''argument-name''"

definition NativeFailureArgumentImage :: string where
  "NativeFailureArgumentImage = ''argument-image''"

definition NativeFailureArgumentPolicy :: string where
  "NativeFailureArgumentPolicy = ''argument-policy''"

definition NativeFailureArgumentAutoProvider :: string where
  "NativeFailureArgumentAutoProvider = ''argument-auto-provider''"

definition NativeFailureArgumentApproval :: string where
  "NativeFailureArgumentApproval = ''argument-approval''"

definition NativeFailureArgumentLabel :: string where
  "NativeFailureArgumentLabel = ''argument-label''"

definition NativeFailureArgumentProvider :: string where
  "NativeFailureArgumentProvider = ''argument-provider''"

definition NativeFailureArgumentCommand :: string where
  "NativeFailureArgumentCommand = ''argument-command''"

definition NativeFailureAuth :: string where
  "NativeFailureAuth = ''authentication''"

definition NativeFailureConflict :: string where
  "NativeFailureConflict = ''conflict''"

definition NativeFailureStorage :: string where
  "NativeFailureStorage = ''storage''"

definition NativeFailureDriver :: string where
  "NativeFailureDriver = ''compute-driver''"

lemmas failure_classes =
  NativeFailurePermission_def NativeFailureMissing_def NativeFailureImage_def NativeFailureSupervisor_def
  NativeFailureProvider_def NativeFailurePolicy_def NativeFailureNetwork_def NativeFailureTimeout_def
  NativeFailureOverflow_def NativeFailureArgument_def NativeFailureArgumentGateway_def NativeFailureArgumentName_def
  NativeFailureArgumentImage_def NativeFailureArgumentPolicy_def NativeFailureArgumentAutoProvider_def NativeFailureArgumentApproval_def
  NativeFailureArgumentLabel_def NativeFailureArgumentProvider_def NativeFailureArgumentCommand_def NativeFailureAuth_def
  NativeFailureConflict_def NativeFailureStorage_def NativeFailureDriver_def NativeFailureUnknown_def

text \<open>\<open>ESC [ ... final\<close>: the introducer, its parameters and the final byte between \<open>@\<close> and \<open>~\<close>.\<close>

fun drop_sequence :: "string \<Rightarrow> string" where
  "drop_sequence [] = []"
| "drop_sequence (c # cs) = (if 0x40 \<le> byte c \<and> byte c \<le> 0x7e then cs else drop_sequence cs)"

lemma drop_sequence_length: "length (drop_sequence s) \<le> length s"
  by (induction s) auto

function stripTerminalEscapes :: "string \<Rightarrow> string" where
  "stripTerminalEscapes message =
     (case message of
        [] \<Rightarrow> []
      | c # cs \<Rightarrow>
          if c \<noteq> CHR 0x1b \<or> cs = [] \<or> hd cs \<noteq> CHR ''['' then c # stripTerminalEscapes cs
          else stripTerminalEscapes (drop_sequence (tl cs)))"
  by pat_completeness auto
termination
proof (relation "measure length", goal_cases)
  case (3 message c cs)
  then show ?case using drop_sequence_length [of "tl cs"] by (cases cs) auto
qed auto

declare stripTerminalEscapes.simps [simp del]

definition isArgumentFailure :: "string \<Rightarrow> bool" where
  "isArgumentFailure message \<longleftrightarrow> list_ex (Contains message)
     [''unexpected argument'', ''invalid argument'', ''invalidargument'', ''invalid value'', ''required arguments'', ''usage:'']"

text \<open>The arms of a \<open>switch\<close> in order: the class of the first that finds one of its phrases.\<close>

definition first_class :: "(string list \<times> string) list \<Rightarrow> string \<Rightarrow> string \<Rightarrow> string" where
  "first_class arms otherwise message =
     (case List.find (\<lambda>(phrases, _). list_ex (Contains message) phrases) arms of
        None \<Rightarrow> otherwise
      | Some (_, failure) \<Rightarrow> failure)"

definition argument_arms :: "(string list \<times> string) list" where
  "argument_arms =
     [
      ([''--gateway-endpoint'', ''http://127.0.0.1:8080''], NativeFailureArgumentGateway),
      ([''--name'', ''sandbox name''], NativeFailureArgumentName),
      ([''--from'', ''ghcr.io/nvidia/openshell-community/sandboxes/base''], NativeFailureArgumentImage),
      ([''--policy'', ''dataground-enforcement-''], NativeFailureArgumentPolicy),
      ([''--no-auto-providers''], NativeFailureArgumentAutoProvider),
      ([''--approval-mode'', ''manual''], NativeFailureArgumentApproval),
      ([''--label'', ''dataground.managed'', ''dataground.operation'', ''dataground.isolation'', ''dataground.execution'', ''dataground.create''], NativeFailureArgumentLabel),
      ([''--provider'', ''dg-canary-provider-'', ''provider''], NativeFailureArgumentProvider),
      ([''--label'', ''label''], NativeFailureArgumentLabel),
      ([''--policy'', ''policy''], NativeFailureArgumentPolicy),
      ([''--from'', ''image'', ''template''], NativeFailureArgumentImage),
      ([''--name'', ''name''], NativeFailureArgumentName),
      ([''true'', ''command''], NativeFailureArgumentCommand)]"

definition argument_failure :: "string \<Rightarrow> string" where
  "argument_failure = first_class argument_arms NativeFailureArgument"

definition other_arms :: "(string list \<times> string) list" where
  "other_arms =
     [
      ([''unauthenticated'', ''authentication'', ''certificate'', ''tls''], NativeFailureAuth),
      ([''already exists'', ''conflict''], NativeFailureConflict),
      ([''database'', ''sqlite'', ''sandbox token write failed'', ''sandboxtokenwritefailed''], NativeFailureStorage),
      ([''permission denied'', ''operation not permitted'', ''read-only file system''], NativeFailurePermission),
      ([''compute driver'', ''driver rejected'', ''containercreatefailed'', ''containerstartfailed'', ''container exited'', ''container is dead'', ''provisioning stream ended'', ''sandbox entered error phase'', ''failed precondition'', ''failedprecondition'', ''status: internal''], NativeFailureDriver),
      ([''supervisor'', ''websocket'', ''ssh session'', ''ssh exited with status'', ''exec failed'', ''command failed''], NativeFailureSupervisor),
      ([''no such file'', ''does not exist'', ''not found''], NativeFailureMissing),
      ([''image'', ''manifest'', ''pull''], NativeFailureImage),
      ([''provider'', ''credential''], NativeFailureProvider),
      ([''policy'', ''prover''], NativeFailurePolicy),
      ([''network'', ''connection'', ''host.openshell.internal'', ''status: unavailable'', ''transport error''], NativeFailureNetwork),
      ([''timeout'', ''timed out'', ''deadline exceeded'', ''status: cancelled''], NativeFailureTimeout)]"

definition other_failure :: "string \<Rightarrow> string" where
  "other_failure = first_class other_arms NativeFailureUnknown"

definition classifyNativeFailure :: "(string \<Rightarrow> string) \<Rightarrow> string \<Rightarrow> string \<Rightarrow> bool \<Rightarrow> string" where
  "classifyNativeFailure ToLower stdout stderr overflow =
     (if overflow then NativeFailureOverflow
      else (let message = ToLower (stripTerminalEscapes (stdout @ stderr)) in
            if isArgumentFailure message then argument_failure message else other_failure message))"

text \<open>What \<open>Run\<close> makes of a finished process: its output, its exit code and, when it failed, the class.\<close>

definition run_result :: "(string \<Rightarrow> string) \<Rightarrow> string \<Rightarrow> string list \<Rightarrow> int option \<Rightarrow> go_error option \<Rightarrow> command_result \<times> go_error option" where
  "run_result ToLower stdout writes exitCode err =
     (let stderr = fold (\<lambda>value0 b. snd (diagnosticBuffer_Write value0 b)) writes empty_diagnostics;
          code = (case exitCode of None \<Rightarrow> 0 | Some c \<Rightarrow> c) in
      (\<lparr>cmd_Stdout = stdout, cmd_ExitCode = code,
        cmd_FailureClass = (if err \<noteq> None \<or> code \<noteq> 0
          then classifyNativeFailure ToLower stdout (dgb_buffer stderr) (dgb_overflow stderr) else []),
        cmd_FailureHint = []\<rparr>, err))"

section \<open>What is kept of the diagnostics\<close>

text \<open>Whatever pieces the process writes, the buffer holds exactly the beginning of all of them, and the overflow
  is recorded exactly when something was cut off.\<close>

lemma diagnostics_kept:
  assumes "0 \<le> dgb_remaining b" and b': "b' = fold (\<lambda>value0 b. snd (diagnosticBuffer_Write value0 b)) writes b"
  shows "dgb_buffer b' = dgb_buffer b @ take (nat (dgb_remaining b)) (concat writes) \<and>
    dgb_remaining b' = max 0 (dgb_remaining b - int (length (concat writes))) \<and>
    dgb_overflow b' = (dgb_overflow b \<or> dgb_remaining b < int (length (concat writes)))"
  using assms(1) unfolding b'
proof (induction writes arbitrary: b)
  case (Cons v writes)
  let ?b = "snd (diagnosticBuffer_Write v b)"
  have "0 \<le> dgb_remaining ?b" using Cons.prems by (auto simp: diagnosticBuffer_Write_def Let_def)
  from Cons.IH [OF this] Cons.prems show ?case
    by (auto simp: diagnosticBuffer_Write_def Let_def max_def min_def nat_diff_distrib)
qed simp

lemma run_diagnostics_bounded:
  "length (dgb_buffer (fold (\<lambda>value0 b. snd (diagnosticBuffer_Write value0 b)) writes empty_diagnostics)) \<le> nat maxNativeDiagnosticBytes"
  using diagnostics_kept [of empty_diagnostics _ writes, OF _ refl] by (simp add: empty_diagnostics_def maxNativeDiagnosticBytes_def)

lemma strip_plain: "CHR 0x1b \<notin> set s \<Longrightarrow> stripTerminalEscapes s = s"
  by (induction s) (subst stripTerminalEscapes.simps, auto simp: stripTerminalEscapes.simps)

text \<open>A failed command always has a class, and a command that succeeded has none.\<close>

lemma first_class_known: "first_class arms otherwise message \<in> insert otherwise (snd ` set arms)"
  by (auto simp: first_class_def find_Some_iff split: option.splits) (metis image_eqI nth_mem snd_conv)

lemma run_class:
  assumes "run_result ToLower stdout writes exitCode err = (result, err')"
  shows "cmd_FailureClass result = [] \<longleftrightarrow> \<not> run_failed (result, err')"
proof -
  have classes: "[] \<notin> insert NativeFailureArgument (snd ` set argument_arms)" "[] \<notin> insert NativeFailureUnknown (snd ` set other_arms)"
    by (simp_all add: argument_arms_def other_arms_def failure_classes)
  have "argument_failure message \<noteq> []" "other_failure message \<noteq> []" for message
    unfolding argument_failure_def other_failure_def
    using first_class_known [of argument_arms NativeFailureArgument message]
      first_class_known [of other_arms NativeFailureUnknown message] classes by metis+
  then have "classifyNativeFailure ToLower out stderr overflow \<noteq> []" for out stderr overflow
    by (simp add: classifyNativeFailure_def Let_def NativeFailureOverflow_def)
  with assms show ?thesis by (auto simp: run_result_def Let_def run_failed_def split: if_splits)
qed

end
