(* ===== verification/Provider_Safety.thy ===== *)
theory Provider_Safety
  imports Provider Gateway_Store
begin

text \<open>
  No sandbox without a record. The provider writes the execution down before it starts the command that
  creates the sandbox, so a sandbox that exists can be found from the records, whatever commands, responses
  and commits are lost. It is proved here once for any store and runner that keep their contract.
\<close>

section \<open>Calls\<close>

datatype provider_call =
    SetGatewayCall string string string
  | SelectCall PlacementRequest
  | CreateCall CreateRequest
  | DiagnosticCall CreateRequest
  | ObserveCall ExecutionRef
  | LogsCall ExecutionRef int
  | TerminateCall ExecutionRef
  | OrphansCall string string "string list"
  | EnableCall string string

fun provider_do :: "'w Provider \<Rightarrow> provider_call \<Rightarrow> 'w \<Rightarrow> 'w" where
  "provider_do p (SetGatewayCall i g state) w = snd (provider_SetGatewayState p i g state w)"
| "provider_do p (SelectCall q) w = snd (provider_SelectGateway p q w)"
| "provider_do p (CreateCall request) w = snd (provider_Create p request w)"
| "provider_do p (DiagnosticCall request) w = snd (CreateLocalDiagnostic p request w)"
| "provider_do p (ObserveCall ref) w = snd (provider_Observe p ref w)"
| "provider_do p (LogsCall ref lines) w = snd (provider_Logs p ref lines w)"
| "provider_do p (TerminateCall ref) w = snd (provider_Terminate p ref w)"
| "provider_do p (OrphansCall i g known) w = snd (provider_ListOrphans p i g known w)"
| "provider_do p (EnableCall i g) w = snd (EnableProviderProfiles p i g w)"

section \<open>The contract\<close>

locale sandbox_runner =
  fixes p :: "'w Provider" and sandboxes :: "'w \<Rightarrow> (string \<times> string) set"
    and endpoint :: "'w \<Rightarrow> string \<times> string \<rightharpoonup> string" and recorded :: "'w \<Rightarrow> ((string \<times> string) \<times> string) set"
    and ok :: "'w \<Rightarrow> bool" and quiet :: "'w \<Rightarrow> 'w \<Rightarrow> bool"
  assumes quiet_keeps: "quiet w w' \<Longrightarrow> sandboxes w' \<subseteq> sandboxes w \<and> endpoint w \<subseteq>\<^sub>m endpoint w' \<and> recorded w \<subseteq> recorded w' \<and>
      (ok w \<longrightarrow> ok w')"
    and set_quiet: "quiet w (snd (SetGatewayState (osp_store p) i g state w))"
    and reserve_quiet: "quiet w (snd (ReservePlacement (osp_store p) q w))"
    and placement_quiet: "quiet w (snd (GetPlacement (osp_store p) i k w))"
    and gateway_quiet: "quiet w (snd (GetGateway (osp_store p) i g w))"
    and save_quiet: "quiet w (snd (SaveExecution (osp_store p) r w))"
    and execution_quiet: "quiet w (snd (GetExecution (osp_store p) ref w))"
    and update_quiet: "quiet w (snd (UpdateExecutionState (osp_store p) ref state w))"
    and workspace_quiet: "osp_workspace p = Some ws \<Longrightarrow>
      quiet w (snd (pws_materialize ws policy w)) \<and> quiet w (snd (pws_cleanup ws path w))"
    and gateway_endpoint: "GetGateway (osp_store p) i g w = (Inr gw, w') \<Longrightarrow>
      gtw_ID (gwr_Gateway gw) = g \<and> endpoint w' (i, g) = Some (gwr_Endpoint gw)"
    and save_records: "SaveExecution (osp_store p) r w = (None, w') \<Longrightarrow>
      (execution_gateway r, exr_SandboxName r) \<in> recorded w'"
    and run_keeps: "endpoint w \<subseteq>\<^sub>m endpoint (snd (osp_run p binary args w)) \<and>
      recorded w \<subseteq> recorded (snd (osp_run p binary args w)) \<and> (ok w \<longrightarrow> ok (snd (osp_run p binary args w)))"
    and run_creates: "(e, s) \<in> sandboxes (snd (osp_run p binary args w)) \<Longrightarrow> (e, s) \<notin> sandboxes w \<Longrightarrow>
      \<exists>rest. args = gatewayArgs e (''sandbox'' # ''create'' # ''--name'' # s # rest)"
begin

definition findable :: "'w \<Rightarrow> bool" where
  "findable w \<longleftrightarrow> (\<forall>(e, s) \<in> sandboxes w. \<exists>k. endpoint w k = Some e \<and> (k, s) \<in> recorded w)"

definition keeps :: "'w \<Rightarrow> 'w \<Rightarrow> bool" where
  "keeps w w' \<longleftrightarrow> endpoint w \<subseteq>\<^sub>m endpoint w' \<and> recorded w \<subseteq> recorded w' \<and> (ok w \<longrightarrow> ok w') \<and> (findable w \<longrightarrow> findable w')"

lemma keeps_refl [simp]: "keeps w w"
  by (simp add: keeps_def)

lemma keeps_trans: "keeps u v \<Longrightarrow> keeps v w \<Longrightarrow> keeps u w"
  by (auto simp: keeps_def intro: map_le_trans)

lemma findable_mono:
  assumes "findable w" and "sandboxes w' \<subseteq> sandboxes w" and "endpoint w \<subseteq>\<^sub>m endpoint w'" and "recorded w \<subseteq> recorded w'"
  shows "findable w'"
  unfolding findable_def
proof clarify
  fix e s assume "(e, s) \<in> sandboxes w'"
  with assms(1,2) obtain k where "endpoint w k = Some e" "(k, s) \<in> recorded w" unfolding findable_def by blast
  with map_le_Some [OF assms(3)] assms(4) show "\<exists>k. endpoint w' k = Some e \<and> (k, s) \<in> recorded w'" by blast
qed

lemma quiet_is_kept: "quiet w w' \<Longrightarrow> keeps w w'"
  using quiet_keeps [of w w'] findable_mono [of w w'] by (auto simp: keeps_def)

lemmas store_keeps [simp] =
  set_quiet [THEN quiet_is_kept] reserve_quiet [THEN quiet_is_kept] placement_quiet [THEN quiet_is_kept]
  gateway_quiet [THEN quiet_is_kept] save_quiet [THEN quiet_is_kept] execution_quiet [THEN quiet_is_kept]
  update_quiet [THEN quiet_is_kept]

lemma and_then_keeps:
  assumes "keeps w (snd (m w))" and "\<And>x w'. m w = (Inr x, w') \<Longrightarrow> keeps w w' \<Longrightarrow> keeps w' (snd (f x w'))"
  shows "keeps w (snd (and_then m f w))"
  using assms by (cases "m w" rule: prod.exhaust) (auto simp: and_then_def split: sum.splits intro: keeps_trans)

lemma checked_keeps: "keeps w (snd (m w)) \<Longrightarrow> keeps w (snd (checked m w))"
  by (auto simp: checked_def split: prod.splits option.splits)

lemma returns_keeps [simp]: "keeps w (snd (returns r w))"
  by (simp add: returns_def)

text \<open>Commands that name a recorded sandbox or create none.\<close>

lemma run_keeps_findable:
  assumes "\<And>e s rest. args = gatewayArgs e (''sandbox'' # ''create'' # ''--name'' # s # rest) \<Longrightarrow>
      \<exists>k. endpoint w k = Some e \<and> (k, s) \<in> recorded w"
  shows "keeps w (snd (osp_run p binary args w))"
proof -
  let ?w = "snd (osp_run p binary args w)"
  note run = run_keeps [of w binary args]
  have "findable ?w" if "findable w"
    unfolding findable_def
  proof clarify
    fix e s assume new: "(e, s) \<in> sandboxes ?w"
    have "\<exists>k. endpoint w k = Some e \<and> (k, s) \<in> recorded w"
    proof (cases "(e, s) \<in> sandboxes w")
      case True with that show ?thesis unfolding findable_def by blast
    next
      case False with run_creates [OF new] assms show ?thesis by blast
    qed
    with map_le_Some [OF conjunct1 [OF run]] conjunct1 [OF conjunct2 [OF run]]
    show "\<exists>k. endpoint ?w k = Some e \<and> (k, s) \<in> recorded ?w" by blast
  qed
  with run show ?thesis by (simp add: keeps_def)
qed

lemma other_commands [simp]:
  "keeps w (snd (osp_run p binary (list_args e) w))"
  "keeps w (snd (osp_run p binary (gatewayArgs e (''settings'' # rest)) w))"
  "keeps w (snd (osp_run p binary (gatewayArgs e (''logs'' # rest)) w))"
  "keeps w (snd (osp_run p binary (gatewayArgs e (''sandbox'' # ''delete'' # rest)) w))"
  by (rule run_keeps_findable; simp add: list_args_def gatewayArgs_def)+

lemma list_run: "osp_run p binary (list_args e) w = (r, w') \<Longrightarrow> keeps w w'"
  using other_commands(1) [of w binary e] by simp

text \<open>The parts of the operations.\<close>

lemma context_keeps [simp]: "keeps w (snd (executionContext p i g w))"
  unfolding executionContext_def by (rule and_then_keeps) (auto split: if_splits)

lemma context_endpoint:
  "executionContext p i g w = (Inr gw, w') \<Longrightarrow> gtw_ID (gwr_Gateway gw) = g \<and> endpoint w' (i, g) = Some (gwr_Endpoint gw)"
  by (auto simp: executionContext_def and_then_def returns_def dest: gateway_endpoint split: prod.splits sum.splits if_splits)

lemma context_endpoint_later:
  assumes "executionContext p i g w = (Inr gw, w')" and "keeps w' w''"
  shows "endpoint w'' (i, gtw_ID (gwr_Gateway gw)) = Some (gwr_Endpoint gw)"
  using context_endpoint [OF assms(1)] assms(2) by (auto simp: keeps_def intro: map_le_Some)

lemma placement_check_keeps [simp]: "keeps w (snd (validatePlacement p request w))"
proof -
  obtain r v where "GetPlacement (osp_store p) (crq_IsolationDomainID request) (plc_ID (crq_Placement request)) w = (r, v)"
    by fastforce
  moreover from this have "keeps w v"
    using store_keeps(3) [of w "crq_IsolationDomainID request" "plc_ID (crq_Placement request)"] by simp
  ultimately show ?thesis by (cases r) (auto simp: validatePlacement_def returns_def Let_def cong: if_weak_cong split: if_split)
qed

lemma lookup_keeps [simp]: "keeps w (snd (lookupExecution p ref w))"
  unfolding lookupExecution_def by (intro and_then_keeps) simp_all

lemma remember_keeps [simp]: "keeps w (snd (rememberExecution p value0 placementID operationID sandbox w))"
  unfolding rememberExecution_def by (intro and_then_keeps checked_keeps) simp_all

lemma remember_records:
  assumes "rememberExecution p value0 placementID operationID sandbox w = (Inr u, w')"
  shows "((exe_IsolationDomainID value0, exe_GatewayID value0), sandbox) \<in> recorded w'"
proof -
  let ?r = "\<lparr>exr_Execution = value0, exr_PlacementID = placementID, exr_OperationID = operationID, exr_SandboxName = sandbox\<rparr>"
  obtain v where v: "SaveExecution (osp_store p) ?r w = (None, v)"
    and w': "w' = snd (UpdateExecutionState (osp_store p)
       \<lparr>ref_IsolationDomainID = exe_IsolationDomainID value0, ref_ID = exe_ID value0\<rparr> (exe_State value0) v)"
    using assms by (auto simp: rememberExecution_def and_then_def checked_def split: prod.splits option.splits sum.splits)
  have "recorded v \<subseteq> recorded w'" unfolding w' using update_quiet quiet_keeps by blast
  with save_records [OF v] show ?thesis by (auto simp: execution_gateway_def)
qed

lemma observe_name_keeps [simp]: "keeps w (snd (observeByName p e s fingerprint execution w))"
  by (auto simp: observeByName_def dest: list_run split: prod.splits sum.splits option.splits)

lemma requested_keeps [simp]:
  "keeps w (snd (observe_requested p request profiles gateway w))" "keeps w (snd (remember_requested p request x w))"
  by (simp_all add: observe_requested_def remember_requested_def)

lemma create_run_keeps:
  assumes run: "keeps w (snd (osp_run p (osp_binary p) args w))" and cleanup: "\<And>w. keeps w (snd (cleanup w))"
  shows "keeps w (snd (create_run p request profiles gateway cleanup created args w))"
proof -
  obtain r w1 where r: "osp_run p (osp_binary p) args w = (r, w1)" by fastforce
  obtain c w2 where c: "cleanup w1 = (c, w2)" by fastforce
  obtain seen w3 where seen: "observe_requested p request profiles gateway w2 = (seen, w3)" by fastforce
  obtain x w4 where x: "remember_requested p request created w2 = (x, w4)" by fastforce
  have 2: "keeps w w2" using run cleanup [of w1] r c by (auto intro: keeps_trans)
  have 3: "keeps w w3" using keeps_trans [OF 2] requested_keeps(1) [of w2] seen by (metis snd_conv)
  have 4: "keeps w w4" using keeps_trans [OF 2] requested_keeps(2) [of w2] x by (metis snd_conv)
  have "keeps w (snd (and_then (remember_requested p request y) (\<lambda>_. returns (Inr y)) w3))" for y
    by (rule keeps_trans [OF 3], rule and_then_keeps) simp_all
  with 2 3 4 r c seen x show ?thesis
    by (auto simp: create_run_def split: prod.splits option.splits sum.splits)
qed

lemma deferring_keeps: "keeps w (snd (m w)) \<Longrightarrow> (\<And>w. keeps w (snd (c w))) \<Longrightarrow> keeps w (snd (deferring c m w))"
  by (cases "m w") (auto simp: deferring_def intro: keeps_trans)

text \<open>The command runs only after the execution is recorded, on the gateway that it is sent to.\<close>

lemma create_new_keeps:
  assumes e: "endpoint w (crq_IsolationDomainID request, gtw_ID (gwr_Gateway gateway)) = Some (gwr_Endpoint gateway)"
  shows "keeps w (snd (create_new p request profiles gateway w))"
proof (cases "osp_workspace p")
  case (Some ws)
  have cleanup: "keeps w (snd (pws_cleanup ws path w))" and written: "keeps w (snd (pws_materialize ws policy w))" for w path policy
    using workspace_quiet [OF Some] quiet_is_kept by blast+
  show ?thesis unfolding create_new_def Some option.case Let_def
  proof (intro and_then_keeps written deferring_keeps cleanup requested_keeps(2) create_run_keeps run_keeps_findable)
    fix path v u v' e' s rest
    assume "keeps w v" "keeps v v'"
      and saved: "remember_requested p request (requested p request (gtw_ID (gwr_Gateway gateway)) ''provisioning'') v = (Inr u, v')"
      and args: "create_args p request profiles (gwr_Endpoint gateway) path = gatewayArgs e' (''sandbox'' # ''create'' # ''--name'' # s # rest)"
    then have "keeps w v'" by (blast intro: keeps_trans)
    with e have "endpoint v' (crq_IsolationDomainID request, gtw_ID (gwr_Gateway gateway)) = Some (gwr_Endpoint gateway)"
      by (auto simp: keeps_def intro: map_le_Some)
    moreover have "e' = gwr_Endpoint gateway" "s = sandboxName (osp_sha256 p) (crq_IsolationDomainID request) (crq_OperationID request)"
      using args by (simp_all add: create_args_def gatewayArgs_def Let_def)
    ultimately show "\<exists>k. endpoint v' k = Some e' \<and> (k, s) \<in> recorded v'"
      using remember_records [OF saved [unfolded remember_requested_def]] by (auto simp: requested_def)
  qed
qed (simp add: create_new_def)

lemma create_keeps: "keeps w (snd (create p request localDiagnostic w))"
proof -
  have seen: "keeps w (snd (and_then (remember_requested p request x) (\<lambda>_. returns (Inr x)) w))" for w x
    by (rule and_then_keeps) simp_all
  show ?thesis
    unfolding create_def
    by (split if_split, intro conjI impI, simp, split if_split, intro conjI impI, simp,
        rule and_then_keeps, simp, split option.split, intro conjI impI allI, split sum.split, intro conjI impI allI, simp,
        rule and_then_keeps, simp, rule and_then_keeps, simp, split option.split, intro conjI impI allI)
      (auto intro!: create_new_keeps seen dest: context_endpoint_later)
qed

text \<open>An execution that creation returns is the operation's, and recorded.\<close>

lemma remember_requested_records:
  "remember_requested p request x w = (Inr u, w') \<Longrightarrow>
   ((exe_IsolationDomainID x, exe_GatewayID x), sandboxName (osp_sha256 p) (crq_IsolationDomainID request) (crq_OperationID request)) \<in> recorded w'"
  unfolding remember_requested_def by (rule remember_records)

lemma observe_requested_execution:
  "observe_requested p request profiles gateway w = (Inr (Some seen), w') \<Longrightarrow> \<exists>g s. seen = requested p request g s"
  by (auto simp: observe_requested_def observeByName_def requested_def split: prod.splits if_splits sum.splits option.splits)

definition recorded_request :: "CreateRequest \<Rightarrow> Execution \<Rightarrow> 'w \<Rightarrow> bool" where
  "recorded_request request e w \<longleftrightarrow> (\<exists>g s. e = requested p request g s) \<and>
     ((crq_IsolationDomainID request, exe_GatewayID e), sandboxName (osp_sha256 p) (crq_IsolationDomainID request) (crq_OperationID request))
       \<in> recorded w"

lemma remembered_request:
  "e = requested p request g s \<Longrightarrow> remember_requested p request e w = (Inr u, w') \<Longrightarrow> recorded_request request e w'"
  using remember_requested_records [of request e w u w'] by (auto simp: recorded_request_def requested_def)

lemma create_run_recorded:
  assumes "create_run p request profiles gateway cleanup created args w = (Inr e, w')"
    and cleanup: "\<And>w. keeps w (snd (cleanup w))" and created: "recorded_request request created w"
  shows "recorded_request request e w'"
proof -
  obtain r w1 where r: "osp_run p (osp_binary p) args w = (r, w1)" by fastforce
  obtain c w2 where c: "cleanup w1 = (c, w2)" by fastforce
  have "recorded w \<subseteq> recorded w2" using run_keeps [of w "osp_binary p" args] cleanup [of w1] r c by (auto simp: keeps_def)
  with created have "recorded_request request created w2" by (auto simp: recorded_request_def)
  with assms(1) r c show ?thesis
    by (auto simp: create_run_def and_then_Inr returns_def dest!: observe_requested_execution intro: remembered_request
        split: prod.splits option.splits sum.splits if_splits)
qed

lemma create_recorded:
  assumes "create p request localDiagnostic w = (Inr e, w')"
  shows "recorded_request request e w'"
proof -
  have new: "recorded_request request e w'" if new: "create_new p request profiles gateway v = (Inr e, w')" for profiles gateway v
  proof (cases "osp_workspace p")
    case (Some ws)
    have cleanup: "keeps w (snd (pws_cleanup ws path w))" for w path using workspace_quiet [OF Some] quiet_is_kept by blast
    from new obtain path v1 u v2 v3 where saved:
      "remember_requested p request (requested p request (gtw_ID (gwr_Gateway gateway)) ''provisioning'') v1 = (Inr u, v2)"
      and ran: "create_run p request profiles gateway (pws_cleanup ws path) (requested p request (gtw_ID (gwr_Gateway gateway)) ''provisioning'')
        (create_args p request profiles (gwr_Endpoint gateway) path) v2 = (Inr e, v3)" and w': "w' = snd (pws_cleanup ws path v3)"
      by (auto simp: create_new_def Some Let_def and_then_Inr deferring_Inr)
    have "recorded_request request e v3" by (rule create_run_recorded [OF ran cleanup remembered_request [OF refl saved]])
    with cleanup [of v3 path] w' show ?thesis by (auto simp: recorded_request_def keeps_def)
  qed (use new in \<open>simp add: create_new_def returns_def\<close>)
  from assms show ?thesis
    by (auto simp: create_def and_then_Inr returns_def dest!: observe_requested_execution intro: new remembered_request
        split: if_splits option.splits sum.splits)
qed

lemma pair_keeps: "m w = (r, w') \<Longrightarrow> keeps w (snd (m w)) \<Longrightarrow> keeps w w'"
  by simp

lemma observe_keeps [simp]: "keeps w (snd (provider_Observe p ref w))"
proof -
  have settle: "keeps w (snd (and_then (checked (UpdateExecutionState (osp_store p) ref state)) (\<lambda>_ w. (Inr (f w), w)) w))"
    for w state and f :: "'w \<Rightarrow> Observation" by (intro and_then_keeps checked_keeps) simp_all
  have "keeps w (snd (case osp_run p (osp_binary p) (list_args e) w of (r, w) \<Rightarrow>
      if run_failed r then (Inl a, w) else (case osp_sandboxes p (cmd_Stdout (fst r)) of Inl _ \<Rightarrow> (Inl a, w)
        | Inr items \<Rightarrow> (case List.find (\<lambda>item. svw_Name item = s) items of
            Some item \<Rightarrow> and_then (checked (UpdateExecutionState (osp_store p) ref (osp_ToLower p (svw_Phase item)))) (\<lambda>_ w. (Inr (f item w), w)) w
          | None \<Rightarrow> and_then (checked (UpdateExecutionState (osp_store p) ref t)) (\<lambda>_ w. (Inr (h w), w)) w))))"
    for w e a s t and f :: "sandboxView \<Rightarrow> 'w \<Rightarrow> Observation" and h :: "'w \<Rightarrow> Observation"
    by (auto dest: list_run intro: keeps_trans [OF _ settle] split: prod.split sum.split option.split)
  then show ?thesis unfolding provider_Observe_def Let_def by (intro and_then_keeps) (auto intro: and_then_keeps)
qed

lemma logs_keeps [simp]: "keeps w (snd (provider_Logs p ref lines w))"
  unfolding provider_Logs_def
  by (rule and_then_keeps) (auto intro: pair_keeps [OF _ other_commands(3)] split: prod.split)

lemma orphans_keeps [simp]: "keeps w (snd (provider_ListOrphans p i g known w))"
  unfolding provider_ListOrphans_def
  by (rule and_then_keeps) (auto dest: list_run split: prod.split sum.split)

lemma enabled_keeps [simp]: "keeps w (snd (providerProfilesEnabled p e w))"
  by (auto simp: providerProfilesEnabled_def intro: pair_keeps [OF _ other_commands(2)] split: prod.split sum.split option.split)

lemma enable_keeps [simp]: "keeps w (snd (EnableProviderProfiles p i g w))"
proof -
  have "keeps w v" if "osp_run p binary (gatewayArgs e (''settings'' # rest)) w = (r, u)"
    "providerProfilesEnabled p e u = (observed, v)" for w v e u r observed binary rest
    using other_commands(2) [of w binary e rest] enabled_keeps [of u e] that by (auto intro: keeps_trans)
  then show ?thesis unfolding EnableProviderProfiles_def
    by (intro and_then_keeps) (auto split: prod.split sum.split bool.split)
qed

lemma terminate_keeps [simp]: "keeps w (snd (provider_Terminate p ref w))"
proof -
  have delete: "keeps w v" if "osp_run p binary (gatewayArgs e [''sandbox'', ''delete'', s]) w = (r, v)" for w v r e s binary
    using other_commands(4) [of w binary e "[s]"] that by simp
  have "keeps w (snd (case osp_run p (osp_binary p) (gatewayArgs e [''sandbox'', ''delete'', s]) w of (r, w) \<Rightarrow>
      if run_failed r then (case provider_Observe p ref w of
          (Inr observation, w) \<Rightarrow> if obs_State observation = ''terminated'' then (Inr (), w) else (Inl a, w)
        | (Inl _, w) \<Rightarrow> (Inl a, w))
      else checked (UpdateExecutionState (osp_store p) ref ''terminated'') w))" for w e s a
    by (auto intro: keeps_trans [OF delete] keeps_trans [OF delete checked_keeps [OF store_keeps(7)]] pair_keeps [OF _ observe_keeps] split: prod.split sum.split)
  then have rest: "keeps w (snd (and_then (executionContext p i g) (\<lambda>gateway w.
      case osp_run p (osp_binary p) (gatewayArgs (gwr_Endpoint gateway) [''sandbox'', ''delete'', s]) w of (r, w) \<Rightarrow>
        if run_failed r then (case provider_Observe p ref w of
            (Inr observation, w) \<Rightarrow> if obs_State observation = ''terminated'' then (Inr (), w) else (Inl a, w)
          | (Inl _, w) \<Rightarrow> (Inl a, w))
        else checked (UpdateExecutionState (osp_store p) ref ''terminated'') w) w))" for w i g s a
    by (intro and_then_keeps) simp_all
  obtain r v where r: "GetExecution (osp_store p) ref w = (r, v)" by fastforce
  with store_keeps(6) [of w ref] have "keeps w v" by simp
  with r rest show ?thesis by (cases r) (auto simp: provider_Terminate_def intro: keeps_trans)
qed

lemma diagnostic_keeps: "keeps w (snd (CreateLocalDiagnostic p request w))"
proof -
  obtain r v where r: "executionContext p (crq_IsolationDomainID request) (plc_GatewayID (crq_Placement request)) w = (r, v)" by fastforce
  with context_keeps have "keeps w v" by (metis snd_conv)
  with keeps_trans [OF this create_keeps] r show ?thesis
    by (cases r) (auto simp: CreateLocalDiagnostic_def returns_def)
qed

lemma call_keeps: "keeps w (provider_do p c w)"
  by (cases c) (auto simp: provider_SetGatewayState_def provider_SelectGateway_def provider_Create_def create_keeps diagnostic_keeps
      intro: checked_keeps)

lemma calls_keep: "keeps w (fold (provider_do p) cs w)"
  by (induction cs arbitrary: w) (auto intro: keeps_trans [OF call_keeps])

end

end
