(* ===== verification/Provider_Postgres.thy ===== *)
theory Provider_Postgres
  imports Provider_Safety Gateway_Placement S3_Store
begin

text \<open>
  The execution provider on the PostgreSQL store. Other workers change the tables between its calls, calls
  and answers are lost, and the commands that it starts answer anything; yet every sandbox is recorded with
  a placement on the gateway that runs it, and an execution that is terminated once stays terminated.
\<close>

section \<open>The provider on PostgreSQL\<close>

text \<open>
  A world in which a call of the store happens after any calls of other workers, may not reach the database
  or may lose its answer. The runner and the policy files have scripts of their own in it.
\<close>

type_synonym db_turn = "(instant \<times> string list \<times> store_call) list \<times> network_fault \<times> instant \<times> string list"

record cli_turn =
  clt_vanished :: "(string \<times> string) list"
  clt_applied :: bool
  clt_result :: command_result
  clt_error :: "go_error option"

record provider_world =
  pvw_db :: execution_db
  pvw_turns :: "db_turn list"
  pvw_sandboxes :: "(string \<times> string) list"
  pvw_runs :: "cli_turn list"
  pvw_paths :: "string result list"
  pvw_cleanups :: "go_error option list"

definition db_do ::
  "(string \<Rightarrow> string) \<Rightarrow> (go_error \<Rightarrow> 'a) \<Rightarrow> (instant \<Rightarrow> string list \<Rightarrow> execution_db \<Rightarrow> 'a \<times> execution_db) \<Rightarrow>
   provider_world \<Rightarrow> 'a \<times> provider_world" where
  "db_do sha256 failed call w =
     (case pvw_turns w of
        [] \<Rightarrow> apsnd (\<lambda>d. w\<lparr>pvw_db := d\<rparr>) (call 0 [] (pvw_db w))
      | (others, fault, now, locked) # turns \<Rightarrow>
          (let d = pg_calls sha256 others (pvw_db w); (r, d') = call now locked d in
           case fault of
             Delivered \<Rightarrow> (r, w\<lparr>pvw_db := d', pvw_turns := turns\<rparr>)
           | ResponseLost \<Rightarrow> (failed (persistence_failure ''commit''), w\<lparr>pvw_db := d', pvw_turns := turns\<rparr>)
           | _ \<Rightarrow> (failed (persistence_failure ''begin''), w\<lparr>pvw_db := d, pvw_turns := turns\<rparr>)))"

definition durable_store :: "(string \<Rightarrow> string) \<Rightarrow> provider_world StateStore" where
  "durable_store sha256 =
     \<lparr>RegisterGateway = \<lambda>r. db_do sha256 Inl (\<lambda>now locked. pg_RegisterGateway now r),
      SetGatewayState = \<lambda>i g state. db_do sha256 Some (\<lambda>now locked. pg_SetGatewayState now i g state),
      ReservePlacement = \<lambda>q. db_do sha256 Inl (\<lambda>now locked. pg_ReservePlacement sha256 locked now q),
      GetPlacement = \<lambda>i k. db_do sha256 Inl (\<lambda>now locked d. (pg_GetPlacement d i k, d)),
      GetGateway = \<lambda>i g. db_do sha256 Inl (\<lambda>now locked d. (pg_GetGateway d i g, d)),
      SaveExecution = \<lambda>r. db_do sha256 Some (\<lambda>now locked. pg_SaveExecution now r),
      GetExecution = \<lambda>ref. db_do sha256 Inl (\<lambda>now locked d. (pg_GetExecution d ref, d)),
      UpdateExecutionState = \<lambda>ref state. db_do sha256 Some (\<lambda>now locked. pg_UpdateExecutionState now ref state)\<rparr>"

definition on_postgres :: "provider_world Provider \<Rightarrow> provider_world Provider" where
  "on_postgres p = p\<lparr>osp_store := durable_store (osp_sha256 p)\<rparr>"

text \<open>
  What is relied on of the program that the runner starts: it does not touch the tables, and a sandbox appears
  only through a command that creates it under its name at its endpoint. The policy files are apart from both.
\<close>

definition cli_contract :: "provider_world Provider \<Rightarrow> bool" where
  "cli_contract p \<longleftrightarrow>
     (\<forall>binary args w. pvw_db (snd (osp_run p binary args w)) = pvw_db w \<and>
        (\<forall>e s. (e, s) \<in> set (pvw_sandboxes (snd (osp_run p binary args w))) \<longrightarrow> (e, s) \<notin> set (pvw_sandboxes w) \<longrightarrow>
           (\<exists>rest. args = gatewayArgs e (''sandbox'' # ''create'' # ''--name'' # s # rest)))) \<and>
     (\<forall>ws policy path w. osp_workspace p = Some ws \<longrightarrow>
        pvw_db (snd (pws_materialize ws policy w)) = pvw_db w \<and> pvw_sandboxes (snd (pws_materialize ws policy w)) = pvw_sandboxes w \<and>
        pvw_db (snd (pws_cleanup ws path w)) = pvw_db w \<and> pvw_sandboxes (snd (pws_cleanup ws path w)) = pvw_sandboxes w)"

definition registered_endpoint :: "execution_db \<Rightarrow> string \<times> string \<rightharpoonup> string" where
  "registered_endpoint d k = map_option (gwr_Endpoint \<circ> gwy_record) (sql_select (\<lambda>g. gateway_key g = k) (xdb_gateways d))"

definition recorded_executions :: "execution_db \<Rightarrow> ((string \<times> string) \<times> (string \<times> string) \<times> string) set" where
  "recorded_executions d = (\<lambda>i. (execution_key (ins_record i), execution_gateway (ins_record i), exr_SandboxName (ins_record i))) `
     set (xdb_instances d)"

definition recorded_sandboxes :: "execution_db \<Rightarrow> ((string \<times> string) \<times> string) set" where
  "recorded_sandboxes d = snd ` recorded_executions d"

definition terminated_in :: "execution_db \<Rightarrow> (string \<times> string) set" where
  "terminated_in d = {execution_key (ins_record i) | i. i \<in> set (xdb_instances d) \<and> exe_State (exr_Execution (ins_record i)) = ''terminated''}"

definition db_grown :: "execution_db \<Rightarrow> execution_db \<Rightarrow> bool" where
  "db_grown d d' \<longleftrightarrow> registered_endpoint d \<subseteq>\<^sub>m registered_endpoint d' \<and>
     recorded_executions d \<subseteq> recorded_executions d' \<and>
     (execution_ok d \<longrightarrow> execution_ok d' \<and> terminated_in d \<subseteq> terminated_in d')"

lemma db_grown_refl [simp]: "db_grown d d"
  by (simp add: db_grown_def)

lemma db_grown_trans: "db_grown a b \<Longrightarrow> db_grown b c \<Longrightarrow> db_grown a c"
  by (auto simp: db_grown_def intro: map_le_trans)

lemma sandbox_name_update [simp]: "exr_SandboxName (set_execution_state s r) = exr_SandboxName r"
  by (simp add: set_execution_state_def)

lemma endpoint_frame: "xdb_gateways d' = xdb_gateways d \<Longrightarrow> registered_endpoint d' = registered_endpoint d"
  by (rule ext) (simp add: registered_endpoint_def)

lemma endpoint_update:
  "xdb_gateways d' = sql_update c (set_gateway_state s now) (xdb_gateways d) \<Longrightarrow> registered_endpoint d' = registered_endpoint d"
  by (rule ext) (simp add: registered_endpoint_def select_same_update)

lemma endpoint_append: "xdb_gateways d' = xdb_gateways d @ [row] \<Longrightarrow> registered_endpoint d \<subseteq>\<^sub>m registered_endpoint d'"
  by (auto simp: registered_endpoint_def map_le_def sql_select_append split: option.splits)

lemma recorded_update:
  assumes "xdb_instances d' = sql_update c f (xdb_instances d)"
    and "\<And>i. c i \<Longrightarrow> \<exists>s. ins_record (f i) = set_execution_state s (ins_record i)"
  shows "recorded_executions d \<subseteq> recorded_executions d'"
proof
  fix x assume "x \<in> recorded_executions d"
  then obtain i where i: "i \<in> set (xdb_instances d)" "x = (execution_key (ins_record i), execution_gateway (ins_record i), exr_SandboxName (ins_record i))"
    by (auto simp: recorded_executions_def)
  let ?i = "if c i then f i else i"
  have "?i \<in> set (xdb_instances d')" using i(1) by (auto simp: assms(1) sql_update_def)
  moreover have "x = (execution_key (ins_record ?i), execution_gateway (ins_record ?i), exr_SandboxName (ins_record ?i))"
    using i(2) assms(2) [of i] by (cases "c i") (simp, elim exE, simp_all)
  ultimately show "x \<in> recorded_executions d'" unfolding recorded_executions_def by blast
qed

lemma terminated_update:
  assumes "xdb_instances d' = sql_update c f (xdb_instances d)"
    and "\<And>i. i \<in> set (xdb_instances d) \<Longrightarrow> c i \<Longrightarrow> exe_State (exr_Execution (ins_record i)) = ''terminated'' \<Longrightarrow>
      ins_record (f i) = set_execution_state ''terminated'' (ins_record i)"
  shows "terminated_in d \<subseteq> terminated_in d'"
proof
  fix k assume "k \<in> terminated_in d"
  then obtain i where i: "i \<in> set (xdb_instances d)" "k = execution_key (ins_record i)"
    "exe_State (exr_Execution (ins_record i)) = ''terminated''" by (auto simp: terminated_in_def)
  let ?i = "if c i then f i else i"
  have "?i \<in> set (xdb_instances d')" using i(1) by (auto simp: assms(1) sql_update_def)
  moreover have "k = execution_key (ins_record ?i)" "exe_State (exr_Execution (ins_record ?i)) = ''terminated''"
    using i assms(2) [of i] by (cases "c i"; simp)+
  ultimately show "k \<in> terminated_in d'" unfolding terminated_in_def by blast
qed

lemma frame_grown:
  "xdb_gateways d' = xdb_gateways d \<Longrightarrow> xdb_instances d' = xdb_instances d \<Longrightarrow> (execution_ok d \<Longrightarrow> execution_ok d') \<Longrightarrow> db_grown d d'"
  using endpoint_frame [of d' d] by (simp add: db_grown_def recorded_executions_def terminated_in_def)

lemma register_grown: "db_grown d (snd (pg_RegisterGateway now r d))"
proof -
  let ?d = "snd (pg_RegisterGateway now r d)"
  have "?d = d \<or> (\<exists>row. ?d = d\<lparr>xdb_gateways := xdb_gateways d @ [row]\<rparr>)"
    by (auto simp: pg_RegisterGateway_def Let_def split: sum.splits)
  moreover have "execution_ok d \<Longrightarrow> execution_ok ?d" using pg_call_ok [of d _ now _ "RegisterCall r"] by simp
  ultimately show ?thesis
    by (elim disjE exE) (auto simp: db_grown_def recorded_executions_def terminated_in_def intro!: endpoint_append)
qed

lemma set_state_grown: "db_grown d (snd (pg_SetGatewayState now i g state d))"
proof -
  let ?d = "snd (pg_SetGatewayState now i g state d)"
  have ok: "execution_ok d \<Longrightarrow> execution_ok ?d" using pg_call_ok [of d _ now _ "SetStateCall i g state"] by simp
  let ?g = "sql_update (\<lambda>r. gateway_key r = (i, g)) (set_gateway_state state now) (xdb_gateways d)"
  let ?i = "sql_update (\<lambda>r. execution_gateway (ins_record r) = (i, g) \<and>
         \<not> settled_state (exe_State (exr_Execution (ins_record r)))) (lose_instance now) (xdb_instances d)"
  have "?d = d \<or> xdb_gateways ?d = ?g \<and> xdb_instances ?d = xdb_instances d \<or> xdb_gateways ?d = ?g \<and> xdb_instances ?d = ?i"
    by (simp add: pg_SetGatewayState_def Let_def)
  then consider "?d = d" | "xdb_gateways ?d = ?g" "xdb_instances ?d = xdb_instances d" | "xdb_gateways ?d = ?g" "xdb_instances ?d = ?i"
    by blast
  then show ?thesis
  proof cases
    case 1 then show ?thesis by simp
  next
    case 2
    then have "recorded_executions ?d = recorded_executions d" "terminated_in ?d = terminated_in d"
      by (simp_all add: recorded_executions_def terminated_in_def)
    with endpoint_update [OF 2(1)] ok show ?thesis by (simp add: db_grown_def)
  next
    case 3
    have "recorded_executions d \<subseteq> recorded_executions ?d" by (rule recorded_update [OF 3(2)]) auto
    moreover have "terminated_in d \<subseteq> terminated_in ?d" by (rule terminated_update [OF 3(2)]) (simp add: settled_state_def)
    ultimately show ?thesis using endpoint_update [OF 3(1)] ok by (simp add: db_grown_def)
  qed
qed

lemma reserve_grown: "db_grown d (snd (pg_ReservePlacement sha256 locked now q d))"
proof -
  obtain res d' where e: "pg_ReservePlacement sha256 locked now q d = (res, d')" by fastforce
  have ok: "execution_ok d \<Longrightarrow> execution_ok d'" using pg_call_ok [of d sha256 now locked "ReserveCall q"] e by simp
  from e show ?thesis by (cases rule: reserve_cases) (use ok e in \<open>auto intro!: frame_grown\<close>)
qed

lemma save_grown: "db_grown d (snd (pg_SaveExecution now r d))"
proof -
  obtain res d' where e: "pg_SaveExecution now r d = (res, d')" by fastforce
  have ok: "execution_ok d \<Longrightarrow> execution_ok d'" using pg_call_ok [of d _ now _ "SaveCall r"] e by simp
  from e show ?thesis
  proof (cases rule: save_cases)
    case (saved p)
    then have "recorded_executions d \<subseteq> recorded_executions d'" "terminated_in d \<subseteq> terminated_in d'"
      by (auto simp: recorded_executions_def terminated_in_def)
    moreover have "registered_endpoint d' = registered_endpoint d" by (rule endpoint_frame) (simp add: saved(9))
    ultimately show ?thesis using ok e by (simp add: db_grown_def)
  qed (simp add: e)
qed

lemma update_grown: "db_grown d (snd (pg_UpdateExecutionState now ref state d))"
proof -
  obtain res d' where e: "pg_UpdateExecutionState now ref state d = (res, d')" by fastforce
  have ok: "execution_ok d \<Longrightarrow> execution_ok d'" using pg_call_ok [of d _ now _ "UpdateCall ref state"] e by simp
  from e refl show ?thesis
  proof (cases rule: update_cases)
    case (updated i)
    note d' = updated(6)
    have "recorded_executions d \<subseteq> recorded_executions d'"
      by (rule recorded_update [of d' "\<lambda>i. execution_key (ins_record i) = (ref_IsolationDomainID ref, ref_ID ref)"])
        (use d' in \<open>auto\<close>)
    moreover have "terminated_in d \<subseteq> terminated_in d'" if "execution_ok d"
    proof (rule terminated_update [of d' "\<lambda>i. execution_key (ins_record i) = (ref_IsolationDomainID ref, ref_ID ref)"])
      fix j assume j: "j \<in> set (xdb_instances d)" "execution_key (ins_record j) = (ref_IsolationDomainID ref, ref_ID ref)"
        "exe_State (exr_Execution (ins_record j)) = ''terminated''"
      have "unique_by (execution_key \<circ> ins_record) (xdb_instances d)" using that by (simp add: execution_ok_def instances_ok_def comp_def)
      then have "j = i" by (rule unique_by_eq) (use j updated(1,2) in auto)
      with j updated(4) show "ins_record (j\<lparr>ins_record := set_execution_state state (ins_record j), ins_updated_at := now,
                 ins_terminated_at := (if state = ''terminated'' then Some now else None)\<rparr>) = set_execution_state ''terminated'' (ins_record j)"
        by simp
    qed (simp add: d')
    moreover have "registered_endpoint d' = registered_endpoint d" by (rule endpoint_frame) (simp add: d')
    ultimately show ?thesis using ok e by (simp add: db_grown_def)
  qed (simp add: e)
qed

lemma call_grown: "db_grown d (snd (pg_call sha256 now locked c d))"
  by (cases c) (simp_all add: register_grown set_state_grown reserve_grown save_grown update_grown)

lemma calls_grown: "db_grown d (pg_calls sha256 cs d)"
proof (induction cs arbitrary: d)
  case (Cons c cs)
  obtain now locked call where "c = (now, locked, call)" by (cases c)
  then show ?case using db_grown_trans [OF call_grown Cons.IH] by (auto simp: pg_calls_def)
qed (simp add: pg_calls_def)

definition pvw_quiet :: "provider_world \<Rightarrow> provider_world \<Rightarrow> bool" where
  "pvw_quiet w w' \<longleftrightarrow> pvw_sandboxes w' = pvw_sandboxes w \<and> db_grown (pvw_db w) (pvw_db w')"

lemma db_do_quiet:
  assumes "\<And>now locked d. db_grown d (snd (call now locked d))"
  shows "pvw_quiet w (snd (db_do sha256 failed call w))"
proof (cases "pvw_turns w")
  case Nil
  then show ?thesis using assms [of "pvw_db w" 0 "[]"] by (cases "call 0 [] (pvw_db w)") (simp add: db_do_def pvw_quiet_def)
next
  case (Cons t ts)
  obtain others fault now locked where t: "t = (others, fault, now, locked)" by (cases t)
  obtain r d' where c: "call now locked (pg_calls sha256 others (pvw_db w)) = (r, d')" by fastforce
  have "db_grown (pg_calls sha256 others (pvw_db w)) d'" using assms [of "pg_calls sha256 others (pvw_db w)" now locked] c by simp
  with calls_grown have "db_grown (pvw_db w) d'" by (rule db_grown_trans)
  with Cons t c calls_grown show ?thesis by (cases fault) (simp_all add: db_do_def pvw_quiet_def)
qed

lemma db_do_answer:
  assumes "db_do sha256 failed call w = (r, w')" and "\<And>stage. failed (persistence_failure stage) \<noteq> r"
  obtains now locked d where "call now locked d = (r, pvw_db w')" "db_grown (pvw_db w) d"
proof (cases "pvw_turns w")
  case Nil
  with assms have "call 0 [] (pvw_db w) = (r, pvw_db w')" by (cases "call 0 [] (pvw_db w)") (auto simp: db_do_def)
  then show ?thesis using that db_grown_refl by blast
next
  case (Cons t ts)
  obtain others fault now locked where t: "t = (others, fault, now, locked)" by (cases t)
  obtain r' d' where c: "call now locked (pg_calls sha256 others (pvw_db w)) = (r', d')" by fastforce
  have "r' = r" "d' = pvw_db w'" using assms Cons t c by (cases fault; auto simp: db_do_def)+
  with c that calls_grown show ?thesis by blast
qed

lemma save_recorded:
  assumes "pg_SaveExecution now r d = (None, d')"
  shows "(execution_gateway r, exr_SandboxName r) \<in> recorded_sandboxes d'"
  using assms
proof (cases rule: save_cases)
  case same
  then obtain e where e: "getExecution d \<lparr>ref_IsolationDomainID = exe_IsolationDomainID (exr_Execution r), ref_ID = exe_ID (exr_Execution r)\<rparr> = Inr (Some e)"
    "same_execution_identity e r"
    using assms by (auto simp: pg_SaveExecution_def Let_def split: sum.splits option.splits if_splits dest: arg_cong [where f = xdb_instances])
  then obtain i where "i \<in> set (xdb_instances d)" "ins_record i = e"
    by (auto simp: getExecution_def dest: sql_select_Some split: if_splits)
  moreover have "execution_gateway e = execution_gateway r" "exr_SandboxName e = exr_SandboxName r"
    using e(2) by (simp_all add: same_execution_identity_def execution_gateway_def)
  ultimately show ?thesis unfolding same recorded_sandboxes_def recorded_executions_def by force
next
  case (saved p)
  then show ?thesis by (auto simp: recorded_sandboxes_def recorded_executions_def)
qed

lemma endpoint_read:
  assumes "pg_GetGateway d i g = Inr gw"
  shows "gtw_ID (gwr_Gateway gw) = g \<and> registered_endpoint d (i, g) = Some (gwr_Endpoint gw)"
  using assms by (auto simp: pg_GetGateway_def registered_endpoint_def gateway_key_def dest: sql_select_Some split: if_splits option.splits)

lemma runner_contract:
  assumes "cli_contract p"
  shows "sandbox_runner (on_postgres p) (\<lambda>w. set (pvw_sandboxes w)) (\<lambda>w. registered_endpoint (pvw_db w))
    (\<lambda>w. recorded_sandboxes (pvw_db w)) (\<lambda>w. execution_ok (pvw_db w) \<and> K \<subseteq> terminated_in (pvw_db w)) pvw_quiet"
proof
  fix w w' assume "pvw_quiet w w'"
  then show "set (pvw_sandboxes w') \<subseteq> set (pvw_sandboxes w) \<and>
      registered_endpoint (pvw_db w) \<subseteq>\<^sub>m registered_endpoint (pvw_db w') \<and>
      recorded_sandboxes (pvw_db w) \<subseteq> recorded_sandboxes (pvw_db w') \<and>
      (execution_ok (pvw_db w) \<and> K \<subseteq> terminated_in (pvw_db w) \<longrightarrow> execution_ok (pvw_db w') \<and> K \<subseteq> terminated_in (pvw_db w'))"
    by (auto simp: pvw_quiet_def db_grown_def recorded_sandboxes_def)
next
  fix w ws policy path assume "osp_workspace (on_postgres p) = Some ws"
  with assms show "pvw_quiet w (snd (pws_materialize ws policy w)) \<and> pvw_quiet w (snd (pws_cleanup ws path w))"
    by (auto simp: on_postgres_def pvw_quiet_def cli_contract_def)
next
  fix i g w gw w' assume "GetGateway (osp_store (on_postgres p)) i g w = (Inr gw, w')"
  then show "gtw_ID (gwr_Gateway gw) = g \<and> registered_endpoint (pvw_db w') (i, g) = Some (gwr_Endpoint gw)"
    by (auto simp: on_postgres_def durable_store_def elim!: db_do_answer dest: endpoint_read)
next
  fix r w w' assume "SaveExecution (osp_store (on_postgres p)) r w = (None, w')"
  then show "(execution_gateway r, exr_SandboxName r) \<in> recorded_sandboxes (pvw_db w')"
    by (auto simp: on_postgres_def durable_store_def elim!: db_do_answer dest: save_recorded)
next
  fix e s binary args w
  assume "(e, s) \<in> set (pvw_sandboxes (snd (osp_run (on_postgres p) binary args w)))" "(e, s) \<notin> set (pvw_sandboxes w)"
  with assms show "\<exists>rest. args = gatewayArgs e (''sandbox'' # ''create'' # ''--name'' # s # rest)"
    by (auto simp: on_postgres_def cli_contract_def)
qed (use assms in \<open>auto simp: on_postgres_def durable_store_def cli_contract_def
  intro: db_do_quiet set_state_grown reserve_grown save_grown update_grown\<close>)

section \<open>A runner with faults\<close>

text \<open>
  A program that keeps the contract: a command may or may not take effect and answers anything, and sandboxes
  disappear at any time; policy files fail to be written or removed.
\<close>

text \<open>What a command does to the sandboxes of the gateway at its endpoint.\<close>

definition cli_effect :: "string list \<Rightarrow> (string \<times> string) list \<Rightarrow> (string \<times> string) list" where
  "cli_effect args sandboxes =
     (case args of
        flag # e # noun # verb # a # rest \<Rightarrow>
          if flag \<noteq> ''--gateway-endpoint'' \<or> noun \<noteq> ''sandbox'' then sandboxes
          else if verb = ''delete'' then removeAll (e, a) sandboxes
          else if verb = ''create'' \<and> a = ''--name'' \<and> rest \<noteq> [] then (e, hd rest) # sandboxes
          else sandboxes
      | _ \<Rightarrow> sandboxes)"

definition cli_run :: "provider_world runner" where
  "cli_run binary args w =
     (case pvw_runs w of
        [] \<Rightarrow> ((\<lparr>cmd_Stdout = [], cmd_ExitCode = 1, cmd_FailureClass = [], cmd_FailureHint = []\<rparr>, None), w)
      | t # ts \<Rightarrow>
          (let left = filter (\<lambda>x. x \<notin> set (clt_vanished t)) (pvw_sandboxes w) in
           ((clt_result t, clt_error t),
            w\<lparr>pvw_sandboxes := (if clt_applied t then cli_effect args left else left), pvw_runs := ts\<rparr>)))"

definition policy_files :: "provider_world PolicyWorkspace" where
  "policy_files =
     \<lparr>pws_materialize = \<lambda>policy w. (case pvw_paths w of [] \<Rightarrow> (Inl (errors_New ''disk full''), w)
                                  | r # rs \<Rightarrow> (r, w\<lparr>pvw_paths := rs\<rparr>)),
      pws_cleanup = \<lambda>path w. (case pvw_cleanups w of [] \<Rightarrow> (None, w) | r # rs \<Rightarrow> (r, w\<lparr>pvw_cleanups := rs\<rparr>))\<rparr>"

lemma cli_effect_new:
  "(e, s) \<in> set (cli_effect args sandboxes) \<Longrightarrow> (e, s) \<notin> set sandboxes \<Longrightarrow>
   \<exists>rest. args = gatewayArgs e (''sandbox'' # ''create'' # ''--name'' # s # rest)"
  by (auto simp: cli_effect_def gatewayArgs_def neq_Nil_conv split: list.splits if_splits)

lemma cli_run_contract:
  "osp_run p = cli_run \<Longrightarrow> osp_workspace p = Some policy_files \<Longrightarrow> cli_contract p"
  by (auto simp: cli_contract_def cli_run_def policy_files_def Let_def split: list.splits if_splits dest!: cli_effect_new)

definition with_faults :: "provider_world Provider \<Rightarrow> provider_world Provider" where
  "with_faults p = p\<lparr>osp_run := cli_run, osp_workspace := Some policy_files\<rparr>"

interpretation cli: sandbox_runner "on_postgres (with_faults p)" "\<lambda>w. set (pvw_sandboxes w)" "\<lambda>w. registered_endpoint (pvw_db w)"
  "\<lambda>w. recorded_sandboxes (pvw_db w)" "\<lambda>w. execution_ok (pvw_db w) \<and> K \<subseteq> terminated_in (pvw_db w)" pvw_quiet for p K
  by (rule runner_contract) (rule cli_run_contract, simp_all add: with_faults_def)

section \<open>Sandboxes are recorded\<close>

text \<open>
  C37. Start the provider on well-formed tables with no sandbox, and let it serve any calls. At every moment
  each sandbox that exists at some endpoint has an execution of its name in the tables, which runs in a
  placement of its operation on a registered gateway, and that gateway has this endpoint.
\<close>

theorem sandboxes_are_recorded:
  assumes cli: "cli_contract p" and ok: "execution_ok (pvw_db w)" and none: "pvw_sandboxes w = []"
    and w': "w' = fold (provider_do (on_postgres p)) calls w" and exists: "(e, s) \<in> set (pvw_sandboxes w')"
  shows "\<exists>g q i. g \<in> set (xdb_gateways (pvw_db w')) \<and> q \<in> set (xdb_placements (pvw_db w')) \<and> i \<in> set (xdb_instances (pvw_db w')) \<and>
    gwr_Endpoint (gwy_record g) = e \<and> exr_SandboxName (ins_record i) = s \<and> placed_on q g \<and> runs_in i q"
proof -
  note runner = runner_contract [OF cli, of "{}"]
  note kept = sandbox_runner.calls_keep [OF runner, of w calls, folded w',
      unfolded sandbox_runner.keeps_def [OF runner] sandbox_runner.findable_def [OF runner]]
  from kept ok none have ok': "execution_ok (pvw_db w')" by simp
  from kept ok none exists obtain k where "registered_endpoint (pvw_db w') k = Some e" and rec: "(k, s) \<in> recorded_sandboxes (pvw_db w')"
    by fastforce
  then obtain g where g: "g \<in> set (xdb_gateways (pvw_db w'))" "gateway_key g = k" "gwr_Endpoint (gwy_record g) = e"
    by (auto simp: registered_endpoint_def dest: sql_select_Some)
  from rec obtain i where i: "i \<in> set (xdb_instances (pvw_db w'))" "execution_gateway (ins_record i) = k" "exr_SandboxName (ins_record i) = s"
    by (auto simp: recorded_sandboxes_def recorded_executions_def)
  from ok' i(1) obtain q where q: "q \<in> set (xdb_placements (pvw_db w'))" "runs_in i q"
    unfolding execution_ok_def instances_ok_def by blast
  from ok' q(1) obtain g' where g': "g' \<in> set (xdb_gateways (pvw_db w'))" "placed_on q g'"
    unfolding execution_ok_def placements_ok_def by blast
  have "gateway_key g' = gateway_key g" using g'(2) q(2) g(2) i(2) by (simp add: placed_on_def runs_in_def)
  then have "g' = g" using ok' g(1) g'(1) by (auto simp: execution_ok_def gateways_ok_def dest: unique_by_eq)
  with g i q g' show ?thesis by blast
qed

section \<open>Termination is final\<close>

lemma get_terminated:
  assumes "pg_GetExecution d ref = Inr r" and "exe_State (exr_Execution r) = ''terminated''"
  shows "(ref_IsolationDomainID ref, ref_ID ref) \<in> terminated_in d"
  using assms by (force simp: pg_GetExecution_def getExecution_def terminated_in_def dest: sql_select_Some
      split: sum.splits option.splits if_splits)

lemma update_terminated:
  assumes "pg_UpdateExecutionState now ref ''terminated'' d = (None, d')"
  shows "(ref_IsolationDomainID ref, ref_ID ref) \<in> terminated_in d'"
proof -
  let ?k = "(ref_IsolationDomainID ref, ref_ID ref)"
  obtain i where "sql_select (\<lambda>i. execution_key (ins_record i) = ?k) (xdb_instances d) = Some i"
    and d': "xdb_instances d' = sql_update (\<lambda>i. execution_key (ins_record i) = ?k)
      (\<lambda>i. i\<lparr>ins_record := set_execution_state ''terminated'' (ins_record i), ins_updated_at := now, ins_terminated_at := Some now\<rparr>)
      (xdb_instances d)"
    using assms by (auto simp: pg_UpdateExecutionState_def Let_def split: if_splits option.splits)
  then have "i \<in> set (xdb_instances d)" "execution_key (ins_record i) = ?k" by (auto dest: sql_select_Some)
  then have "i\<lparr>ins_record := set_execution_state ''terminated'' (ins_record i), ins_updated_at := now, ins_terminated_at := Some now\<rparr>
      \<in> set (xdb_instances d')" by (force simp: d' sql_update_def)
  with \<open>execution_key (ins_record i) = ?k\<close> show ?thesis by (force simp: terminated_in_def)
qed

lemma get_missing:
  assumes "pg_GetExecution d ref = Inl e" and "errors_Is e ErrExecutionMissing"
    and "(ref_IsolationDomainID ref, ref_ID ref) \<in> fst ` recorded_executions d"
  shows False
  using assms by (auto simp: pg_GetExecution_def getExecution_def recorded_executions_def persistence_failure_def sql_select_None
      split: if_splits option.splits)

lemma store_get_terminated:
  "GetExecution (osp_store (on_postgres p)) ref w = (Inr r, w') \<Longrightarrow> exe_State (exr_Execution r) = ''terminated'' \<Longrightarrow>
   (ref_IsolationDomainID ref, ref_ID ref) \<in> terminated_in (pvw_db w')"
  by (auto simp: on_postgres_def durable_store_def elim!: db_do_answer dest: get_terminated)

lemma store_update_terminated:
  "UpdateExecutionState (osp_store (on_postgres p)) ref ''terminated'' w = (None, w') \<Longrightarrow>
   (ref_IsolationDomainID ref, ref_ID ref) \<in> terminated_in (pvw_db w')"
  by (auto simp: on_postgres_def durable_store_def elim!: db_do_answer dest: update_terminated)

lemma observe_terminated:
  "provider_Observe (on_postgres p) ref w = (Inr seen, w') \<Longrightarrow> obs_State seen = ''terminated'' \<Longrightarrow>
   (ref_IsolationDomainID ref, ref_ID ref) \<in> terminated_in (pvw_db w')"
  by (auto simp: provider_Observe_def and_then_def checked_def Let_def dest: store_get_terminated store_update_terminated
      split: prod.splits sum.splits option.splits if_splits)

lemma store_get_missing:
  assumes get: "GetExecution (osp_store (on_postgres p)) ref w = (Inl e, w')" and "errors_Is e ErrExecutionMissing"
    and known: "(ref_IsolationDomainID ref, ref_ID ref) \<in> fst ` recorded_executions (pvw_db w)"
  shows False
proof -
  from get have "db_do (osp_sha256 p) Inl (\<lambda>now locked d. (pg_GetExecution d ref, d)) w = (Inl e, w')"
    by (simp add: on_postgres_def durable_store_def)
  then obtain d where "pg_GetExecution d ref = Inl e" "db_grown (pvw_db w) d"
    by (rule db_do_answer) (use assms(2) in \<open>auto simp: persistence_failure_def\<close>)
  with get_missing [OF _ assms(2)] known show False by (auto simp: db_grown_def)
qed

lemma terminate_terminated:
  assumes "provider_Terminate (on_postgres p) ref w = (Inr u, w')"
    and "(ref_IsolationDomainID ref, ref_ID ref) \<in> fst ` recorded_executions (pvw_db w)"
  shows "(ref_IsolationDomainID ref, ref_ID ref) \<in> terminated_in (pvw_db w')"
  using assms store_get_missing [of p ref w]
  by (auto simp: provider_Terminate_def and_then_def checked_def
      dest: store_get_terminated store_update_terminated observe_terminated split: prod.splits sum.splits option.splits if_splits)

text \<open>
  C38. When \<open>Terminate\<close> returns without an error for an execution that the tables know, the execution is
  recorded as terminated, and it stays so whatever calls this provider and other workers make afterwards:
  in particular \<open>Create\<close> for the same operation cannot bring it back.
\<close>

theorem terminate_is_final:
  assumes cli: "cli_contract p" and ok: "execution_ok (pvw_db w)"
    and known: "k = (ref_IsolationDomainID ref, ref_ID ref)" "\<exists>i \<in> set (xdb_instances (pvw_db w)). execution_key (ins_record i) = k"
    and stopped: "provider_Terminate (on_postgres p) ref w = (Inr (), w')"
    and later: "w'' = fold (provider_do (on_postgres p)) calls w'"
    and row: "i \<in> set (xdb_instances (pvw_db w''))" "execution_key (ins_record i) = k"
  shows "exe_State (exr_Execution (ins_record i)) = ''terminated'' \<and> ins_terminated_at i \<noteq> None"
proof -
  from known have "k \<in> fst ` recorded_executions (pvw_db w)" by (force simp: recorded_executions_def)
  with stopped known(1) have k: "k \<in> terminated_in (pvw_db w')" by (auto intro: terminate_terminated)
  note runner = runner_contract [OF cli]
  note first = sandbox_runner.terminate_keeps [OF runner [of "{}"], of w ref, unfolded stopped sandbox_runner.keeps_def [OF runner [of "{}"]]]
  note rest = sandbox_runner.calls_keep [OF runner [of "{k}"], of w' calls, folded later, unfolded sandbox_runner.keeps_def [OF runner [of "{k}"]]]
  from first ok have "execution_ok (pvw_db w')" by simp
  with rest k have ok'': "execution_ok (pvw_db w'')" and "k \<in> terminated_in (pvw_db w'')" by simp_all
  then obtain j where j: "j \<in> set (xdb_instances (pvw_db w''))" "execution_key (ins_record j) = k"
    "exe_State (exr_Execution (ins_record j)) = ''terminated''" by (auto simp: terminated_in_def)
  have "unique_by (execution_key \<circ> ins_record) (xdb_instances (pvw_db w''))" using ok'' by (simp add: execution_ok_def instances_ok_def)
  then have "j = i" by (rule unique_by_eq) (use j row in simp_all)
  with j(3) row(1) ok'' show ?thesis by (auto simp: execution_ok_def instances_ok_def)
qed

section \<open>One sandbox\<close>

definition demo_create :: CreateRequest where
  "demo_create = \<lparr>crq_Placement = demo_placement, crq_IsolationDomainID = zero_id ''iso'', crq_OperationID = zero_id ''op'',
     crq_Image = ''img@'' @ zero_digest, crq_Policy = ''policy'',
     crq_PolicyDigest = zero_digest, crq_ProviderProfiles = Some []\<rparr>"

definition demo_provider :: "provider_world Provider" where
  "demo_provider = \<lparr>osp_run = cli_run, osp_binary = ''openshell'', osp_expected = credentialEvidenceOpenShellVersion, osp_workspace = Some policy_files, osp_now = \<lambda>_. 0,
     osp_store = durable_store zero_sha256, osp_profiles = None, osp_sha256 = zero_sha256,
     osp_sandboxes = \<lambda>_. Inr [], osp_settings = \<lambda>_. Inl (errors_New []), osp_ToLower = \<lambda>s. s\<rparr>"

definition answered :: cli_turn where
  "answered = \<lparr>clt_vanished = [], clt_applied = True, clt_result = \<lparr>cmd_Stdout = [], cmd_ExitCode = 0, cmd_FailureClass = [], cmd_FailureHint = []\<rparr>, clt_error = None\<rparr>"

definition demo_world :: provider_world where
  "demo_world = \<lparr>pvw_db = demo_reserved_db, pvw_turns = [], pvw_sandboxes = [], pvw_runs = [answered, answered, answered],
     pvw_paths = [Inr ''/policy''], pvw_cleanups = []\<rparr>"

definition demo_execution :: ExecutionRecord where
  "demo_execution = \<lparr>exr_Execution = \<lparr>exe_IsolationDomainID = zero_id ''iso'', exe_ID = zero_id ''exe'',
     exe_GatewayID = zero_id ''gtw'', exe_State = ''provisioning''\<rparr>, exr_PlacementID = zero_id ''plc'',
     exr_OperationID = zero_id ''op'', exr_SandboxName = sandboxName zero_sha256 (zero_id ''iso'') (zero_id ''op'')\<rparr>"

definition demo_running_db :: execution_db where
  "demo_running_db = demo_gateways\<lparr>xdb_placements := [demo_placement_row\<lparr>pmt_state := ''active''\<rparr>],
     xdb_instances := [\<lparr>ins_record = demo_execution, ins_created_at = 0, ins_updated_at = 0, ins_terminated_at = None\<rparr>]\<rparr>"

lemma demo_faults: "with_faults demo_provider = demo_provider"
  by (simp add: with_faults_def demo_provider_def)

lemma demo_contract: "cli_contract demo_provider"
  by (rule cli_run_contract) (simp_all add: demo_provider_def)

lemma demo_reserved_ok: "execution_ok demo_reserved_db"
proof -
  have "execution_ok demo_gateways" using pg_calls_ok [OF empty_execution_ok] demo_registered by metis
  from pg_call_ok [OF this, of zero_sha256 0 "[]" "ReserveCall demo_request"] show ?thesis by (simp add: demo_reserve)
qed

lemma demo_sandbox_name: "sandboxName zero_sha256 i p = ''dg-'' @ replicate 24 (CHR ''0'')"
  by (simp add: sandboxName_def shortDigest_def zero_sha256_def hex_EncodeToString_def) code_simp

lemma demo_reads:
  "pg_GetPlacement demo_reserved_db (zero_id ''iso'') (zero_id ''plc'') = Inr demo_placement"
  "pg_GetGateway demo_reserved_db (zero_id ''iso'') (zero_id ''gtw'') = Inr (gwy_record (demo_gateway_row ''gw''))"
  by (simp_all add: pg_GetPlacement_def pg_GetGateway_def demo_reserved_db_def demo_placement_row_def placement_key_def
      demo_placement_def demo_gateways_def gateway_key_def demo_gateway_row_def)

lemma zero_nonempty [simp]: "zero_id kind \<noteq> []"
  by (simp add: zero_id_def)

lemma demo_save: "pg_SaveExecution 0 demo_execution demo_reserved_db = (None, demo_running_db)"
proof -
  let ?n = "''dg-'' @ replicate 24 (CHR ''0'')"
  have "pg_text ?n" by (rule ascii_pg_text) (simp add: byte_def list_all_iff)
  moreover have "utf8_RuneCountInString ?n \<le> 128"
    by (subst utf8_RuneCountInString_def, subst ascii_segments) (simp_all add: byte_def list_all_iff)
  ultimately have "instance_columns_ok demo_execution"
    by (simp add: instance_columns_ok_def demo_execution_def demo_sandbox_name)
  moreover have "\<not> execution_incomplete demo_execution"
    by (simp add: execution_incomplete_def demo_execution_def demo_sandbox_name valid_execution_state_def)
  moreover have "getExecution demo_reserved_db \<lparr>ref_IsolationDomainID = zero_id ''iso'', ref_ID = zero_id ''exe''\<rparr> = Inr None"
    by (simp add: getExecution_def demo_reserved_db_def demo_gateways_def sql_select_def)
  ultimately show ?thesis
    by (simp add: pg_SaveExecution_def Let_def demo_execution_def demo_reserved_db_def demo_gateways_def demo_running_db_def
        demo_placement_row_def placement_key_def demo_placement_def live_state_def sql_update_def set_placement_state_def)
qed

lemma demo_update:
  "pg_UpdateExecutionState 0 \<lparr>ref_IsolationDomainID = zero_id ''iso'', ref_ID = zero_id ''exe''\<rparr> ''provisioning'' demo_running_db =
   (None, demo_running_db)"
  by (simp add: pg_UpdateExecutionState_def Let_def valid_execution_state_def demo_running_db_def demo_execution_def execution_key_def
      sql_update_def set_execution_state_def)

lemma demo_image: "isDigestPinned (crq_Image demo_create)"
  unfolding demo_create_def zero_digest_def by simp code_simp

lemma demo_policy: "VerifyEnforcementPolicy zero_sha256 ''policy'' zero_digest = None"
proof -
  have "''sha256:'' @ hex_EncodeToString (replicate 32 (CHR 0x00)) = zero_digest"
    by (simp add: zero_digest_def hex_EncodeToString_def) code_simp
  then show ?thesis by (simp add: VerifyEnforcementPolicy_def zero_sha256_def maximumEnforcementPolicyBytes_def)
qed

lemma db_do_plain: "pvw_turns w = [] \<Longrightarrow> db_do sha256 failed call w = apsnd (\<lambda>d. w\<lparr>pvw_db := d\<rparr>) (call 0 [] (pvw_db w))"
  by (simp add: db_do_def)

lemma demo_created:
  "create (on_postgres demo_provider) demo_create False demo_world =
   (Inr (exr_Execution demo_execution), demo_world\<lparr>pvw_db := demo_running_db,
      pvw_sandboxes := [(''gw'', ''dg-'' @ replicate 24 (CHR ''0''))], pvw_runs := [answered], pvw_paths := []\<rparr>)"
proof -
  let ?p = "on_postgres demo_provider"
  let ?d = "zero_id ''iso''"
  have sha: "osp_sha256 ?p = zero_sha256" and store: "osp_store ?p = durable_store zero_sha256" and ws: "osp_workspace ?p = Some policy_files"
    and run: "osp_run ?p = cli_run" and profiles: "osp_profiles ?p = None" and decode: "osp_sandboxes ?p = (\<lambda>_. Inr [])"
    by (simp_all add: on_postgres_def demo_provider_def)
  have placement: "validatePlacement ?p demo_create demo_world = (Inr (), demo_world)"
    by (simp add: validatePlacement_def sha store demo_create_def zero_derived Let_def durable_store_def db_do_plain demo_world_def demo_reads)
      (simp add: demo_placement_def)
  have gateway: "executionContext ?p ?d (zero_id ''gtw'') demo_world = (Inr (gwy_record (demo_gateway_row ''gw'')), demo_world)"
    by (simp add: executionContext_def and_then_def returns_def store durable_store_def db_do_plain demo_world_def demo_reads)
      (simp add: demo_gateway_row_def gateway_states)
  let ?w1 = "demo_world\<lparr>pvw_runs := [answered, answered]\<rparr>"
  let ?w2 = "?w1\<lparr>pvw_paths := []\<rparr>"
  let ?w3 = "?w2\<lparr>pvw_db := demo_running_db\<rparr>"
  have observed: "observeByName ?p ''gw'' s f x demo_world = (Inr None, ?w1)" for s f x
    by (simp add: observeByName_def run decode cli_run_def demo_world_def answered_def run_failed_def cli_effect_def list_args_def gatewayArgs_def)
  have remembered: "rememberExecution ?p (exr_Execution demo_execution) (zero_id ''plc'') (zero_id ''op'') (exr_SandboxName demo_execution) ?w2 = (Inr (), ?w3)"
  proof -
    have "\<lparr>exr_Execution = exr_Execution demo_execution, exr_PlacementID = zero_id ''plc'', exr_OperationID = zero_id ''op'',
        exr_SandboxName = exr_SandboxName demo_execution\<rparr> = demo_execution" by (simp add: demo_execution_def)
    moreover have "exe_IsolationDomainID (exr_Execution demo_execution) = ?d" "exe_ID (exr_Execution demo_execution) = zero_id ''exe''"
      "exe_State (exr_Execution demo_execution) = ''provisioning''" by (simp_all add: demo_execution_def)
    moreover have "pvw_turns demo_world = []" "pvw_db demo_world = demo_reserved_db" by (simp_all add: demo_world_def)
    ultimately show ?thesis
      by (simp add: rememberExecution_def and_then_def checked_def store durable_store_def db_do_plain demo_save demo_update)
  qed
  have ran: "cli_run b (create_args ?p demo_create None ''gw'' path) ?w3 = ((clt_result answered, None),
      ?w3\<lparr>pvw_sandboxes := [(''gw'', exr_SandboxName demo_execution)], pvw_runs := [answered]\<rparr>)" for b path
    by (simp add: cli_run_def demo_world_def Let_def cli_effect_def create_args_def gatewayArgs_def answered_def sha)
      (simp add: demo_create_def demo_execution_def)
  have created: "requested ?p demo_create (gtw_ID (gwr_Gateway (gwy_record (demo_gateway_row ''gw'')))) ''provisioning'' = exr_Execution demo_execution"
    by (simp add: requested_def sha demo_create_def demo_execution_def zero_derived demo_gateway_row_def)
  have name: "sandboxName zero_sha256 ?d (zero_id ''op'') = exr_SandboxName demo_execution" by (simp add: demo_execution_def)
  have request: "crq_Placement demo_create = demo_placement" "crq_IsolationDomainID demo_create = ?d" "crq_OperationID demo_create = zero_id ''op''"
    "crq_Policy demo_create = ''policy''" "crq_PolicyDigest demo_create = zero_digest" "crq_ProviderProfiles demo_create = Some []"
    by (simp_all add: demo_create_def)
  have placed: "plc_ID demo_placement = zero_id ''plc''" "plc_GatewayID demo_placement = zero_id ''gtw''" by (simp_all add: demo_placement_def)
  have resolved: "Resolve None (Some []) = Inr None" by (simp add: Resolve_def)
  have endpoint: "gwr_Endpoint (gwy_record (demo_gateway_row ''gw'')) = ''gw''" by (simp add: demo_gateway_row_def)
  have written: "pws_materialize policy_files c ?w1 = (Inr ''/policy'', ?w2)" for c by (simp add: policy_files_def demo_world_def)
  have cleaned: "pvw_cleanups demo_world = []" "\<And>c w. pvw_cleanups w = [] \<Longrightarrow> pws_cleanup policy_files c w = (None, w)"
    by (simp_all add: policy_files_def demo_world_def)
  have exit: "\<not> run_failed (clt_result answered, None)" by (simp add: run_failed_def answered_def)
  show ?thesis
    unfolding create_def create_new_def Let_def observe_requested_def remember_requested_def request placed sha
    by (simp add: demo_image placement demo_policy and_then_def profiles resolved gateway endpoint observed ws written deferring_def
        created name remembered create_run_def remember_requested_def request placed sha run ran cleaned exit del: append.simps)
      (simp add: demo_execution_def demo_sandbox_name)
qed

theorem sandboxes_are_recorded_witness:
  "let w = fold (provider_do (on_postgres demo_provider)) [CreateCall demo_create] demo_world in
   (''gw'', ''dg-'' @ replicate 24 (CHR ''0'')) \<in> set (pvw_sandboxes w) \<and>
   (\<exists>g q i. g \<in> set (xdb_gateways (pvw_db w)) \<and> q \<in> set (xdb_placements (pvw_db w)) \<and> i \<in> set (xdb_instances (pvw_db w)) \<and>
     gwr_Endpoint (gwy_record g) = ''gw'' \<and> exr_SandboxName (ins_record i) = ''dg-'' @ replicate 24 (CHR ''0'') \<and> placed_on q g \<and> runs_in i q)"
proof -
  have ok: "execution_ok (pvw_db demo_world)" and none: "pvw_sandboxes demo_world = []"
    by (simp_all add: demo_world_def demo_reserved_ok)
  let ?w = "fold (provider_do (on_postgres demo_provider)) [CreateCall demo_create] demo_world"
  have there: "(''gw'', ''dg-'' @ replicate 24 (CHR ''0'')) \<in> set (pvw_sandboxes ?w)" by (simp add: provider_Create_def demo_created)
  from sandboxes_are_recorded [OF demo_contract ok none refl there] there show ?thesis unfolding Let_def by blast
qed

definition demo_ref :: ExecutionRef where
  "demo_ref = \<lparr>ref_IsolationDomainID = zero_id ''iso'', ref_ID = zero_id ''exe''\<rparr>"

lemma demo_terminated:
  "fst (provider_Terminate (on_postgres demo_provider) demo_ref (snd (create (on_postgres demo_provider) demo_create False demo_world))) = Inr ()"
proof -
  let ?p = "on_postgres demo_provider"
  define w where "w = snd (create ?p demo_create False demo_world)"
  have w: "pvw_db w = demo_running_db" "pvw_turns w = []" "pvw_runs w = [answered]"
    by (simp_all add: w_def demo_created) (simp add: demo_world_def)
  have store: "osp_store ?p = durable_store zero_sha256" and run: "osp_run ?p = cli_run" by (simp_all add: on_postgres_def demo_provider_def)
  have "pg_GetExecution demo_running_db demo_ref = Inr demo_execution"
    by (simp add: pg_GetExecution_def getExecution_def demo_ref_def demo_running_db_def execution_key_def demo_execution_def)
  then have get: "GetExecution (osp_store ?p) demo_ref w = (Inr demo_execution, w)"
    by (simp add: store durable_store_def db_do_plain w)
  have "pg_GetGateway demo_running_db (zero_id ''iso'') (zero_id ''gtw'') = Inr (gwy_record (demo_gateway_row ''gw''))"
    by (simp add: pg_GetGateway_def demo_running_db_def demo_gateways_def gateway_key_def demo_gateway_row_def)
  then have gateway: "executionContext ?p (ref_IsolationDomainID demo_ref) (exe_GatewayID (exr_Execution demo_execution)) w =
      (Inr (gwy_record (demo_gateway_row ''gw'')), w)"
    by (simp add: executionContext_def and_then_def returns_def store durable_store_def db_do_plain w demo_ref_def demo_execution_def)
      (simp add: demo_gateway_row_def gateway_states)
  obtain v where v: "cli_run b args w = ((clt_result answered, None), v b args)" "pvw_db (v b args) = demo_running_db" "pvw_turns (v b args) = []"
    for b args using w by (simp add: cli_run_def Let_def answered_def)
  obtain d' where d': "pg_UpdateExecutionState 0 demo_ref ''terminated'' demo_running_db = (None, d')"
    by (simp add: pg_UpdateExecutionState_def Let_def valid_execution_state_def demo_running_db_def demo_execution_def execution_key_def
        demo_ref_def)
  have "UpdateExecutionState (osp_store ?p) demo_ref ''terminated'' (v b args) = (None, (v b args)\<lparr>pvw_db := d'\<rparr>)" for b args
    by (simp add: store durable_store_def db_do_plain v d')
  moreover have "\<not> run_failed (clt_result answered, None)" "exe_State (exr_Execution demo_execution) \<noteq> ''terminated''"
    by (simp_all add: run_failed_def answered_def demo_execution_def)
  ultimately show ?thesis unfolding w_def [symmetric] by (simp add: provider_Terminate_def and_then_def get gateway run v checked_def)
qed

theorem terminate_is_final_witness:
  "let w = snd (create (on_postgres demo_provider) demo_create False demo_world);
       w' = snd (provider_Terminate (on_postgres demo_provider) demo_ref w);
       w'' = fold (provider_do (on_postgres demo_provider)) [CreateCall demo_create] w'
   in fst (provider_Terminate (on_postgres demo_provider) demo_ref w) = Inr () \<and>
      (\<forall>i \<in> set (xdb_instances (pvw_db w'')). execution_key (ins_record i) = (zero_id ''iso'', zero_id ''exe'') \<longrightarrow>
         exe_State (exr_Execution (ins_record i)) = ''terminated'' \<and> ins_terminated_at i \<noteq> None)"
proof -
  let ?w = "snd (create (on_postgres demo_provider) demo_create False demo_world)"
  have "execution_ok (pvw_db demo_world)" by (simp add: demo_world_def demo_reserved_ok)
  with cli.create_keeps [where K = "{}" and w = demo_world and request = demo_create and localDiagnostic = False and p = demo_provider,
      unfolded cli.keeps_def demo_faults] have ok: "execution_ok (pvw_db ?w)" by simp
  have key: "(zero_id ''iso'', zero_id ''exe'') = (ref_IsolationDomainID demo_ref, ref_ID demo_ref)" by (simp add: demo_ref_def)
  have known: "\<exists>i \<in> set (xdb_instances (pvw_db ?w)). execution_key (ins_record i) = (zero_id ''iso'', zero_id ''exe'')"
    by (simp add: demo_created demo_running_db_def execution_key_def demo_execution_def)
  have stopped: "provider_Terminate (on_postgres demo_provider) demo_ref ?w =
      (Inr (), snd (provider_Terminate (on_postgres demo_provider) demo_ref ?w))"
    by (rule prod_eqI) (simp_all add: demo_terminated)
  from terminate_is_final [OF demo_contract ok key known stopped refl] demo_terminated show ?thesis unfolding Let_def by blast
qed

end
