(* ===== verification/Admission.thy ===== *)
theory Admission
  imports Provider_Postgres
begin

text \<open>
  Admission of an execution, \<open>src/internal/execution/admission.go\<close> with the credential scope of
  \<open>provider_credentials.go\<close>: the plan of the revision, the authorisation of its provider profiles, the policy
  of its enforcement bundle and a placement are resolved before the provider creates anything. The plan store,
  the bundle source, the provider and the authoriser are arguments over a world that their calls change.
\<close>

section \<open>Admission\<close>

record AdmissionRequest =
  arq_IsolationDomainID :: string
  arq_RevisionID :: string
  arq_OperationID :: string
  arq_ActorID :: string
  arq_CorrelationID :: string

record ProviderCredentialUse =
  pcu_IsolationDomainID :: string
  pcu_RevisionID :: string
  pcu_OperationID :: string
  pcu_ProviderProfile :: string
  pcu_Purpose :: string
  pcu_Phase :: string
  pcu_ActorID :: string
  pcu_CorrelationID :: string

type_synonym 'w plan_source = "string \<Rightarrow> string \<Rightarrow> 'w \<Rightarrow> ExecutionPlan result \<times> 'w"
type_synonym 'w bundle_source = "string \<Rightarrow> string \<Rightarrow> 'w \<Rightarrow> EnforcementBundle result \<times> 'w"
type_synonym 'w credential_authorizer = "ProviderCredentialUse \<Rightarrow> 'w \<Rightarrow> go_error option \<times> 'w"

record 'w admissionProvider =
  adp_SelectGateway :: "PlacementRequest \<Rightarrow> 'w \<Rightarrow> Placement result \<times> 'w"
  adp_Create :: "CreateRequest \<Rightarrow> 'w \<Rightarrow> Execution result \<times> 'w"

record 'w Admission =
  adm_workspacePlanDigest :: string
  adm_plans :: "'w plan_source"
  adm_bundles :: "'w bundle_source"
  adm_provider :: "'w admissionProvider"
  adm_credentials :: "'w credential_authorizer option"

definition ProviderCredentialPurposeAgentInference :: string where
  "ProviderCredentialPurposeAgentInference = ''agent-inference''"

definition ProviderCredentialPhaseAdmission :: string where
  "ProviderCredentialPhaseAdmission = ''admission''"

definition ProviderCredentialPhaseEffect :: string where
  "ProviderCredentialPhaseEffect = ''effect''"

definition NewAdmission ::
  "'w plan_source option \<Rightarrow> 'w bundle_source option \<Rightarrow> 'w admissionProvider option \<Rightarrow> 'w Admission result" where
  "NewAdmission plans bundles provider =
     (case (plans, bundles, provider) of
        (Some ps, Some bs, Some p) \<Rightarrow>
          Inr \<lparr>adm_workspacePlanDigest = [], adm_plans = ps, adm_bundles = bs, adm_provider = p, adm_credentials = None\<rparr>
      | _ \<Rightarrow> Inl (errors_New ''execution admission dependencies are required''))"

definition NewCredentialMediatedAdmission ::
  "'w plan_source option \<Rightarrow> 'w bundle_source option \<Rightarrow> 'w admissionProvider option \<Rightarrow> 'w credential_authorizer option \<Rightarrow>
   'w Admission result" where
  "NewCredentialMediatedAdmission plans bundles provider credentials =
     (if credentials = None then Inl (errors_New ''provider credential authorizer is required'')
      else case NewAdmission plans bundles provider of
             Inl err \<Rightarrow> Inl err
           | Inr admission \<Rightarrow> Inr (admission\<lparr>adm_credentials := credentials\<rparr>))"

definition NewWorkspaceCredentialMediatedAdmission ::
  "(string \<Rightarrow> string) \<Rightarrow> 'w plan_source option \<Rightarrow> 'w bundle_source option \<Rightarrow> 'w admissionProvider option \<Rightarrow>
   'w credential_authorizer option \<Rightarrow> ExecutionPlan \<Rightarrow> 'w Admission result" where
  "NewWorkspaceCredentialMediatedAdmission sha256 plans bundles provider credentials expected =
     (case NormalizeExecutionPlan expected of
        Inl _ \<Rightarrow> Inl (Sentinel ErrWorkspaceSourceProvisioningUnavailable)
      | Inr normalized \<Rightarrow>
          if pln_SchemaVersion normalized \<noteq> ExecutionPlanSchemaV2 \<or> pln_WorkspaceSource normalized = None
          then Inl (Sentinel ErrWorkspaceSourceProvisioningUnavailable)
          else (case DigestExecutionPlan sha256 normalized of
                  Inl _ \<Rightarrow> Inl (Sentinel ErrWorkspaceSourceProvisioningUnavailable)
                | Inr digest \<Rightarrow>
                    (case NewCredentialMediatedAdmission plans bundles provider credentials of
                       Inl err \<Rightarrow> Inl err
                     | Inr admission \<Rightarrow> Inr (admission\<lparr>adm_workspacePlanDigest := digest\<rparr>))))"

text \<open>\<open>^op_[0-9a-z]{20,32}$\<close>\<close>

definition operationPattern :: "string \<Rightarrow> bool" where
  "operationPattern = match_prefixed ''op_'' (\<lambda>c. is_digit c \<or> is_lower c) 20 32"

definition credential_use :: "AdmissionRequest \<Rightarrow> string \<Rightarrow> string \<Rightarrow> ProviderCredentialUse" where
  "credential_use request phase profile =
     \<lparr>pcu_IsolationDomainID = arq_IsolationDomainID request, pcu_RevisionID = arq_RevisionID request,
      pcu_OperationID = arq_OperationID request, pcu_ProviderProfile = profile,
      pcu_Purpose = ProviderCredentialPurposeAgentInference, pcu_Phase = phase,
      pcu_ActorID = arq_ActorID request, pcu_CorrelationID = arq_CorrelationID request\<rparr>"

fun authorize_each :: "'w credential_authorizer \<Rightarrow> (string \<Rightarrow> ProviderCredentialUse) \<Rightarrow> string list \<Rightarrow> 'w \<Rightarrow> unit result \<times> 'w" where
  "authorize_each authorize use [] w = (Inr (), w)"
| "authorize_each authorize use (profile # profiles) w =
     (case authorize (use profile) w of
        (Some err, w) \<Rightarrow> (Inl err, w)
      | (None, w) \<Rightarrow> authorize_each authorize use profiles w)"

definition authorizeProviderProfiles ::
  "'w Admission \<Rightarrow> AdmissionRequest \<Rightarrow> ExecutionPlan \<Rightarrow> string \<Rightarrow> 'w \<Rightarrow> unit result \<times> 'w" where
  "authorizeProviderProfiles admission request plan phase =
     (case adm_credentials admission of
        None \<Rightarrow> returns (Inr ())
      | Some authorize \<Rightarrow> authorize_each authorize (credential_use request phase) (elements (pln_ProviderProfiles plan)))"

definition workspace_refused :: "(string \<Rightarrow> string) \<Rightarrow> 'w Admission \<Rightarrow> ExecutionPlan \<Rightarrow> bool" where
  "workspace_refused sha256 admission plan =
     (if adm_workspacePlanDigest admission \<noteq> []
      then pln_WorkspaceSource plan = None \<or> DigestExecutionPlan sha256 plan \<noteq> Inr (adm_workspacePlanDigest admission)
      else pln_WorkspaceSource plan \<noteq> None)"

text \<open>From the verified bundle to the provider, from the plan in scope to the bundle, and the whole call.\<close>

definition admit_placed ::
  "'w Admission \<Rightarrow> AdmissionRequest \<Rightarrow> ExecutionPlan \<Rightarrow> EnforcementBundle \<Rightarrow> 'w \<Rightarrow> Execution result \<times> 'w" where
  "admit_placed admission request plan bundle0 =
     and_then (adp_SelectGateway (adm_provider admission)
       \<lparr>plq_IsolationDomainID = arq_IsolationDomainID request, plq_OperationID = arq_OperationID request,
        plq_RequiredCapabilities = elements (pln_RequiredCapabilities plan)\<rparr>) (\<lambda>placement.
       and_then (authorizeProviderProfiles admission request plan ProviderCredentialPhaseEffect) (\<lambda>_.
         adp_Create (adm_provider admission)
           \<lparr>crq_Placement = placement, crq_IsolationDomainID = arq_IsolationDomainID request,
            crq_OperationID = arq_OperationID request, crq_Image = pln_ImageReference plan,
            crq_Policy = enb_Content bundle0, crq_PolicyDigest = enb_Digest bundle0,
            crq_ProviderProfiles = pln_ProviderProfiles plan\<rparr>))"

definition admit_planned ::
  "(string \<Rightarrow> string) \<Rightarrow> 'w Admission \<Rightarrow> AdmissionRequest \<Rightarrow> ExecutionPlan \<Rightarrow> 'w \<Rightarrow> Execution result \<times> 'w" where
  "admit_planned sha256 admission request plan =
     and_then (authorizeProviderProfiles admission request plan ProviderCredentialPhaseAdmission) (\<lambda>_.
       and_then (adm_bundles admission (arq_IsolationDomainID request) (pln_EnforcementBundleID plan)) (\<lambda>bundle0.
         if enb_IsolationDomainID bundle0 \<noteq> arq_IsolationDomainID request \<or> enb_ID bundle0 \<noteq> pln_EnforcementBundleID plan \<or>
            enb_RevisionID bundle0 \<noteq> arq_RevisionID request \<or> enb_Digest bundle0 \<noteq> pln_EnforcementBundleDigest plan
         then returns (Inl (Sentinel ErrEnforcementBundleMismatch))
         else if VerifyEnforcementPolicy sha256 (enb_Content bundle0) (enb_Digest bundle0) \<noteq> None
         then returns (Inl (Sentinel ErrEnforcementBundleMismatch))
         else admit_placed admission request plan bundle0))"

definition Admit :: "(string \<Rightarrow> string) \<Rightarrow> 'w Admission \<Rightarrow> AdmissionRequest \<Rightarrow> 'w \<Rightarrow> Execution result \<times> 'w" where
  "Admit sha256 admission request =
     (if \<not> operationPattern (arq_OperationID request)
      then returns (Inl (errors_New ''execution admission operation is invalid''))
      else if adm_credentials admission \<noteq> None \<and> (arq_ActorID request = [] \<or> arq_CorrelationID request = [])
      then returns (Inl (Sentinel ErrProviderCredentialUseDenied))
      else and_then (adm_plans admission (arq_IsolationDomainID request) (arq_RevisionID request)) (\<lambda>stored.
        case NormalizeExecutionPlan stored of
          Inl _ \<Rightarrow> returns (Inl (Sentinel ErrExecutionPlanRevisionMismatch))
        | Inr plan \<Rightarrow>
            if pln_IsolationDomainID plan \<noteq> arq_IsolationDomainID request \<or> pln_RevisionID plan \<noteq> arq_RevisionID request
            then returns (Inl (Sentinel ErrExecutionPlanRevisionMismatch))
            else if workspace_refused sha256 admission plan
            then returns (Inl (Sentinel ErrWorkspaceSourceProvisioningUnavailable))
            else admit_planned sha256 admission request plan))"

section \<open>The calls that an admission makes\<close>

datatype admission_event =
    PlanRead string string "ExecutionPlan result"
  | Asked ProviderCredentialUse "go_error option"
  | BundleRead string string "EnforcementBundle result"
  | Selected PlacementRequest "Placement result"
  | Created CreateRequest "Execution result"

definition noting :: "('r \<Rightarrow> admission_event) \<Rightarrow> ('w \<Rightarrow> 'r \<times> 'w) \<Rightarrow> 'w \<times> admission_event list \<Rightarrow> 'r \<times> 'w \<times> admission_event list" where
  "noting event call s = (case call (fst s) of (r, w) \<Rightarrow> (r, w, snd s @ [event r]))"

text \<open>The same admission, over services that write down each call and its answer.\<close>

definition traced :: "'w Admission \<Rightarrow> ('w \<times> admission_event list) Admission" where
  "traced a =
     \<lparr>adm_workspacePlanDigest = adm_workspacePlanDigest a,
      adm_plans = \<lambda>i r. noting (PlanRead i r) (adm_plans a i r),
      adm_bundles = \<lambda>i b. noting (BundleRead i b) (adm_bundles a i b),
      adm_provider = \<lparr>adp_SelectGateway = \<lambda>q. noting (Selected q) (adp_SelectGateway (adm_provider a) q),
                      adp_Create = \<lambda>q. noting (Created q) (adp_Create (adm_provider a) q)\<rparr>,
      adm_credentials = map_option (\<lambda>authorize use. noting (Asked use) (authorize use)) (adm_credentials a)\<rparr>"

text \<open>The authorisations of one phase, all granted.\<close>

definition granted :: "'w Admission \<Rightarrow> AdmissionRequest \<Rightarrow> ExecutionPlan \<Rightarrow> string \<Rightarrow> admission_event list" where
  "granted a request plan phase =
     (if adm_credentials a = None then []
      else map (\<lambda>profile. Asked (credential_use request phase profile) None) (elements (pln_ProviderProfiles plan)))"

lemma noting_pair: "noting event call (w, es) = (case call w of (r, w) \<Rightarrow> (r, w, es @ [event r]))"
  by (simp add: noting_def)

lemma authorize_each_noted:
  assumes "authorize_each (\<lambda>use. noting (Asked use) (authorize use)) use profiles (w, es) = (r, w', es')"
  shows "\<exists>evs. es' = es @ evs \<and> (\<forall>q x. Created q x \<notin> set evs) \<and> (r = Inr () \<longrightarrow> evs = map (\<lambda>profile. Asked (use profile) None) profiles)"
  using assms
proof (induction profiles arbitrary: w es)
  case (Cons profile profiles)
  obtain e v where call: "authorize (use profile) w = (e, v)" by fastforce
  show ?case
  proof (cases e)
    case None
    with Cons.prems call have "authorize_each (\<lambda>use. noting (Asked use) (authorize use)) use profiles (v, es @ [Asked (use profile) None]) = (r, w', es')"
      by (simp add: noting_pair)
    from Cons.IH [OF this] show ?thesis by auto
  next
    case (Some err)
    with Cons.prems call show ?thesis by (auto simp: noting_pair)
  qed
qed simp

lemma authorize_noted:
  assumes "authorizeProviderProfiles (traced a) request plan phase (w, es) = (r, w', es')"
  shows "\<exists>evs. es' = es @ evs \<and> (\<forall>q x. Created q x \<notin> set evs) \<and> (r = Inr () \<longrightarrow> evs = granted a request plan phase)"
  using assms
  by (cases "adm_credentials a") (auto simp: authorizeProviderProfiles_def traced_def granted_def returns_def dest: authorize_each_noted)

lemma admit_placed_noted:
  assumes run: "admit_placed (traced a) request plan bundle0 (w, es) = (result, w', trace)" and created: "Created q r \<in> set trace"
    and "\<forall>q x. Created q x \<notin> set es"
  shows "\<exists>placement. result = r \<and>
    q = \<lparr>crq_Placement = placement, crq_IsolationDomainID = arq_IsolationDomainID request, crq_OperationID = arq_OperationID request,
         crq_Image = pln_ImageReference plan, crq_Policy = enb_Content bundle0, crq_PolicyDigest = enb_Digest bundle0,
         crq_ProviderProfiles = pln_ProviderProfiles plan\<rparr> \<and>
    trace = es @ [Selected \<lparr>plq_IsolationDomainID = arq_IsolationDomainID request, plq_OperationID = arq_OperationID request,
         plq_RequiredCapabilities = elements (pln_RequiredCapabilities plan)\<rparr> (Inr placement)] @
      granted a request plan ProviderCredentialPhaseEffect @ [Created q r]"
  using run unfolding admit_placed_def
proof (cases rule: and_then_elim)
  case (stopped err)
  then show ?thesis using created assms(3) by (auto simp: traced_def noting_pair split: prod.splits)
next
  case (passed placement t)
  let ?es = "es @ [Selected \<lparr>plq_IsolationDomainID = arq_IsolationDomainID request, plq_OperationID = arq_OperationID request,
         plq_RequiredCapabilities = elements (pln_RequiredCapabilities plan)\<rparr> (Inr placement)]"
  from passed(1) obtain v where t: "t = (v, ?es)" by (auto simp: traced_def noting_pair split: prod.splits)
  from passed(2) show ?thesis
  proof (cases rule: and_then_elim)
    case (stopped err)
    then show ?thesis using authorize_noted [of a request plan _ v ?es] created assms(3) unfolding t by fastforce
  next
    case inner: (passed u t')
    obtain v' es' where t': "t' = (v', es')" by fastforce
    have es': "es' = ?es @ granted a request plan ProviderCredentialPhaseEffect" "\<forall>q x. Created q x \<notin> set es'"
      using authorize_noted [OF inner(1) [unfolded t t']] assms(3) by auto
    from inner(2) have "trace = es' @ [Created \<lparr>crq_Placement = placement, crq_IsolationDomainID = arq_IsolationDomainID request,
         crq_OperationID = arq_OperationID request, crq_Image = pln_ImageReference plan, crq_Policy = enb_Content bundle0,
         crq_PolicyDigest = enb_Digest bundle0, crq_ProviderProfiles = pln_ProviderProfiles plan\<rparr> result]"
      unfolding t' by (auto simp: traced_def noting_pair split: prod.splits)
    with created es' show ?thesis by (intro exI [of _ placement]) auto
  qed
qed

lemma admit_planned_noted:
  assumes run: "admit_planned sha256 (traced a) request plan (w, es) = (result, w', trace)" and created: "Created q r \<in> set trace"
    and "\<forall>q x. Created q x \<notin> set es"
  shows "\<exists>bundle0 w1 es1. admit_placed (traced a) request plan bundle0 (w1, es1) = (result, w', trace) \<and>
    enb_RevisionID bundle0 = arq_RevisionID request \<and> enb_Digest bundle0 = pln_EnforcementBundleDigest plan \<and>
    VerifyEnforcementPolicy sha256 (enb_Content bundle0) (enb_Digest bundle0) = None \<and> (\<forall>q x. Created q x \<notin> set es1) \<and>
    es1 = es @ granted a request plan ProviderCredentialPhaseAdmission @
      [BundleRead (arq_IsolationDomainID request) (pln_EnforcementBundleID plan) (Inr bundle0)]"
  using run unfolding admit_planned_def
proof (cases rule: and_then_elim)
  case (stopped err)
  then show ?thesis using authorize_noted [of a request plan _ w es] created assms(3) by fastforce
next
  case (passed u t)
  obtain v es' where t: "t = (v, es')" by fastforce
  have es': "es' = es @ granted a request plan ProviderCredentialPhaseAdmission" "\<forall>q x. Created q x \<notin> set es'"
    using authorize_noted [OF passed(1) [unfolded t]] assms(3) by auto
  from passed(2) show ?thesis
  proof (cases rule: and_then_elim)
    case (stopped err)
    then show ?thesis using created es'(2) unfolding t by (auto simp: traced_def noting_pair split: prod.splits)
  next
    case inner: (passed bundle0 t')
    from inner(1) obtain v' where t': "t' = (v', es' @ [BundleRead (arq_IsolationDomainID request) (pln_EnforcementBundleID plan) (Inr bundle0)])"
      unfolding t by (auto simp: traced_def noting_pair split: prod.splits)
    have "(v', es' @ [BundleRead (arq_IsolationDomainID request) (pln_EnforcementBundleID plan) (Inr bundle0)]) = (w', trace) \<Longrightarrow> False"
      using created es'(2) by auto
    with inner(2) es' show ?thesis unfolding t'
      by (intro exI [of _ bundle0] exI [of _ v'] exI [of _ "es' @ [BundleRead (arq_IsolationDomainID request) (pln_EnforcementBundleID plan) (Inr bundle0)]"])
        (auto simp: returns_def split: if_splits)
  qed
qed

text \<open>
  C39. Whatever the services answer, an admission reaches \<open>Create\<close> only as its last call, and only after
  exactly these: the plan of the revision was read and is in scope, and its workspace source is the expected
  one; the credential use of every provider profile was granted for the admission; the bundle of the plan was
  read, belongs to the revision, has the digest of the plan and a policy of that digest; a placement with the
  capabilities of the plan was selected; and the use of every profile was granted again for the effect. The
  request carries the image and the profiles of the plan and the policy of the bundle.
\<close>

theorem admission_protocol:
  assumes run: "Admit sha256 (traced a) request (w, []) = (result, w', trace)" and created: "Created q r \<in> set trace"
  shows "\<exists>stored plan bundle0 placement.
    NormalizeExecutionPlan stored = Inr plan \<and> pln_IsolationDomainID plan = arq_IsolationDomainID request \<and>
    pln_RevisionID plan = arq_RevisionID request \<and> \<not> workspace_refused sha256 a plan \<and>
    enb_RevisionID bundle0 = arq_RevisionID request \<and>
    VerifyEnforcementPolicy sha256 (enb_Content bundle0) (pln_EnforcementBundleDigest plan) = None \<and>
    q = \<lparr>crq_Placement = placement, crq_IsolationDomainID = arq_IsolationDomainID request, crq_OperationID = arq_OperationID request,
         crq_Image = pln_ImageReference plan, crq_Policy = enb_Content bundle0, crq_PolicyDigest = pln_EnforcementBundleDigest plan,
         crq_ProviderProfiles = pln_ProviderProfiles plan\<rparr> \<and> result = r \<and>
    trace = [PlanRead (arq_IsolationDomainID request) (arq_RevisionID request) (Inr stored)] @
      granted a request plan ProviderCredentialPhaseAdmission @
      [BundleRead (arq_IsolationDomainID request) (pln_EnforcementBundleID plan) (Inr bundle0),
       Selected \<lparr>plq_IsolationDomainID = arq_IsolationDomainID request, plq_OperationID = arq_OperationID request,
         plq_RequiredCapabilities = elements (pln_RequiredCapabilities plan)\<rparr> (Inr placement)] @
      granted a request plan ProviderCredentialPhaseEffect @ [Created q r]"
proof -
  let ?d = "arq_IsolationDomainID request"
  have digest: "workspace_refused sha256 (traced a) = workspace_refused sha256 a"
    by (rule ext) (simp add: workspace_refused_def traced_def)
  obtain read v where plan_call: "adm_plans (traced a) ?d (arq_RevisionID request) (w, []) = (read, v, [PlanRead ?d (arq_RevisionID request) read])"
    by (cases "adm_plans a ?d (arq_RevisionID request) w") (simp add: traced_def noting_pair)
  obtain stored plan where stored: "read = Inr stored" "NormalizeExecutionPlan stored = Inr plan" "pln_IsolationDomainID plan = ?d"
      "pln_RevisionID plan = arq_RevisionID request" "\<not> workspace_refused sha256 a plan"
      "admit_planned sha256 (traced a) request plan (v, [PlanRead ?d (arq_RevisionID request) (Inr stored)]) = (result, w', trace)"
    using run created plan_call
    by (auto simp: Admit_def and_then_def returns_def digest split: if_splits sum.splits)
  from admit_planned_noted [OF stored(6) created] obtain bundle0 w1 es1
    where bundle0: "admit_placed (traced a) request plan bundle0 (w1, es1) = (result, w', trace)"
      "enb_RevisionID bundle0 = arq_RevisionID request" "enb_Digest bundle0 = pln_EnforcementBundleDigest plan"
      "VerifyEnforcementPolicy sha256 (enb_Content bundle0) (enb_Digest bundle0) = None" "\<forall>q x. Created q x \<notin> set es1"
      "es1 = [PlanRead ?d (arq_RevisionID request) (Inr stored)] @ granted a request plan ProviderCredentialPhaseAdmission @
        [BundleRead ?d (pln_EnforcementBundleID plan) (Inr bundle0)]" by auto
  from admit_placed_noted [OF bundle0(1) created bundle0(5)] obtain placement where "result = r \<and>
      q = \<lparr>crq_Placement = placement, crq_IsolationDomainID = ?d, crq_OperationID = arq_OperationID request,
         crq_Image = pln_ImageReference plan, crq_Policy = enb_Content bundle0, crq_PolicyDigest = enb_Digest bundle0,
         crq_ProviderProfiles = pln_ProviderProfiles plan\<rparr> \<and>
      trace = es1 @ [Selected \<lparr>plq_IsolationDomainID = ?d, plq_OperationID = arq_OperationID request,
         plq_RequiredCapabilities = elements (pln_RequiredCapabilities plan)\<rparr> (Inr placement)] @
        granted a request plan ProviderCredentialPhaseEffect @ [Created q r]" by blast
  with stored(2-5) bundle0(2-4,6) show ?thesis
    by - (rule exI [of _ stored], rule exI [of _ plan], rule exI [of _ bundle0], rule exI [of _ placement], simp)
qed

section \<open>One admission\<close>

definition demo_bundle0 :: EnforcementBundle where
  "demo_bundle0 = \<lparr>enb_IsolationDomainID = zero_id ''iso'', enb_ID = ''bundle-1'', enb_RevisionID = zero_id ''rev'',
     enb_Digest = zero_digest, enb_Content = ''policy''\<rparr>"

definition demo_admission :: "unit Admission" where
  "demo_admission = \<lparr>adm_workspacePlanDigest = [], adm_plans = \<lambda>_ _ w. (Inr demo_plan, w), adm_bundles = \<lambda>_ _ w. (Inr demo_bundle0, w),
     adm_provider = \<lparr>adp_SelectGateway = \<lambda>_ w. (Inr demo_placement, w), adp_Create = \<lambda>_ w. (Inr (exr_Execution demo_execution), w)\<rparr>,
     adm_credentials = None\<rparr>"

definition demo_admission_request :: AdmissionRequest where
  "demo_admission_request = \<lparr>arq_IsolationDomainID = zero_id ''iso'', arq_RevisionID = zero_id ''rev'', arq_OperationID = zero_id ''op'',
     arq_ActorID = [], arq_CorrelationID = []\<rparr>"

lemma demo_operation: "operationPattern (zero_id ''op'')"
  unfolding operationPattern_def zero_id_def by (simp add: match_prefixed_def HasPrefix_def char_class_defs byte_def list_all_iff)

lemma demo_admitted:
  "\<exists>q. Admit zero_sha256 (traced demo_admission) demo_admission_request ((), []) =
     (Inr (exr_Execution demo_execution), (),
      [PlanRead (zero_id ''iso'') (zero_id ''rev'') (Inr demo_plan), BundleRead (zero_id ''iso'') ''bundle-1'' (Inr demo_bundle0),
       Selected \<lparr>plq_IsolationDomainID = zero_id ''iso'', plq_OperationID = zero_id ''op'', plq_RequiredCapabilities = [''codex'', ''shell'']\<rparr>
         (Inr demo_placement),
       Created q (Inr (exr_Execution demo_execution))])"
  by (simp add: Admit_def admit_planned_def admit_placed_def and_then_def traced_def noting_pair authorizeProviderProfiles_def
      returns_def workspace_refused_def demo_admission_def demo_admission_request_def demo_plan_normalizes demo_operation)
    (simp add: demo_normal_plan_def demo_plan_def demo_bundle0_def demo_policy)

theorem admission_protocol_witness:
  "\<exists>stored plan bundle0 placement q. NormalizeExecutionPlan stored = Inr plan \<and> crq_Image q = pln_ImageReference plan \<and>
     crq_Policy q = enb_Content bundle0 \<and>
     VerifyEnforcementPolicy zero_sha256 (enb_Content bundle0) (pln_EnforcementBundleDigest plan) = None \<and>
     snd (snd (Admit zero_sha256 (traced demo_admission) demo_admission_request ((), []))) =
       [PlanRead (zero_id ''iso'') (zero_id ''rev'') (Inr stored), BundleRead (zero_id ''iso'') (pln_EnforcementBundleID plan) (Inr bundle0),
        Selected \<lparr>plq_IsolationDomainID = zero_id ''iso'', plq_OperationID = zero_id ''op'',
          plq_RequiredCapabilities = elements (pln_RequiredCapabilities plan)\<rparr> (Inr placement),
        Created q (Inr (exr_Execution demo_execution))]"
proof -
  from demo_admitted obtain q where run: "Admit zero_sha256 (traced demo_admission) demo_admission_request ((), []) =
     (Inr (exr_Execution demo_execution), (),
      [PlanRead (zero_id ''iso'') (zero_id ''rev'') (Inr demo_plan), BundleRead (zero_id ''iso'') ''bundle-1'' (Inr demo_bundle0),
       Selected \<lparr>plq_IsolationDomainID = zero_id ''iso'', plq_OperationID = zero_id ''op'', plq_RequiredCapabilities = [''codex'', ''shell'']\<rparr>
         (Inr demo_placement),
       Created q (Inr (exr_Execution demo_execution))])" by blast
  have none: "granted demo_admission demo_admission_request plan phase = []" for plan phase
    by (simp add: granted_def demo_admission_def)
  have request: "arq_IsolationDomainID demo_admission_request = zero_id ''iso''" "arq_RevisionID demo_admission_request = zero_id ''rev''"
    "arq_OperationID demo_admission_request = zero_id ''op''" by (simp_all add: demo_admission_request_def)
  have "Created q (Inr (exr_Execution demo_execution)) \<in>
      set (snd (snd (Admit zero_sha256 (traced demo_admission) demo_admission_request ((), []))))" by (simp add: run)
  from admission_protocol [OF run this [unfolded run snd_conv]] obtain stored plan bundle0 placement where
    "NormalizeExecutionPlan stored = Inr plan" "VerifyEnforcementPolicy zero_sha256 (enb_Content bundle0) (pln_EnforcementBundleDigest plan) = None"
    "crq_Image q = pln_ImageReference plan" "crq_Policy q = enb_Content bundle0"
    "snd (snd (Admit zero_sha256 (traced demo_admission) demo_admission_request ((), []))) =
       [PlanRead (zero_id ''iso'') (zero_id ''rev'') (Inr stored), BundleRead (zero_id ''iso'') (pln_EnforcementBundleID plan) (Inr bundle0),
        Selected \<lparr>plq_IsolationDomainID = zero_id ''iso'', plq_OperationID = zero_id ''op'',
          plq_RequiredCapabilities = elements (pln_RequiredCapabilities plan)\<rparr> (Inr placement),
        Created q (Inr (exr_Execution demo_execution))]"
    unfolding none request run by auto
  then show ?thesis by blast
qed

end
