(* ===== verification/Spec2Isabelle.thy ===== *)
theory Spec2Isabelle
  imports Prelude Go_Text Go_Time Sql Tables Lifecycle Contracts Leases Outbox Operations Commands Store
    Routing Durability Records Scenario Guarantees Isolation Obligations Delivery Reconciler Reconciler_Protocol Drivers Worker
    Go_Json Plans Plan_Store Bundles S3_Store Bundle_Durability Bundle_Retry
    Gateways Gateway_Store Gateway_Placement Store_Conformance
    Provider Runner Provider_Safety Provider_Postgres Admission
begin

text \<open>
  The control plane and the execution plane of DataGround.

  \<^bold>\<open>The program.\<close> Agent services have revisions. A revision is published by a long-running operation, routed to
  by aliases and invoked, and every invocation is again an operation. Clients change the tables through
  idempotent commands; workers claim operations under leases with fencing tokens, perform external effects
  through drivers and commit transitions; every commit leaves audit, event and outbox records, and a
  dispatcher delivers the outbox. To run, a revision needs an execution plan, an enforcement bundle whose
  bytes are in an object store, a placement on a gateway, and a sandbox that a provider creates with an
  external program. Admission resolves the plan, the bundle and the placement and then calls the provider.

  \<^bold>\<open>How it is modelled.\<close> Go strings and byte slices are \<open>string\<close>, times are \<open>int\<close> (nanoseconds), errors are values of
  \<open>go_error\<close>, and a fallible call returns \<open>go_error + 'a\<close>. A nil slice is distinguished from an empty one where
  the code can tell them apart (\<open>go_slice\<close>). A SQL table is a list of rows; a transaction is one function on
  the tables that returns them unchanged when it fails, with the guards, the row locks' effect and the
  constraints that a caller can violate written out. Code with collaborators (reconciler, finaliser, S3
  adapter, provider, admission) takes them as records of functions over a world that their calls thread
  through. SHA-256, the JSON schema library, JSON decoding of external output, the HTTP client and the
  OpenShell program are arguments; what is relied on of them stands as a hypothesis.

  \<^bold>\<open>Foundations.\<close> \<open>Prelude\<close> (errors of \<open>errors\<close>, identifiers of \<open>internal/identity\<close>, list and map lemmas), \<open>Go_Text\<close>
  (\<open>strings\<close>, \<open>unicode/utf8\<close>, the regular expressions the code compiles), \<open>Go_Time\<close> (decimal and RFC 3339
  text), \<open>Go_Json\<close> (\<open>encoding/json\<close>, with the encoding shown injective), \<open>Sql\<close> (selection, update and insertion on
  rows), \<open>Tables\<close> (the rows of the migrations).

  \<^bold>\<open>The durable control plane.\<close> \<open>Lifecycle\<close> (\<open>internal/lifecycle\<close>), \<open>Contracts\<close> (\<open>internal/domain/invocation_input.go\<close>),
  \<open>Leases\<close> (the locale of fenced leases, interpreted on the operations and on the outbox), \<open>Operations\<close>
  (\<open>internal/persistence/lifecycle.go\<close>), \<open>Commands\<close> (\<open>repository.go\<close>, \<open>revision_retirement.go\<close>,
  \<open>alias_withdrawal.go\<close>, \<open>invocation_dispatch.go\<close>), \<open>Outbox\<close> (\<open>outbox.go\<close>, \<open>inbox.go\<close>, \<open>internal/outbox\<close>) and
  \<open>Store\<close>, where all of them are steps of one system. \<open>Routing\<close>, \<open>Durability\<close> and \<open>Records\<close> hold the invariants of
  all runs, \<open>Scenario\<close> a concrete run. \<open>Guarantees\<close>, \<open>Isolation\<close>, \<open>Obligations\<close> and \<open>Delivery\<close> state the
  properties C1 to C21: fencing, refinement of the state machines, routing to published revisions,
  replay, gap-free events, isolation of domains, bounds of leases, and delivery.

  \<^bold>\<open>Workers.\<close> \<open>Reconciler\<close> (\<open>internal/reconcile/reconciler.go\<close>) and \<open>Drivers\<close> (\<open>reference_driver.go\<close>, \<open>routed_driver.go\<close>,
  \<open>governed_invocation_driver.go\<close>). \<open>Reconciler_Protocol\<close> shows the order of its calls for any store and driver,
  and \<open>Worker\<close> that a round on the repository is a run of the system (C22 to C25).

  \<^bold>\<open>Plans and bundles.\<close> \<open>Plans\<close> and \<open>Plan_Store\<close> (\<open>internal/execution/plan.go\<close>, \<open>plan_memory_store.go\<close>,
  \<open>provider_profiles.go\<close>, \<open>postgres/plan_store.go\<close>): the digest identifies the normal form, a bound plan is
  final, and the two stores agree (C26 to C29). \<open>Bundles\<close> and \<open>S3_Store\<close> (\<open>enforcement_bundle.go\<close>,
  \<open>enforcement_bundle_finalizer.go\<close>, \<open>postgres/bundle_store.go\<close>, \<open>s3store/store.go\<close>): in \<open>Bundle_Durability\<close> bytes
  are durable before their metadata is bound and are read back unchanged, under lost requests, responses
  and acknowledgements, and in \<open>Bundle_Retry\<close> a retry without faults completes (C30 to C32).

  \<^bold>\<open>Gateways, placements and executions.\<close> \<open>Gateways\<close> (\<open>provider.go\<close>, \<open>memory_store.go\<close>) and \<open>Gateway_Store\<close>
  (\<open>postgres/store.go\<close>). \<open>Gateway_Placement\<close> shows the table invariant, that a placement is final and how it is
  chosen (C33 to C35); \<open>Store_Conformance\<close> that the two stores give the same answers (C36).

  \<^bold>\<open>Provider and admission.\<close> \<open>Provider\<close> (\<open>openshell/provider.go\<close>, \<open>diagnostic_execution.go\<close>) and \<open>Runner\<close>
  (\<open>openshell/runner.go\<close>: the bounded diagnostics and the class of a failed command). \<open>Provider_Safety\<close> is the
  argument, for any store and runner that keep a contract, that no sandbox exists without a record;
  \<open>Provider_Postgres\<close> discharges the contract for the PostgreSQL store and shows that termination is final
  (C37, C38). \<open>Admission\<close> (\<open>admission.go\<close>, \<open>provider_credentials.go\<close>) shows which calls precede \<open>Create\<close> (C39).
  This theory composes plan store, bundle source, provider and admission (C40).

  \<^bold>\<open>Interfaces.\<close> The locales are \<open>Leases\<close>' fenced leases, the effect driver of \<open>Drivers\<close>, the reconciler's world of \<open>Worker\<close>,
  the binding store of \<open>Plan_Store\<close>, the object store, its S3 adapter and the bundle services, the placement
  store, and the sandbox runner; each is interpreted on the definitions above.

  \<^bold>\<open>Recursion and bounds.\<close> There is no fuel: every loop of the modelled code runs over a finite list or shortens its
  argument, and the functions are total. Retry bounds, lease bounds and size limits are the code's constants.
  Arithmetic is on \<open>int\<close>: the sizes, counters and times of the modelled code are far from the 64-bit limits,
  and the code relies on no wrap-around.

  \<^bold>\<open>Not modelled.\<close> The HTTP API, authentication and the policy engine, audit sealing, the runtime adapters, workspaces
  and artifacts on the file system, the SSH transport, policy files and evidence of the OpenShell driver,
  the conformance and canary harnesses, release certification and the commands: they are input and output
  around the modelled core, cryptographic libraries, or test equipment. The in-memory reference control
  plane is a second implementation that is not compared. Of the modelled files, tracing, connection
  handling and the parsing of gateway addresses are left out. Two transactions do not interleave inside:
  what PostgreSQL's row locks and serialisation give is taken as atomicity of each transaction.
\<close>

section \<open>From a bound plan and a finalised bundle to a sandbox\<close>









section \<open>One deployment\<close>






end
